(* ===== verification/Prelude.thy ===== *)
theory Prelude
  imports Main "HOL-Library.Char_ord" "HOL-Library.List_Lexorder" "HOL-Library.Sublist"
begin

text \<open>
  Shared vocabulary of the AuthClaw development.

  Python's \<open>str\<close> is a list of characters (code points 0 to 255; the case
  mapping and the stripping below are those of Python on that range, except that
  \<open>upper\<close> leaves the three Latin-1 letters alone whose capital is outside
  it).  A nullable value is an \<open>option\<close>, a raised exception the left summand of
  a sum, and a value that came out of \<open>json.loads\<close> (or goes into
  \<open>json.dumps\<close>) is a \<open>jval\<close>.
\<close>

named_theorems py_str "facts on the string operations"
named_theorems result_simps "laws of the error monad"

section \<open>Options and Python truthiness\<close>

type_synonym 'a nullable = "'a option"

text \<open>The Python expression \<open>x or ""\<close> on a nullable string.\<close>

definition or_empty :: "string option \<Rightarrow> string" where
  "or_empty x = (case x of None \<Rightarrow> '''' | Some s \<Rightarrow> s)"

lemma or_empty_simps [simp]: "or_empty None = ''''" "or_empty (Some s) = s"
  by (simp_all add: or_empty_def)

text \<open>\<open>x or d\<close> where an absent and an empty string are both falsy.\<close>

definition str_or :: "string option \<Rightarrow> string \<Rightarrow> string" where
  "str_or x d = (case x of None \<Rightarrow> d | Some s \<Rightarrow> if s = [] then d else s)"

lemma str_or_simps [simp]:
  "str_or None d = d" "str_or (Some []) d = d" "str_or (Some (c # s)) d = c # s"
  by (simp_all add: str_or_def)

definition truthy_str :: "string option \<Rightarrow> bool" where
  "truthy_str x = (x \<noteq> None \<and> x \<noteq> Some [])"

lemma truthy_str_simps [simp]:
  "\<not> truthy_str None" "\<not> truthy_str (Some [])" "truthy_str (Some (c # s))"
  by (simp_all add: truthy_str_def)

section \<open>Strings\<close>

definition lower_char :: "char \<Rightarrow> char" where
  "lower_char c = (let n = of_char c :: nat in
     if (65 \<le> n \<and> n \<le> 90) \<or> (192 \<le> n \<and> n \<le> 222 \<and> n \<noteq> 215) then char_of (n + 32) else c)"

definition upper_char :: "char \<Rightarrow> char" where
  "upper_char c = (let n = of_char c :: nat in
     if (97 \<le> n \<and> n \<le> 122) \<or> (224 \<le> n \<and> n \<le> 254 \<and> n \<noteq> 247) then char_of (n - 32) else c)"

definition lower :: "string \<Rightarrow> string" where
  "lower s = map lower_char s"

definition upper :: "string \<Rightarrow> string" where
  "upper s = map upper_char s"

definition is_space :: "char \<Rightarrow> bool" where
  "is_space c = (let n = of_char c :: nat in
     (9 \<le> n \<and> n \<le> 13) \<or> (28 \<le> n \<and> n \<le> 32) \<or> n = 133 \<or> n = 160)"

definition is_digit :: "char \<Rightarrow> bool" where
  "is_digit c = (let n = of_char c :: nat in 48 \<le> n \<and> n \<le> 57)"

definition lstrip_by :: "(char \<Rightarrow> bool) \<Rightarrow> string \<Rightarrow> string" where
  "lstrip_by p s = dropWhile p s"

definition rstrip_by :: "(char \<Rightarrow> bool) \<Rightarrow> string \<Rightarrow> string" where
  "rstrip_by p s = rev (dropWhile p (rev s))"

definition strip :: "string \<Rightarrow> string" where
  "strip s = rstrip_by is_space (lstrip_by is_space s)"

fun starts_with :: "string \<Rightarrow> string \<Rightarrow> bool" where
  "starts_with [] s = True"
| "starts_with (c # p) [] = False"
| "starts_with (c # p) (d # s) = (c = d \<and> starts_with p s)"

definition ends_with :: "string \<Rightarrow> string \<Rightarrow> bool" where
  "ends_with p s = starts_with (rev p) (rev s)"

text \<open>The Python test \<open>needle in haystack\<close>.\<close>

fun str_in :: "string \<Rightarrow> string \<Rightarrow> bool" where
  "str_in n [] = (n = [])"
| "str_in n (c # s) = (starts_with n (c # s) \<or> str_in n s)"

text \<open>\<open>s.replace(a, b)\<close> for a one-character pattern.\<close>

definition replace_char :: "char \<Rightarrow> char \<Rightarrow> string \<Rightarrow> string" where
  "replace_char a b s = map (\<lambda>c. if c = a then b else c) s"

definition quoted :: "string \<Rightarrow> string" where
  "quoted s = CHR 0x27 # s @ [CHR 0x27]"

fun intercalate :: "string \<Rightarrow> string list \<Rightarrow> string" where
  "intercalate sep [] = []"
| "intercalate sep [x] = x"
| "intercalate sep (x # y # r) = x @ sep @ intercalate sep (y # r)"

lemma starts_with_append [simp, py_str]: "starts_with p (p @ s)"
  by (induction p) auto

lemma starts_with_iff [py_str]: "starts_with p s \<longleftrightarrow> (\<exists>r. s = p @ r)"
proof
  assume "starts_with p s" then show "\<exists>r. s = p @ r"
    by (induction p s rule: starts_with.induct) auto
qed auto

lemma starts_with_prefix: "starts_with p s = prefix p s"
  by (simp add: starts_with_iff prefix_def)

lemma str_in_iff [py_str]: "str_in n s \<longleftrightarrow> (\<exists>a b. s = a @ n @ b)"
proof
  assume "str_in n s" then show "\<exists>a b. s = a @ n @ b"
  proof (induction s)
    case Nil then show ?case by simp
  next
    case (Cons c s)
    from Cons.prems consider "starts_with n (c # s)" | "str_in n s" by auto
    then show ?case
    proof cases
      case 1
      then obtain r where "c # s = [] @ n @ r" by (auto simp: starts_with_iff)
      then show ?thesis by blast
    next
      case 2
      then obtain a b where "s = a @ n @ b" using Cons.IH by blast
      then have "c # s = (c # a) @ n @ b" by simp
      then show ?thesis by blast
    qed
  qed
next
  have "str_in n (a @ n @ b)" for a b
  proof (induction a)
    case Nil then show ?case
    proof (cases "n @ b")
      case (Cons c s)
      have "starts_with n (n @ b)" by simp
      then show ?thesis using Cons by simp
    qed simp
  qed auto
  then show "\<exists>a b. s = a @ n @ b \<Longrightarrow> str_in n s" by blast
qed

lemma str_in_sublist: "str_in n s = sublist n s"
  by (simp add: str_in_iff sublist_def)

lemma str_in_append [simp]: "str_in n (a @ n @ b)"
  by (auto simp: str_in_iff)

lemma length_lower [simp]: "length (lower s) = length s"
  by (simp add: lower_def)

lemma lower_append [simp]: "lower (s @ t) = lower s @ lower t"
  by (simp add: lower_def)

lemma lower_char_idem [simp]: "lower_char (lower_char c) = lower_char c"
proof -
  have b: "of_char c < (256::nat)" by (metis of_char_mod_256 mod_less_divisor zero_less_numeral)
  have m: "(of_char c + 32) mod 256 = of_char c + (32::nat)" if "of_char c < (224::nat)"
    using that by simp
  show ?thesis
    using b by (auto simp: lower_char_def Let_def m split: if_splits)
qed

lemma lower_idem [simp]: "lower (lower s) = lower s"
  by (simp add: lower_def)

text \<open>UTF-8 on code points below 256.\<close>

fun utf8 :: "string \<Rightarrow> string" where
  "utf8 [] = []"
| "utf8 (c # s) = (let n = of_char c :: nat in
     if n < 128 then c # utf8 s else char_of (192 + n div 64) # char_of (128 + n mod 64) # utf8 s)"

fun utf8_decode :: "string \<Rightarrow> string option" where
  "utf8_decode [] = Some []"
| "utf8_decode (c # s) = (let n = of_char c :: nat in
     if n < 128 then map_option ((#) c) (utf8_decode s)
     else case s of
       [] \<Rightarrow> None
     | d # t \<Rightarrow> (let m = of_char d :: nat in
         if 194 \<le> n \<and> n \<le> 195 \<and> 128 \<le> m \<and> m < 192
         then map_option ((#) (char_of ((n - 192) * 64 + (m - 128)))) (utf8_decode t) else None))"

lemma utf8_decode_utf8 [simp]: "utf8_decode (utf8 s) = Some s"
proof (induction s)
  case (Cons c s)
  have b: "(of_char c :: nat) < 256" by (metis of_char_mod_256 mod_less_divisor zero_less_numeral)
  let ?n = "of_char c :: nat"
  show ?case
  proof (cases "?n < 128")
    case False
    have d: "?n div 64 = 2 \<or> ?n div 64 = 3" using b False by linarith
    have m: "(192 + ?n div 64) mod 256 = 192 + ?n div 64" "(128 + ?n mod 64) mod 256 = 128 + ?n mod 64"
      using d by (auto simp: mod_less_eq_dividend)
    have e: "(?n div 64) * 64 + ?n mod 64 = ?n" by simp
    show ?thesis using Cons False d by (auto simp: Let_def m e)
  qed (use Cons in simp)
qed simp

lemma utf8_ascii: "list_all (\<lambda>c. of_char c < (128::nat)) s \<Longrightarrow> utf8 s = s"
  by (induction s) auto

section \<open>Results\<close>

text \<open>A computation that may raise: \<open>Inl\<close> the exception, \<open>Inr\<close> the value.\<close>

type_synonym ('e, 'a) result = "'e + 'a"

primrec rbind :: "'e + 'a \<Rightarrow> ('a \<Rightarrow> 'e + 'b) \<Rightarrow> 'e + 'b" where
  "rbind (Inl e) f = Inl e"
| "rbind (Inr a) f = f a"

definition is_ok :: "'e + 'a \<Rightarrow> bool" where
  "is_ok r = (case r of Inl _ \<Rightarrow> False | Inr _ \<Rightarrow> True)"

lemma is_ok_simps [simp, result_simps]: "\<not> is_ok (Inl e)" "is_ok (Inr a)"
  by (simp_all add: is_ok_def)

lemma is_ok_iff: "is_ok r \<longleftrightarrow> (\<exists>a. r = Inr a)"
  by (cases r) auto

lemma rbind_Inr [simp, result_simps]: "rbind r Inr = r"
  by (cases r) auto

lemma rbind_assoc [result_simps]: "rbind (rbind r f) g = rbind r (\<lambda>x. rbind (f x) g)"
  by (cases r) auto

lemma rbind_eq_Inr [result_simps]: "rbind r f = Inr b \<longleftrightarrow> (\<exists>a. r = Inr a \<and> f a = Inr b)"
  by (cases r) auto

lemma rbind_eq_Inl [result_simps]:
  "rbind r f = Inl e \<longleftrightarrow> r = Inl e \<or> (\<exists>a. r = Inr a \<and> f a = Inl e)"
  by (cases r) auto

fun map_result :: "('a \<Rightarrow> 'e + 'b) \<Rightarrow> 'a list \<Rightarrow> 'e + 'b list" where
  "map_result f [] = Inr []"
| "map_result f (x # xs) = rbind (f x) (\<lambda>y. rbind (map_result f xs) (\<lambda>ys. Inr (y # ys)))"

lemma map_result_ok:
  "(\<And>x. x \<in> set xs \<Longrightarrow> is_ok (f x)) \<Longrightarrow> is_ok (map_result f xs)"
proof (induction xs)
  case (Cons x xs)
  have "is_ok (f x)" using Cons.prems by simp
  moreover have "is_ok (map_result f xs)" using Cons by simp
  ultimately show ?case by (auto simp: is_ok_iff)
qed simp

section \<open>JSON values\<close>

datatype jval =
    JNull
  | JBool bool
  | JInt int
  | JStr string
  | JList "jval list"
  | JObj "(string \<times> jval) list"

text \<open>Python's \<open>bool(x)\<close> on a decoded value.\<close>

fun truthy :: "jval \<Rightarrow> bool" where
  "truthy JNull = False"
| "truthy (JBool b) = b"
| "truthy (JInt i) = (i \<noteq> 0)"
| "truthy (JStr s) = (s \<noteq> [])"
| "truthy (JList l) = (l \<noteq> [])"
| "truthy (JObj m) = (m \<noteq> [])"

text \<open>\<open>d.get(k)\<close>: \<open>None\<close> where the key is absent.\<close>

definition jget :: "(string \<times> jval) list \<Rightarrow> string \<Rightarrow> jval" where
  "jget m k = (case map_of m k of None \<Rightarrow> JNull | Some v \<Rightarrow> v)"

definition jor :: "jval \<Rightarrow> jval \<Rightarrow> jval" where
  "jor a b = (if truthy a then a else b)"

section \<open>Association lists as insertion-ordered dictionaries\<close>

text \<open>\<open>d[k] = v\<close>: replaces in place, or appends at the end.\<close>

fun dict_set :: "'k \<Rightarrow> 'v \<Rightarrow> ('k \<times> 'v) list \<Rightarrow> ('k \<times> 'v) list" where
  "dict_set k v [] = [(k, v)]"
| "dict_set k v ((k', v') # m) = (if k = k' then (k, v) # m else (k', v') # dict_set k v m)"

lemma map_of_dict_set [simp]: "map_of (dict_set k v m) = (map_of m)(k \<mapsto> v)"
  by (induction m) (auto simp: fun_eq_iff)

lemma keys_dict_set: "set (map fst (dict_set k v m)) = insert k (set (map fst m))"
  by (induction k v m rule: dict_set.induct) (simp_all add: insert_commute)

lemma distinct_dict_set: "distinct (map fst m) \<Longrightarrow> distinct (map fst (dict_set k v m))"
proof (induction m)
  case (Cons p m)
  have "set (map fst (dict_set k v m)) = insert k (set (map fst m))" by (rule keys_dict_set)
  then show ?case using Cons by (cases p) auto
qed simp

section \<open>Lists\<close>

lemma sort_key_filter: "sort_key f (filter P xs) = filter P (sort_key f xs)"
  by (rule filter_sort [symmetric])

text \<open>The last element of a list that satisfies a test, as \<open>ORDER BY id DESC LIMIT 1\<close> returns it.\<close>

definition last_such :: "('a \<Rightarrow> bool) \<Rightarrow> 'a list \<Rightarrow> 'a option" where
  "last_such P xs = find P (rev xs)"

lemma last_such_snoc [simp]:
  "last_such P (xs @ [x]) = (if P x then Some x else last_such P xs)"
  by (simp add: last_such_def)

lemma last_such_Nil [simp]: "last_such P [] = None"
  by (simp add: last_such_def)

lemma last_such_None: "last_such P xs = None \<longleftrightarrow> filter P xs = []"
  by (auto simp: last_such_def find_None_iff filter_empty_conv)

lemma last_such_filter: "filter P xs \<noteq> [] \<Longrightarrow> last_such P xs = Some (last (filter P xs))"
  by (induction xs rule: rev_induct) auto

lemma last_such_cong:
  "(\<And>x. x \<in> set xs \<Longrightarrow> P x = Q x) \<Longrightarrow> last_such P xs = last_such Q xs"
  by (induction xs rule: rev_induct) auto

lemma last_such_conj: "last_such (\<lambda>x. P x \<and> Q x) xs = last_such P (filter Q xs)"
  by (induction xs rule: rev_induct) auto

lemma last_such_Cons:
  "last_such P (x # xs) = (case last_such P xs of None \<Rightarrow> if P x then Some x else None | Some y \<Rightarrow> Some y)"
  by (induction xs rule: rev_induct) (simp_all add: last_such_def)

lemma last_such_dropWhile: "last_such P (dropWhile (\<lambda>x. \<not> P x) xs) = last_such P xs"
  by (induction xs) (auto simp: last_such_Cons split: option.splits)

lemma last_such_all: "xs \<noteq> [] \<Longrightarrow> P (last xs) \<Longrightarrow> last_such P xs = Some (last xs)"
  by (cases xs rule: rev_cases) auto

lemma sort_key_sorted: "sorted (map f xs) \<Longrightarrow> sort_key f xs = xs"
  by (rule sort_key_id_if_sorted)

lemma insort_key_map: "insort_key f (g x) (map g xs) = map g (insort_key (\<lambda>y. f (g y)) x xs)"
  by (induction xs) auto

lemma sort_key_map: "sort_key f (map g xs) = map g (sort_key (\<lambda>y. f (g y)) xs)"
  by (induction xs) (simp_all add: insort_key_map)

end
