(* ===== verification/Json_Encoding.thy ===== *)
theory Json_Encoding
  imports Prelude
begin

text \<open>
  The encoders the code hashes, signs and transports: Python's
  \<open>json.dumps\<close> (with \<open>ensure_ascii\<close>, so that the \<open>utf-8\<close> encoding of the
  result is the result) and the unpadded URL-safe base64 of
  \<open>verify_audit.py\<close> and \<open>main.py\<close>.  A byte string is a list of characters.

  Two facts are used elsewhere: \<open>dumps_inj\<close>, a rendered value can be read in one
  way only, and \<open>b64url_roundtrip\<close>, decoding undoes encoding.
\<close>

section \<open>Numbers\<close>

definition digit_char :: "nat \<Rightarrow> char" where
  "digit_char d = char_of (48 + d)"

fun show_nat :: "nat \<Rightarrow> string" where
  "show_nat n = (if n < 10 then [digit_char n]
                 else show_nat (n div 10) @ [digit_char (n mod 10)])"

declare show_nat.simps [simp del]

definition show_int :: "int \<Rightarrow> string" where
  "show_int i = (if i < 0 then CHR ''-'' # show_nat (nat (- i)) else show_nat (nat i))"

lemma of_digit_char: "d < 10 \<Longrightarrow> (of_char (digit_char d) :: nat) = 48 + d"
  by (simp add: digit_char_def)

lemma is_digit_digit_char [simp]: "d < 10 \<Longrightarrow> is_digit (digit_char d)"
  by (simp add: is_digit_def of_digit_char)

definition read_nat :: "string \<Rightarrow> nat" where
  "read_nat s = foldl (\<lambda>a c. a * 10 + (of_char c - 48)) 0 s"

lemma read_show_nat [simp]: "read_nat (show_nat n) = n"
proof (induction n rule: show_nat.induct)
  case (1 n)
  show ?case
  proof (cases "n < 10")
    case True then show ?thesis
      by (subst show_nat.simps) (simp add: read_nat_def of_digit_char)
  next
    case False
    then have "read_nat (show_nat (n div 10)) = n div 10" using 1 by simp
    then show ?thesis using False
      by (subst show_nat.simps) (simp add: read_nat_def of_digit_char)
  qed
qed

lemma show_nat_digits: "list_all is_digit (show_nat n)"
  by (induction n rule: show_nat.induct) (subst show_nat.simps, auto)

lemma show_nat_nonempty [simp]: "show_nat n \<noteq> []"
  by (subst show_nat.simps) simp

definition number_end :: "string \<Rightarrow> bool" where
  "number_end r = (case r of [] \<Rightarrow> True | c # _ \<Rightarrow> \<not> is_digit c)"

lemma takeWhile_show_nat: "number_end r \<Longrightarrow> takeWhile is_digit (show_nat n @ r) = show_nat n"
proof -
  assume r: "number_end r"
  have all: "\<And>c. c \<in> set (show_nat n) \<Longrightarrow> is_digit c"
    using show_nat_digits[of n] by (simp add: list_all_iff)
  have "takeWhile is_digit r = []" using r by (cases r) (simp_all add: number_end_def)
  then show ?thesis using all by (simp add: takeWhile_append2)
qed

lemma show_nat_unique:
  assumes "show_nat m @ r = show_nat n @ s" "number_end r" "number_end s"
  shows "m = n \<and> r = s"
proof -
  have e: "show_nat m = show_nat n"
    using takeWhile_show_nat[OF assms(2), of m] takeWhile_show_nat[OF assms(3), of n] assms(1)
    by simp
  then have "m = n" by (metis read_show_nat)
  with assms(1) show ?thesis by simp
qed

lemma show_nat_hd: "\<exists>c s. show_nat n = c # s \<and> is_digit c"
  using show_nat_digits[of n] show_nat_nonempty[of n] by (cases "show_nat n") auto

lemma minus_not_digit: "\<not> is_digit (CHR ''-'')"
  by (simp add: is_digit_def)

lemma show_int_unique:
  assumes "show_int i @ r = show_int j @ s" "number_end r" "number_end s"
  shows "i = j \<and> r = s"
proof -
  obtain c1 s1 where c1: "show_nat (nat i) = c1 # s1" "is_digit c1" using show_nat_hd by blast
  obtain c2 s2 where c2: "show_nat (nat j) = c2 # s2" "is_digit c2" using show_nat_hd by blast
  show ?thesis
  proof (cases "i < 0")
    case True
    then have j: "j < 0" using assms(1) c2 minus_not_digit
      by (auto simp: show_int_def split: if_splits)
    then have "show_nat (nat (- i)) @ r = show_nat (nat (- j)) @ s"
      using True assms(1) by (simp add: show_int_def)
    from show_nat_unique[OF this assms(2,3)] show ?thesis using True j by auto
  next
    case False
    then have j: "\<not> j < 0" using assms(1) c1 minus_not_digit
      by (auto simp: show_int_def split: if_splits)
    then have "show_nat (nat i) @ r = show_nat (nat j) @ s"
      using False assms(1) by (simp add: show_int_def)
    from show_nat_unique[OF this assms(2,3)] show ?thesis using False j by auto
  qed
qed

section \<open>Strings\<close>

definition hex_digit :: "nat \<Rightarrow> char" where
  "hex_digit d = (if d < 10 then char_of (48 + d) else char_of (87 + d))"

definition esc_char :: "char \<Rightarrow> string" where
  "esc_char c = (let n = of_char c :: nat in
     if n = 34 then [CHR 0x5C, CHR 0x22]
     else if n = 92 then [CHR 0x5C, CHR 0x5C]
     else if n = 10 then [CHR 0x5C, CHR ''n'']
     else if n = 13 then [CHR 0x5C, CHR ''r'']
     else if n = 9 then [CHR 0x5C, CHR ''t'']
     else if n = 12 then [CHR 0x5C, CHR ''f'']
     else if n = 8 then [CHR 0x5C, CHR ''b'']
     else if 32 \<le> n \<and> n \<le> 126 then [c]
     else [CHR 0x5C, CHR ''u'', CHR ''0'', CHR ''0'', hex_digit (n div 16), hex_digit (n mod 16)])"

definition json_string :: "string \<Rightarrow> string" where
  "json_string s = CHR 0x22 # concat (map esc_char s) @ [CHR 0x22]"

definition hex_val :: "char \<Rightarrow> nat" where
  "hex_val c = (let n = of_char c in if n < 58 then n - 48 else n - 87)"

lemma hex_val_digit: "d < 16 \<Longrightarrow> hex_val (hex_digit d) = d"
  by (simp add: hex_val_def hex_digit_def Let_def)

text \<open>A reader for one escaped character, used only to show that escapes are uniquely readable.\<close>

fun unesc :: "string \<Rightarrow> (char \<times> string) option" where
  "unesc [] = None"
| "unesc (c # s) =
     (if c \<noteq> CHR 0x5C then Some (c, s)
      else case s of [] \<Rightarrow> None
        | e # t \<Rightarrow>
            if e = CHR ''u'' then
              (case t of a # b # x # y # u \<Rightarrow> Some (char_of (hex_val x * 16 + hex_val y), u)
                 | _ \<Rightarrow> None)
            else if e = CHR ''n'' then Some (char_of (10::nat), t)
            else if e = CHR ''r'' then Some (char_of (13::nat), t)
            else if e = CHR ''t'' then Some (char_of (9::nat), t)
            else if e = CHR ''f'' then Some (char_of (12::nat), t)
            else if e = CHR ''b'' then Some (char_of (8::nat), t)
            else Some (e, t))"

lemma of_char_lt_256: "(of_char c :: nat) < 256"
  by (metis of_char_mod_256 mod_less_divisor zero_less_numeral)

lemma of_char_eq_nat: "n < 256 \<Longrightarrow> (of_char c :: nat) = n \<longleftrightarrow> c = char_of n"
  by (metis char_of_char of_char_of mod_less)

lemma char_codes:
  "(of_char c :: nat) = 34 \<longleftrightarrow> c = CHR 0x22" "(of_char c :: nat) = 92 \<longleftrightarrow> c = CHR 0x5C"
  "(of_char c :: nat) = 10 \<longleftrightarrow> c = char_of (10::nat)" "(of_char c :: nat) = 13 \<longleftrightarrow> c = char_of (13::nat)"
  "(of_char c :: nat) = 9 \<longleftrightarrow> c = char_of (9::nat)" "(of_char c :: nat) = 12 \<longleftrightarrow> c = char_of (12::nat)"
  "(of_char c :: nat) = 8 \<longleftrightarrow> c = char_of (8::nat)"
  using of_char_eq_iff[of c "CHR 0x22", where 'a=nat] of_char_eq_iff[of c "CHR 0x5C", where 'a=nat]
  by (simp_all add: of_char_eq_nat del: of_char_eq_iff)

lemma unesc_esc_char [simp]: "unesc (esc_char c @ r) = Some (c, r)"
proof -
  let ?n = "of_char c :: nat"
  have u: "hex_val (hex_digit (?n div 16)) * 16 + hex_val (hex_digit (?n mod 16)) = ?n"
  proof -
    have "?n div 16 < 16" using of_char_lt_256[of c] by (simp add: less_mult_imp_div_less)
    then show ?thesis by (simp add: hex_val_digit)
  qed
  consider "?n = 34" | "?n = 92" | "?n = 10" | "?n = 13" | "?n = 9" | "?n = 12" | "?n = 8"
    | "?n \<notin> {34, 92, 10, 13, 9, 12, 8}" "32 \<le> ?n \<and> ?n \<le> 126"
    | "?n \<notin> {34, 92, 10, 13, 9, 12, 8}" "\<not> (32 \<le> ?n \<and> ?n \<le> 126)"
    by auto
  then show ?thesis
  proof cases
    case 8
    then have "c \<noteq> CHR 0x5C" by auto
    then show ?thesis using 8 by (simp add: esc_char_def Let_def)
  next
    case 9
    then have "esc_char c = [CHR 0x5C, CHR ''u'', CHR ''0'', CHR ''0'',
        hex_digit (?n div 16), hex_digit (?n mod 16)]"
      by (auto simp: esc_char_def Let_def)
    then show ?thesis using u by simp
  qed (simp_all add: esc_char_def Let_def char_codes)
qed

lemma esc_char_not_quote: "esc_char c @ s \<noteq> CHR 0x22 # r"
  by (auto simp: esc_char_def Let_def)

lemma esc_unique:
  assumes "concat (map esc_char s) @ CHR 0x22 # r = concat (map esc_char s') @ CHR 0x22 # r'"
  shows "s = s' \<and> r = r'"
  using assms
proof (induction s arbitrary: s')
  case Nil
  show ?case
  proof (cases s')
    case (Cons c t)
    then show ?thesis
      using Nil.prems esc_char_not_quote[of c "concat (map esc_char t) @ CHR 0x22 # r'" r] by simp
  qed (use Nil in simp)
next
  case (Cons c s)
  show ?case
  proof (cases s')
    case Nil
    then show ?thesis
      using Cons.prems esc_char_not_quote[of c "concat (map esc_char s) @ CHR 0x22 # r" r'] by simp
  next
    case (Cons d t)
    have "unesc (concat (map esc_char (c # s)) @ CHR 0x22 # r)
        = unesc (concat (map esc_char (d # t)) @ CHR 0x22 # r')"
      using Cons.prems Cons by simp
    then have "c = d \<and> concat (map esc_char s) @ CHR 0x22 # r = concat (map esc_char t) @ CHR 0x22 # r'"
      by (simp del: unesc.simps)
    then show ?thesis using Cons.IH[of t] Cons by simp
  qed
qed

lemma json_string_unique:
  "json_string s @ r = json_string s' @ r' \<Longrightarrow> s = s' \<and> r = r'"
  using esc_unique[of s r s' r'] by (simp add: json_string_def)

section \<open>Values\<close>

text \<open>\<open>dumps isep ksep v\<close> renders \<open>v\<close> with the two separators of
  \<open>json.dumps\<close>; \<open>sort_keys\<close> orders every object by key first.\<close>

fun dumps :: "string \<Rightarrow> string \<Rightarrow> jval \<Rightarrow> string" where
  "dumps isep ksep JNull = ''null''"
| "dumps isep ksep (JBool b) = (if b then ''true'' else ''false'')"
| "dumps isep ksep (JInt i) = show_int i"
| "dumps isep ksep (JStr s) = json_string s"
| "dumps isep ksep (JList l) = CHR ''['' # intercalate isep (map (dumps isep ksep) l) @ '']''"
| "dumps isep ksep (JObj m) =
     CHR ''{'' # intercalate isep (map (\<lambda>(k, v). json_string k @ ksep @ dumps isep ksep v) m) @ ''}''"

fun sort_keys :: "jval \<Rightarrow> jval" where
  "sort_keys (JList l) = JList (map sort_keys l)"
| "sort_keys (JObj m) = JObj (sort_key fst (map (\<lambda>(k, v). (k, sort_keys v)) m))"
| "sort_keys v = v"

text \<open>\<open>json.dumps(v, sort_keys=True)\<close> and
  \<open>json.dumps(v, sort_keys=True, separators=(",", ":"))\<close>.\<close>

definition json_dumps_sorted :: "jval \<Rightarrow> string" where
  "json_dumps_sorted v = dumps '', '' '': '' (sort_keys v)"

definition canonical_json_bytes :: "jval \<Rightarrow> string" where
  "canonical_json_bytes v = dumps '','' '':'' (sort_keys v)"

text \<open>What may follow a value inside a rendered document.\<close>

definition value_end :: "string \<Rightarrow> bool" where
  "value_end r = (case r of [] \<Rightarrow> True | c # _ \<Rightarrow> c \<in> {CHR '','', CHR '']'', CHR ''}''})"

lemma value_end_number_end: "value_end r \<Longrightarrow> number_end r"
  by (auto simp: value_end_def number_end_def is_digit_def split: list.splits)

lemma value_end_simps [simp]:
  "value_end (CHR '']'' # r)" "value_end (CHR ''}'' # r)" "value_end (CHR '','' # r)"
  by (simp_all add: value_end_def)

definition value_start :: "char \<Rightarrow> bool" where
  "value_start c = (c \<notin> {CHR '','', CHR '']'', CHR ''}''})"

lemma show_int_hd: "\<exists>c s. show_int i = c # s \<and> (is_digit c \<or> c = CHR ''-'')"
  using show_nat_hd[of "nat i"] show_nat_hd[of "nat (- i)"] by (auto simp: show_int_def)

text \<open>The first character of a rendered value gives its constructor.\<close>

fun kind :: "jval \<Rightarrow> nat" where
  "kind JNull = 0" | "kind (JBool b) = (if b then 1 else 2)" | "kind (JInt i) = 3"
| "kind (JStr s) = 4" | "kind (JList l) = 5" | "kind (JObj m) = 6"

definition kind_of_hd :: "char \<Rightarrow> nat" where
  "kind_of_hd c = (if is_digit c \<or> c = CHR ''-'' then 3 else if c = CHR ''n'' then 0
     else if c = CHR ''t'' then 1 else if c = CHR ''f'' then 2 else if c = CHR 0x22 then 4
     else if c = CHR ''['' then 5 else if c = CHR ''{'' then 6 else 7)"

lemma kind_of_hd_simps [simp]:
  "kind_of_hd (CHR ''n'') = 0" "kind_of_hd (CHR ''t'') = 1" "kind_of_hd (CHR ''f'') = 2"
  "kind_of_hd (CHR 0x22) = 4" "kind_of_hd (CHR ''['') = 5" "kind_of_hd (CHR ''{'') = 6"
  by (simp_all add: kind_of_hd_def is_digit_def)

lemma dumps_hd: "\<exists>c s. dumps a b v = c # s \<and> kind_of_hd c = kind v"
proof (cases v)
  case (JInt i)
  obtain c s where "show_int i = c # s" "is_digit c \<or> c = CHR ''-''" using show_int_hd by blast
  then show ?thesis using JInt by (simp add: kind_of_hd_def)
qed (simp_all add: json_string_def)

lemma kind_le: "kind v < 7"
  by (cases v) auto

lemma value_start_kind: "kind_of_hd c < 7 \<Longrightarrow> value_start c"
  by (auto simp: kind_of_hd_def value_start_def is_digit_def)

lemma dumps_start: "\<exists>c s. dumps a b v = c # s \<and> value_start c"
  using dumps_hd[of a b v] kind_le[of v] value_start_kind by metis

lemma dumps_same_kind: "dumps a b v @ r = dumps a b v' @ r' \<Longrightarrow> kind v = kind v'"
  using dumps_hd[of a b v] dumps_hd[of a b v'] by auto

lemma kind_eq:
  "kind v = 0 \<longleftrightarrow> v = JNull" "kind v = Suc 0 \<longleftrightarrow> v = JBool True" "kind v = 2 \<longleftrightarrow> v = JBool False"
  "kind v = 3 \<longleftrightarrow> (\<exists>i. v = JInt i)" "kind v = 4 \<longleftrightarrow> (\<exists>s. v = JStr s)"
  "kind v = 5 \<longleftrightarrow> (\<exists>l. v = JList l)" "kind v = 6 \<longleftrightarrow> (\<exists>m. v = JObj m)"
  by (cases v; simp)+

text \<open>Reading a rendered sequence back: \<open>d\<close> renders one item, uniquely before an item end,
  and \<open>z\<close> closes the sequence.\<close>

lemma items_unique:
  assumes d: "\<And>x y r r'. x \<in> set xs \<Longrightarrow> value_end r \<Longrightarrow> value_end r' \<Longrightarrow>
                d x @ r = d y @ r' \<Longrightarrow> x = y \<and> r = r'"
    and ne: "\<And>x. \<exists>c s. d x = c # s \<and> value_start c"
    and z: "z = CHR '']'' \<or> z = CHR ''}''" and sep: "isep = CHR '','' # isep'"
    and eq: "intercalate isep (map d xs) @ z # r = intercalate isep (map d ys) @ z # r'"
  shows "xs = ys \<and> r = r'"
  using d eq
proof (induction xs arbitrary: ys)
  case Nil
  show ?case
  proof (cases ys)
    case (Cons y t)
    obtain c s where "d y = c # s" "value_start c" using ne by blast
    then show ?thesis using Nil Cons z by (cases t) (auto simp: value_start_def)
  qed (use Nil in simp)
next
  case (Cons x xs)
  obtain c s where cs: "d x = c # s" "value_start c" using ne by blast
  show ?case
  proof (cases ys)
    case Nil
    have "intercalate isep (map d (x # xs)) @ z # r = c # s @ (case xs of [] \<Rightarrow> z # r
        | _ \<Rightarrow> isep @ intercalate isep (map d xs) @ z # r)"
      using cs by (cases xs) simp_all
    then show ?thesis using Cons.prems(2) Nil cs(2) z by (auto simp: value_start_def)
  next
    case (Cons y t)
    let ?tl = "\<lambda>xs r. (case xs of [] \<Rightarrow> z # r | _ \<Rightarrow> isep @ intercalate isep (map d xs) @ z # r)"
    have int: "intercalate isep (map d (x # xs)) @ z # r = d x @ ?tl xs r" for x xs r
      by (cases xs) auto
    have ve: "value_end (?tl xs r)" for xs r
      using z sep by (cases xs) auto
    have "d x @ ?tl xs r = d y @ ?tl t r'"
      using Cons.prems(2) int[of x xs r] int[of y t r'] unfolding Cons by simp
    from Cons.prems(1)[OF _ ve ve this] have xy: "x = y" and tl: "?tl xs r = ?tl t r'" by simp_all
    from tl have "intercalate isep (map d xs) @ z # r = intercalate isep (map d t) @ z # r'"
      using z sep by (cases xs; cases t) auto
    moreover have "xs = [] \<longleftrightarrow> t = []" using tl z sep by (cases xs; cases t) auto
    ultimately show ?thesis using Cons.IH[of t] Cons.prems(1) xy Cons by auto
  qed
qed

lemma dumps_unique:
  assumes "isep = CHR '','' # isep'"
  shows "value_end r \<Longrightarrow> value_end r' \<Longrightarrow> dumps isep ksep v @ r = dumps isep ksep v' @ r' \<Longrightarrow> v = v' \<and> r = r'"
proof (induction v arbitrary: v' r r')
  case JNull then show ?case using dumps_same_kind[OF JNull.prems(3)] by (simp add: kind_eq)
next
  case (JBool b) then show ?case using dumps_same_kind[OF JBool.prems(3)[symmetric]]
    by (cases b) (simp_all add: kind_eq)
next
  case (JInt i)
  then obtain j where "v' = JInt j" using dumps_same_kind[OF JInt.prems(3)]
    by (auto simp: kind_eq)
  then show ?case using JInt.prems show_int_unique[of i r j r'] value_end_number_end by simp
next
  case (JStr s)
  then obtain t where "v' = JStr t" using dumps_same_kind[OF JStr.prems(3)]
    by (auto simp: kind_eq)
  then show ?case using JStr.prems(3) json_string_unique[of s r t r'] by simp
next
  case (JList l)
  then obtain k where v': "v' = JList k" using dumps_same_kind[OF JList.prems(3)]
    by (auto simp: kind_eq)
  have "l = k \<and> r = r'"
  proof (rule items_unique[of l "dumps isep ksep" "CHR '']''" isep isep'])
    show "\<exists>c s. dumps isep ksep x = c # s \<and> value_start c" for x by (rule dumps_start)
    show "x = y \<and> q = q'" if "x \<in> set l" "value_end q" "value_end q'"
      "dumps isep ksep x @ q = dumps isep ksep y @ q'" for x y q q'
      using JList.IH[OF that(1)] that by blast
    show "intercalate isep (map (dumps isep ksep) l) @ CHR '']'' # r
        = intercalate isep (map (dumps isep ksep) k) @ CHR '']'' # r'"
      using JList.prems(3) v' by simp
  qed (use assms in simp_all)
  then show ?case using v' by simp
next
  case (JObj m)
  then obtain k where v': "v' = JObj k" using dumps_same_kind[OF JObj.prems(3)]
    by (auto simp: kind_eq)
  let ?d = "\<lambda>(k, v). json_string k @ ksep @ dumps isep ksep v"
  have "m = k \<and> r = r'"
  proof (rule items_unique[of m ?d "CHR ''}''" isep isep'])
    fix x y r r' assume x: "x \<in> set m" and r: "value_end r" "value_end r'" and e: "?d x @ r = ?d y @ r'"
    obtain kx vx ky vy where xy: "x = (kx, vx)" "y = (ky, vy)" by (cases x; cases y)
    from e xy json_string_unique[of kx _ ky]
    have "kx = ky" "dumps isep ksep vx @ r = dumps isep ksep vy @ r'" by force+
    with JObj.IH[OF x, of vx r r' vy] r xy show "x = y \<and> r = r'" by simp
  next
    show "\<exists>c s. ?d x = c # s \<and> value_start c" for x
      by (cases x) (auto simp: json_string_def value_start_def)
    show "intercalate isep (map ?d m) @ CHR ''}'' # r = intercalate isep (map ?d k) @ CHR ''}'' # r'"
      using JObj.prems(3) v' by simp
  qed (use assms in simp_all)
  then show ?case using v' by simp
qed

lemma dumps_inj: "dumps ('','' @ i) k v = dumps ('','' @ i) k v' \<Longrightarrow> v = v'"
  using dumps_unique[of _ i "[]" "[]" k v v'] by (simp add: value_end_def)

lemma json_dumps_sorted_inj: "json_dumps_sorted v = json_dumps_sorted v' \<Longrightarrow> sort_keys v = sort_keys v'"
  using dumps_inj[of "'' ''"] by (simp add: json_dumps_sorted_def)

lemma canonical_json_bytes_inj:
  "canonical_json_bytes v = canonical_json_bytes v' \<Longrightarrow> sort_keys v = sort_keys v'"
  using dumps_inj[of "[]"] by (simp add: canonical_json_bytes_def)

section \<open>URL-safe base64 without padding\<close>

definition b64_char :: "nat \<Rightarrow> char" where
  "b64_char v = (if v < 26 then char_of (65 + v) else if v < 52 then char_of (71 + v)
     else if v < 62 then char_of (v - 4) else if v = 62 then CHR ''-'' else CHR ''_'')"

text \<open>The decoding table after \<open>urlsafe_b64decode\<close> translated \<open>-_\<close> to \<open>+/\<close>.\<close>

definition b64_val :: "char \<Rightarrow> nat option" where
  "b64_val c = (let n = of_char c in
     if 65 \<le> n \<and> n \<le> 90 then Some (n - 65) else if 97 \<le> n \<and> n \<le> 122 then Some (n - 71)
     else if 48 \<le> n \<and> n \<le> 57 then Some (n + 4) else if n = 45 \<or> n = 43 then Some 62
     else if n = 95 \<or> n = 47 then Some 63 else None)"

fun urlsafe_b64encode :: "string \<Rightarrow> string" where
  "urlsafe_b64encode [] = []"
| "urlsafe_b64encode [a] = (let x = of_char a in
     [b64_char (x div 4), b64_char (x mod 4 * 16), CHR ''='', CHR ''=''])"
| "urlsafe_b64encode [a, b] = (let x = of_char a; y = of_char b in
     [b64_char (x div 4), b64_char (x mod 4 * 16 + y div 16), b64_char (y mod 16 * 4), CHR ''=''])"
| "urlsafe_b64encode (a # b # c # r) = (let x = of_char a; y = of_char b; z = of_char c in
     b64_char (x div 4) # b64_char (x mod 4 * 16 + y div 16) # b64_char (y mod 16 * 4 + z div 64)
       # b64_char (z mod 64) # urlsafe_b64encode r)"

text \<open>The non-strict decoder: characters outside the alphabet are skipped, padding ends the
  input as soon as it completes a quantum, and an incomplete quantum is an error.\<close>

fun a2b_base64 :: "nat \<Rightarrow> nat \<Rightarrow> nat \<Rightarrow> string \<Rightarrow> string option" where
  "a2b_base64 q l p [] = (if q = 0 then Some [] else None)"
| "a2b_base64 q l p (c # s) =
     (if c = CHR ''='' then
        (if 2 \<le> q \<and> 4 \<le> q + (p + 1) then Some []
         else a2b_base64 q l (if 2 \<le> q then p + 1 else p) s)
      else case b64_val c of
        None \<Rightarrow> a2b_base64 q l p s
      | Some v \<Rightarrow>
          (if q = 0 then a2b_base64 1 v 0 s
           else if q = 1 then map_option ((#) (char_of (l * 4 + v div 16))) (a2b_base64 2 (v mod 16) 0 s)
           else if q = 2 then map_option ((#) (char_of (l * 16 + v div 4))) (a2b_base64 3 (v mod 4) 0 s)
           else map_option ((#) (char_of (l * 64 + v))) (a2b_base64 0 0 0 s)))"

definition is_ascii :: "string \<Rightarrow> bool" where
  "is_ascii s = list_all (\<lambda>c. of_char c < (128::nat)) s"

definition b64url :: "string \<Rightarrow> string" where
  "b64url data = rstrip_by (\<lambda>c. c = CHR ''='') (urlsafe_b64encode data)"

text \<open>\<open>-len(data) % 4\<close> is the Python remainder; non-ASCII input raises.\<close>

definition b64url_decode :: "string \<Rightarrow> string option" where
  "b64url_decode data =
     (if is_ascii data
      then a2b_base64 0 0 0 (data @ replicate (nat (- int (length data) mod 4)) (CHR ''=''))
      else None)"

text \<open>The variant of \<open>main.py\<close> appends four padding characters to a full last quantum.\<close>

definition base64_url_decode :: "string \<Rightarrow> string option" where
  "base64_url_decode data =
     (if is_ascii data
      then a2b_base64 0 0 0 (data @ replicate (4 - length data mod 4) (CHR ''=''))
      else None)"

fun b64_core :: "string \<Rightarrow> string" where
  "b64_core [] = []"
| "b64_core [a] = (let x = of_char a in [b64_char (x div 4), b64_char (x mod 4 * 16)])"
| "b64_core [a, b] = (let x = of_char a; y = of_char b in
     [b64_char (x div 4), b64_char (x mod 4 * 16 + y div 16), b64_char (y mod 16 * 4)])"
| "b64_core (a # b # c # r) = (let x = of_char a; y = of_char b; z = of_char c in
     b64_char (x div 4) # b64_char (x mod 4 * 16 + y div 16) # b64_char (y mod 16 * 4 + z div 64)
       # b64_char (z mod 64) # b64_core r)"

lemma b64_val_char: "v < 64 \<Longrightarrow> b64_val (b64_char v) = Some v"
  by (auto simp: b64_val_def b64_char_def Let_def)

lemma b64_char_not_pad:
  "v < 64 \<Longrightarrow> b64_char v \<noteq> CHR ''=''" "v < 64 \<Longrightarrow> CHR ''='' \<noteq> b64_char v"
proof -
  have "b64_val (CHR ''='') = None" by (simp add: b64_val_def)
  then show "v < 64 \<Longrightarrow> b64_char v \<noteq> CHR ''=''" "v < 64 \<Longrightarrow> CHR ''='' \<noteq> b64_char v"
    using b64_val_char[of v] by auto
qed

lemma b64_char_ascii: "v < 64 \<Longrightarrow> (of_char (b64_char v) :: nat) < 128"
  by (auto simp: b64_char_def)

lemma sextets [simp]:
  "of_char c div 4 < (64::nat)" "of_char c mod 4 * 16 < (64::nat)" "of_char c mod 64 < (64::nat)"
  "of_char c mod 16 * 4 < (64::nat)" "of_char c mod 4 * 16 + of_char d div 16 < (64::nat)"
  "of_char c mod 16 * 4 + of_char d div 64 < (64::nat)"
proof -
  have d: "of_char d div 16 < (16::nat)" "of_char d div 64 < (4::nat)" "of_char c div 4 < (64::nat)"
    using of_char_lt_256[of c] of_char_lt_256[of d] by (simp_all add: less_mult_imp_div_less)
  have m: "of_char c mod 4 < (4::nat)" "of_char c mod 16 < (16::nat)" by simp_all
  show "of_char c div 4 < (64::nat)" "of_char c mod 4 * 16 < (64::nat)" "of_char c mod 64 < (64::nat)"
    "of_char c mod 16 * 4 < (64::nat)" "of_char c mod 4 * 16 + of_char d div 16 < (64::nat)"
    "of_char c mod 16 * 4 + of_char d div 64 < (64::nat)"
    using d m by linarith+
qed

lemma high_nibble:
  "(of_char d div 16 div 16 :: nat) = 0" "(of_char d div 16 mod 16 :: nat) = of_char d div 16"
  "(of_char d div 64 div 4 :: nat) = 0" "(of_char d div 64 mod 4 :: nat) = of_char d div 64"
proof -
  have "of_char d div 16 < (16::nat)" "of_char d div 64 < (4::nat)"
    using of_char_lt_256[of d] by (simp_all add: less_mult_imp_div_less)
  then show "(of_char d div 16 div 16 :: nat) = 0" "(of_char d div 16 mod 16 :: nat) = of_char d div 16"
    "(of_char d div 64 div 4 :: nat) = 0" "(of_char d div 64 mod 4 :: nat) = of_char d div 64"
    by simp_all
qed

lemma b64_core_not_pad: "c \<in> set (b64_core s) \<Longrightarrow> c \<noteq> CHR ''=''"
  by (induction s rule: b64_core.induct) (auto simp: Let_def b64_char_not_pad)

lemma b64_core_ascii: "is_ascii (b64_core s)"
  by (induction s rule: b64_core.induct) (auto simp: Let_def is_ascii_def b64_char_ascii)

lemma encode_core: "\<exists>k. urlsafe_b64encode s = b64_core s @ replicate k (CHR ''='')"
proof (induction s rule: b64_core.induct)
  case (2 a) show ?case by (rule exI[of _ 2]) (simp add: numeral_2_eq_2 Let_def)
next
  case (3 a b) show ?case by (rule exI[of _ 1]) (simp add: Let_def)
qed (auto simp: Let_def)

lemma rstrip_replicate:
  "(\<And>c. c \<in> set s \<Longrightarrow> \<not> P c) \<Longrightarrow> P d \<Longrightarrow> rstrip_by P (s @ replicate k d) = s"
proof (cases s rule: rev_cases)
  case Nil then show "P d \<Longrightarrow> ?thesis" by (simp add: rstrip_by_def)
next
  case (snoc t c)
  have "P d \<Longrightarrow> dropWhile P (replicate k d @ r) = dropWhile P r" for r by (induction k) simp_all
  then show "(\<And>c. c \<in> set s \<Longrightarrow> \<not> P c) \<Longrightarrow> P d \<Longrightarrow> ?thesis"
    using snoc by (simp add: rstrip_by_def)
qed

lemma b64url_core: "b64url s = b64_core s"
proof -
  obtain k where "urlsafe_b64encode s = b64_core s @ replicate k (CHR ''='')" using encode_core by blast
  then show ?thesis using b64_core_not_pad by (simp add: b64url_def rstrip_replicate)
qed

lemma a2b_core:
  "(length (b64_core s) + k) mod 4 = 0 \<Longrightarrow> a2b_base64 0 0 0 (b64_core s @ replicate k (CHR ''='')) = Some s"
proof (induction s rule: b64_core.induct)
  case 1
  have "a2b_base64 0 l p (replicate k (CHR ''='')) = Some []" for l p by (induction k) auto
  then show ?case by simp
next
  case (2 a)
  then obtain k' where "k = Suc (Suc k')" by (cases k; cases "k - 1") (auto simp: Let_def)
  then show ?case by (simp add: Let_def b64_val_char b64_char_not_pad)
next
  case (3 a b)
  then obtain k' where "k = Suc k'" by (cases k) (auto simp: Let_def)
  then show ?case by (simp add: Let_def b64_val_char b64_char_not_pad high_nibble)
next
  case (4 a b c r)
  then show ?case by (simp add: Let_def b64_val_char b64_char_not_pad high_nibble)
qed

lemma b64url_decode_core: "b64url_decode (b64url s) = Some s"
proof -
  let ?n = "length (b64_core s)"
  have "(int ?n + - int ?n mod 4) mod 4 = 0" by (simp add: mod_simps)
  then have "(?n + nat (- int ?n mod 4)) mod 4 = 0" by (simp add: nat_mod_as_int)
  then show ?thesis by (simp add: b64url_decode_def b64url_core b64_core_ascii a2b_core)
qed

lemma base64_url_decode_core: "base64_url_decode (b64url s) = Some s"
proof -
  let ?n = "length (b64_core s)"
  have "?n mod 4 < 4" by simp
  then have "(?n + (4 - ?n mod 4)) mod 4 = 0" by presburger
  then show ?thesis by (simp add: base64_url_decode_def b64url_core b64_core_ascii a2b_core)
qed

text \<open>The contract of a transport encoding, and what follows from it: no two byte strings
  share a code.\<close>

locale transport =
  fixes enc :: "string \<Rightarrow> string" and dec :: "string \<Rightarrow> string option"
  assumes roundtrip: "dec (enc s) = Some s"
begin

lemma enc_inj: "enc s = enc t \<longleftrightarrow> s = t"
  by (metis roundtrip option.inject)

end

interpretation export_b64: transport b64url b64url_decode
  by unfold_locales (rule b64url_decode_core)

interpretation token_b64: transport b64url base64_url_decode
  by unfold_locales (rule base64_url_decode_core)

end
