(* ===== verification/Audit_Chain.thy ===== *)
theory Audit_Chain
  imports Json_Encoding
begin

text \<open>
  The audit log of \<open>verify_audit.py\<close> and its endpoints in \<open>main.py\<close>.

  The table \<open>audit_logs\<close> is a list of rows with its id sequence; a nullable column
  is an option, a timestamp is its ISO rendering.  \<open>insert_block\<close> and \<open>link_block\<close> are the
  two committed transactions of \<open>create_audit_block\<close>, so that an interleaving of two
  writers is an explicit sequence of steps.  SHA-256, HMAC and the RSA key are
  parameters.
\<close>

definition GENESIS_HASH :: string where
  "GENESIS_HASH = replicate 64 (CHR ''0'')"

section \<open>Rows and the record hash\<close>

text \<open>The columns a caller of \<open>create_audit_block\<close> supplies.\<close>

record audit_block =
  al_query :: "string option"
  al_response :: "string option"
  al_allowed :: bool
  al_risk_level :: "string option"
  al_approval_status :: "string option"
  al_approval_id :: "string option"
  al_approver :: "string option"
  al_original_request :: "string option"
  al_approval_timestamp :: "string option"
  al_execution_timestamp :: "string option"
  al_execution_status :: "string option"
  al_policy_name :: "string option"
  al_policy_type :: "string option"
  al_matched_pattern :: "string option"
  al_redacted_value :: "string option"
  al_username :: "string option"
  al_tenant_id :: "int option"

text \<open>A stored row adds the generated columns.\<close>

record audit_row = audit_block +
  al_id :: int
  al_created_at :: string
  al_integrity_hash :: "string option"
  al_previous_hash :: "string option"

definition hash_data :: "int \<Rightarrow> string option \<Rightarrow> string option \<Rightarrow> bool \<Rightarrow> string \<Rightarrow> string option
    \<Rightarrow> string option \<Rightarrow> string \<Rightarrow> jval" where
  "hash_data rid query response allowed created_at risk status prev = JObj
    [(''record_id'', JInt rid),
     (''user_query'', JStr (or_empty query)),
     (''response'', JStr (or_empty response)),
     (''allowed'', JBool allowed),
     (''created_at'', JStr created_at),
     (''risk_level'', JStr (or_empty risk)),
     (''approval_status'', JStr (or_empty status)),
     (''previous_hash'', JStr prev)]"

definition record_bytes :: "'a audit_row_scheme \<Rightarrow> string \<Rightarrow> string" where
  "record_bytes r prev = json_dumps_sorted
     (hash_data (al_id r) (al_query r) (al_response r) (al_allowed r) (al_created_at r)
        (al_risk_level r) (al_approval_status r) prev)"

definition calculate_record_hash :: "(string \<Rightarrow> string) \<Rightarrow> 'a audit_row_scheme \<Rightarrow> string \<Rightarrow> string" where
  "calculate_record_hash sha256 r prev = sha256 (record_bytes r prev)"

section \<open>Verification\<close>

datatype audit_verdict =
    ChainValid nat "string option"
  | ChainInvalid nat int string

definition verdict_valid :: "audit_verdict \<Rightarrow> bool" where
  "verdict_valid v = (case v of ChainValid _ _ \<Rightarrow> True | ChainInvalid _ _ _ \<Rightarrow> False)"

definition records_checked :: "audit_verdict \<Rightarrow> nat" where
  "records_checked v = (case v of ChainValid n _ \<Rightarrow> n | ChainInvalid n _ _ \<Rightarrow> n)"

definition failed_record_id :: "audit_verdict \<Rightarrow> int option" where
  "failed_record_id v = (case v of ChainValid _ _ \<Rightarrow> None | ChainInvalid _ i _ \<Rightarrow> Some i)"

text \<open>The loop over the rows of the active chain: \<open>prev\<close> is the pair
  \<open>prev_id\<close>, \<open>prev_hash\<close>, which the code sets together.\<close>

fun check_rows :: "(string \<Rightarrow> string) \<Rightarrow> bool \<Rightarrow> (int \<times> string) option \<Rightarrow> nat \<Rightarrow> string
    \<Rightarrow> 'a audit_row_scheme list \<Rightarrow> audit_verdict" where
  "check_rows sha256 gap_check prev n started [] = ChainValid n (Some started)"
| "check_rows sha256 gap_check prev n started (r # rs) =
     (case (al_integrity_hash r, al_previous_hash r) of
        (Some ih, Some ph) \<Rightarrow>
          (if gap_check \<and> (case prev of None \<Rightarrow> False | Some (i, _) \<Rightarrow> al_id r \<noteq> i + 1)
           then ChainInvalid n (al_id r) (''missing record detected between ''
                  @ (case prev of None \<Rightarrow> [] | Some (i, _) \<Rightarrow> show_int i) @ '' and '' @ show_int (al_id r))
           else if ph \<noteq> (case prev of None \<Rightarrow> GENESIS_HASH | Some (_, h) \<Rightarrow> h)
           then ChainInvalid n (al_id r) ''broken link''
           else if ih \<noteq> calculate_record_hash sha256 r ph
           then ChainInvalid n (al_id r) ''hash mismatch''
           else check_rows sha256 gap_check (Some (al_id r, ih)) (n + 1) started rs)
      | _ \<Rightarrow> ChainInvalid n (al_id r) ''missing hash metadata in active chain'')"

definition verify_rows :: "(string \<Rightarrow> string) \<Rightarrow> bool \<Rightarrow> 'a audit_row_scheme list \<Rightarrow> audit_verdict" where
  "verify_rows sha256 gap_check rows =
     (case dropWhile (\<lambda>r. al_integrity_hash r = None) rows of
        [] \<Rightarrow> ChainValid 0 None
      | r # rs \<Rightarrow> check_rows sha256 gap_check None 0 (al_created_at r) (r # rs))"

section \<open>The table and its writers\<close>

datatype audit_event = AuditEvent string "(string \<times> jval) list"

record audit_db =
  logs :: "audit_row list"
  next_log_id :: int
  audit_events :: "audit_event list"
  mirrored :: "jval list"

definition empty_audit_db :: audit_db where
  "empty_audit_db = \<lparr>logs = [], next_log_id = 1, audit_events = [], mirrored = []\<rparr>"

definition select_logs :: "audit_db \<Rightarrow> int option \<Rightarrow> audit_row list" where
  "select_logs db tenant = sort_key al_id
     (case tenant of None \<Rightarrow> logs db | Some t \<Rightarrow> filter (\<lambda>r. al_tenant_id r = Some t) (logs db))"

definition verify_audit_chain :: "(string \<Rightarrow> string) \<Rightarrow> int option \<Rightarrow> audit_db \<Rightarrow> audit_verdict" where
  "verify_audit_chain sha256 tenant db = verify_rows sha256 (tenant = None) (select_logs db tenant)"

text \<open>The values of the \<open>INSERT\<close>; \<open>original_request\<close> defaults to the query.\<close>

definition inserted_row :: "audit_block \<Rightarrow> string \<Rightarrow> int \<Rightarrow> audit_row" where
  "inserted_row a now rid = audit_block.extend
     (a\<lparr>al_original_request := (if truthy_str (al_original_request a)
          then al_original_request a else al_query a)\<rparr>)
     (audit_row.fields rid now None None)"

lemma inserted_row_simps [simp]:
  "al_id (inserted_row a now rid) = rid" "al_created_at (inserted_row a now rid) = now"
  "al_query (inserted_row a now rid) = al_query a"
  "al_response (inserted_row a now rid) = al_response a"
  "al_allowed (inserted_row a now rid) = al_allowed a"
  "al_risk_level (inserted_row a now rid) = al_risk_level a"
  "al_approval_status (inserted_row a now rid) = al_approval_status a"
  "al_tenant_id (inserted_row a now rid) = al_tenant_id a"
  "al_integrity_hash (inserted_row a now rid) = None"
  "al_previous_hash (inserted_row a now rid) = None"
  by (simp_all add: inserted_row_def audit_block.defs audit_row.defs)

text \<open>First transaction: insert the row without hashes and commit.\<close>

definition insert_block :: "audit_block \<Rightarrow> string \<Rightarrow> audit_db \<Rightarrow> int \<times> audit_db" where
  "insert_block a now db =
     (let rid = next_log_id db
      in (rid, db\<lparr>logs := logs db @ [inserted_row a now rid], next_log_id := rid + 1\<rparr>))"

definition latest_hash_before :: "audit_db \<Rightarrow> int \<Rightarrow> int option \<Rightarrow> string" where
  "latest_hash_before db rid tenant =
     (case last_such (\<lambda>r. al_id r < rid \<and> al_integrity_hash r \<noteq> None \<and> al_tenant_id r = tenant)
             (sort_key al_id (logs db)) of
        None \<Rightarrow> GENESIS_HASH
      | Some r \<Rightarrow> or_empty (al_integrity_hash r))"

definition jopt :: "string option \<Rightarrow> jval" where
  "jopt x = (case x of None \<Rightarrow> JNull | Some s \<Rightarrow> JStr s)"

definition jint_opt :: "int option \<Rightarrow> jval" where
  "jint_opt x = (case x of None \<Rightarrow> JNull | Some i \<Rightarrow> JInt i)"

text \<open>Second transaction: read the previous hash of the tenant, compute the record hash
  from the values the writer still holds, update the row and commit; then the structured
  log line and the mirrored event.\<close>

definition link_block :: "(string \<Rightarrow> string) \<Rightarrow> audit_block \<Rightarrow> string \<Rightarrow> int \<Rightarrow> string \<Rightarrow> audit_db \<Rightarrow> audit_db" where
  "link_block sha256 a session_id rid created_at db =
     (let prev = latest_hash_before db rid (al_tenant_id a);
          cur = sha256 (json_dumps_sorted (hash_data rid (al_query a) (al_response a) (al_allowed a)
                  created_at (al_risk_level a) (al_approval_status a) prev));
          upd = (\<lambda>r. if al_id r = rid
                     then r\<lparr>al_integrity_hash := Some cur, al_previous_hash := Some prev\<rparr> else r)
      in db\<lparr>logs := map upd (logs db),
            audit_events := audit_events db @ [AuditEvent ''audit_chain_created''
              [(''correlation_id'', JStr session_id), (''record_id'', JInt rid),
               (''integrity_hash'', JStr cur), (''previous_hash'', JStr prev)]],
            mirrored := mirrored db @ [JObj
              [(''event_type'', JStr ''audit_block''),
               (''record_id'', JInt rid),
               (''tenant_id'', jint_opt (al_tenant_id a)),
               (''session_id'', JStr session_id),
               (''approval_id'', jopt (al_approval_id a)),
               (''username'', jopt (al_username a)),
               (''risk_level'', jopt (al_risk_level a)),
               (''allowed'', JBool (al_allowed a)),
               (''approval_status'', jopt (al_approval_status a)),
               (''policy_name'', jopt (al_policy_name a)),
               (''policy_type'', jopt (al_policy_type a)),
               (''matched_pattern'', jopt (al_matched_pattern a)),
               (''integrity_hash'', JStr cur),
               (''previous_hash'', JStr prev),
               (''created_at'', JStr created_at)]]\<rparr>)"

definition create_audit_block ::
  "(string \<Rightarrow> string) \<Rightarrow> audit_block \<Rightarrow> string \<Rightarrow> string \<Rightarrow> audit_db \<Rightarrow> int \<times> audit_db" where
  "create_audit_block sha256 a session_id now db =
     (case insert_block a now db of (rid, db') \<Rightarrow> (rid, link_block sha256 a session_id rid now db'))"

definition get_audit_hash_chain_root :: "int option \<Rightarrow> audit_db \<Rightarrow> string" where
  "get_audit_hash_chain_root tenant db =
     (case last_such (\<lambda>r. al_integrity_hash r \<noteq> None \<and> (tenant = None \<or> al_tenant_id r = tenant))
             (sort_key al_id (logs db)) of
        None \<Rightarrow> GENESIS_HASH
      | Some r \<Rightarrow> str_or (al_integrity_hash r) GENESIS_HASH)"

text \<open>The audit log after a list of writers ran one after the other, each with its clock reading.\<close>

definition create_all :: "(string \<Rightarrow> string) \<Rightarrow> (audit_block \<times> string \<times> string) list \<Rightarrow> audit_db \<Rightarrow> audit_db" where
  "create_all sha256 calls db =
     fold (\<lambda>(a, session_id, now) db. snd (create_audit_block sha256 a session_id now db)) calls db"

section \<open>Two writers at once\<close>

text \<open>A step of the audit table: one committed transaction of one of the running
  writers.  A writer that has inserted its row keeps its arguments, the row id and the
  timestamp in local variables until its second transaction.\<close>

datatype audit_step = Insert_Step audit_block string | Link_Step nat

record audit_run =
  run_db :: audit_db
  writers :: "(audit_block \<times> int \<times> string) list"

definition run_audit_step :: "(string \<Rightarrow> string) \<Rightarrow> audit_step \<Rightarrow> audit_run \<Rightarrow> audit_run" where
  "run_audit_step sha256 s c =
     (case s of
        Insert_Step a now \<Rightarrow>
          (case insert_block a now (run_db c) of
             (rid, db) \<Rightarrow> c\<lparr>run_db := db, writers := writers c @ [(a, rid, now)]\<rparr>)
      | Link_Step k \<Rightarrow>
          (if k < length (writers c)
           then (case writers c ! k of (a, rid, now) \<Rightarrow>
                   c\<lparr>run_db := link_block sha256 a ''N/A'' rid now (run_db c)\<rparr>)
           else c))"

definition run_audit_steps :: "(string \<Rightarrow> string) \<Rightarrow> audit_step list \<Rightarrow> audit_db" where
  "run_audit_steps sha256 ss =
     run_db (fold (run_audit_step sha256) ss \<lparr>run_db = empty_audit_db, writers = []\<rparr>)"

section \<open>Linked chains\<close>

text \<open>Rows that carry the hashes of a chain starting at \<open>p\<close>.\<close>

fun chained :: "(string \<Rightarrow> string) \<Rightarrow> string \<Rightarrow> 'a audit_row_scheme list \<Rightarrow> bool" where
  "chained sha256 p [] = True"
| "chained sha256 p (r # rs) =
     (al_previous_hash r = Some p \<and> al_integrity_hash r = Some (calculate_record_hash sha256 r p)
        \<and> chained sha256 (calculate_record_hash sha256 r p) rs)"

definition active :: "'a audit_row_scheme list \<Rightarrow> 'a audit_row_scheme list" where
  "active rows = dropWhile (\<lambda>r. al_integrity_hash r = None) rows"

definition chain_end :: "string \<Rightarrow> 'a audit_row_scheme list \<Rightarrow> string" where
  "chain_end p rows = (if rows = [] then p else or_empty (al_integrity_hash (last rows)))"

lemma chain_end_simps [simp]:
  "chain_end p [] = p" "chain_end p (rs @ [r]) = or_empty (al_integrity_hash r)"
  by (simp_all add: chain_end_def)

lemma chain_end_Cons [simp]: "chain_end p (r # rs) = chain_end (or_empty (al_integrity_hash r)) rs"
  by (simp add: chain_end_def)

lemma chained_append:
  "chained sha256 p (xs @ ys) \<longleftrightarrow> chained sha256 p xs \<and> chained sha256 (chain_end p xs) ys"
proof (induction xs arbitrary: p)
  case (Cons x xs)
  then show ?case
    by (cases "al_integrity_hash x = Some (calculate_record_hash sha256 x p)") simp_all
qed simp

lemma chained_non_null: "chained sha256 p rs \<Longrightarrow> r \<in> set rs \<Longrightarrow> al_integrity_hash r \<noteq> None"
  by (induction rs arbitrary: p) auto

lemma chain_end_digest:
  "chained sha256 p rs \<Longrightarrow> chain_end p rs = foldl (\<lambda>p r. calculate_record_hash sha256 r p) p rs"
  by (induction rs arbitrary: p) auto

lemma check_rows_chained:
  "chained sha256 (case prev of None \<Rightarrow> GENESIS_HASH | Some (_, h) \<Rightarrow> h) rs \<Longrightarrow>
     check_rows sha256 False prev n st rs = ChainValid (n + length rs) (Some st)"
  by (induction rs arbitrary: prev n) auto

lemma check_rows_valid:
  "verdict_valid (check_rows sha256 gc prev n st rs) \<Longrightarrow>
     chained sha256 (case prev of None \<Rightarrow> GENESIS_HASH | Some (_, h) \<Rightarrow> h) rs"
proof (induction rs arbitrary: prev n)
  case (Cons r rs)
  show ?case
  proof (cases "al_integrity_hash r"; cases "al_previous_hash r")
    fix ih ph assume h: "al_integrity_hash r = Some ih" "al_previous_hash r = Some ph"
    with Cons.prems have "ph = (case prev of None \<Rightarrow> GENESIS_HASH | Some (_, h) \<Rightarrow> h)"
      "ih = calculate_record_hash sha256 r ph"
      "verdict_valid (check_rows sha256 gc (Some (al_id r, ih)) (n + 1) st rs)"
      by (auto simp: verdict_valid_def split: if_splits)
    then show ?thesis using h Cons.IH by fastforce
  qed (use Cons.prems in \<open>simp_all add: verdict_valid_def\<close>)
qed simp

lemma verify_rows_active:
  "verify_rows sha256 gc rows = (case active rows of
        [] \<Rightarrow> ChainValid 0 None
      | r # rs \<Rightarrow> check_rows sha256 gc None 0 (al_created_at r) (r # rs))"
  by (simp add: verify_rows_def active_def)

lemma verify_rows_tenant:
  "verdict_valid (verify_rows sha256 False rows) \<longleftrightarrow> chained sha256 GENESIS_HASH (active rows)"
proof (cases "active rows")
  case Nil then show ?thesis by (simp add: verify_rows_active verdict_valid_def)
next
  case (Cons r rs)
  have "verify_rows sha256 False rows = check_rows sha256 False None 0 (al_created_at r) (r # rs)"
    using Cons by (simp add: verify_rows_active)
  then show ?thesis using Cons
    check_rows_valid[of sha256 False None 0 "al_created_at r" "r # rs"]
    check_rows_chained[of sha256 None "r # rs" 0 "al_created_at r"]
    by (auto simp: verdict_valid_def simp del: check_rows.simps chained.simps)
qed

lemma verify_rows_chained:
  "chained sha256 GENESIS_HASH (active rows) \<Longrightarrow>
     verify_rows sha256 False rows = ChainValid (length (active rows))
       (case active rows of [] \<Rightarrow> None | r # _ \<Rightarrow> Some (al_created_at r))"
proof (cases "active rows")
  case (Cons r rs)
  show "chained sha256 GENESIS_HASH (active rows) \<Longrightarrow> ?thesis"
    using check_rows_chained[of sha256 None "r # rs" 0 "al_created_at r"]
    unfolding verify_rows_active Cons by simp
qed (simp add: verify_rows_active)

lemma active_snoc:
  "al_integrity_hash r \<noteq> None \<Longrightarrow> active (rows @ [r]) = active rows @ [r]"
  by (induction rows) (auto simp: active_def)

definition tenant_rows :: "audit_db \<Rightarrow> int option \<Rightarrow> audit_row list" where
  "tenant_rows db t = filter (\<lambda>r. al_tenant_id r = t) (sort_key al_id (logs db))"

lemma select_logs_tenant: "select_logs db (Some t) = tenant_rows db (Some t)"
  by (simp add: select_logs_def tenant_rows_def sort_key_filter)

lemma verify_tenant_iff:
  "verdict_valid (verify_audit_chain sha256 (Some t) db)
     \<longleftrightarrow> chained sha256 GENESIS_HASH (active (tenant_rows db (Some t)))"
  by (simp add: verify_audit_chain_def verify_rows_tenant select_logs_tenant)

lemma verify_tenant_chained:
  "chained sha256 GENESIS_HASH (active (tenant_rows db (Some t))) \<Longrightarrow>
     verify_audit_chain sha256 (Some t) db = ChainValid (length (active (tenant_rows db (Some t))))
       (case active (tenant_rows db (Some t)) of [] \<Rightarrow> None | r # _ \<Rightarrow> Some (al_created_at r))"
  by (simp add: verify_audit_chain_def verify_rows_chained select_logs_tenant)

section \<open>The writer preserves the chain of every tenant\<close>

text \<open>Ids come from the table's sequence.\<close>

definition table_ok :: "audit_db \<Rightarrow> bool" where
  "table_ok db = (sorted_wrt (<) (map al_id (logs db)) \<and> (\<forall>r\<in>set (logs db). al_id r < next_log_id db))"

lemma table_ok_sorted: "table_ok db \<Longrightarrow> sort_key al_id (logs db) = logs db"
  by (simp add: table_ok_def sort_key_sorted strict_sorted_iff)

text \<open>The row that \<open>create_audit_block\<close> leaves in the table.\<close>

definition created_row :: "(string \<Rightarrow> string) \<Rightarrow> audit_block \<Rightarrow> string \<Rightarrow> audit_db \<Rightarrow> audit_row" where
  "created_row sha256 a now db =
     (let rid = next_log_id db;
          prev = chain_end GENESIS_HASH (active (tenant_rows db (al_tenant_id a)));
          r = inserted_row a now rid
      in r\<lparr>al_integrity_hash := Some (calculate_record_hash sha256 r prev),
           al_previous_hash := Some prev\<rparr>)"

lemma created_row_simps [simp]:
  "al_id (created_row sha256 a now db) = next_log_id db"
  "al_tenant_id (created_row sha256 a now db) = al_tenant_id a"
  "al_created_at (created_row sha256 a now db) = now"
  "al_previous_hash (created_row sha256 a now db) = Some (chain_end GENESIS_HASH (active (tenant_rows db (al_tenant_id a))))"
  "al_integrity_hash (created_row sha256 a now db) = Some (calculate_record_hash sha256
     (created_row sha256 a now db) (chain_end GENESIS_HASH (active (tenant_rows db (al_tenant_id a)))))"
  by (simp_all add: created_row_def Let_def calculate_record_hash_def record_bytes_def)

lemma last_such_active:
  assumes "chained sha256 p (active rows)"
  shows "(case last_such (\<lambda>r. al_integrity_hash r \<noteq> None) rows of None \<Rightarrow> p
           | Some r \<Rightarrow> or_empty (al_integrity_hash r)) = chain_end p (active rows)"
proof -
  have "last_such (\<lambda>r. al_integrity_hash r \<noteq> None) rows
      = last_such (\<lambda>r. al_integrity_hash r \<noteq> None) (active rows)"
    using last_such_dropWhile[of "\<lambda>r. al_integrity_hash r \<noteq> None" rows] by (simp add: active_def)
  moreover have "active rows \<noteq> [] \<Longrightarrow> al_integrity_hash (last (active rows)) \<noteq> None"
    using chained_non_null[OF assms] by simp
  ultimately show ?thesis by (cases "active rows = []") (simp_all add: last_such_all chain_end_def)
qed

lemma latest_hash_before_insert:
  assumes ok: "table_ok db" and ch: "chained sha256 GENESIS_HASH (active (tenant_rows db t))"
    and ins: "insert_block a now db = (rid, db')"
  shows "latest_hash_before db' rid t = chain_end GENESIS_HASH (active (tenant_rows db t))"
proof -
  define r where "r = inserted_row a now rid"
  have r: "logs db' = logs db @ [r]" "al_id r = rid" "rid = next_log_id db"
    using ins by (auto simp: insert_block_def Let_def r_def)
  have srt: "sort_key al_id (logs db') = logs db @ [r]"
  proof -
    have "sorted_wrt (<) (map al_id (logs db @ [r]))"
      using ok r by (auto simp: table_ok_def sorted_wrt_append)
    then show ?thesis by (simp add: r sort_key_sorted strict_sorted_iff)
  qed
  have "last_such (\<lambda>r. al_id r < rid \<and> al_integrity_hash r \<noteq> None \<and> al_tenant_id r = t) (logs db @ [r])
      = last_such (\<lambda>r. al_integrity_hash r \<noteq> None \<and> al_tenant_id r = t) (logs db)"
    using ok r by (simp add: table_ok_def) (rule last_such_cong, auto)
  then have "latest_hash_before db' rid t = (case last_such (\<lambda>r. al_integrity_hash r \<noteq> None)
      (tenant_rows db t) of None \<Rightarrow> GENESIS_HASH | Some r \<Rightarrow> or_empty (al_integrity_hash r))"
    by (simp add: latest_hash_before_def srt last_such_conj tenant_rows_def table_ok_sorted[OF ok])
  then show ?thesis using last_such_active[OF ch] by simp
qed

lemma create_audit_block_logs:
  assumes ok: "table_ok db" and ch: "chained sha256 GENESIS_HASH (active (tenant_rows db (al_tenant_id a)))"
  shows "logs (snd (create_audit_block sha256 a sid now db)) = logs db @ [created_row sha256 a now db]"
    and "next_log_id (snd (create_audit_block sha256 a sid now db)) = next_log_id db + 1"
    and "fst (create_audit_block sha256 a sid now db) = next_log_id db"
proof -
  obtain rid db' where ins: "insert_block a now db = (rid, db')" by force
  then have rid: "rid = next_log_id db" and n: "next_log_id db' = rid + 1"
    by (auto simp: insert_block_def Let_def)
  have prev: "latest_hash_before db' rid (al_tenant_id a)
      = chain_end GENESIS_HASH (active (tenant_rows db (al_tenant_id a)))"
    by (rule latest_hash_before_insert[OF ok ch ins])
  have old: "\<forall>r\<in>set (logs db). al_id r \<noteq> rid" using ok rid by (auto simp: table_ok_def)
  define r where "r = inserted_row a now rid"
  have l': "logs db' = logs db @ [r]" using ins by (auto simp: insert_block_def Let_def r_def)
  have rf: "al_id r = rid" "al_created_at r = now" "al_query r = al_query a" "al_response r = al_response a"
    "al_allowed r = al_allowed a" "al_risk_level r = al_risk_level a"
    "al_approval_status r = al_approval_status a"
    by (simp_all add: r_def)
  define p where "p = chain_end GENESIS_HASH (active (tenant_rows db (al_tenant_id a)))"
  have c: "created_row sha256 a now db
      = r\<lparr>al_integrity_hash := Some (calculate_record_hash sha256 r p), al_previous_hash := Some p\<rparr>"
    by (simp add: created_row_def Let_def p_def rid r_def)
  have "logs (link_block sha256 a sid rid now db') = map (\<lambda>q. if al_id q = rid then
      q\<lparr>al_integrity_hash := Some (calculate_record_hash sha256 r p), al_previous_hash := Some p\<rparr> else q) (logs db')"
    by (simp add: link_block_def prev Let_def calculate_record_hash_def record_bytes_def rf p_def)
  also have "\<dots> = logs db @ [created_row sha256 a now db]"
    unfolding l' c using old by (simp add: rf map_idI)
  finally show "logs (snd (create_audit_block sha256 a sid now db)) = logs db @ [created_row sha256 a now db]"
    by (simp add: create_audit_block_def ins)
  show "next_log_id (snd (create_audit_block sha256 a sid now db)) = next_log_id db + 1"
    "fst (create_audit_block sha256 a sid now db) = next_log_id db"
    using ins n rid by (simp_all add: create_audit_block_def link_block_def Let_def)
qed

definition chain_inv :: "(string \<Rightarrow> string) \<Rightarrow> audit_db \<Rightarrow> bool" where
  "chain_inv sha256 db = (table_ok db \<and> (\<forall>t. chained sha256 GENESIS_HASH (active (tenant_rows db t))))"

lemma chain_inv_empty: "chain_inv sha256 empty_audit_db"
  by (simp add: chain_inv_def table_ok_def empty_audit_db_def tenant_rows_def active_def)

lemma table_ok_create:
  "table_ok db \<Longrightarrow> chained sha256 GENESIS_HASH (active (tenant_rows db (al_tenant_id a))) \<Longrightarrow>
     table_ok (snd (create_audit_block sha256 a sid now db))"
  by (auto simp: table_ok_def create_audit_block_logs sorted_wrt_append less_Suc_eq)

lemma tenant_rows_create:
  assumes ok: "table_ok db" and ch: "chained sha256 GENESIS_HASH (active (tenant_rows db (al_tenant_id a)))"
  shows "active (tenant_rows (snd (create_audit_block sha256 a sid now db)) t)
    = (if al_tenant_id a = t then active (tenant_rows db t) @ [created_row sha256 a now db]
       else active (tenant_rows db t))"
  using table_ok_sorted[OF table_ok_create[OF ok ch]] table_ok_sorted[OF ok]
  by (auto simp: tenant_rows_def create_audit_block_logs[OF ok ch] intro: active_snoc)

lemma chain_inv_create:
  assumes "chain_inv sha256 db"
  shows "chain_inv sha256 (snd (create_audit_block sha256 a sid now db))"
proof -
  have ok: "table_ok db" and ch: "\<And>t. chained sha256 GENESIS_HASH (active (tenant_rows db t))"
    using assms by (simp_all add: chain_inv_def)
  have "chained sha256 GENESIS_HASH (active (tenant_rows (snd (create_audit_block sha256 a sid now db)) t))" for t
    using ch[of t] created_row_simps(5)[of sha256 a now db]
    by (simp add: tenant_rows_create[OF ok ch] chained_append del: created_row_simps(5))
  then show ?thesis using table_ok_create[OF ok ch] by (simp add: chain_inv_def)
qed

section \<open>What a chain root commits to\<close>

definition hashed_fields ::
  "'a audit_row_scheme \<Rightarrow> int \<times> string \<times> string \<times> bool \<times> string \<times> string \<times> string" where
  "hashed_fields r = (al_id r, or_empty (al_query r), or_empty (al_response r), al_allowed r,
     al_created_at r, or_empty (al_risk_level r), or_empty (al_approval_status r))"

lemma sort_keys_obj_set:
  assumes "sort_keys (JObj m) = sort_keys (JObj m')"
  shows "set (map (\<lambda>(k, v). (k, sort_keys v)) m) = set (map (\<lambda>(k, v). (k, sort_keys v)) m')"
proof -
  have "set (sort_key fst (map (\<lambda>(k, v). (k, sort_keys v)) m))
      = set (sort_key fst (map (\<lambda>(k, v). (k, sort_keys v)) m'))"
    using assms by simp
  then show ?thesis by simp
qed

lemma record_bytes_inj:
  assumes "record_bytes r p = record_bytes r' p'"
  shows "hashed_fields r = hashed_fields r' \<and> p = p'"
proof -
  have "sort_keys (hash_data (al_id r) (al_query r) (al_response r) (al_allowed r) (al_created_at r)
        (al_risk_level r) (al_approval_status r) p)
      = sort_keys (hash_data (al_id r') (al_query r') (al_response r') (al_allowed r') (al_created_at r')
        (al_risk_level r') (al_approval_status r') p')"
    by (rule json_dumps_sorted_inj[OF assms[unfolded record_bytes_def]])
  note e = sort_keys_obj_set[OF this[unfolded hash_data_def], simplified list.map prod.case sort_keys.simps]
  let ?S = "set [(''record_id'', JInt (al_id r)), (''user_query'', JStr (or_empty (al_query r))),
     (''response'', JStr (or_empty (al_response r))), (''allowed'', JBool (al_allowed r)),
     (''created_at'', JStr (al_created_at r)), (''risk_level'', JStr (or_empty (al_risk_level r))),
     (''approval_status'', JStr (or_empty (al_approval_status r))), (''previous_hash'', JStr p)]"
  have "(''record_id'', JInt (al_id r')) \<in> ?S" "(''user_query'', JStr (or_empty (al_query r'))) \<in> ?S"
    "(''response'', JStr (or_empty (al_response r'))) \<in> ?S" "(''allowed'', JBool (al_allowed r')) \<in> ?S"
    "(''created_at'', JStr (al_created_at r')) \<in> ?S" "(''risk_level'', JStr (or_empty (al_risk_level r'))) \<in> ?S"
    "(''approval_status'', JStr (or_empty (al_approval_status r'))) \<in> ?S" "(''previous_hash'', JStr p') \<in> ?S"
    unfolding e by simp_all
  then show ?thesis by (simp add: hashed_fields_def)
qed

text \<open>The interface of a hash chain: an encoding of an entry with the previous digest that can
  be read in one way, and a digest function.  Nothing is assumed of the digest: equal chain
  ends either come from equal entries or exhibit a collision (or a preimage of the start).\<close>

definition collision :: "(string \<Rightarrow> string) \<Rightarrow> bool" where
  "collision sha256 = (\<exists>x y. x \<noteq> y \<and> sha256 x = sha256 y)"

locale hash_chain =
  fixes encode :: "'r \<Rightarrow> string \<Rightarrow> string" and view :: "'r \<Rightarrow> 'k"
  assumes encode_inj: "encode r p = encode r' p' \<Longrightarrow> view r = view r' \<and> p = p'"
begin

lemma step_inj: "digest (encode r p) = digest (encode r' p') \<Longrightarrow>
    collision digest \<or> (view r = view r' \<and> p = p')"
  using encode_inj unfolding collision_def by blast

lemma chain_end_commits:
  "foldl (\<lambda>p r. digest (encode r p)) g rs = foldl (\<lambda>p r. digest (encode r p)) g rs' \<Longrightarrow>
     map view rs = map view rs' \<or> collision digest \<or> (\<exists>x. digest x = g)"
proof (induction rs arbitrary: rs' rule: rev_induct)
  case Nil
  show ?case
  proof (cases rs' rule: rev_cases)
    case (snoc qs q)
    then have "digest (encode q (foldl (\<lambda>p r. digest (encode r p)) g qs)) = g" using Nil by simp
    then show ?thesis by blast
  qed simp
next
  case (snoc r rs)
  show ?case
  proof (cases rs' rule: rev_cases)
    case Nil then show ?thesis using snoc.prems by auto
  next
    case (snoc rs2 r2)
    with snoc.prems step_inj[of digest r _ r2] snoc.IH[of rs2] show ?thesis by auto
  qed
qed

end

interpretation audit_hash: hash_chain record_bytes hashed_fields
  by unfold_locales (rule record_bytes_inj)

lemma root_chain_end:
  assumes ch: "chained sha256 GENESIS_HASH (active (tenant_rows db (Some t)))"
    and ne: "\<And>x. sha256 x \<noteq> []"
  shows "get_audit_hash_chain_root (Some t) db
    = foldl (\<lambda>p r. sha256 (record_bytes r p)) GENESIS_HASH (active (tenant_rows db (Some t)))"
proof -
  let ?rows = "active (tenant_rows db (Some t))"
  have "get_audit_hash_chain_root (Some t) db = (case last_such (\<lambda>r. al_integrity_hash r \<noteq> None)
      (tenant_rows db (Some t)) of None \<Rightarrow> GENESIS_HASH | Some r \<Rightarrow> str_or (al_integrity_hash r) GENESIS_HASH)"
    by (simp add: get_audit_hash_chain_root_def last_such_conj tenant_rows_def)
  moreover have "last_such (\<lambda>r. al_integrity_hash r \<noteq> None) (tenant_rows db (Some t))
      = last_such (\<lambda>r. al_integrity_hash r \<noteq> None) ?rows"
    using last_such_dropWhile[of "\<lambda>r. al_integrity_hash r \<noteq> None" "tenant_rows db (Some t)"]
    by (simp add: active_def)
  moreover have "foldl (\<lambda>p r. sha256 (record_bytes r p)) GENESIS_HASH ?rows = chain_end GENESIS_HASH ?rows"
    using chain_end_digest[OF ch] by (simp add: calculate_record_hash_def)
  moreover have "str_or (al_integrity_hash r) GENESIS_HASH = or_empty (al_integrity_hash r)"
    and "al_integrity_hash r \<noteq> None" if "r = last ?rows" "?rows \<noteq> []" for r
  proof -
    define rs where "rs = butlast ?rows"
    have rs: "?rows = rs @ [r]" using that by (simp add: rs_def)
    define p where "p = chain_end GENESIS_HASH rs"
    have "al_integrity_hash r = Some (sha256 (record_bytes r p))"
      using ch unfolding rs p_def by (simp add: chained_append calculate_record_hash_def)
    then show "str_or (al_integrity_hash r) GENESIS_HASH = or_empty (al_integrity_hash r)"
      "al_integrity_hash r \<noteq> None"
      using ne[of "record_bytes r p"] by (simp_all add: str_or_def)
  qed
  ultimately show ?thesis by (cases "?rows = []") (simp_all add: last_such_all chain_end_def)
qed

section \<open>Properties of the chain\<close>

lemma chain_inv_create_all: "chain_inv sha256 db \<Longrightarrow> chain_inv sha256 (create_all sha256 calls db)"
  by (induction calls arbitrary: db) (auto simp: create_all_def chain_inv_create)

lemma create_all_Cons:
  "create_all sha256 ((a, sid, now) # calls) db = create_all sha256 calls (snd (create_audit_block sha256 a sid now db))"
  by (simp add: create_all_def)

lemma active_create_all:
  assumes "chain_inv sha256 db"
  shows "map al_created_at (active (tenant_rows (create_all sha256 calls db) t))
    = map al_created_at (active (tenant_rows db t))
      @ map (\<lambda>(a, sid, now). now) (filter (\<lambda>(a, sid, now). al_tenant_id a = t) calls)"
  using assms
proof (induction calls arbitrary: db)
  case Nil then show ?case by (simp add: create_all_def)
next
  case (Cons c calls)
  obtain a sid now where c: "c = (a, sid, now)" by (cases c)
  have ok: "table_ok db" "chained sha256 GENESIS_HASH (active (tenant_rows db (al_tenant_id a)))"
    using Cons.prems by (simp_all add: chain_inv_def)
  show ?case using Cons.IH[OF chain_inv_create[OF Cons.prems], of a sid now]
    by (simp add: c create_all_Cons tenant_rows_create[OF ok])
qed

text \<open>Whatever the order in which blocks of any tenants are created one after the other,
  starting from an empty audit log, verification of each tenant's chain succeeds, counts
  exactly that tenant's blocks and reports the time stamp of its first block.\<close>

theorem audit_sequential_valid:
  "verify_audit_chain sha256 (Some t) (create_all sha256 calls empty_audit_db)
     = (let mine = filter (\<lambda>(a, sid, now). al_tenant_id a = Some t) calls
        in ChainValid (length mine) (case mine of [] \<Rightarrow> None | (a, sid, now) # _ \<Rightarrow> Some now))"
proof -
  let ?db = "create_all sha256 calls empty_audit_db"
  let ?mine = "filter (\<lambda>(a, sid, now). al_tenant_id a = Some t) calls"
  let ?act = "active (tenant_rows ?db (Some t))"
  have inv: "chain_inv sha256 ?db" by (rule chain_inv_create_all[OF chain_inv_empty])
  have m: "map al_created_at ?act = map (\<lambda>(a, sid, now). now) ?mine"
    using active_create_all[OF chain_inv_empty, of sha256 calls "Some t"]
    by (simp add: tenant_rows_def active_def empty_audit_db_def)
  have l: "length ?act = length ?mine" using arg_cong[OF m, of length] by simp
  have v: "verify_audit_chain sha256 (Some t) ?db = ChainValid (length ?act)
       (case ?act of [] \<Rightarrow> None | r # _ \<Rightarrow> Some (al_created_at r))"
    using inv by (intro verify_tenant_chained) (simp add: chain_inv_def)
  show ?thesis using m l by (cases ?act; cases ?mine) (auto simp: v)
qed

text \<open>C20: Appending a block to a tenant whose chain verifies keeps it verifying with one more
  record, and does not change the verdict on any other tenant.\<close>

theorem audit_append_valid:
  assumes "table_ok db" and "verdict_valid (verify_audit_chain sha256 (Some t) db)"
    and "al_tenant_id a = Some t"
  shows "verdict_valid (verify_audit_chain sha256 (Some t) (snd (create_audit_block sha256 a sid now db)))
    \<and> records_checked (verify_audit_chain sha256 (Some t) (snd (create_audit_block sha256 a sid now db)))
        = records_checked (verify_audit_chain sha256 (Some t) db) + 1
    \<and> (\<forall>u. u \<noteq> t \<longrightarrow> verify_audit_chain sha256 (Some u) (snd (create_audit_block sha256 a sid now db))
        = verify_audit_chain sha256 (Some u) db)"
proof -
  let ?db = "snd (create_audit_block sha256 a sid now db)"
  have ch: "chained sha256 GENESIS_HASH (active (tenant_rows db (al_tenant_id a)))"
    using assms by (simp add: verify_tenant_iff)
  note tr = tenant_rows_create[OF assms(1) ch, of sid now]
  have ch': "chained sha256 GENESIS_HASH (active (tenant_rows ?db (Some t)))"
    using ch assms(3) created_row_simps(5)[of sha256 a now db]
    by (simp add: tr chained_append del: created_row_simps(5))
  have other: "tenant_rows ?db (Some u) = tenant_rows db (Some u)" if "u \<noteq> t" for u
    using table_ok_sorted[OF table_ok_create[OF assms(1) ch]] table_ok_sorted[OF assms(1)] that assms(3)
    by (simp add: tenant_rows_def create_audit_block_logs[OF assms(1) ch])
  have "records_checked (verify_audit_chain sha256 (Some t) ?db) = length (active (tenant_rows ?db (Some t)))"
    using verify_tenant_chained[OF ch'] by (simp add: records_checked_def)
  moreover have "records_checked (verify_audit_chain sha256 (Some t) db) = length (active (tenant_rows db (Some t)))"
    using verify_tenant_chained ch assms(3) by (simp add: records_checked_def)
  moreover have "verdict_valid (verify_audit_chain sha256 (Some t) ?db)"
    using ch' by (simp add: verify_tenant_iff)
  moreover have "verify_audit_chain sha256 (Some u) ?db = verify_audit_chain sha256 (Some u) db" if "u \<noteq> t" for u
    using other[OF that] by (simp add: verify_audit_chain_def select_logs_tenant)
  ultimately show ?thesis using assms(3) by (simp add: tr)
qed

text \<open>C18: The chain root commits to the whole history: if two audit logs verify for a
  tenant and have the same root, then every hashed field of every record agrees, or a
  SHA-256 collision (or a text that hashes to sixty-four zeros) is exhibited.\<close>

theorem audit_root_commits:
  assumes "verdict_valid (verify_audit_chain sha256 (Some t) db)"
    and "verdict_valid (verify_audit_chain sha256 (Some t) db')"
    and "get_audit_hash_chain_root (Some t) db = get_audit_hash_chain_root (Some t) db'"
    and "\<And>x. sha256 x \<noteq> []"
  shows "map hashed_fields (active (tenant_rows db (Some t)))
       = map hashed_fields (active (tenant_rows db' (Some t)))
     \<or> collision sha256 \<or> (\<exists>x. sha256 x = GENESIS_HASH)"
  using assms root_chain_end[of sha256 db t] root_chain_end[of sha256 db' t]
    audit_hash.chain_end_commits[of sha256 GENESIS_HASH]
  by (simp add: verify_tenant_iff)

text \<open>A sample block and two digests for the closed examples.\<close>

definition sample_block :: "string \<Rightarrow> string \<Rightarrow> int option \<Rightarrow> audit_block" where
  "sample_block query user tenant =
     \<lparr>al_query = Some query, al_response = Some ''ok'', al_allowed = True, al_risk_level = Some ''LOW'',
      al_approval_status = Some ''APPROVED'', al_approval_id = None, al_approver = None,
      al_original_request = None, al_approval_timestamp = None, al_execution_timestamp = None,
      al_execution_status = None, al_policy_name = None, al_policy_type = None,
      al_matched_pattern = None, al_redacted_value = None, al_username = Some user,
      al_tenant_id = tenant\<rparr>"

definition const_digest :: "string \<Rightarrow> string" where
  "const_digest x = ''h''"

definition tag_digest :: "string \<Rightarrow> string" where
  "tag_digest x = CHR ''h'' # x"

lemma tag_digest_free: "\<not> collision tag_digest" "tag_digest x \<noteq> GENESIS_HASH" "tag_digest x \<noteq> []"
  by (auto simp: collision_def tag_digest_def GENESIS_HASH_def numeral_eq_Suc)

theorem audit_append_valid_witness:
  "verdict_valid (verify_audit_chain const_digest (Some 7) (snd (create_audit_block const_digest
     (sample_block ''two'' ''eve'' (Some 7)) ''s'' ''t1''
     (create_all const_digest [(sample_block ''one'' ''bob'' (Some 7), ''s'', ''t0'')] empty_audit_db))))"
proof -
  let ?db = "create_all const_digest [(sample_block ''one'' ''bob'' (Some 7), ''s'', ''t0'')] empty_audit_db"
  have "table_ok ?db"
    using chain_inv_create_all[OF chain_inv_empty] by (simp add: chain_inv_def)
  moreover have "verdict_valid (verify_audit_chain const_digest (Some 7) ?db)" by code_simp
  moreover have "al_tenant_id (sample_block ''two'' ''eve'' (Some 7)) = Some 7" by (simp add: sample_block_def)
  ultimately show ?thesis using audit_append_valid by blast
qed

theorem audit_root_commits_witness:
  "map hashed_fields (active (tenant_rows (create_all tag_digest
       [(sample_block ''one'' ''bob'' (Some 7), ''s'', ''t0'')] empty_audit_db) (Some 7)))
   = map hashed_fields (active (tenant_rows (create_all tag_digest
       [(sample_block ''one'' ''eve'' (Some 7), ''s'', ''t0'')] empty_audit_db) (Some 7)))"
  (is "map hashed_fields (active (tenant_rows ?db _)) = map hashed_fields (active (tenant_rows ?db' _))")
proof -
  have "verdict_valid (verify_audit_chain tag_digest (Some 7) ?db)"
    "verdict_valid (verify_audit_chain tag_digest (Some 7) ?db')"
    "get_audit_hash_chain_root (Some 7) ?db = get_audit_hash_chain_root (Some 7) ?db'"
    by code_simp+
  from audit_root_commits[OF this tag_digest_free(3)] show ?thesis
    using tag_digest_free(1,2) by blast
qed

section \<open>Tampering\<close>

text \<open>Somebody with write access to the table rewrites the row with id \<open>i\<close>.\<close>

definition rewrite_row :: "int \<Rightarrow> (audit_row \<Rightarrow> audit_row) \<Rightarrow> audit_db \<Rightarrow> audit_db" where
  "rewrite_row i f db = db\<lparr>logs := map (\<lambda>r. if al_id r = i then f r else r) (logs db)\<rparr>"

lemma chained_member:
  "chained sha256 p rs \<Longrightarrow> r \<in> set rs \<Longrightarrow>
     \<exists>q. al_previous_hash r = Some q \<and> al_integrity_hash r = Some (calculate_record_hash sha256 r q)"
  by (induction rs arbitrary: p) auto

lemma active_map:
  "(\<And>r. al_integrity_hash (g r) = al_integrity_hash r) \<Longrightarrow> active (map g rows) = map g (active rows)"
  by (simp add: active_def dropWhile_map comp_def)

text \<open>C19: Editing any hashed field of a record in a verified chain, the stored hashes being left
  as they are, makes the chain fail to verify unless a SHA-256 collision is exhibited.\<close>

theorem audit_edit_detected:
  assumes "table_ok db" and "verdict_valid (verify_audit_chain sha256 (Some t) db)"
    and "r \<in> set (active (tenant_rows db (Some t)))"
    and "\<And>q. al_id (f q) = al_id q \<and> al_tenant_id (f q) = al_tenant_id q
           \<and> al_integrity_hash (f q) = al_integrity_hash q \<and> al_previous_hash (f q) = al_previous_hash q"
    and "hashed_fields (f r) \<noteq> hashed_fields r"
  shows "\<not> verdict_valid (verify_audit_chain sha256 (Some t) (rewrite_row (al_id r) f db)) \<or> collision sha256"
proof (rule disjCI)
  assume nc: "\<not> collision sha256"
  let ?g = "\<lambda>q. if al_id q = al_id r then f q else q"
  have "map al_id (map ?g (logs db)) = map al_id (logs db)" using assms(4) by simp
  then have "sorted (map al_id (map ?g (logs db)))"
    using assms(1) by (simp only: table_ok_def strict_sorted_iff)
  then have "sort_key al_id (logs (rewrite_row (al_id r) f db)) = map ?g (logs db)"
    unfolding rewrite_row_def by (simp add: sort_key_sorted)
  then have "tenant_rows (rewrite_row (al_id r) f db) (Some t) = map ?g (tenant_rows db (Some t))"
    using table_ok_sorted[OF assms(1)] assms(4)
    by (simp add: tenant_rows_def filter_map comp_def if_distrib)
  then have a: "active (tenant_rows (rewrite_row (al_id r) f db) (Some t))
      = map ?g (active (tenant_rows db (Some t)))"
    using assms(4) by (simp add: active_map)
  show "\<not> verdict_valid (verify_audit_chain sha256 (Some t) (rewrite_row (al_id r) f db))"
  proof
    assume "verdict_valid (verify_audit_chain sha256 (Some t) (rewrite_row (al_id r) f db))"
    then have "chained sha256 GENESIS_HASH (map ?g (active (tenant_rows db (Some t))))"
      by (simp add: verify_tenant_iff a)
    moreover have "f r \<in> set (map ?g (active (tenant_rows db (Some t))))" using assms(3) by force
    ultimately obtain q where q: "al_previous_hash (f r) = Some q"
      "al_integrity_hash (f r) = Some (calculate_record_hash sha256 (f r) q)"
      using chained_member by blast
    obtain q' where q': "al_previous_hash r = Some q'"
      "al_integrity_hash r = Some (calculate_record_hash sha256 r q')"
      using chained_member assms(2,3) unfolding verify_tenant_iff by blast
    have "sha256 (record_bytes (f r) q) = sha256 (record_bytes r q)"
      using q q' assms(4)[of r] by (simp add: calculate_record_hash_def)
    then show False using audit_hash.step_inj[of sha256 "f r" q r q] nc assms(5) by blast
  qed
qed

theorem audit_edit_detected_witness:
  "\<not> verdict_valid (verify_audit_chain tag_digest (Some 7) (rewrite_row 1 (\<lambda>r. r\<lparr>al_response := Some ''no''\<rparr>)
     (create_all tag_digest [(sample_block ''one'' ''bob'' (Some 7), ''s'', ''t0'')] empty_audit_db)))"
proof -
  let ?db = "create_all tag_digest [(sample_block ''one'' ''bob'' (Some 7), ''s'', ''t0'')] empty_audit_db"
  let ?f = "\<lambda>r::audit_row. r\<lparr>al_response := Some ''no''\<rparr>"
  have ok: "table_ok ?db" using chain_inv_create_all[OF chain_inv_empty] by (simp add: chain_inv_def)
  have v: "verdict_valid (verify_audit_chain tag_digest (Some 7) ?db)" by code_simp
  obtain r where r: "active (tenant_rows ?db (Some 7)) = [r]" "al_id r = 1" "al_response r = Some ''ok''"
  proof
    let ?r = "created_row tag_digest (sample_block ''one'' ''bob'' (Some 7)) ''t0'' empty_audit_db"
    show "active (tenant_rows ?db (Some 7)) = [?r]" by code_simp
    show "al_id ?r = 1" "al_response ?r = Some ''ok''" by code_simp+
  qed
  have "hashed_fields (?f r) \<noteq> hashed_fields r" by (simp add: hashed_fields_def r)
  then show ?thesis
    using audit_edit_detected[OF ok v, of r ?f] r tag_digest_free(1) by simp
qed

lemma active_append: "active (xs @ ys) = (if active xs = [] then active ys else active xs @ ys)"
  by (auto simp: active_def dropWhile_append)

text \<open>Cutting off the end of the table is not detected: every prefix of a verified audit
  log verifies.\<close>

theorem audit_truncation_undetected:
  assumes "table_ok db" and "verdict_valid (verify_audit_chain sha256 (Some t) db)"
  shows "verdict_valid (verify_audit_chain sha256 (Some t) (db\<lparr>logs := take k (logs db)\<rparr>))"
proof -
  let ?P = "\<lambda>r. al_tenant_id r = Some t"
  have srt: "sort_key al_id (take k (logs db)) = take k (logs db)"
    using assms(1) by (auto simp: table_ok_def take_map[symmetric] intro!: sort_key_sorted sorted_wrt_take
        dest: strict_sorted_imp_sorted)
  have "filter ?P (logs db) = filter ?P (take k (logs db)) @ filter ?P (drop k (logs db))"
    by (metis append_take_drop_id filter_append)
  then have "chained sha256 GENESIS_HASH (active (filter ?P (take k (logs db)) @ filter ?P (drop k (logs db))))"
    using assms by (simp add: verify_tenant_iff tenant_rows_def table_ok_sorted)
  then have "chained sha256 GENESIS_HASH (active (filter ?P (take k (logs db))))"
    by (cases "active (filter ?P (take k (logs db))) = []") (simp_all add: active_append chained_append)
  then show ?thesis by (simp add: verify_tenant_iff tenant_rows_def srt)
qed

definition sample_log :: audit_db where
  "sample_log = create_all const_digest [(sample_block ''one'' ''bob'' (Some 7), ''s'', ''t0''),
     (sample_block ''two'' ''bob'' (Some 7), ''s'', ''t1'')] empty_audit_db"

lemma sample_log_ok: "table_ok sample_log" "verdict_valid (verify_audit_chain const_digest (Some 7) sample_log)"
proof -
  show "table_ok sample_log"
    unfolding sample_log_def using chain_inv_create_all[OF chain_inv_empty] by (simp add: chain_inv_def)
  show "verdict_valid (verify_audit_chain const_digest (Some 7) sample_log)" by code_simp
qed

theorem audit_truncation_undetected_witness:
  "verdict_valid (verify_audit_chain const_digest (Some 7) (sample_log\<lparr>logs := take 1 (logs sample_log)\<rparr>))"
  by (rule audit_truncation_undetected[OF sample_log_ok])

section \<open>What the hash leaves out\<close>

lemma check_rows_map:
  assumes "\<And>r. al_id (g r) = al_id r \<and> al_query (g r) = al_query r \<and> al_response (g r) = al_response r
    \<and> al_allowed (g r) = al_allowed r \<and> al_created_at (g r) = al_created_at r
    \<and> al_risk_level (g r) = al_risk_level r \<and> al_approval_status (g r) = al_approval_status r
    \<and> al_integrity_hash (g r) = al_integrity_hash r \<and> al_previous_hash (g r) = al_previous_hash r"
  shows "check_rows sha256 gc prev n st (map g rs) = check_rows sha256 gc prev n st rs"
proof -
  have "calculate_record_hash sha256 (g r) p = calculate_record_hash sha256 r p" for r p
    by (simp add: calculate_record_hash_def record_bytes_def assms)
  note c = this
  show ?thesis
  proof (induction rs arbitrary: prev n)
    case (Cons r rs)
    show ?case
      by (cases "al_integrity_hash r"; cases "al_previous_hash r"; cases prev)
        (simp_all add: assms c Cons.IH split: prod.split)
  qed simp
qed

text \<open>The actor and the policy of a record are outside the hash: whoever rewrites the user
  name, the approver, the policy name, the matched pattern, the execution status or the original
  request of every row leaves the verdict of every verification as it was.\<close>

theorem audit_unhashed_columns:
  "verify_audit_chain sha256 tenant (db\<lparr>logs := map (\<lambda>r. r\<lparr>al_username := user r, al_approver := approver r,
       al_policy_name := policy r, al_matched_pattern := pattern r, al_execution_status := status r,
       al_original_request := request r\<rparr>) (logs db)\<rparr>)
   = verify_audit_chain sha256 tenant db"
proof -
  let ?g = "\<lambda>r::audit_row. r\<lparr>al_username := user r, al_approver := approver r, al_policy_name := policy r,
       al_matched_pattern := pattern r, al_execution_status := status r, al_original_request := request r\<rparr>"
  have "select_logs (db\<lparr>logs := map ?g (logs db)\<rparr>) tenant = map ?g (select_logs db tenant)"
    by (cases tenant) (simp_all add: select_logs_def sort_key_map filter_map comp_def)
  moreover have "verify_rows sha256 gc (map ?g rows) = verify_rows sha256 gc rows" for gc rows
  proof -
    have a: "active (map ?g rows) = map ?g (active rows)" by (rule active_map) simp
    show ?thesis
    proof (cases "active rows")
      case (Cons r rs)
      have "check_rows sha256 gc None 0 st (map ?g (r # rs)) = check_rows sha256 gc None 0 st (r # rs)" for st
        by (rule check_rows_map) simp
      then show ?thesis by (simp add: verify_rows_active a Cons del: check_rows.simps)
    qed (simp add: verify_rows_active a)
  qed
  ultimately show ?thesis by (simp add: verify_audit_chain_def)
qed

section \<open>Verification over all tenants\<close>

lemma chained_tail_previous:
  "chained sha256 p (r # rs) \<Longrightarrow> q \<in> set rs \<Longrightarrow> \<exists>x. al_previous_hash q = Some (sha256 x)"
proof (induction rs arbitrary: p r)
  case (Cons s rs)
  then have s: "al_previous_hash s = Some (sha256 (record_bytes r p))"
    and c: "chained sha256 (calculate_record_hash sha256 r p) (s # rs)"
    by (auto simp: calculate_record_hash_def)
  show ?case
  proof (cases "q = s")
    case True then show ?thesis using s by blast
  next
    case False then show ?thesis using Cons.IH[OF c] Cons.prems(2) by simp
  qed
qed simp

text \<open>The chain is linked per tenant, but the check without a tenant expects one chain over
  the whole table: as soon as two tenants have a block, it reports the untampered log as
  invalid.\<close>

theorem audit_global_check_fails:
  assumes "(a, s, n) \<in> set calls" and "(b, s', n') \<in> set calls"
    and "al_tenant_id a \<noteq> al_tenant_id b" and "\<And>x. sha256 x \<noteq> GENESIS_HASH"
  shows "\<not> verdict_valid (verify_audit_chain sha256 None (create_all sha256 calls empty_audit_db))"
proof
  let ?db = "create_all sha256 calls empty_audit_db"
  assume "verdict_valid (verify_audit_chain sha256 None ?db)"
  then have all: "chained sha256 GENESIS_HASH (active (sort_key al_id (logs ?db)))"
    using check_rows_valid[of sha256 True None 0]
    by (cases "active (sort_key al_id (logs ?db))")
      (simp_all add: verify_audit_chain_def select_logs_def verify_rows_active
        del: check_rows.simps chained.simps, simp)
  have inv: "chain_inv sha256 ?db" by (rule chain_inv_create_all[OF chain_inv_empty])
  have first: "\<exists>r\<in>set (active (sort_key al_id (logs ?db))). al_tenant_id r = t \<and> al_previous_hash r = Some GENESIS_HASH"
    if "(c, s, n) \<in> set calls" "al_tenant_id c = t" for c s n t
  proof -
    have "active (tenant_rows ?db t) \<noteq> []"
    proof
      assume "active (tenant_rows ?db t) = []"
      then have "filter (\<lambda>(a, sid, now). al_tenant_id a = t) calls = []"
        using active_create_all[OF chain_inv_empty, of sha256 calls t] by simp
      then show False using that by (auto simp: filter_empty_conv)
    qed
    then obtain r rs where r: "active (tenant_rows ?db t) = r # rs" by (cases "active (tenant_rows ?db t)") auto
    then have "al_previous_hash r = Some GENESIS_HASH" and h: "al_integrity_hash r \<noteq> None"
      using inv by (auto simp: chain_inv_def dest: spec[of _ t])
    moreover have "r \<in> set (tenant_rows ?db t)"
      using r unfolding active_def by (metis list.set_intros(1) set_dropWhileD)
    then have "al_tenant_id r = t" "r \<in> set (sort_key al_id (logs ?db))" by (auto simp: tenant_rows_def)
    moreover have "q \<in> set (active rows)" if "q \<in> set rows" "al_integrity_hash q \<noteq> None" for q :: audit_row and rows
      using that by (induction rows) (auto simp: active_def)
    ultimately show ?thesis using h by blast
  qed
  obtain r where r: "r \<in> set (active (sort_key al_id (logs ?db)))" "al_tenant_id r = al_tenant_id a"
    "al_previous_hash r = Some GENESIS_HASH" using first[OF assms(1) refl] by blast
  obtain q where q: "q \<in> set (active (sort_key al_id (logs ?db)))" "al_tenant_id q = al_tenant_id b"
    "al_previous_hash q = Some GENESIS_HASH" using first[OF assms(2) refl] by blast
  obtain h rs where h: "active (sort_key al_id (logs ?db)) = h # rs"
    using r(1) by (cases "active (sort_key al_id (logs ?db))") auto
  have "r = h" "q = h"
    using chained_tail_previous[OF all[unfolded h]] r q h assms(4) by fastforce+
  then show False using r(2) q(2) assms(3) by simp
qed

theorem audit_global_check_fails_witness:
  "\<not> verdict_valid (verify_audit_chain tag_digest None (create_all tag_digest
     [(sample_block ''one'' ''bob'' (Some 7), ''s'', ''t0''), (sample_block ''two'' ''eve'' (Some 8), ''s'', ''t1'')]
     empty_audit_db))"
  using audit_global_check_fails[of "sample_block ''one'' ''bob'' (Some 7)" "''s''" "''t0''"
      "[(sample_block ''one'' ''bob'' (Some 7), ''s'', ''t0''), (sample_block ''two'' ''eve'' (Some 8), ''s'', ''t1'')]"
      "sample_block ''two'' ''eve'' (Some 8)" "''s''" "''t1''" tag_digest] tag_digest_free(2)
  by (simp add: sample_block_def)

section \<open>The race between two writers\<close>

text \<open>The two transactions of \<open>create_audit_block\<close> are not atomic.  If a second writer of the
  same tenant inserts and links its row between them, both rows link to the same predecessor
  and verification of the untampered log ends with a broken link.\<close>

theorem audit_concurrent_writers_break_chain:
  assumes "al_tenant_id a = Some t" and "al_tenant_id b = Some t" and "\<And>x. sha256 x \<noteq> GENESIS_HASH"
  shows "verify_audit_chain sha256 (Some t)
      (run_audit_steps sha256 [Insert_Step a now, Insert_Step b now', Link_Step 1, Link_Step 0])
    = ChainInvalid 1 2 ''broken link''"
proof -
  have g: "GENESIS_HASH \<noteq> sha256 x" for x using assms(3)[of x] by simp
  show ?thesis
    using assms(1,2)
    by (simp add: run_audit_steps_def run_audit_step_def empty_audit_db_def insert_block_def link_block_def
        latest_hash_before_def last_such_def verify_audit_chain_def select_logs_def verify_rows_def Let_def
        calculate_record_hash_def record_bytes_def g)
qed

theorem audit_concurrent_writers_break_chain_witness:
  "verify_audit_chain tag_digest (Some 7) (run_audit_steps tag_digest
     [Insert_Step (sample_block ''one'' ''bob'' (Some 7)) ''t0'', Insert_Step (sample_block ''two'' ''eve'' (Some 7)) ''t1'',
      Link_Step 1, Link_Step 0]) = ChainInvalid 1 2 ''broken link''"
  by (rule audit_concurrent_writers_break_chain) (simp_all add: sample_block_def tag_digest_free)

end
