(* ===== verification/Audit_Export.thy ===== *)
theory Audit_Export
  imports Audit_Chain
begin

text \<open>
  The rest of \<open>verify_audit.py\<close> and the audit endpoints of \<open>main.py\<close>: signed export
  packages, keyed export headers, the agent event context, the gateway request log and
  the three read-only audit routes.

  RSA-PSS is three parameters: the public key in PEM form, \<open>sign\<close> (of a message under the
  server's key) and \<open>rsa_verify pem signature message\<close>; \<open>pem_ok\<close> says that a text
  loads as a public key.
\<close>

section \<open>Signed export packages\<close>

definition str_tenant :: "int option \<Rightarrow> string" where
  "str_tenant t = (case t of None \<Rightarrow> [] | Some i \<Rightarrow> if i = 0 then [] else show_int i)"

definition export_signing_key_id :: "(string \<Rightarrow> string) \<Rightarrow> string \<Rightarrow> string" where
  "export_signing_key_id sha256 pem = ''authclaw-export-'' @ take 16 (sha256 pem)"

record export_package =
  pkg_manifest :: "(string \<times> jval) list"
  pkg_payload :: jval
  pkg_payload_b64 :: string

definition unsigned_manifest :: "(string \<Rightarrow> string) \<Rightarrow> string \<Rightarrow> audit_db \<Rightarrow> string \<Rightarrow> int option
    \<Rightarrow> string \<Rightarrow> string option \<Rightarrow> jval \<Rightarrow> jval \<Rightarrow> (string \<times> jval) list" where
  "unsigned_manifest sha256 pem db now tenant export_type framework_scope timeframe payload =
    [(''version'', JStr ''authclaw.signed-export.v1''),
     (''tenant'', JStr (str_tenant tenant)),
     (''timeframe'', jor timeframe (JObj [(''from'', JNull), (''to'', JStr now)])),
     (''hash_chain_root'', JStr (get_audit_hash_chain_root tenant db)),
     (''records_checked'', JInt (int (records_checked (verify_audit_chain sha256 tenant db)))),
     (''framework_scope'', JStr (str_or framework_scope ''all'')),
     (''export_type'', JStr export_type),
     (''payload_sha256'', JStr (''sha256-'' @ sha256 (canonical_json_bytes payload))),
     (''signing_key_id'', JStr (export_signing_key_id sha256 pem)),
     (''signing_algorithm'', JStr ''RSASSA-PSS-SHA256''),
     (''generated_at'', JStr now),
     (''public_key_pem'', JStr pem)]"

definition create_signed_export_package :: "(string \<Rightarrow> string) \<Rightarrow> string \<Rightarrow> (string \<Rightarrow> string) \<Rightarrow> audit_db
    \<Rightarrow> string \<Rightarrow> int option \<Rightarrow> string \<Rightarrow> string option \<Rightarrow> jval \<Rightarrow> jval \<Rightarrow> export_package" where
  "create_signed_export_package sha256 pem sign db now tenant export_type framework_scope timeframe payload =
    (let manifest = unsigned_manifest sha256 pem db now tenant export_type framework_scope timeframe payload;
         signature = sign (canonical_json_bytes (JObj manifest))
     in \<lparr>pkg_manifest = dict_set ''signature'' (JStr (b64url signature)) manifest,
         pkg_payload = payload,
         pkg_payload_b64 = b64url (canonical_json_bytes payload)\<rparr>)"

datatype export_verdict =
    ExportValid string
  | ExportInvalid string
  | ExportRaises string

text \<open>\<open>dict.pop(k, None)\<close> on a dictionary.\<close>

definition dict_pop :: "string \<Rightarrow> (string \<times> jval) list \<Rightarrow> (string \<times> jval) list" where
  "dict_pop k m = filter (\<lambda>(k', v). k' \<noteq> k) m"

text \<open>The \<open>try\<close> block after the payload bytes are known.  A \<open>ValueError\<close>, a
  \<open>TypeError\<close> and an invalid signature are caught; an \<open>AttributeError\<close> is not.\<close>

definition verify_export_bytes :: "(string \<Rightarrow> string) \<Rightarrow> (string \<Rightarrow> bool)
    \<Rightarrow> (string \<Rightarrow> string \<Rightarrow> string \<Rightarrow> bool) \<Rightarrow> string \<Rightarrow> (string \<times> jval) list \<Rightarrow> export_verdict" where
  "verify_export_bytes sha256 pem_ok rsa_verify payload_bytes manifest =
    (let actual = ''sha256-'' @ sha256 payload_bytes in
     if jget manifest ''payload_sha256'' \<noteq> JStr actual then ExportInvalid ''payload hash mismatch''
     else case jget manifest ''signature'' of
       JStr s \<Rightarrow>
         (case b64url_decode s of
            None \<Rightarrow> ExportInvalid ''signature verification failed: Error''
          | Some signature \<Rightarrow>
              (let unsigned = dict_pop ''signature'' manifest;
                   pem = jget unsigned ''public_key_pem''
               in if \<not> truthy pem then ExportInvalid ''missing public key''
                  else case pem of
                    JStr p \<Rightarrow>
                      (if \<not> pem_ok p then ExportInvalid ''signature verification failed: ValueError''
                       else if rsa_verify p signature (canonical_json_bytes (JObj unsigned))
                       then ExportValid actual
                       else ExportInvalid ''signature verification failed: InvalidSignature'')
                  | _ \<Rightarrow> ExportRaises ''AttributeError''))
     | _ \<Rightarrow> ExportInvalid ''signature verification failed: TypeError'')"

definition verify_signed_export_package :: "(string \<Rightarrow> string) \<Rightarrow> (string \<Rightarrow> bool)
    \<Rightarrow> (string \<Rightarrow> string \<Rightarrow> string \<Rightarrow> bool) \<Rightarrow> jval option \<Rightarrow> string option
    \<Rightarrow> (string \<times> jval) list option \<Rightarrow> export_verdict" where
  "verify_signed_export_package sha256 pem_ok rsa_verify payload payload_b64 manifest =
    (case manifest of
       None \<Rightarrow> ExportInvalid ''missing signature manifest''
     | Some m \<Rightarrow>
         if ''signature'' \<notin> set (map fst m) then ExportInvalid ''missing signature manifest''
         else if payload = None \<and> \<not> truthy_str payload_b64 then ExportInvalid ''missing payload''
         else if truthy_str payload_b64 then
           (case b64url_decode (or_empty payload_b64) of
              None \<Rightarrow> ExportInvalid ''signature verification failed: Error''
            | Some bytes \<Rightarrow> verify_export_bytes sha256 pem_ok rsa_verify bytes m)
         else (case payload of
              None \<Rightarrow> ExportInvalid ''missing payload''
            | Some p \<Rightarrow> verify_export_bytes sha256 pem_ok rsa_verify (canonical_json_bytes p) m))"

section \<open>Keyed export headers\<close>

text \<open>\<open>env\<close> reads an environment variable; \<open>hmac key message\<close> is HMAC-SHA256 in hex.\<close>

definition export_secret :: "(string \<Rightarrow> string option) \<Rightarrow> int option \<Rightarrow> string" where
  "export_secret env tenant =
     str_or (case tenant of None \<Rightarrow> None
               | Some t \<Rightarrow> env (''AUTHCLAW_TENANT_'' @ show_int t @ ''_EXPORT_SIGNING_KEY''))
       (str_or (env ''AUTHCLAW_EXPORT_SIGNING_KEY'')
         (str_or (env ''AUTHCLAW_ENCRYPTION_KEY'')
           (str_or (env ''JWT_SECRET'') ''authclaw-local-export-signing-key'')))"

definition sign_export_payload :: "(string \<Rightarrow> string) \<Rightarrow> (string \<Rightarrow> string \<Rightarrow> string)
    \<Rightarrow> (string \<Rightarrow> string option) \<Rightarrow> string option \<Rightarrow> int option \<Rightarrow> string \<Rightarrow> (string \<times> string) list" where
  "sign_export_payload sha256 hmac env payload tenant export_type =
     (let body_hash = sha256 (or_empty payload);
          message = (case tenant of None \<Rightarrow> ''None'' | Some t \<Rightarrow> show_int t) @ '':'' @ export_type
                      @ '':'' @ body_hash
      in [(''X-AuthClaw-Export-Hash'', ''sha256='' @ body_hash),
          (''X-AuthClaw-Export-Signature'', ''sha256='' @ hmac (export_secret env tenant) message),
          (''X-AuthClaw-Export-Tenant'', str_tenant tenant)])"

section \<open>Agent events\<close>

text \<open>The two context variables, and the table \<open>agent_events\<close>.\<close>

record agent_ctx =
  ctx_request_id :: "string option"
  ctx_sequence :: int

record agent_event =
  ae_tenant_id :: "int option"
  ae_session_id :: string
  ae_request_id :: "string option"
  ae_sequence :: "int option"
  ae_agent_name :: string
  ae_event_type :: string
  ae_details :: string

definition initial_agent_ctx :: agent_ctx where
  "initial_agent_ctx = \<lparr>ctx_request_id = None, ctx_sequence = 0\<rparr>"

text \<open>The token is the pair of values the two variables had before.\<close>

definition set_agent_event_context :: "string option \<Rightarrow> agent_ctx \<Rightarrow> (string option \<times> int) \<times> agent_ctx" where
  "set_agent_event_context request_id c =
     ((ctx_request_id c, ctx_sequence c), \<lparr>ctx_request_id = request_id, ctx_sequence = 0\<rparr>)"

definition clear_agent_event_context :: "(string option \<times> int) option \<Rightarrow> agent_ctx \<Rightarrow> agent_ctx" where
  "clear_agent_event_context token c =
     (case token of None \<Rightarrow> c | Some (r, q) \<Rightarrow> \<lparr>ctx_request_id = r, ctx_sequence = q\<rparr>)"

text \<open>\<open>db_up\<close> says whether the insert succeeds; a failure is logged and swallowed, after the
  sequence number has been consumed.\<close>

definition log_agent_event :: "bool \<Rightarrow> int option \<Rightarrow> string \<Rightarrow> string \<Rightarrow> string \<Rightarrow> string
    \<Rightarrow> string option \<Rightarrow> int option \<Rightarrow> agent_ctx \<times> agent_event list \<Rightarrow> agent_ctx \<times> agent_event list" where
  "log_agent_event db_up tenant session_id agent event_type details request_id seq st =
     (case st of (c, events) \<Rightarrow>
       let rid = (if truthy_str request_id then request_id else ctx_request_id c);
           fresh = (seq = None \<and> truthy_str rid);
           eff = (if fresh then Some (ctx_sequence c + 1) else seq);
           c' = (if fresh then c\<lparr>ctx_sequence := ctx_sequence c + 1\<rparr> else c);
           row = \<lparr>ae_tenant_id = tenant, ae_session_id = session_id, ae_request_id = rid,
                  ae_sequence = eff, ae_agent_name = agent, ae_event_type = event_type,
                  ae_details = details\<rparr>
       in (c', if db_up then events @ [row] else events))"

section \<open>Gateway request log\<close>

record gateway_request =
  gr_timestamp :: string
  gr_created_at :: string
  gr_risk_level :: string
  gr_allowed :: bool
  gr_status :: string
  gr_request_id :: string
  gr_tenant_id :: string
  gr_route_id :: string
  gr_provider :: string
  gr_model :: string
  gr_latency :: int
  gr_tokens_in :: int
  gr_tokens_out :: int
  gr_decision :: "string option"
  gr_duration_ms :: int

record gateway_log =
  gw_rows :: "gateway_request list"
  gw_mirrored :: "jval list"

definition int_or :: "int \<Rightarrow> int \<Rightarrow> int" where
  "int_or a b = (if a = 0 then b else a)"

text \<open>\<open>fresh\<close> is the random part of a generated request id; the three clock readings are
  one.  A database failure leaves the log as it was.\<close>

definition record_gateway_request :: "bool \<Rightarrow> string \<Rightarrow> string \<Rightarrow> string \<Rightarrow> bool \<Rightarrow> string \<Rightarrow> string option
    \<Rightarrow> string \<Rightarrow> string option \<Rightarrow> string \<Rightarrow> string \<Rightarrow> int \<Rightarrow> int \<Rightarrow> int \<Rightarrow> string option \<Rightarrow> int option
    \<Rightarrow> gateway_log \<Rightarrow> gateway_log" where
  "record_gateway_request db_up now fresh risk_level allowed status request_id tenant_id route_id
      provider model latency tokens_in tokens_out decision duration_ms g =
     (if \<not> db_up then g
      else
        let rid = str_or request_id (''req-'' @ fresh);
            route = str_or route_id ''1'';
            dur = (case duration_ms of None \<Rightarrow> latency | Some d \<Rightarrow> d);
            row = \<lparr>gr_timestamp = now, gr_created_at = now, gr_risk_level = risk_level,
                   gr_allowed = allowed, gr_status = status, gr_request_id = rid,
                   gr_tenant_id = tenant_id, gr_route_id = route, gr_provider = provider,
                   gr_model = model, gr_latency = latency,
                   gr_tokens_in = int_or tokens_in (int (length risk_level) * 15),
                   gr_tokens_out = int_or tokens_out (int (length status) * 25),
                   gr_decision = decision, gr_duration_ms = dur\<rparr>
        in \<lparr>gw_rows = gw_rows g @ [row],
            gw_mirrored = gw_mirrored g @ [JObj
              [(''event_type'', JStr ''gateway_request''), (''request_id'', JStr rid),
               (''tenant_id'', JStr tenant_id), (''route_id'', JStr route),
               (''provider'', JStr provider), (''model'', JStr model),
               (''risk_level'', JStr risk_level), (''allowed'', JBool allowed),
               (''status'', JStr status), (''decision'', jopt decision),
               (''duration_ms'', JInt dur), (''tokens_in'', JInt tokens_in),
               (''tokens_out'', JInt tokens_out), (''created_at'', JStr now)]]\<rparr>)"

section \<open>The audit routes\<close>

record verify_summary =
  vs_valid :: bool
  vs_records_checked :: nat
  vs_last_verified_record :: "int option"
  vs_chain_started_at :: "string option"
  vs_latest_hash :: "string option"

definition verify_audit_route :: "(string \<Rightarrow> string) \<Rightarrow> string \<Rightarrow> int \<Rightarrow> audit_db \<Rightarrow> audit_verdict \<times> audit_db" where
  "verify_audit_route sha256 correlation_id tenant db =
     (let res = verify_audit_chain sha256 (Some tenant) db;
          started = AuditEvent ''audit_verification_started'' [(''correlation_id'', JStr correlation_id)];
          done = AuditEvent (if verdict_valid res then ''audit_verification_passed'' else ''audit_verification_failed'')
                   [(''correlation_id'', JStr correlation_id), (''records_checked'', JInt (int (records_checked res)))]
      in (res, db\<lparr>audit_events := audit_events db @ [started, done]\<rparr>))"

definition verify_audit_summary :: "(string \<Rightarrow> string) \<Rightarrow> int \<Rightarrow> audit_db \<Rightarrow> verify_summary" where
  "verify_audit_summary sha256 tenant db =
     (case verify_audit_chain sha256 (Some tenant) db of
        ChainInvalid n i reason \<Rightarrow>
          \<lparr>vs_valid = False, vs_records_checked = n, vs_last_verified_record = Some i,
           vs_chain_started_at = None, vs_latest_hash = None\<rparr>
      | ChainValid n started \<Rightarrow>
          (let row = last_such (\<lambda>r. al_integrity_hash r \<noteq> None \<and> al_tenant_id r = Some tenant)
                       (sort_key al_id (logs db))
           in \<lparr>vs_valid = True, vs_records_checked = n,
               vs_last_verified_record = Some (case row of None \<Rightarrow> 0 | Some r \<Rightarrow> al_id r),
               vs_chain_started_at = started,
               vs_latest_hash = (case row of None \<Rightarrow> None | Some r \<Rightarrow> al_integrity_hash r)\<rparr>))"

record chain_entry =
  ce_record_id :: int
  ce_previous_hash :: "string option"
  ce_integrity_hash :: "string option"
  ce_timestamp :: string
  ce_approval_id :: "string option"
  ce_user_query :: "string option"
  ce_approver :: "string option"
  ce_approval_status :: "string option"
  ce_original_request :: "string option"
  ce_approval_timestamp :: "string option"
  ce_execution_timestamp :: "string option"
  ce_execution_status :: "string option"
  ce_tenant_id :: "int option"
  ce_username :: "string option"
  ce_risk_level :: "string option"
  ce_allowed :: bool
  ce_response :: "string option"
  ce_security_decision :: string
  ce_policy_decision :: "string option"
  ce_hash_reference :: "string option"

text \<open>\<open>a or b\<close> on nullable strings.\<close>

definition opt_or :: "string option \<Rightarrow> string option \<Rightarrow> string option" where
  "opt_or a b = (if truthy_str a then a else b)"

definition chain_entry_of :: "audit_row \<Rightarrow> chain_entry" where
  "chain_entry_of r =
     \<lparr>ce_record_id = al_id r, ce_previous_hash = al_previous_hash r, ce_integrity_hash = al_integrity_hash r,
      ce_timestamp = al_created_at r, ce_approval_id = al_approval_id r, ce_user_query = al_query r,
      ce_approver = al_approver r, ce_approval_status = al_approval_status r,
      ce_original_request = opt_or (al_original_request r) (al_query r),
      ce_approval_timestamp = al_approval_timestamp r, ce_execution_timestamp = al_execution_timestamp r,
      ce_execution_status = opt_or (al_execution_status r) (al_approval_status r),
      ce_tenant_id = al_tenant_id r, ce_username = al_username r, ce_risk_level = al_risk_level r,
      ce_allowed = al_allowed r, ce_response = al_response r,
      ce_security_decision = (if al_allowed r then ''ALLOW'' else ''BLOCK''),
      ce_policy_decision = opt_or (al_policy_name r) (opt_or (al_policy_type r) (al_approval_status r)),
      ce_hash_reference = al_integrity_hash r\<rparr>"

definition get_audit_hash_chain :: "nat \<Rightarrow> int \<Rightarrow> audit_db \<Rightarrow> chain_entry list" where
  "get_audit_hash_chain limit tenant db =
     map chain_entry_of (take limit (rev
       (filter (\<lambda>r. al_integrity_hash r \<noteq> None \<and> al_tenant_id r = Some tenant) (sort_key al_id (logs db)))))"

section \<open>Properties of export packages\<close>

lemma canonical_nonempty [simp]: "canonical_json_bytes v \<noteq> []"
  using dumps_start[of "'',''" "'':''" "sort_keys v"] by (auto simp: canonical_json_bytes_def)

lemma b64url_nonempty: "s \<noteq> [] \<Longrightarrow> truthy_str (Some (b64url s))"
  by (cases s rule: b64_core.cases) (auto simp: b64url_core Let_def)

lemma dict_pop_set: "k \<notin> set (map fst m) \<Longrightarrow> dict_pop k (dict_set k v m) = m"
  by (induction m) (auto simp: dict_pop_def filter_id_conv)

lemma jget_set [simp]: "jget (dict_set k v m) k' = (if k' = k then v else jget m k')"
  by (simp add: jget_def)

lemma signature_not_in_manifest:
  "''signature'' \<notin> set (map fst (unsigned_manifest sha256 pem db now t e f tf p))"
  by (simp add: unsigned_manifest_def)

lemma manifest_payload_hash:
  "jget (unsigned_manifest sha256 pem db now t e f tf p) ''payload_sha256''
     = JStr (''sha256-'' @ sha256 (canonical_json_bytes p))"
  "jget (unsigned_manifest sha256 pem db now t e f tf p) ''public_key_pem'' = JStr pem"
  by (simp_all add: unsigned_manifest_def jget_def)

text \<open>The verdict on bytes under a manifest whose signature some key pair made.\<close>

lemma verify_signed_bytes:
  assumes "''signature'' \<notin> set (map fst m)" and "jget m ''public_key_pem'' = JStr pem"
    and "pem \<noteq> []" "pem_ok pem" "rsa_verify pem sig (canonical_json_bytes (JObj m))"
  shows "verify_export_bytes sha256 pem_ok rsa_verify bytes (dict_set ''signature'' (JStr (b64url sig)) m)
    = (if jget m ''payload_sha256'' = JStr (''sha256-'' @ sha256 bytes)
       then ExportValid (''sha256-'' @ sha256 bytes) else ExportInvalid ''payload hash mismatch'')"
  using assms by (simp add: verify_export_bytes_def Let_def b64url_decode_core dict_pop_set)

lemma verify_package:
  assumes "''signature'' \<in> set (map fst m)"
  shows "verify_signed_export_package sha256 pem_ok rsa_verify (Some p) None (Some m)
      = verify_export_bytes sha256 pem_ok rsa_verify (canonical_json_bytes p) m"
    and "verify_signed_export_package sha256 pem_ok rsa_verify None (Some (b64url (canonical_json_bytes p))) (Some m)
      = verify_export_bytes sha256 pem_ok rsa_verify (canonical_json_bytes p) m"
  using assms b64url_nonempty[OF canonical_nonempty, of p]
  by (simp_all add: verify_signed_export_package_def b64url_decode_core)

lemma signature_set: "''signature'' \<in> set (map fst (dict_set ''signature'' v m))"
  using keys_dict_set[of "''signature''" v m] by simp

lemma verify_created:
  assumes "\<And>m. rsa_verify pem (sign m) m" and "pem_ok pem" and "pem \<noteq> []"
  shows "verify_export_bytes sha256 pem_ok rsa_verify bytes
       (pkg_manifest (create_signed_export_package sha256 pem sign db now t e f tf payload))
    = (if sha256 (canonical_json_bytes payload) = sha256 bytes
       then ExportValid (''sha256-'' @ sha256 bytes) else ExportInvalid ''payload hash mismatch'')"
proof -
  let ?m = "unsigned_manifest sha256 pem db now t e f tf payload"
  have "verify_export_bytes sha256 pem_ok rsa_verify bytes
      (dict_set ''signature'' (JStr (b64url (sign (canonical_json_bytes (JObj ?m))))) ?m)
    = (if jget ?m ''payload_sha256'' = JStr (''sha256-'' @ sha256 bytes)
       then ExportValid (''sha256-'' @ sha256 bytes) else ExportInvalid ''payload hash mismatch'')"
    by (rule verify_signed_bytes[where pem = pem, OF signature_not_in_manifest manifest_payload_hash(2) assms(3)])
      (rule assms(2), rule assms(1))
  then show ?thesis by (simp add: create_signed_export_package_def Let_def manifest_payload_hash(1))
qed

lemma created_signature:
  "''signature'' \<in> set (map fst (pkg_manifest (create_signed_export_package sha256 pem sign db now t e f tf payload)))"
  using signature_set by (simp add: create_signed_export_package_def Let_def)

lemma created_payload_b64:
  "pkg_payload_b64 (create_signed_export_package sha256 pem sign db now t e f tf payload)
     = b64url (canonical_json_bytes payload)"
  by (simp add: create_signed_export_package_def Let_def)

text \<open>C35: A package the server signed verifies, whether the payload or its base64 form is sent
  back, provided signing and verifying with the server's key agree.\<close>

theorem export_roundtrip:
  assumes "\<And>m. rsa_verify pem (sign m) m" and "pem_ok pem" and "pem \<noteq> []"
  shows "verify_signed_export_package sha256 pem_ok rsa_verify (Some payload) None
       (Some (pkg_manifest (create_signed_export_package sha256 pem sign db now t e f tf payload)))
       = ExportValid (''sha256-'' @ sha256 (canonical_json_bytes payload))
    \<and> verify_signed_export_package sha256 pem_ok rsa_verify None
       (Some (pkg_payload_b64 (create_signed_export_package sha256 pem sign db now t e f tf payload)))
       (Some (pkg_manifest (create_signed_export_package sha256 pem sign db now t e f tf payload)))
       = ExportValid (''sha256-'' @ sha256 (canonical_json_bytes payload))"
  unfolding created_payload_b64 verify_package[OF created_signature]
  using verify_created[where rsa_verify = rsa_verify and sign = sign and pem = pem and pem_ok = pem_ok, OF assms]
  by simp

text \<open>No other payload passes under a manifest of the server: if it does, it is the same
  JSON value up to the order of keys, or a SHA-256 collision is exhibited.\<close>

theorem export_payload_bound:
  assumes "\<And>m. rsa_verify pem (sign m) m" and "pem_ok pem" and "pem \<noteq> []"
    and "verify_signed_export_package sha256 pem_ok rsa_verify (Some payload') None
       (Some (pkg_manifest (create_signed_export_package sha256 pem sign db now t e f tf payload))) = ExportValid h"
  shows "sort_keys payload' = sort_keys payload \<or> collision sha256"
proof -
  have "sha256 (canonical_json_bytes payload) = sha256 (canonical_json_bytes payload')"
    using assms(4) unfolding verify_package(1)[OF created_signature]
      verify_created[where rsa_verify = rsa_verify and sign = sign and pem = pem and pem_ok = pem_ok, OF assms(1-3)]
    by (simp split: if_splits)
  then show ?thesis using canonical_json_bytes_inj unfolding collision_def by metis
qed

text \<open>Verification trusts the key the manifest brings along: with any key pair of one's own,
  any manifest fields (the tenant, the chain root and the server's own key id among them) and any
  payload, one obtains a package that verifies.\<close>

theorem export_trusts_embedded_key:
  assumes "\<And>m. rsa_verify own_pem (own_sign m) m" and "pem_ok own_pem" and "own_pem \<noteq> []"
    and "''signature'' \<notin> set (map fst claims)" and "jget claims ''public_key_pem'' = JStr own_pem"
    and "jget claims ''payload_sha256'' = JStr (''sha256-'' @ sha256 (canonical_json_bytes payload))"
  shows "verify_signed_export_package sha256 pem_ok rsa_verify (Some payload) None
      (Some (dict_set ''signature'' (JStr (b64url (own_sign (canonical_json_bytes (JObj claims))))) claims))
    = ExportValid (''sha256-'' @ sha256 (canonical_json_bytes payload))"
proof -
  have "verify_export_bytes sha256 pem_ok rsa_verify (canonical_json_bytes payload)
      (dict_set ''signature'' (JStr (b64url (own_sign (canonical_json_bytes (JObj claims))))) claims)
    = (if jget claims ''payload_sha256'' = JStr (''sha256-'' @ sha256 (canonical_json_bytes payload))
       then ExportValid (''sha256-'' @ sha256 (canonical_json_bytes payload))
       else ExportInvalid ''payload hash mismatch'')"
    by (rule verify_signed_bytes[where pem = own_pem, OF assms(4,5,3)]) (rule assms(2), rule assms(1))
  then show ?thesis using assms(6) by (simp add: verify_package(1)[OF signature_set])
qed

text \<open>A toy key scheme for the closed examples: the signature is the key's name and the message.\<close>

definition toy_verify :: "string \<Rightarrow> string \<Rightarrow> string \<Rightarrow> bool" where
  "toy_verify pem sig m = (sig = pem @ m)"

theorem export_roundtrip_witness:
  "verify_signed_export_package tag_digest (\<lambda>p. p \<noteq> []) toy_verify (Some (JObj [(''n'', JInt 3)])) None
     (Some (pkg_manifest (create_signed_export_package tag_digest ''K'' (\<lambda>m. ''K'' @ m) sample_log ''now''
        (Some 7) ''audit'' None JNull (JObj [(''n'', JInt 3)]))))
   = ExportValid (''sha256-'' @ tag_digest (canonical_json_bytes (JObj [(''n'', JInt 3)])))"
  using export_roundtrip[of toy_verify "''K''" "\<lambda>m. ''K'' @ m" "\<lambda>p. p \<noteq> []" tag_digest "JObj [(''n'', JInt 3)]"
      sample_log "''now''" "Some 7" "''audit''" None JNull]
  by (simp add: toy_verify_def)

theorem export_payload_bound_witness:
  "sort_keys (JObj [(''a'', JInt 1), (''n'', JInt 3)]) = sort_keys (JObj [(''n'', JInt 3), (''a'', JInt 1)])
    \<or> collision tag_digest"
proof -
  have v: "verify_signed_export_package tag_digest (\<lambda>p. p \<noteq> []) toy_verify
      (Some (JObj [(''a'', JInt 1), (''n'', JInt 3)])) None
      (Some (pkg_manifest (create_signed_export_package tag_digest ''K'' (\<lambda>m. ''K'' @ m) sample_log ''now''
        (Some 7) ''audit'' None JNull (JObj [(''n'', JInt 3), (''a'', JInt 1)]))))
    = ExportValid (''sha256-'' @ tag_digest (canonical_json_bytes (JObj [(''a'', JInt 1), (''n'', JInt 3)])))"
    (is "?lhs = ?rhs")
  proof -
    have "canonical_json_bytes (JObj [(''n'', JInt 3), (''a'', JInt 1)])
        = canonical_json_bytes (JObj [(''a'', JInt 1), (''n'', JInt 3)])" by code_simp
    then show ?thesis unfolding verify_package(1)[OF created_signature]
      by (subst verify_created) (simp_all add: toy_verify_def)
  qed
  show ?thesis by (rule export_payload_bound[OF _ _ _ v]) (simp_all add: toy_verify_def)
qed

theorem export_trusts_embedded_key_witness:
  "verify_signed_export_package tag_digest (\<lambda>p. p \<noteq> []) toy_verify (Some (JObj [])) None
     (Some (dict_set ''signature'' (JStr (b64url (''E'' @ canonical_json_bytes (JObj
        [(''tenant'', JStr ''7''), (''public_key_pem'', JStr ''E''),
         (''payload_sha256'', JStr (''sha256-'' @ tag_digest (canonical_json_bytes (JObj []))))]))))
        [(''tenant'', JStr ''7''), (''public_key_pem'', JStr ''E''),
         (''payload_sha256'', JStr (''sha256-'' @ tag_digest (canonical_json_bytes (JObj []))))]))
   = ExportValid (''sha256-'' @ tag_digest (canonical_json_bytes (JObj [])))"
  by (rule export_trusts_embedded_key[where own_sign = "\<lambda>m. ''E'' @ m" and own_pem = "''E''"])
    (simp_all add: toy_verify_def jget_def)

section \<open>Properties of agent events and of the summary\<close>

text \<open>The events of one request: each is an insert that succeeds or fails.\<close>

definition log_request_events :: "int option \<Rightarrow> string \<Rightarrow> (bool \<times> string \<times> string \<times> string) list
    \<Rightarrow> agent_ctx \<times> agent_event list \<Rightarrow> agent_ctx \<times> agent_event list" where
  "log_request_events tenant session_id es st =
     fold (\<lambda>(up, agent, ty, details). log_agent_event up tenant session_id agent ty details None None) es st"

lemma log_request_events_ctx:
  assumes "truthy_str (ctx_request_id c)"
  shows "log_request_events tenant sid es (c, evs)
    = (c\<lparr>ctx_sequence := ctx_sequence c + int (length es)\<rparr>,
       evs @ map (\<lambda>(i, up, agent, ty, details).
           \<lparr>ae_tenant_id = tenant, ae_session_id = sid, ae_request_id = ctx_request_id c,
            ae_sequence = Some (ctx_sequence c + 1 + int i), ae_agent_name = agent, ae_event_type = ty,
            ae_details = details\<rparr>)
         (filter (\<lambda>(i, up, _). up) (enumerate 0 es)))"
  using assms
proof (induction es arbitrary: c evs)
  case Nil then show ?case by (simp add: log_request_events_def)
next
  case (Cons e es)
  obtain up agent ty details where e: "e = (up, agent, ty, details)" by (cases e)
  let ?c = "c\<lparr>ctx_sequence := ctx_sequence c + 1\<rparr>"
  have f: "filter (\<lambda>x. fst (snd x)) (enumerate (Suc 0) es)
      = map (\<lambda>x. (Suc (fst x), snd x)) (filter (\<lambda>x. fst (snd x)) (enumerate 0 es))"
    by (simp add: enumerate_Suc_eq filter_map comp_def split_def apfst_def map_prod_def)
  show ?case
    using Cons.IH[of ?c] Cons.prems
    by (simp add: log_request_events_def e log_agent_event_def Let_def f comp_def case_prod_beta add.assoc)
qed

text \<open>Inside a request context the events that reach the table carry the request's id and
  the numbers 1, 2, ... of the order they were logged in; each lost insert leaves a gap, and
  clearing the context restores the one around it.\<close>

theorem agent_event_sequence:
  assumes "set_agent_event_context (Some (x # rid)) c = (token, c')"
  shows "log_request_events tenant sid es (c', evs)
    = (\<lparr>ctx_request_id = Some (x # rid), ctx_sequence = int (length es)\<rparr>,
       evs @ map (\<lambda>(i, up, agent, ty, details).
           \<lparr>ae_tenant_id = tenant, ae_session_id = sid, ae_request_id = Some (x # rid),
            ae_sequence = Some (1 + int i), ae_agent_name = agent, ae_event_type = ty,
            ae_details = details\<rparr>)
         (filter (\<lambda>(i, up, _). up) (enumerate 0 es)))
    \<and> clear_agent_event_context (Some token) (fst (log_request_events tenant sid es (c', evs))) = c"
  using assms log_request_events_ctx[of c' tenant sid es evs]
  by (auto simp: set_agent_event_context_def clear_agent_event_context_def)

theorem agent_event_sequence_witness:
  "map ae_sequence (snd (log_request_events (Some 7) ''s''
      [(True, ''a'', ''start'', ''''), (False, ''a'', ''lost'', ''''), (True, ''a'', ''end'', '''')]
      (snd (set_agent_event_context (Some ''r'') initial_agent_ctx), []))) = [Some 1, Some 3]"
  using agent_event_sequence[of "CHR ''r''" "[]" initial_agent_ctx
      "fst (set_agent_event_context (Some ''r'') initial_agent_ctx)"
      "snd (set_agent_event_context (Some ''r'') initial_agent_ctx)"] by simp

text \<open>The summary route agrees with the chain: when verification succeeds and the tenant has
  chained records, it reports the root of the chain and the id of the record that carries it;
  when verification fails, the failing record and no hash.\<close>

theorem summary_reports_root:
  assumes "\<And>x. sha256 x \<noteq> []"
  shows "verify_audit_summary sha256 t db =
    (case verify_audit_chain sha256 (Some t) db of
       ChainInvalid n i reason \<Rightarrow>
         \<lparr>vs_valid = False, vs_records_checked = n, vs_last_verified_record = Some i,
          vs_chain_started_at = None, vs_latest_hash = None\<rparr>
     | ChainValid n started \<Rightarrow>
         \<lparr>vs_valid = True, vs_records_checked = length (active (tenant_rows db (Some t))),
          vs_last_verified_record = Some (if active (tenant_rows db (Some t)) = [] then 0
             else al_id (last (active (tenant_rows db (Some t))))),
          vs_chain_started_at = started,
          vs_latest_hash = (if active (tenant_rows db (Some t)) = [] then None
             else Some (get_audit_hash_chain_root (Some t) db))\<rparr>)"
proof (cases "verify_audit_chain sha256 (Some t) db")
  case (ChainValid n started)
  let ?act = "active (tenant_rows db (Some t))"
  have ch: "chained sha256 GENESIS_HASH ?act"
    using verify_tenant_iff[of sha256 t db] ChainValid by (simp add: verdict_valid_def)
  have n: "n = length ?act" using verify_tenant_chained[OF ch] ChainValid by simp
  have row: "last_such (\<lambda>r. al_integrity_hash r \<noteq> None \<and> al_tenant_id r = Some t) (sort_key al_id (logs db))
      = (if ?act = [] then None else Some (last ?act))"
  proof -
    have "last_such (\<lambda>r. al_integrity_hash r \<noteq> None \<and> al_tenant_id r = Some t) (sort_key al_id (logs db))
        = last_such (\<lambda>r. al_integrity_hash r \<noteq> None) ?act"
      using last_such_dropWhile[of "\<lambda>r. al_integrity_hash r \<noteq> None" "tenant_rows db (Some t)"]
      by (simp add: last_such_conj tenant_rows_def active_def)
    moreover have "?act \<noteq> [] \<Longrightarrow> al_integrity_hash (last ?act) \<noteq> None"
      using chained_non_null[OF ch] by simp
    ultimately show ?thesis by (cases "?act = []") (simp_all add: last_such_all)
  qed
  have root: "?act \<noteq> [] \<Longrightarrow> al_integrity_hash (last ?act) = Some (get_audit_hash_chain_root (Some t) db)"
    using root_chain_end[OF ch assms] chain_end_digest[OF ch] chained_non_null[OF ch, of "last ?act"]
    by (auto simp: chain_end_def calculate_record_hash_def)
  show ?thesis unfolding verify_audit_summary_def ChainValid row using n root by simp
qed (simp add: verify_audit_summary_def)

theorem summary_reports_root_witness:
  "vs_latest_hash (verify_audit_summary const_digest 7 sample_log)
     = Some (get_audit_hash_chain_root (Some 7) sample_log)"
proof -
  have v: "verify_audit_chain const_digest (Some 7) sample_log = ChainValid 2 (Some ''t0'')"
    and ne: "active (tenant_rows sample_log (Some 7)) \<noteq> []" by code_simp+
  show ?thesis using summary_reports_root[of const_digest 7 sample_log] ne by (simp add: v const_digest_def)
qed

end
