(* ===== verification/Py_Regex.thy ===== *)
theory Py_Regex
  imports Prelude
begin

text \<open>
  The part of Python's \<open>re\<close> module that the detectors use: character classes,
  sequence, ordered choice, greedy repetition, numbered groups, \<open>\b\<close>, and
  the negative one-character look-around.

  \<open>ms r s st\<close> lists the ways in which \<open>r\<close> can match in \<open>s\<close> from the state
  \<open>st\<close> (a position and the groups captured so far), in the order in which the
  backtracking matcher of \<open>re\<close> tries them, so that the first element is the
  match \<open>re\<close> reports.  A repetition without an upper bound is bounded by the
  length of the subject, which loses nothing for bodies that consume a
  character; all patterns of the program are of that kind.  \<open>finditer\<close> and
  \<open>sub_with\<close> scan for non-overlapping matches from the left.
\<close>

section \<open>Expressions\<close>

datatype re =
    Cls "char \<Rightarrow> bool"
  | Eps
  | Cat re re
  | Alt re re
  | Rep nat "nat option" re
  | Grp nat re
  | WordB
  | NotBehind "char \<Rightarrow> bool"
  | NotAhead "char \<Rightarrow> bool"

type_synonym caps = "(nat \<times> (nat \<times> nat)) list"
type_synonym mstate = "nat \<times> caps"

definition code_in :: "nat \<Rightarrow> nat \<Rightarrow> char \<Rightarrow> bool" where
  "code_in a b c = (a \<le> (of_char c :: nat) \<and> (of_char c :: nat) \<le> b)"

definition is_upper :: "char \<Rightarrow> bool" where "is_upper = code_in 65 90"
definition is_lower :: "char \<Rightarrow> bool" where "is_lower = code_in 97 122"
definition is_alnum :: "char \<Rightarrow> bool" where "is_alnum c = (is_upper c \<or> is_lower c \<or> is_digit c)"

text \<open>\<open>\w\<close>: an alphanumeric character of Unicode, or the underscore.\<close>

definition is_word :: "char \<Rightarrow> bool" where
  "is_word c = (let n = of_char c :: nat in is_alnum c \<or> n = 95 \<or> n = 170 \<or> n = 178 \<or> n = 179 \<or>
     n = 181 \<or> n = 185 \<or> n = 186 \<or> (188 \<le> n \<and> n \<le> 190) \<or>
     (192 \<le> n \<and> n \<le> 255 \<and> n \<noteq> 215 \<and> n \<noteq> 247))"

definition one_of :: "string \<Rightarrow> char \<Rightarrow> bool" where "one_of cs c = (c \<in> set cs)"
definition either_class :: "(char \<Rightarrow> bool) \<Rightarrow> (char \<Rightarrow> bool) \<Rightarrow> char \<Rightarrow> bool" where
  "either_class p q c = (p c \<or> q c)"

definition word_at :: "string \<Rightarrow> nat \<Rightarrow> bool" where
  "word_at s i = (i < length s \<and> is_word (s ! i))"

definition at_boundary :: "string \<Rightarrow> nat \<Rightarrow> bool" where
  "at_boundary s i = ((0 < i \<and> word_at s (i - 1)) \<noteq> word_at s i)"

fun seq :: "re list \<Rightarrow> re" where
  "seq [] = Eps"
| "seq [r] = r"
| "seq (r # r' # rs) = Cat r (seq (r' # rs))"

fun alts :: "re list \<Rightarrow> re" where
  "alts [] = Cls (\<lambda>_. False)"
| "alts [r] = r"
| "alts (r # r' # rs) = Alt r (alts (r' # rs))"

definition chr :: "char \<Rightarrow> re" where "chr c = Cls (\<lambda>d. d = c)"
definition lit :: "string \<Rightarrow> re" where "lit s = seq (map chr s)"
definition opt :: "re \<Rightarrow> re" where "opt r = Rep 0 (Some 1) r"
definition times :: "nat \<Rightarrow> re \<Rightarrow> re" where "times n r = Rep n (Some n) r"
definition between :: "nat \<Rightarrow> nat \<Rightarrow> re \<Rightarrow> re" where "between m n r = Rep m (Some n) r"
definition at_least :: "nat \<Rightarrow> re \<Rightarrow> re" where "at_least n r = Rep n None r"
definition many :: "re \<Rightarrow> re" where "many r = Rep 0 None r"
definition digit :: re where "digit = Cls is_digit"
definition space :: re where "space = Cls is_space"

lemmas re_syntax = chr_def lit_def opt_def times_def between_def at_least_def many_def digit_def space_def

text \<open>\<open>re.IGNORECASE\<close>: a class accepts a character whose other case it accepts.\<close>

primrec icase :: "re \<Rightarrow> re" where
  "icase (Cls p) = Cls (\<lambda>c. p c \<or> p (lower_char c) \<or> p (upper_char c))"
| "icase Eps = Eps"
| "icase (Cat a b) = Cat (icase a) (icase b)"
| "icase (Alt a b) = Alt (icase a) (icase b)"
| "icase (Rep m n a) = Rep m n (icase a)"
| "icase (Grp k a) = Grp k (icase a)"
| "icase WordB = WordB"
| "icase (NotBehind p) = NotBehind (\<lambda>c. p c \<or> p (lower_char c) \<or> p (upper_char c))"
| "icase (NotAhead p) = NotAhead (\<lambda>c. p c \<or> p (lower_char c) \<or> p (upper_char c))"

section \<open>Matching\<close>

fun greedy :: "nat \<Rightarrow> nat \<Rightarrow> (mstate \<Rightarrow> mstate list) \<Rightarrow> mstate \<Rightarrow> mstate list" where
  "greedy 0 lo f st = (if lo = 0 then [st] else [])"
| "greedy (Suc k) lo f st =
     concat (map (greedy k (lo - 1) f) (f st)) @ (if lo = 0 then [st] else [])"

definition capture :: "nat \<Rightarrow> nat \<Rightarrow> mstate \<Rightarrow> mstate" where
  "capture k i st = (fst st, (k, (i, fst st)) # snd st)"

primrec ms :: "re \<Rightarrow> string \<Rightarrow> mstate \<Rightarrow> mstate list" where
  "ms (Cls p) s st = (if fst st < length s \<and> p (s ! fst st) then [(fst st + 1, snd st)] else [])"
| "ms Eps s st = [st]"
| "ms (Cat a b) s st = concat (map (ms b s) (ms a s st))"
| "ms (Alt a b) s st = ms a s st @ ms b s st"
| "ms (Rep lo hi a) s st = greedy (case hi of None \<Rightarrow> length s | Some h \<Rightarrow> h) lo (ms a s) st"
| "ms (Grp k a) s st = map (capture k (fst st)) (ms a s st)"
| "ms WordB s st = (if at_boundary s (fst st) then [st] else [])"
| "ms (NotBehind p) s st = (if 0 < fst st \<and> fst st \<le> length s \<and> p (s ! (fst st - 1)) then [] else [st])"
| "ms (NotAhead p) s st = (if fst st < length s \<and> p (s ! fst st) then [] else [st])"

definition match_at :: "re \<Rightarrow> string \<Rightarrow> nat \<Rightarrow> mstate option" where
  "match_at r s i = (case ms r s (i, []) of [] \<Rightarrow> None | st # _ \<Rightarrow> Some st)"

record rmatch =
  m_start :: nat
  m_end :: nat
  m_caps :: caps

definition mk_match :: "nat \<Rightarrow> mstate \<Rightarrow> rmatch" where
  "mk_match i st = \<lparr>m_start = i, m_end = fst st, m_caps = snd st\<rparr>"

function finditer_from :: "re \<Rightarrow> string \<Rightarrow> nat \<Rightarrow> rmatch list" where
  "finditer_from r s i = (if length s < i then [] else
     (case match_at r s i of
        None \<Rightarrow> finditer_from r s (i + 1)
      | Some st \<Rightarrow> mk_match i st # finditer_from r s (if i < fst st then fst st else i + 1)))"
  by pat_completeness auto
termination by (relation "measure (\<lambda>(r, s, i). length s + 1 - i)") auto

declare finditer_from.simps [simp del]

definition finditer :: "re \<Rightarrow> string \<Rightarrow> rmatch list" where
  "finditer r s = finditer_from r s 0"

text \<open>\<open>m.span(k)\<close> and \<open>m.group(k)\<close>; group 0 is the whole match.\<close>

definition slice :: "string \<Rightarrow> nat \<Rightarrow> nat \<Rightarrow> string" where
  "slice s i j = drop i (take j s)"

definition m_span :: "rmatch \<Rightarrow> nat \<Rightarrow> (nat \<times> nat) option" where
  "m_span m k = (if k = 0 then Some (m_start m, m_end m) else map_of (m_caps m) k)"

definition m_group :: "string \<Rightarrow> rmatch \<Rightarrow> nat \<Rightarrow> string" where
  "m_group s m k = (case m_span m k of None \<Rightarrow> '''' | Some (i, j) \<Rightarrow> slice s i j)"

text \<open>The text \<open>s\<close> from \<open>p\<close> on, with the given spans replaced.\<close>

type_synonym edit = "nat \<times> nat \<times> string"

fun splice :: "string \<Rightarrow> nat \<Rightarrow> edit list \<Rightarrow> string" where
  "splice s p [] = drop p s"
| "splice s p ((i, j, r) # es) = slice s p i @ r @ splice s j es"

definition sub_with :: "re \<Rightarrow> (rmatch \<Rightarrow> string) \<Rightarrow> string \<Rightarrow> string" where
  "sub_with r f s = splice s 0 (map (\<lambda>m. (m_start m, m_end m, f m)) (finditer r s))"

section \<open>Bounds\<close>

text \<open>A state reached from \<open>st\<close>: further on, within the subject, and with
  captured spans inside the part that was matched.\<close>

definition reach :: "string \<Rightarrow> mstate \<Rightarrow> mstate \<Rightarrow> bool" where
  "reach s st st' = (fst st \<le> fst st' \<and> (fst st \<le> length s \<longrightarrow> fst st' \<le> length s) \<and>
     (\<forall>x\<in>set (snd st'). x \<in> set (snd st) \<or> (fst st \<le> fst (snd x) \<and> fst (snd x) \<le> snd (snd x) \<and> snd (snd x) \<le> fst st')))"

lemma reach_refl [simp]: "reach s st st"
  by (simp add: reach_def)

lemma reach_trans: "reach s a b \<Longrightarrow> reach s b c \<Longrightarrow> reach s a c"
  unfolding reach_def by (meson order_trans)

lemma greedy_invariant:
  assumes f: "\<And>st st'. st' \<in> set (f st) \<Longrightarrow> R st st'"
    and refl: "\<And>st. R st st" and trans: "\<And>a b c. R a b \<Longrightarrow> R b c \<Longrightarrow> R a c"
  shows "st' \<in> set (greedy k lo f st) \<Longrightarrow> R st st'"
proof (induction k arbitrary: lo st)
  case 0
  then show ?case by (simp add: refl split: if_splits)
next
  case (Suc k)
  then consider "st' = st" | st1 where "st1 \<in> set (f st)" "st' \<in> set (greedy k (lo - 1) f st1)"
    by (auto split: if_splits)
  then show ?case
  proof cases
    case 2
    show ?thesis by (rule trans [OF f [OF 2(1)] Suc.IH [OF 2(2)]])
  qed (simp add: refl)
qed

lemma reach_capture: "reach s st st' \<Longrightarrow> reach s st (capture k (fst st) st')"
  by (auto simp: reach_def capture_def)

lemma ms_reach: "st' \<in> set (ms r s st) \<Longrightarrow> reach s st st'"
proof (induction r arbitrary: st st')
  case (Cls p) then show ?case by (auto simp: reach_def split: if_splits)
next
  case (Cat a b)
  then obtain st1 where 1: "st1 \<in> set (ms a s st)" and 2: "st' \<in> set (ms b s st1)" by auto
  show ?case by (rule reach_trans [OF Cat.IH(1) [OF 1] Cat.IH(2) [OF 2]])
next
  case (Rep lo hi a)
  show ?case
    by (rule greedy_invariant [where R = "reach s" and f = "ms a s" and lo = lo])
       (use Rep reach_trans in auto)
next
  case (Grp k a)
  then obtain st1 where "st1 \<in> set (ms a s st)" "st' = capture k (fst st) st1" by auto
  then show ?case using Grp.IH reach_capture by blast
qed (auto split: if_splits)

primrec min_len :: "re \<Rightarrow> nat" where
  "min_len (Cls p) = 1"
| "min_len Eps = 0"
| "min_len (Cat a b) = min_len a + min_len b"
| "min_len (Alt a b) = min (min_len a) (min_len b)"
| "min_len (Rep lo hi a) = lo * min_len a"
| "min_len (Grp k a) = min_len a"
| "min_len WordB = 0"
| "min_len (NotBehind p) = 0"
| "min_len (NotAhead p) = 0"

lemma greedy_min_len:
  assumes f: "\<And>st st'. st' \<in> set (f st) \<Longrightarrow> fst st + m \<le> fst st'"
  shows "st' \<in> set (greedy k lo f st) \<Longrightarrow> fst st + lo * m \<le> fst st'"
proof (induction k arbitrary: lo st)
  case 0
  then show ?case by (simp split: if_splits)
next
  case (Suc k)
  then consider "lo = 0" "st' = st" | st1 where "st1 \<in> set (f st)" "st' \<in> set (greedy k (lo - 1) f st1)"
    by (auto split: if_splits)
  then show ?case
  proof cases
    case 2
    have "fst st1 + (lo - 1) * m \<le> fst st'" by (rule Suc.IH [OF 2(2)])
    moreover have "fst st + m \<le> fst st1" by (rule f [OF 2(1)])
    ultimately show ?thesis by (cases lo) auto
  qed simp
qed

lemma ms_min_len: "st' \<in> set (ms r s st) \<Longrightarrow> fst st + min_len r \<le> fst st'"
proof (induction r arbitrary: st st')
  case (Cat a b)
  then obtain st1 where 1: "st1 \<in> set (ms a s st)" and 2: "st' \<in> set (ms b s st1)" by auto
  show ?case using Cat.IH(1) [OF 1] Cat.IH(2) [OF 2] by simp
next
  case (Alt a b)
  then consider "st' \<in> set (ms a s st)" | "st' \<in> set (ms b s st)" by auto
  then show ?case
  proof cases
    case 1
    then have "fst st + min_len a \<le> fst st'" by (rule Alt.IH(1))
    then show ?thesis by simp
  next
    case 2
    then have "fst st + min_len b \<le> fst st'" by (rule Alt.IH(2))
    then show ?thesis by simp
  qed
next
  case (Rep lo hi a)
  have "fst st + lo * min_len a \<le> fst st'"
    by (rule greedy_min_len [where f = "ms a s"]) (use Rep in auto)
  then show ?case by simp
qed (auto simp: capture_def split: if_splits)

text \<open>Spans between \<open>p\<close> and \<open>n\<close>, ordered and disjoint.\<close>

fun spans_ok :: "nat \<Rightarrow> nat \<Rightarrow> (nat \<times> nat) list \<Rightarrow> bool" where
  "spans_ok p n [] = (p \<le> n)"
| "spans_ok p n ((i, j) # xs) = (p \<le> i \<and> i \<le> j \<and> spans_ok j n xs)"

definition match_span :: "rmatch \<Rightarrow> nat \<times> nat" where
  "match_span m = (m_start m, m_end m)"

lemma match_span_mk [simp]: "match_span (mk_match i st) = (i, fst st)"
  by (simp add: match_span_def mk_match_def)

lemma spans_ok_le: "spans_ok p n xs \<Longrightarrow> p \<le> n"
  by (induction p n xs rule: spans_ok.induct) auto

lemma spans_ok_weaken: "spans_ok q n xs \<Longrightarrow> p \<le> q \<Longrightarrow> spans_ok p n xs"
  by (cases xs) auto

lemma match_at_reach: "match_at r s i = Some st \<Longrightarrow> reach s (i, []) st"
  by (rule ms_reach [where r = r]) (auto simp: match_at_def split: list.splits)

lemma match_at_Some: "match_at r s i = Some st \<Longrightarrow> st \<in> set (ms r s (i, []))"
  by (auto simp: match_at_def split: list.splits)

lemma finditer_from_spans:
  "p \<le> i \<Longrightarrow> i \<le> Suc (length s) \<Longrightarrow> p \<le> length s \<Longrightarrow>
    spans_ok p (length s) (map match_span (finditer_from r s i))"
proof (induction r s i arbitrary: p rule: finditer_from.induct)
  case (1 r s i)
  show ?case
  proof (cases "length s < i")
    case True
    then show ?thesis using 1(5) by (simp add: finditer_from.simps [of r s i])
  next
    case False
    show ?thesis
    proof (cases "match_at r s i")
      case None
      then show ?thesis using 1 False by (simp add: finditer_from.simps [of r s i])
    next
      case (Some st)
      have st: "i \<le> fst st" "fst st \<le> length s"
        using match_at_reach [OF Some] False by (auto simp: reach_def)
      have "spans_ok (fst st) (length s)
          (map match_span (finditer_from r s (if i < fst st then fst st else i + 1)))"
        by (rule "1.IH"(2) [OF False Some]) (use st False in auto)
      then show ?thesis using Some False st 1(3) by (simp add: finditer_from.simps [of r s i])
    qed
  qed
qed

lemma finditer_spans: "spans_ok 0 (length s) (map match_span (finditer r s))"
  unfolding finditer_def by (rule finditer_from_spans) auto

lemma finditer_from_match:
  "m \<in> set (finditer_from r s i) \<Longrightarrow>
    \<exists>st. match_at r s (m_start m) = Some st \<and> m = mk_match (m_start m) st \<and> m_start m \<le> length s"
proof (induction r s i rule: finditer_from.induct)
  case (1 r s i)
  show ?case
  proof (cases "length s < i")
    case True
    then show ?thesis using 1(3) by (simp add: finditer_from.simps [of r s i])
  next
    case False
    show ?thesis
    proof (cases "match_at r s i")
      case None
      then have "m \<in> set (finditer_from r s (i + 1))"
        using 1(3) False by (simp add: finditer_from.simps [of r s i])
      then show ?thesis by (rule "1.IH"(1) [OF False None])
    next
      case (Some st)
      then consider "m = mk_match i st"
        | "m \<in> set (finditer_from r s (if i < fst st then fst st else i + 1))"
        using 1(3) False by (auto simp: finditer_from.simps [of r s i])
      then show ?thesis
      proof cases
        case 1
        then show ?thesis using Some False by (simp add: mk_match_def)
      next
        case 2
        then show ?thesis by (rule "1.IH"(2) [OF False Some])
      qed
    qed
  qed
qed

lemma finditer_match:
  assumes "m \<in> set (finditer r s)"
  shows "m_start m + min_len r \<le> m_end m" and "m_end m \<le> length s"
    and "(k, (i, j)) \<in> set (m_caps m) \<Longrightarrow> m_start m \<le> i \<and> i \<le> j \<and> j \<le> m_end m"
proof -
  obtain st where st: "match_at r s (m_start m) = Some st" "m = mk_match (m_start m) st" "m_start m \<le> length s"
    using finditer_from_match assms unfolding finditer_def by blast
  have e: "m_end m = fst st" "m_caps m = snd st"
    using arg_cong [OF st(2), of m_end] arg_cong [OF st(2), of m_caps] by (simp_all add: mk_match_def)
  have r: "reach s (m_start m, []) st" by (rule match_at_reach [OF st(1)])
  show "m_start m + min_len r \<le> m_end m"
    using ms_min_len [OF match_at_Some [OF st(1)]] e by simp
  show "m_end m \<le> length s" using r st(3) e by (simp add: reach_def)
  show "(k, (i, j)) \<in> set (m_caps m) \<Longrightarrow> m_start m \<le> i \<and> i \<le> j \<and> j \<le> m_end m"
    using r e by (auto simp: reach_def)
qed

text \<open>No match is missed: a position from which the expression matches lies inside a reported match.\<close>

lemma finditer_from_complete:
  "i \<le> q \<Longrightarrow> q \<le> length s \<Longrightarrow> match_at r s q \<noteq> None \<Longrightarrow>
    \<exists>m \<in> set (finditer_from r s i). m_start m \<le> q \<and> (q < m_end m \<or> q = m_start m)"
proof (induction r s i rule: finditer_from.induct)
  case (1 r s i)
  have le: "\<not> length s < i" using 1(3,4) by simp
  show ?case
  proof (cases "match_at r s i")
    case None
    then have "q \<noteq> i" using 1(5) by auto
    then have "\<exists>m \<in> set (finditer_from r s (i + 1)). m_start m \<le> q \<and> (q < m_end m \<or> q = m_start m)"
      by (intro "1.IH"(1) [OF le None]) (use 1 in auto)
    then show ?thesis using None le by (simp add: finditer_from.simps [of r s i])
  next
    case (Some st)
    let ?j = "if i < fst st then fst st else i + 1"
    show ?thesis
    proof (cases "q < ?j")
      case True
      have "i \<le> q \<and> (q < fst st \<or> q = i)" using True 1(3) by (auto split: if_splits)
      then show ?thesis using Some le by (simp add: finditer_from.simps [of r s i] mk_match_def)
    next
      case False
      have "\<exists>m \<in> set (finditer_from r s ?j). m_start m \<le> q \<and> (q < m_end m \<or> q = m_start m)"
        by (rule "1.IH"(2) [OF le Some]) (use False 1 in auto)
      then show ?thesis using Some le by (simp add: finditer_from.simps [of r s i])
    qed
  qed
qed

lemma finditer_complete:
  "q \<le> length s \<Longrightarrow> match_at r s q \<noteq> None \<Longrightarrow>
    \<exists>m \<in> set (finditer r s). m_start m \<le> q \<and> (q < m_end m \<or> q = m_start m)"
  unfolding finditer_def by (rule finditer_from_complete) auto

section \<open>Replacement\<close>

abbreviation edit_spans :: "edit list \<Rightarrow> (nat \<times> nat) list" where
  "edit_spans es \<equiv> map (\<lambda>e. (fst e, fst (snd e))) es"

lemma length_slice [simp]: "j \<le> length s \<Longrightarrow> length (slice s i j) = j - i"
  by (simp add: slice_def)

lemma slice_append_drop: "i \<le> j \<Longrightarrow> slice s i j @ drop j s = drop i s"
  by (metis append_take_drop_id drop_take le_add_diff_inverse2 drop_drop slice_def)

lemma slice_append: "i \<le> j \<Longrightarrow> j \<le> k \<Longrightarrow> slice s i j @ slice s j k = slice s i k"
  unfolding slice_def by (metis append_eq_conv_conj drop_append drop_take min.absorb1 slice_append_drop slice_def take_take)

text \<open>Replacing every span by its own text changes nothing.\<close>

lemma splice_same:
  "spans_ok p (length s) (edit_spans es) \<Longrightarrow> \<forall>(i, j, r)\<in>set es. r = slice s i j \<Longrightarrow> splice s p es = drop p s"
proof (induction s p es rule: splice.induct)
  case (2 s p i j r es)
  then have "splice s j es = drop j s" by auto
  then show ?case using 2 by (simp add: slice_append_drop)
qed simp

text \<open>Expressions whose only group is number 1 and cannot be empty: the form of all recognizers.\<close>

primrec single_group :: "re \<Rightarrow> bool" where
  "single_group (Cls p) = True"
| "single_group Eps = True"
| "single_group (Cat a b) = (single_group a \<and> single_group b)"
| "single_group (Alt a b) = (single_group a \<and> single_group b)"
| "single_group (Rep lo hi a) = single_group a"
| "single_group (Grp k a) = (k = 1 \<and> 0 < min_len a \<and> single_group a)"
| "single_group WordB = True"
| "single_group (NotBehind p) = True"
| "single_group (NotAhead p) = True"

definition captures_one :: "mstate \<Rightarrow> mstate \<Rightarrow> bool" where
  "captures_one st st' = (\<forall>x\<in>set (snd st'). x \<in> set (snd st) \<or> (fst x = 1 \<and> fst (snd x) < snd (snd x)))"

lemma ms_captures_one: "single_group r \<Longrightarrow> st' \<in> set (ms r s st) \<Longrightarrow> captures_one st st'"
proof (induction r arbitrary: st st')
  case (Cat a b)
  then obtain st1 where "st1 \<in> set (ms a s st)" "st' \<in> set (ms b s st1)" by auto
  then have "captures_one st st1" "captures_one st1 st'" using Cat by auto
  then show ?case unfolding captures_one_def by blast
next
  case (Alt a b)
  then have "st' \<in> set (ms a s st) \<or> st' \<in> set (ms b s st)" by simp
  then show ?case using Alt.IH(1) [of st' st] Alt.IH(2) [of st' st] Alt.prems(1) by auto
next
  case (Rep lo hi a)
  show ?case
    by (rule greedy_invariant [where R = captures_one and f = "ms a s" and lo = lo])
       (use Rep in \<open>auto simp: captures_one_def\<close>)
next
  case (Grp k a)
  then obtain st1 where st1: "st1 \<in> set (ms a s st)" "st' = capture k (fst st) st1" by auto
  moreover have "captures_one st st1" using Grp st1 by auto
  moreover have "fst st + min_len a \<le> fst st1" by (rule ms_min_len [OF st1(1)])
  ultimately show ?case using Grp.prems(1) by (auto simp: captures_one_def capture_def)
qed (auto simp: captures_one_def split: if_splits)

lemma finditer_single_group:
  assumes "single_group r" "m \<in> set (finditer r s)" "m_caps m \<noteq> []"
  shows "\<exists>i j. m_span m 1 = Some (i, j) \<and> i < j \<and> j \<le> length s"
proof -
  obtain st where st: "match_at r s (m_start m) = Some st" "m = mk_match (m_start m) st"
    using finditer_from_match assms(2) unfolding finditer_def by blast
  have e: "m_caps m = snd st" using arg_cong [OF st(2), of m_caps] by (simp add: mk_match_def)
  have c: "captures_one (m_start m, []) st" by (rule ms_captures_one [OF assms(1) match_at_Some [OF st(1)]])
  obtain k i j cs where x: "m_caps m = (k, (i, j)) # cs" using assms(3) by (cases "m_caps m") auto
  then have k: "k = 1" "i < j" using c e by (auto simp: captures_one_def)
  have "j \<le> length s" using finditer_match(2,3) [OF assms(2)] x by (metis list.set_intros(1) order_trans)
  then show ?thesis using x k by (simp add: m_span_def)
qed

end
