(* ===== verification/Json_Parse.thy ===== *)
theory Json_Parse
  imports Json_Encoding
begin

text \<open>
  \<open>json.loads\<close> as the decoder of the standard library works: white space, literals,
  strict strings with escapes, integers, arrays and objects (a repeated key keeps its
  first position and its last value).

  The result is \<open>None\<close> where Python raises, and for text that has no counterpart in
  \<open>jval\<close>: a number with a fraction or an exponent, \<open>NaN\<close> and \<open>Infinity\<close>, and an escape for a
  code point above 255.  The recursion is on a fuel of twice the length of the text, which
  \<open>p_fuel\<close> below shows to be enough: more fuel gives the same result.
\<close>

definition json_ws :: "char \<Rightarrow> bool" where
  "json_ws c = (c \<in> {CHR '' '', CHR 0x09, CHR 0x0A, CHR 0x0D})"

definition skip_ws :: "string \<Rightarrow> string" where
  "skip_ws s = dropWhile json_ws s"

definition hex_code :: "char \<Rightarrow> nat option" where
  "hex_code c = (let n = of_char c in
     if 48 \<le> n \<and> n \<le> 57 then Some (n - 48) else if 97 \<le> n \<and> n \<le> 102 then Some (n - 87)
     else if 65 \<le> n \<and> n \<le> 70 then Some (n - 55) else None)"

definition hex4 :: "char \<Rightarrow> char \<Rightarrow> char \<Rightarrow> char \<Rightarrow> char option" where
  "hex4 a b x y = (case (hex_code a, hex_code b, hex_code x, hex_code y) of
     (Some i, Some j, Some k, Some l) \<Rightarrow> if i = 0 \<and> j = 0 then Some (char_of (k * 16 + l)) else None
   | _ \<Rightarrow> None)"

definition simple_escape :: "char \<Rightarrow> char option" where
  "simple_escape e = map_of
     [(CHR 0x22, CHR 0x22), (CHR 0x5C, CHR 0x5C), (CHR ''/'', CHR ''/''), (CHR ''b'', CHR 0x08),
      (CHR ''f'', CHR 0x0C), (CHR ''n'', CHR 0x0A), (CHR ''r'', CHR 0x0D), (CHR ''t'', CHR 0x09)] e"

definition on_fst :: "('a \<Rightarrow> 'b) \<Rightarrow> ('a \<times> string) option \<Rightarrow> ('b \<times> string) option" where
  "on_fst f x = (case x of None \<Rightarrow> None | Some (a, r) \<Rightarrow> Some (f a, r))"

lemma on_fst_simps [simp]: "on_fst f None = None" "on_fst f (Some (a, r)) = Some (f a, r)"
  by (simp_all add: on_fst_def)

lemma on_fst_Some: "on_fst f x = Some (b, r) \<longleftrightarrow> (\<exists>a. x = Some (a, r) \<and> b = f a)"
  by (cases x) auto

text \<open>The characters of a string up to the closing quote.\<close>

fun p_chars :: "string \<Rightarrow> (string \<times> string) option" where
  "p_chars [] = None"
| "p_chars (c # s) =
     (if c = CHR 0x22 then Some ([], s)
      else if c = CHR 0x5C then
        (case s of
           [] \<Rightarrow> None
         | e # t \<Rightarrow>
             (if e = CHR ''u'' then
                (case t of
                   a # b # x # y # u \<Rightarrow>
                     (case hex4 a b x y of None \<Rightarrow> None | Some d \<Rightarrow> on_fst ((#) d) (p_chars u))
                 | _ \<Rightarrow> None)
              else case simple_escape e of None \<Rightarrow> None | Some d \<Rightarrow> on_fst ((#) d) (p_chars t)))
      else if of_char c < (32::nat) then None
      else on_fst ((#) c) (p_chars s))"

text \<open>The rest after an integer literal makes it a float.\<close>

definition float_rest :: "string \<Rightarrow> bool" where
  "float_rest r = (case r of
     a # b # t \<Rightarrow> (a = CHR ''.'' \<and> is_digit b) \<or>
        (a \<in> {CHR ''e'', CHR ''E''} \<and>
           (is_digit b \<or> (b \<in> {CHR ''+'', CHR ''-''} \<and> (case t of d # _ \<Rightarrow> is_digit d | [] \<Rightarrow> False))))
   | _ \<Rightarrow> False)"

definition p_int :: "string \<Rightarrow> (int \<times> string) option" where
  "p_int s =
     (let neg = (s \<noteq> [] \<and> hd s = CHR ''-'');
          t = (if neg then tl s else s);
          ds = (case takeWhile is_digit t of [] \<Rightarrow> [] | d # r \<Rightarrow> if d = CHR ''0'' then [d] else d # r);
          rest = drop (length ds) t
      in if ds = [] \<or> float_rest rest then None
         else Some ((if neg then - int (read_nat ds) else int (read_nat ds)), rest))"

fun p_val :: "nat \<Rightarrow> string \<Rightarrow> (jval \<times> string) option"
  and p_items :: "nat \<Rightarrow> string \<Rightarrow> (jval list \<times> string) option"
  and p_members :: "nat \<Rightarrow> string \<Rightarrow> ((string \<times> jval) list \<times> string) option" where
  "p_val 0 s = None"
| "p_val (Suc f) s =
     (case s of
        [] \<Rightarrow> None
      | c # t \<Rightarrow>
          if c = CHR 0x22 then on_fst JStr (p_chars t)
          else if c = CHR ''{'' then
            (case skip_ws t of
               [] \<Rightarrow> None
             | d # u \<Rightarrow> if d = CHR ''}'' then Some (JObj [], u)
                 else on_fst (\<lambda>kvs. JObj (fold (\<lambda>(k, v). dict_set k v) kvs [])) (p_members f (d # u)))
          else if c = CHR ''['' then
            (case skip_ws t of
               [] \<Rightarrow> None
             | d # u \<Rightarrow> if d = CHR '']'' then Some (JList [], u) else on_fst JList (p_items f (d # u)))
          else if starts_with ''null'' s then Some (JNull, drop 4 s)
          else if starts_with ''true'' s then Some (JBool True, drop 4 s)
          else if starts_with ''false'' s then Some (JBool False, drop 5 s)
          else on_fst JInt (p_int s))"
| "p_items 0 s = None"
| "p_items (Suc f) s =
     (case p_val f s of
        None \<Rightarrow> None
      | Some (v, r) \<Rightarrow>
          (case skip_ws r of
             [] \<Rightarrow> None
           | c # u \<Rightarrow> if c = CHR '']'' then Some ([v], u)
               else if c = CHR '','' then on_fst ((#) v) (p_items f (skip_ws u))
               else None))"
| "p_members 0 s = None"
| "p_members (Suc f) s =
     (case s of
        [] \<Rightarrow> None
      | q # t \<Rightarrow>
          if q \<noteq> CHR 0x22 then None
          else case p_chars t of
            None \<Rightarrow> None
          | Some (k, r) \<Rightarrow>
              (case skip_ws r of
                 [] \<Rightarrow> None
               | c # u \<Rightarrow>
                   if c \<noteq> CHR '':'' then None
                   else case p_val f (skip_ws u) of
                     None \<Rightarrow> None
                   | Some (v, w) \<Rightarrow>
                       (case skip_ws w of
                          [] \<Rightarrow> None
                        | e # x \<Rightarrow> if e = CHR ''}'' then Some ([(k, v)], x)
                            else if e = CHR '','' then on_fst ((#) (k, v)) (p_members f (skip_ws x))
                            else None)))"

definition json_loads :: "string \<Rightarrow> jval option" where
  "json_loads s = (case p_val (2 * length s + 2) (skip_ws s) of
     None \<Rightarrow> None
   | Some (v, r) \<Rightarrow> if skip_ws r = [] then Some v else None)"

section \<open>Reading what was written\<close>

lemma hex_code_digit: "d < 16 \<Longrightarrow> hex_code (hex_digit d) = Some d"
  by (simp add: hex_code_def hex_digit_def Let_def)

lemma control_chars:
  "char_of (10::nat) = CHR 0x0A" "char_of (13::nat) = CHR 0x0D" "char_of (9::nat) = CHR 0x09"
  "char_of (12::nat) = CHR 0x0C" "char_of (8::nat) = CHR 0x08"
  by code_simp+

lemma p_chars_esc [simp]: "p_chars (esc_char c @ r) = on_fst ((#) c) (p_chars r)"
proof -
  let ?n = "of_char c :: nat"
  consider "?n = 34" | "?n = 92" | "?n = 10" | "?n = 13" | "?n = 9" | "?n = 12" | "?n = 8"
    | "?n \<notin> {34, 92, 10, 13, 9, 12, 8}" "32 \<le> ?n \<and> ?n \<le> 126"
    | "?n \<notin> {34, 92, 10, 13, 9, 12, 8}" "\<not> (32 \<le> ?n \<and> ?n \<le> 126)"
    by auto
  then show ?thesis
  proof cases
    case 8
    then have "c \<noteq> CHR 0x5C" "c \<noteq> CHR 0x22" by auto
    then show ?thesis using 8 by (simp add: esc_char_def Let_def)
  next
    case 9
    have e: "esc_char c = [CHR 0x5C, CHR ''u'', CHR ''0'', CHR ''0'',
        hex_digit (?n div 16), hex_digit (?n mod 16)]"
      using 9 by (auto simp: esc_char_def Let_def)
    have "?n div 16 < 16" using of_char_lt_256 [of c] by (simp add: less_mult_imp_div_less)
    then have "hex4 (CHR ''0'') (CHR ''0'') (hex_digit (?n div 16)) (hex_digit (?n mod 16)) = Some c"
      by (simp add: hex4_def hex_code_digit) (simp add: hex_code_def)
    then show ?thesis by (simp add: e)
  qed (simp_all add: esc_char_def Let_def char_codes simple_escape_def control_chars)
qed

lemma p_chars_string [simp]: "p_chars (concat (map esc_char s) @ CHR 0x22 # r) = Some (s, r)"
  by (induction s) auto

lemma dumps_not_ws: "\<exists>c s. dumps a b v = c # s \<and> \<not> json_ws c \<and> c \<noteq> CHR '']'' \<and> c \<noteq> CHR ''}''"
proof -
  obtain c s where c: "dumps a b v = c # s" "kind_of_hd c = kind v" using dumps_hd by blast
  then have "kind_of_hd c < 7" using kind_le by simp
  then show ?thesis using c by (auto simp: kind_of_hd_def json_ws_def is_digit_def)
qed

lemma skip_ws_dumps [simp]: "skip_ws (dumps a b v @ r) = dumps a b v @ r"
  using dumps_not_ws [of a b v] by (auto simp: skip_ws_def)

lemma read_show_int:
  assumes "value_end r"
  shows "p_int (show_int i @ r) = Some (i, r)"
proof -
  have f: "\<not> float_rest r" using assms by (auto simp: float_rest_def value_end_def split: list.splits)
  have main: "(case takeWhile is_digit (show_nat n @ r) of [] \<Rightarrow> [] | d # x \<Rightarrow> if d = CHR ''0'' then [d] else d # x) = show_nat n" for n
  proof -
    have t: "takeWhile is_digit (show_nat n @ r) = show_nat n"
      by (rule takeWhile_show_nat) (rule value_end_number_end [OF assms])
    obtain d x where dx: "show_nat n = d # x" using show_nat_hd by blast
    have "x = []" if "d = CHR ''0''"
      using that dx
    proof (induction n arbitrary: x rule: show_nat.induct)
      case (1 n)
      show ?case
      proof (cases "n < 10")
        case True
        then show ?thesis using 1(3) by (simp add: show_nat.simps [of n])
      next
        case False
        obtain y where y: "show_nat (n div 10) = d # y"
          using 1(3) False show_nat_hd [of "n div 10"] by (auto simp: show_nat.simps [of n])
        have "y = []" using 1(1) [OF False 1(2) y] .
        then have "show_nat (n div 10) = [CHR ''0'']" using y 1(2) by simp
        moreover have "n div 10 = read_nat (show_nat (n div 10))" by (simp only: read_show_nat)
        ultimately have "n div 10 = 0" by (simp add: read_nat_def)
        then show ?thesis using False by simp
      qed
    qed
    then show ?thesis using t dx by auto
  qed
  obtain d x where dx: "show_nat (nat i) = d # x" "is_digit d" using show_nat_hd by blast
  have nd: "d \<noteq> CHR ''-''" using dx minus_not_digit by auto
  show ?thesis
  proof (cases "i < 0")
    case True
    then show ?thesis using main [of "nat (- i)"] f
      by (simp add: p_int_def show_int_def Let_def)
  next
    case False
    have h: "hd (show_nat (nat i) @ r) \<noteq> CHR ''-''" using dx nd by simp
    show ?thesis using main [of "nat i"] f h False
      by (simp add: p_int_def show_int_def Let_def)
  qed
qed

text \<open>The keys of every object are distinct, as in a Python dictionary.\<close>

fun dict_json :: "jval \<Rightarrow> bool" where
  "dict_json (JList l) = (\<forall>v\<in>set l. dict_json v)"
| "dict_json (JObj m) = (distinct (map fst m) \<and> (\<forall>kv\<in>set m. dict_json (snd kv)))"
| "dict_json v = True"

lemma fold_dict_set: "distinct (map fst (m @ kvs)) \<Longrightarrow> fold (\<lambda>(k, v). dict_set k v) kvs m = m @ kvs"
proof (induction kvs arbitrary: m)
  case (Cons kv kvs)
  obtain k v where kv: "kv = (k, v)" by (cases kv)
  have "dict_set k v m = m @ [(k, v)]" if "k \<notin> set (map fst m)" for m
    using that by (induction m) auto
  then have "dict_set k v m = m @ [(k, v)]" using Cons.prems kv by auto
  then show ?case using Cons.IH [of "m @ [(k, v)]"] Cons.prems kv by simp
qed simp

lemma skip_ws_append: "list_all json_ws w \<Longrightarrow> skip_ws (w @ s) = skip_ws s"
  unfolding skip_ws_def list_all_iff by (simp add: dropWhile_append2)

lemma skip_ws_Cons [simp]: "\<not> json_ws c \<Longrightarrow> skip_ws (c # s) = c # s"
  by (simp add: skip_ws_def)

lemma not_ws [simp]: "\<not> json_ws (CHR '','')" "\<not> json_ws (CHR '':'')" "\<not> json_ws (CHR '']'')"
  "\<not> json_ws (CHR ''}'')" "\<not> json_ws (CHR 0x22)"
  by (simp_all add: json_ws_def)

lemma length_dumps: "0 < length (dumps a b v)"
  using dumps_not_ws [of a b v] by auto

lemma p_items_dumps:
  assumes w: "list_all json_ws w"
    and each: "\<And>v r f. v \<in> set l \<Longrightarrow> value_end r \<Longrightarrow> 2 * length (dumps (CHR '','' # w) k v) \<le> f
      \<Longrightarrow> p_val f (dumps (CHR '','' # w) k v @ r) = Some (v, r)"
    and ne: "l \<noteq> []"
  shows "2 * length (intercalate (CHR '','' # w) (map (dumps (CHR '','' # w) k) l)) + 1 \<le> f \<Longrightarrow>
    p_items f (intercalate (CHR '','' # w) (map (dumps (CHR '','' # w) k) l) @ CHR '']'' # r) = Some (l, r)"
  using ne each
proof (induction l arbitrary: f rule: list_nonempty_induct)
  case (single v)
  then obtain g where "f = Suc g" by (cases f) auto
  then show ?case using single by simp
next
  case (cons v l)
  let ?d = "dumps (CHR '','' # w) k"
  let ?t = "intercalate (CHR '','' # w) (map ?d l)"
  obtain y ys where l: "l = y # ys" using cons.hyps by (cases l) auto
  have tx: "intercalate (CHR '','' # w) (map ?d (v # l)) = ?d v @ CHR '','' # w @ ?t" by (simp add: l)
  obtain g where g: "f = Suc g" "2 * length (?d v) \<le> g" "2 * length ?t + 1 \<le> g"
    using cons.prems(1) unfolding tx by (cases f) auto
  have 1: "p_val g (?d v @ CHR '','' # w @ ?t @ CHR '']'' # r) = Some (v, CHR '','' # w @ ?t @ CHR '']'' # r)"
    by (rule cons.prems(2)) (use g in auto)
  have "skip_ws (?t @ CHR '']'' # r) = ?t @ CHR '']'' # r"
    using skip_ws_dumps [of "CHR '','' # w" k y] by (cases ys) (auto simp: l)
  moreover have "p_items g (?t @ CHR '']'' # r) = Some (l, r)"
    by (rule cons.IH) (use g cons.prems(2) in auto)
  ultimately show ?case using 1 g(1) w unfolding tx by (simp add: skip_ws_append)
qed

definition member_text :: "string \<Rightarrow> string \<Rightarrow> string \<times> jval \<Rightarrow> string" where
  "member_text i k kv = json_string (fst kv) @ k @ dumps i k (snd kv)"

lemma p_members_dumps:
  assumes w: "list_all json_ws w" and x: "list_all json_ws x"
    and each: "\<And>kv r f. kv \<in> set m \<Longrightarrow> value_end r \<Longrightarrow> 2 * length (dumps (CHR '','' # w) (CHR '':'' # x) (snd kv)) \<le> f
      \<Longrightarrow> p_val f (dumps (CHR '','' # w) (CHR '':'' # x) (snd kv) @ r) = Some (snd kv, r)"
    and ne: "m \<noteq> []"
  shows "2 * length (intercalate (CHR '','' # w) (map (member_text (CHR '','' # w) (CHR '':'' # x)) m)) + 1 \<le> f \<Longrightarrow>
    p_members f (intercalate (CHR '','' # w) (map (member_text (CHR '','' # w) (CHR '':'' # x)) m) @ CHR ''}'' # r)
      = Some (m, r)"
  using ne each
proof (induction m arbitrary: f rule: list_nonempty_induct)
  case (single kv)
  let ?d = "dumps (CHR '','' # w) (CHR '':'' # x)"
  obtain g where g: "f = Suc g" "2 * length (?d (snd kv)) \<le> g"
    using single by (cases f) (auto simp: member_text_def)
  have "p_val g (?d (snd kv) @ CHR ''}'' # r) = Some (snd kv, CHR ''}'' # r)"
    by (rule single(2)) (use g in auto)
  then show ?case using g x
    by (cases kv) (simp add: member_text_def json_string_def skip_ws_append)
next
  case (cons kv m)
  let ?d = "dumps (CHR '','' # w) (CHR '':'' # x)" and ?mt = "member_text (CHR '','' # w) (CHR '':'' # x)"
  let ?t = "intercalate (CHR '','' # w) (map ?mt m)"
  obtain y ys where m: "m = y # ys" using cons.hyps by (cases m) auto
  have tx: "intercalate (CHR '','' # w) (map ?mt (kv # m)) = ?mt kv @ CHR '','' # w @ ?t" by (simp add: m)
  obtain g where g: "f = Suc g" "2 * length (?d (snd kv)) \<le> g" "2 * length ?t + 1 \<le> g"
    using cons.prems(1) unfolding tx by (cases f) (auto simp: member_text_def)
  have 1: "p_val g (?d (snd kv) @ CHR '','' # w @ ?t @ CHR ''}'' # r) = Some (snd kv, CHR '','' # w @ ?t @ CHR ''}'' # r)"
    by (rule cons.prems(2)) (use g in auto)
  have "skip_ws (?t @ CHR ''}'' # r) = ?t @ CHR ''}'' # r"
    by (cases ys) (auto simp: m member_text_def json_string_def)
  moreover have "p_members g (?t @ CHR ''}'' # r) = Some (m, r)"
    by (rule cons.IH) (use g cons.prems(2) in auto)
  ultimately show ?case using 1 g(1) w x unfolding tx
    by (cases kv) (simp add: member_text_def json_string_def skip_ws_append)
qed

lemma p_val_dumps:
  assumes w: "list_all json_ws w" and x: "list_all json_ws x"
  shows "dict_json v \<Longrightarrow> value_end r \<Longrightarrow> 2 * length (dumps (CHR '','' # w) (CHR '':'' # x) v) \<le> f
    \<Longrightarrow> p_val f (dumps (CHR '','' # w) (CHR '':'' # x) v @ r) = Some (v, r)"
proof (induction v arbitrary: f r)
  case (JInt i)
  obtain g where g: "f = Suc g" using JInt(3) length_dumps [of "CHR '','' # w" "CHR '':'' # x" "JInt i"] by (cases f) auto
  obtain c s where c: "show_int i = c # s" "is_digit c \<or> c = CHR ''-''" using show_int_hd by blast
  then have "c \<notin> {CHR 0x22, CHR ''{'', CHR ''['', CHR ''n'', CHR ''t'', CHR ''f''}"
    "CHR ''n'' \<noteq> c" "CHR ''t'' \<noteq> c" "CHR ''f'' \<noteq> c"
    by (auto simp: is_digit_def)
  then show ?case using g c(1) read_show_int [OF JInt(2), of i] by simp
next
  case (JList l)
  let ?d = "dumps (CHR '','' # w) (CHR '':'' # x)"
  obtain g where g: "f = Suc g" using JList.prems(3) by (cases f) auto
  show ?case
  proof (cases l)
    case Nil
    then show ?thesis using g by simp
  next
    case (Cons y ys)
    have "p_items g (intercalate (CHR '','' # w) (map ?d l) @ CHR '']'' # r) = Some (l, r)"
      by (rule p_items_dumps [OF w]) (use JList g Cons in auto)
    moreover obtain c s where "?d y = c # s" "\<not> json_ws c" "c \<noteq> CHR '']''" using dumps_not_ws by blast
    then obtain u where "intercalate (CHR '','' # w) (map ?d l) = c # u" by (cases ys) (auto simp: Cons)
    ultimately show ?thesis using g \<open>\<not> json_ws c\<close> \<open>c \<noteq> CHR '']''\<close> by simp
  qed
next
  case (JObj m)
  let ?d = "dumps (CHR '','' # w) (CHR '':'' # x)" and ?mt = "member_text (CHR '','' # w) (CHR '':'' # x)"
  have mt: "map (\<lambda>(k, v). json_string k @ (CHR '':'' # x) @ ?d v) m = map ?mt m"
    by (auto simp: member_text_def)
  have d: "?d (JObj m) = CHR ''{'' # intercalate (CHR '','' # w) (map ?mt m) @ ''}''"
    by (simp only: dumps.simps mt)
  obtain g where g: "f = Suc g" using JObj.prems(3) by (cases f) auto
  show ?case
  proof (cases m)
    case Nil
    then show ?thesis using g by simp
  next
    case (Cons y ys)
    have "p_members g (intercalate (CHR '','' # w) (map ?mt m) @ CHR ''}'' # r) = Some (m, r)"
    proof (rule p_members_dumps [OF w x])
      show "2 * length (intercalate (CHR '','' # w) (map ?mt m)) + 1 \<le> g"
        using JObj.prems(3) g unfolding d by simp
      show "p_val f (?d (snd kv) @ r) = Some (snd kv, r)"
        if "kv \<in> set m" "value_end r" "2 * length (?d (snd kv)) \<le> f" for kv r f
      proof (rule JObj.IH)
        show "kv \<in> set m" by fact
        show "snd kv \<in> Basic_BNFs.snds kv" by (simp add: snds.intros)
        show "dict_json (snd kv)" using JObj.prems(1) that(1) by simp
      qed (use that in auto)
    qed (simp add: Cons)
    moreover obtain u where "intercalate (CHR '','' # w) (map ?mt m) = CHR 0x22 # u"
      by (cases ys) (auto simp: Cons member_text_def json_string_def)
    moreover have "distinct (map fst ([] @ m))" using JObj.prems(1) by simp
    ultimately show ?thesis unfolding d using g fold_dict_set [of "[]" m] by simp
  qed
qed (auto simp: json_string_def numeral_eq_Suc split: nat.splits dest!: Suc_le_D)

text \<open>\<open>json.dumps\<close> with the default and with the compact separators.\<close>

definition json_dumps :: "jval \<Rightarrow> string" where
  "json_dumps v = dumps '', '' '': '' v"

definition json_dumps_compact :: "jval \<Rightarrow> string" where
  "json_dumps_compact v = dumps '','' '':'' v"

lemma json_loads_sep:
  assumes "list_all json_ws w" "list_all json_ws x" "dict_json v"
  shows "json_loads (dumps (CHR '','' # w) (CHR '':'' # x) v) = Some v"
proof -
  let ?t = "dumps (CHR '','' # w) (CHR '':'' # x) v"
  have "p_val (2 * length ?t + 2) (?t @ []) = Some (v, [])"
    by (rule p_val_dumps [OF assms]) (simp_all add: value_end_def)
  moreover have "skip_ws (?t @ []) = ?t @ []" by (rule skip_ws_dumps)
  ultimately show ?thesis by (simp add: json_loads_def skip_ws_def)
qed

lemma json_loads_dumps [simp]: "dict_json v \<Longrightarrow> json_loads (json_dumps v) = Some v"
  using json_loads_sep [of "'' ''" "'' ''" v] by (simp add: json_dumps_def json_ws_def)

lemma json_loads_compact [simp]: "dict_json v \<Longrightarrow> json_loads (json_dumps_compact v) = Some v"
  using json_loads_sep [of "''''" "''''" v] by (simp add: json_dumps_compact_def)

section \<open>Enough fuel\<close>

lemma p_chars_rest: "p_chars s = Some (x, r) \<Longrightarrow> length r < length s"
proof (induction "length s" arbitrary: s x r rule: less_induct)
  case less
  have IH: "p_chars t = Some (y, r) \<Longrightarrow> length t < length s \<Longrightarrow> length r < length t" for t y
    using less.hyps by blast
  show ?case
    using less.prems
    by (cases s) (auto simp: on_fst_Some split: if_splits list.splits option.splits dest!: IH)
qed

lemma skip_ws_length: "length (skip_ws s) \<le> length s"
  by (simp add: skip_ws_def length_dropWhile_le)

lemma p_int_rest: "p_int s = Some (i, r) \<Longrightarrow> length r < length s"
  by (cases s) (auto simp: p_int_def Let_def split: if_splits list.splits)

declare p_val.simps [simp del] p_items.simps [simp del] p_members.simps [simp del]

lemma p_val_cases:
  assumes "p_val (Suc f) s = Some (v, r)"
  obtains c t where "s = c # t"
    "(\<exists>x. p_chars t = Some (x, r)) \<or> (\<exists>d u. skip_ws t = d # u \<and> r = u) \<or>
     (\<exists>d u y. skip_ws t = d # u \<and> p_items f (d # u) = Some (y, r)) \<or>
     (\<exists>d u y. skip_ws t = d # u \<and> p_members f (d # u) = Some (y, r)) \<or>
     (\<exists>n>0. r = drop n s) \<or> (\<exists>i. p_int s = Some (i, r))"
proof -
  obtain c t where s: "s = c # t" using assms by (cases s) (auto simp: p_val.simps)
  consider "c = CHR 0x22" | "c = CHR ''{''" | "c = CHR ''[''" | "c \<noteq> CHR 0x22" "c \<noteq> CHR ''{''" "c \<noteq> CHR ''[''" by blast
  then show thesis
  proof cases
    case 1
    then show ?thesis using assms s that by (auto simp: p_val.simps on_fst_Some)
  next
    case 2
    then show ?thesis using assms s
      by (intro that [OF s]) (auto simp: p_val.simps on_fst_Some split: list.splits if_splits)
  next
    case 3
    then show ?thesis using assms s
      by (intro that [OF s]) (auto simp: p_val.simps on_fst_Some split: list.splits if_splits)
  next
    case 4
    then have "starts_with ''null'' s \<and> r = drop 4 s \<or> starts_with ''true'' s \<and> r = drop 4 s \<or>
        starts_with ''false'' s \<and> r = drop 5 s \<or> (\<exists>i. p_int s = Some (i, r))"
      using assms unfolding s p_val.simps(2) list.case
      by (simp only: if_False on_fst_Some) (auto simp: on_fst_Some simp del: starts_with.simps split: if_splits)
    then have "(\<exists>n>0. r = drop n s) \<or> (\<exists>i. p_int s = Some (i, r))"
      by (metis zero_less_numeral)
    then show ?thesis by (intro that [OF s]) blast
  qed
qed

lemma p_rest:
  "p_val f s = Some (v, r) \<Longrightarrow> length r < length s"
  "p_items f s = Some (l, r) \<Longrightarrow> length r < length s"
  "p_members f s = Some (m, r) \<Longrightarrow> length r < length s"
proof (induction f arbitrary: s v l m r)
  case (Suc f)
  note IH = Suc.IH
  {
    case 1
    have A: "p_items f (d # u) = Some (y, r) \<Longrightarrow> skip_ws t = d # u \<Longrightarrow> length r < Suc (length t)" for t d u y
      using IH(2) [of "d # u" y r] skip_ws_length [of t] by simp
    have B: "p_members f (d # u) = Some (y, r) \<Longrightarrow> skip_ws t = d # u \<Longrightarrow> length r < Suc (length t)" for t d u y
      using IH(3) [of "d # u" y r] skip_ws_length [of t] by simp
    have C: "skip_ws t = d # r \<Longrightarrow> length r < Suc (length t)" for t d
      using skip_ws_length [of t] by simp
    from 1 show ?case
    proof (cases rule: p_val_cases)
      case (1 c t)
      then show ?thesis using A B C p_chars_rest p_int_rest by (elim disjE exE conjE) fastforce+
    qed
  next
    case 2
    then obtain v w c u where v: "p_val f s = Some (v, w)" "skip_ws w = c # u"
      and r: "c = CHR '']'' \<and> r = u \<or> (\<exists>y. p_items f (skip_ws u) = Some (y, r))"
      by (auto simp: on_fst_Some p_items.simps split: option.splits list.splits if_splits)
    have "length w < length s" by (rule IH(1) [OF v(1)])
    moreover have "length (c # u) \<le> length w" using skip_ws_length [of w] v(2) by simp
    moreover have "length r \<le> length u" using r IH(2) skip_ws_length [of u] by fastforce
    ultimately show ?case by simp
  next
    case 3
    then obtain q t k w c u v x e y where s: "s = q # t" "p_chars t = Some (k, w)" "skip_ws w = c # u"
      "p_val f (skip_ws u) = Some (v, x)" "skip_ws x = e # y"
      and r: "r = y \<or> (\<exists>z. p_members f (skip_ws y) = Some (z, r))"
      by (auto simp: on_fst_Some p_members.simps split: option.splits list.splits if_splits)
    have "length w < length t" by (rule p_chars_rest [OF s(2)])
    moreover have "length (c # u) \<le> length w" using skip_ws_length [of w] s(3) by simp
    moreover have "length x < length (skip_ws u)" by (rule IH(1) [OF s(4)])
    moreover have "length (e # y) \<le> length x" using skip_ws_length [of x] s(5) by simp
    moreover have "length r \<le> length y" using r IH(3) skip_ws_length [of y] by fastforce
    ultimately show ?case using s(1) skip_ws_length [of u] by simp
  }
qed (simp_all add: p_val.simps p_items.simps p_members.simps)

lemma p_fuel:
  "2 * length s + 1 \<le> f \<Longrightarrow> p_val (Suc f) s = p_val f s"
  "2 * length s + 2 \<le> f \<Longrightarrow> p_items (Suc f) s = p_items f s"
  "2 * length s + 2 \<le> f \<Longrightarrow> p_members (Suc f) s = p_members f s"
proof (induction f arbitrary: s)
  case (Suc f)
  note IH = Suc.IH
  {
    case 1
    have pm: "p_items (Suc f) (d # u) = p_items f (d # u)" "p_members (Suc f) (d # u) = p_members f (d # u)"
      if "skip_ws t = d # u" "s = c # t" for t d u c
      using IH(2,3) [of "d # u"] skip_ws_length [of t] that 1 by simp_all
    show ?case
      by (rule trans [OF p_val.simps(2) trans [OF _ p_val.simps(2) [symmetric]]]) (auto split: list.split simp: pm)
  next
    case 2
    have v: "p_val (Suc f) s = p_val f s" by (rule IH(1)) (use 2 in simp)
    have it: "p_items (Suc f) (skip_ws u) = p_items f (skip_ws u)"
      if "p_val f s = Some (x, w)" "skip_ws w = c # u" for x w c u
      using p_rest(1) [OF that(1)] skip_ws_length [of w] skip_ws_length [of u] that(2) 2
      by (intro IH(2)) simp
    show ?case
      by (rule trans [OF p_items.simps(2) trans [OF _ p_items.simps(2) [symmetric]]])
        (auto split: list.split option.split simp: v it)
  next
    case 3
    have v: "p_val (Suc f) (skip_ws u) = p_val f (skip_ws u)"
      if "s = q # t" "p_chars t = Some (k, w)" "skip_ws w = c # u" for q t k w c u
      using p_chars_rest [OF that(2)] skip_ws_length [of w] skip_ws_length [of u] that 3
      by (intro IH(1)) simp
    have m: "p_members (Suc f) (skip_ws y) = p_members f (skip_ws y)"
      if "s = q # t" "p_chars t = Some (k, w)" "skip_ws w = c # u" "p_val f (skip_ws u) = Some (x, z)"
        "skip_ws z = e # y" for q t k w c u x z e y
      using p_chars_rest [OF that(2)] p_rest(1) [OF that(4)] skip_ws_length [of w] skip_ws_length [of u]
        skip_ws_length [of z] skip_ws_length [of y] that 3
      by (intro IH(3)) simp
    show ?case
      by (rule trans [OF p_members.simps(2) trans [OF _ p_members.simps(2) [symmetric]]]) (auto split: list.split option.split simp: v m)
  }
qed simp_all

lemma json_loads_fuel:
  assumes "2 * length s + 2 \<le> f"
  shows "p_val f (skip_ws s) = p_val (2 * length s + 2) (skip_ws s)"
  using assms
proof (induction f rule: dec_induct)
  case (step f)
  then show ?case using p_fuel(1) [of "skip_ws s" f] skip_ws_length [of s] by simp
qed simp

end
