(* ===== verification/Secret_Manager.thy ===== *)
theory Secret_Manager
  imports Audit_Chain Json_Parse
begin

text \<open>
  \<open>services/secret_manager.py\<close>: the choice of a backend, reading and writing
  secrets, the fingerprint of a detected value, authenticated encryption of a database
  column with and without an envelope key, and the storage of provider credentials.

  The process environment and the module-level cache are the state; the clients of
  AWS, Vault, Azure and Google, AES-GCM, Fernet, SHA-256 and HMAC are
  a record of parameters.  A fresh nonce is an argument.
\<close>

datatype sm_error =
    SecretManagerError string
  | SecretValidationError string
  | OtherError string

type_synonym 'a sm = "sm_error + 'a"
type_synonym environ = "string \<Rightarrow> string option"

section \<open>Names and prefixes\<close>

definition normalize_provider :: "string option \<Rightarrow> string" where
  "normalize_provider p = (let normalized = replace_char (CHR '' '') (CHR ''_'') (lower (or_empty p)) in
     if normalized \<in> {''google_gemini'', ''gemini''} then ''gemini''
     else if normalized \<in> {''azure'', ''azure_openai'', ''azure-openai''} then ''azure_openai''
     else if normalized \<in> {''anthropic'', ''claude''} then ''anthropic''
     else if normalized \<in> {''cohere'', ''co''} then ''cohere''
     else normalized)"

definition secret_name_for_provider :: "int \<Rightarrow> string option \<Rightarrow> string" where
  "secret_name_for_provider tenant_id provider =
     ''authclaw/tenants/'' @ show_int tenant_id @ ''/providers/'' @ normalize_provider provider"

text \<open>\<open>api_key\<close> is \<open>str(payload.get("api_key") or "")\<close>.\<close>

definition credential_fingerprint :: "(string \<Rightarrow> string) \<Rightarrow> string \<Rightarrow> string" where
  "credential_fingerprint sha256 api_key = (if api_key \<noteq> [] then take 16 (sha256 (utf8 api_key)) else '''')"

definition credential_prefix :: "string \<Rightarrow> string" where
  "credential_prefix api_key =
     (if api_key = [] then ''''
      else if 12 < length api_key
      then take 6 api_key @ ''...'' @ drop (length api_key - 4) api_key
      else take 3 api_key @ ''...'')"

definition is_truthy_flag :: "string option \<Rightarrow> bool" where
  "is_truthy_flag v = (lower (strip (or_empty v)) \<in> {''1'', ''true'', ''yes'', ''on''})"

definition is_production :: "environ \<Rightarrow> bool" where
  "is_production env = (lower (case env ''AUTHCLAW_ENV'' of None \<Rightarrow> ''development'' | Some v \<Rightarrow> v)
     \<in> {''production'', ''prod''})"

definition select_secret_backend :: "environ \<Rightarrow> string option \<Rightarrow> string" where
  "select_secret_backend env requested =
     (let explicit = lower (strip (str_or requested (or_empty (env ''AUTHCLAW_SECRET_BACKEND''))));
          auto_requested = explicit \<in> {''auto'', ''automatic''} in
      if explicit \<in> {''local_env'', ''local''} \<and> is_truthy_flag (env ''AWS_SECRETS_MANAGER_ENABLED'')
      then ''aws_secrets_manager''
      else if explicit \<noteq> [] \<and> \<not> auto_requested then explicit
      else if truthy_str (env ''VAULT_ADDR'') \<and> truthy_str (env ''VAULT_TOKEN'') then ''hashicorp_vault''
      else if is_truthy_flag (env ''AWS_SECRETS_MANAGER_ENABLED'') \<or>
          (auto_requested \<and> (truthy_str (env ''AWS_REGION'') \<or> truthy_str (env ''AWS_DEFAULT_REGION'')))
      then ''aws_secrets_manager''
      else ''local_env'')"

definition safe_error :: "string \<Rightarrow> string \<Rightarrow> sm_error" where
  "safe_error name detail = SecretManagerError (''Secret '' @ quoted name @ '' '' @ detail @ ''.'')"

section \<open>Services\<close>

text \<open>The outcome of a client call: a value, the not-found exception of the client, or
  another exception with the name of its type.\<close>

datatype 'a call = Returned 'a | Missing | Raised string

record services =
  sv_sha256 :: "string \<Rightarrow> string"
  sv_hmac :: "string \<Rightarrow> string \<Rightarrow> string"
  sv_seal :: "string \<Rightarrow> string \<Rightarrow> string \<Rightarrow> string"
  sv_unseal :: "string \<Rightarrow> string \<Rightarrow> string \<Rightarrow> string option"
  sv_fernet_ok :: "string \<Rightarrow> bool"
  sv_fernet_decrypt :: "string \<Rightarrow> string \<Rightarrow> string option"
  sv_aws_client :: "sm_error option"
  sv_aws_get :: "string \<Rightarrow> string option call"
  sv_aws_put :: "string \<Rightarrow> string \<Rightarrow> string option call"
  sv_aws_create :: "string \<Rightarrow> string \<Rightarrow> string option call"
  sv_aws_delete :: "string \<Rightarrow> unit call"
  sv_http :: "string \<Rightarrow> string \<Rightarrow> string \<Rightarrow> jval option \<Rightarrow> nat \<times> jval option"
  sv_azure_get :: "string \<Rightarrow> string option sm"
  sv_azure_put :: "string \<Rightarrow> string \<Rightarrow> string option sm"
  sv_google_get :: "string \<Rightarrow> string sm"
  sv_google_put :: "string \<Rightarrow> string \<Rightarrow> string sm"
  sv_kms_generate :: "string \<Rightarrow> (string \<times> string) call"
  sv_kms_decrypt :: "string \<Rightarrow> string call"

record sm_state =
  environ :: "environ"
  local_cache :: "environ"
  sm_chain :: audit_db

definition call_result :: "(string \<Rightarrow> sm_error) \<Rightarrow> 'a call \<Rightarrow> 'a sm" where
  "call_result f c = (case c of Returned v \<Rightarrow> Inr v | Missing \<Rightarrow> Inl (f ''ResourceNotFoundException'') | Raised t \<Rightarrow> Inl (f t))"

definition aws_client :: "services \<Rightarrow> environ \<Rightarrow> unit sm" where
  "aws_client sv env =
     (case sv_aws_client sv of
        Some e \<Rightarrow> Inl e
      | None \<Rightarrow>
          if truthy_str (env ''AWS_REGION'') \<or> truthy_str (env ''AWS_DEFAULT_REGION'') then Inr ()
          else Inl (SecretManagerError ''AWS_REGION or AWS_DEFAULT_REGION is required for AWS Secrets Manager.''))"

definition get_aws_secret :: "services \<Rightarrow> environ \<Rightarrow> string \<Rightarrow> string option sm" where
  "get_aws_secret sv env name = rbind (aws_client sv env) (\<lambda>_.
     call_result (\<lambda>t. safe_error name (''could not be read from AWS Secrets Manager: '' @ t)) (sv_aws_get sv name))"

definition put_aws_secret :: "services \<Rightarrow> environ \<Rightarrow> string \<Rightarrow> string \<Rightarrow> string option sm" where
  "put_aws_secret sv env name value = rbind (aws_client sv env) (\<lambda>_.
     call_result (\<lambda>t. safe_error name (''could not be stored in AWS Secrets Manager: '' @ t))
       (case sv_aws_put sv name value of Missing \<Rightarrow> sv_aws_create sv name value | c \<Rightarrow> c))"

definition delete_aws_secret :: "services \<Rightarrow> environ \<Rightarrow> string \<Rightarrow> unit sm" where
  "delete_aws_secret sv env name = rbind (aws_client sv env) (\<lambda>_.
     case sv_aws_delete sv name of
       Missing \<Rightarrow> Inr ()
     | c \<Rightarrow> call_result (\<lambda>t. safe_error name (''could not be deleted from AWS Secrets Manager: '' @ t)) c)"

text \<open>\<open>_vault_request\<close>: the address without a trailing slash and \<open>/v1\<close>, the status test.\<close>

definition vault_base :: "string \<Rightarrow> string" where
  "vault_base address = (let b = rstrip_by (\<lambda>c. c = CHR ''/'') address in
     if ends_with ''/v1'' b then rstrip_by (\<lambda>c. c = CHR ''/'') (take (length b - 3) b) else b)"

definition vault_request :: "services \<Rightarrow> environ \<Rightarrow> string \<Rightarrow> string \<Rightarrow> jval option \<Rightarrow> bool \<Rightarrow> jval option sm" where
  "vault_request sv env method path payload expect_json =
     (if \<not> truthy_str (env ''VAULT_ADDR'') \<or> \<not> truthy_str (env ''VAULT_TOKEN'')
      then Inl (SecretManagerError ''VAULT_ADDR and VAULT_TOKEN are required for HashiCorp Vault.'')
      else (case sv_http sv method
              (vault_base (or_empty (env ''VAULT_ADDR'')) @ ''/v1/'' @ lstrip_by (\<lambda>c. c = CHR ''/'') path)
              (or_empty (env ''VAULT_TOKEN'')) payload of
          (status, body) \<Rightarrow>
            if 400 \<le> status
            then Inl (SecretManagerError (''Vault request failed with status '' @ show_nat status @ ''.''))
            else Inr (if expect_json then body else None)))"

definition vault_path :: "environ \<Rightarrow> string \<Rightarrow> string" where
  "vault_path env name = (case env ''VAULT_KV_MOUNT'' of None \<Rightarrow> ''secret'' | Some m \<Rightarrow> m) @ ''/data/'' @ name"

text \<open>\<open>d.get(k)\<close> raises where \<open>d\<close> is not a dictionary.\<close>

definition py_get :: "jval \<Rightarrow> string \<Rightarrow> jval \<Rightarrow> jval sm" where
  "py_get d k dflt = (case d of
     JObj m \<Rightarrow> Inr (case map_of m k of None \<Rightarrow> dflt | Some v \<Rightarrow> v)
   | _ \<Rightarrow> Inl (OtherError ''AttributeError''))"

definition json_str_option :: "jval \<Rightarrow> string option sm" where
  "json_str_option v = (case v of JNull \<Rightarrow> Inr None | JStr s \<Rightarrow> Inr (Some s) | _ \<Rightarrow> Inl (OtherError ''TypeError''))"

definition get_vault_secret :: "services \<Rightarrow> environ \<Rightarrow> string \<Rightarrow> string option sm" where
  "get_vault_secret sv env name =
     rbind (vault_request sv env ''GET'' (vault_path env name) None True) (\<lambda>data.
     rbind (py_get (jor (case data of None \<Rightarrow> JNull | Some d \<Rightarrow> d) (JObj [])) ''data'' JNull) (\<lambda>d1.
     rbind (py_get (jor d1 (JObj [])) ''data'' (JObj [])) (\<lambda>d2.
     rbind (py_get d2 ''value'' JNull) json_str_option)))"

definition version_of :: "services \<Rightarrow> string \<Rightarrow> string" where
  "version_of sv value = take 16 (sv_sha256 sv (utf8 value))"

definition put_vault_secret :: "services \<Rightarrow> environ \<Rightarrow> string \<Rightarrow> string \<Rightarrow> string sm" where
  "put_vault_secret sv env name value =
     rbind (vault_request sv env ''POST'' (vault_path env name)
        (Some (JObj [(''data'', JObj [(''value'', JStr value)])])) True)
       (\<lambda>_. Inr (version_of sv value))"

definition put_azure_secret :: "services \<Rightarrow> string \<Rightarrow> string \<Rightarrow> string sm" where
  "put_azure_secret sv name value =
     rbind (sv_azure_put sv name value) (\<lambda>v. Inr (str_or v (version_of sv value)))"

section \<open>Reading and writing secrets\<close>

definition unsupported :: "string \<Rightarrow> sm_error" where
  "unsupported backend = SecretManagerError (''Unsupported secret backend '' @ quoted backend @ ''.'')"

definition is_local :: "string \<Rightarrow> bool" where
  "is_local backend = (backend \<in> {''local_env'', ''local''})"

definition get_secret :: "services \<Rightarrow> string \<Rightarrow> string \<Rightarrow> sm_state \<Rightarrow> string option sm" where
  "get_secret sv backend name s =
     (if is_local backend
      then Inr (if truthy_str (environ s name) then environ s name else local_cache s name)
      else if backend = ''aws_secrets_manager'' then get_aws_secret sv (environ s) name
      else if backend \<in> {''hashicorp_vault'', ''vault''} then get_vault_secret sv (environ s) name
      else if backend = ''azure_key_vault'' then sv_azure_get sv name
      else if backend = ''google_secret_manager'' then map_sum id Some (sv_google_get sv name)
      else Inl (unsupported backend))"

definition get_required_secret :: "services \<Rightarrow> string \<Rightarrow> string \<Rightarrow> nat \<Rightarrow> sm_state \<Rightarrow> string sm" where
  "get_required_secret sv backend name min_length s =
     rbind (get_secret sv backend name s) (\<lambda>v.
       if \<not> truthy_str v \<or> length (or_empty v) < min_length
       then Inl (safe_error name (''is missing or shorter than '' @ show_nat min_length @ '' characters''))
       else Inr (or_empty v))"

record stored_secret =
  ss_name :: string
  ss_backend :: string
  ss_version :: "string option"
  ss_value :: string

definition put_secret :: "services \<Rightarrow> string \<Rightarrow> string \<Rightarrow> string \<Rightarrow> sm_state \<Rightarrow> stored_secret sm \<times> sm_state" where
  "put_secret sv backend name value s =
     (let stored = (\<lambda>b v. \<lparr>ss_name = name, ss_backend = b, ss_version = v, ss_value = value\<rparr>) in
      if value = [] then (Inl (safe_error name ''cannot be stored with an empty value''), s)
      else if is_local backend
      then (Inr (stored backend (Some (version_of sv value))),
            s\<lparr>local_cache := (local_cache s)(name \<mapsto> value), environ := (environ s)(name \<mapsto> value)\<rparr>)
      else if backend = ''aws_secrets_manager''
      then (map_sum id (stored backend) (put_aws_secret sv (environ s) name value), s)
      else if backend \<in> {''hashicorp_vault'', ''vault''}
      then (map_sum id (\<lambda>v. stored ''hashicorp_vault'' (Some v)) (put_vault_secret sv (environ s) name value), s)
      else if backend = ''azure_key_vault''
      then (map_sum id (\<lambda>v. stored backend (Some v)) (put_azure_secret sv name value), s)
      else if backend = ''google_secret_manager''
      then (map_sum id (\<lambda>v. stored backend (Some v)) (sv_google_put sv name value), s)
      else (Inl (unsupported backend), s))"

definition delete_secret :: "services \<Rightarrow> string \<Rightarrow> string \<Rightarrow> sm_state \<Rightarrow> unit sm \<times> sm_state" where
  "delete_secret sv backend name s =
     (if is_local backend
      then (Inr (), s\<lparr>local_cache := (local_cache s)(name := None), environ := (environ s)(name := None)\<rparr>)
      else if backend = ''aws_secrets_manager'' then (delete_aws_secret sv (environ s) name, s)
      else (Inl (SecretManagerError (''Secret deletion is not implemented for backend '' @ quoted backend @ ''.'')), s))"

text \<open>The audit event names a secret by its hash only; a failing audit insert is swallowed.\<close>

definition secret_event_block :: "services \<Rightarrow> string \<Rightarrow> string \<Rightarrow> string \<Rightarrow> string \<Rightarrow> string option \<Rightarrow> audit_block" where
  "secret_event_block sv backend event_type name actor version =
     \<lparr>al_query = Some (''Secret event: '' @ event_type),
      al_response = Some (''secret_ref='' @ take 16 (sv_sha256 sv (utf8 name)) @ ''; backend='' @ backend
        @ ''; version='' @ str_or version ''n/a''),
      al_allowed = True, al_risk_level = Some ''LOW'', al_approval_status = Some ''completed'',
      al_approval_id = None, al_approver = None, al_original_request = None,
      al_approval_timestamp = None, al_execution_timestamp = None, al_execution_status = None,
      al_policy_name = None, al_policy_type = None, al_matched_pattern = None, al_redacted_value = None,
      al_username = Some actor, al_tenant_id = Some 1\<rparr>"

definition audit_secret_event ::
  "services \<Rightarrow> string \<Rightarrow> string \<Rightarrow> string \<Rightarrow> string \<Rightarrow> string option \<Rightarrow> string \<Rightarrow> bool \<Rightarrow> sm_state \<Rightarrow> sm_state" where
  "audit_secret_event sv backend event_type name actor version now db_ok s =
     (if db_ok
      then s\<lparr>sm_chain := snd (create_audit_block (sv_sha256 sv)
             (secret_event_block sv backend event_type name actor version) ''secret-manager'' now (sm_chain s))\<rparr>
      else s)"

definition rotate_secret ::
  "services \<Rightarrow> string \<Rightarrow> string \<Rightarrow> string \<Rightarrow> string \<Rightarrow> string \<Rightarrow> bool \<Rightarrow> sm_state \<Rightarrow> stored_secret sm \<times> sm_state" where
  "rotate_secret sv backend name value actor now db_ok s =
     (case put_secret sv backend name value s of
        (Inl e, s') \<Rightarrow> (Inl e, s')
      | (Inr st, s') \<Rightarrow>
          (Inr st, audit_secret_event sv backend ''secret_rotated'' name actor (ss_version st) now db_ok s'))"

definition encryption_key :: "services \<Rightarrow> string \<Rightarrow> sm_state \<Rightarrow> string sm" where
  "encryption_key sv backend s =
     rbind (get_required_secret sv backend ''AUTHCLAW_ENCRYPTION_KEY'' 32 s) (\<lambda>key.
       if sv_fernet_ok sv key then Inr key
       else Inl (SecretValidationError ''AUTHCLAW_ENCRYPTION_KEY is not a valid Fernet key.''))"

definition redaction_salt :: "services \<Rightarrow> string \<Rightarrow> sm_state \<Rightarrow> string sm" where
  "redaction_salt sv backend s = get_required_secret sv backend ''AUTHCLAW_REDACTION_SALT'' 32 s"

definition fingerprint :: "services \<Rightarrow> string \<Rightarrow> string \<Rightarrow> string \<Rightarrow> sm_state \<Rightarrow> string sm" where
  "fingerprint sv backend value purpose s =
     rbind (redaction_salt sv backend s) (\<lambda>salt.
       Inr (take 20 (sv_hmac sv (utf8 salt) (utf8 (purpose @ '':'' @ value)))))"

section \<open>Encryption of a column\<close>

definition urlsafe_b64decode :: "string \<Rightarrow> string option" where
  "urlsafe_b64decode s = (if is_ascii s then a2b_base64 0 0 0 s else None)"

text \<open>The standard alphabet has no \<open>-\<close> and \<open>_\<close>; the non-strict decoder skips them.\<close>

definition b64decode :: "string \<Rightarrow> string option" where
  "b64decode s = (if is_ascii s then a2b_base64 0 0 0 (filter (\<lambda>c. c \<noteq> CHR ''-'' \<and> c \<noteq> CHR ''_'') s) else None)"

definition or_raise :: "string \<Rightarrow> 'a option \<Rightarrow> 'a sm" where
  "or_raise e x = (case x of None \<Rightarrow> Inl (OtherError e) | Some v \<Rightarrow> Inr v)"

lemma or_raise_simps [simp]: "or_raise e (Some v) = Inr v" "or_raise e None = Inl (OtherError e)"
  by (simp_all add: or_raise_def)

definition aes_encrypt :: "services \<Rightarrow> string \<Rightarrow> string \<Rightarrow> string \<Rightarrow> string sm" where
  "aes_encrypt sv key nonce plain =
     (if length key \<in> {16, 24, 32} then Inr (sv_seal sv key nonce plain) else Inl (OtherError ''ValueError''))"

definition aes_decrypt :: "services \<Rightarrow> string \<Rightarrow> string \<Rightarrow> string sm" where
  "aes_decrypt sv key payload =
     (if length key \<in> {16, 24, 32}
      then rbind (or_raise ''InvalidTag'' (sv_unseal sv key (take 12 payload) (drop 12 payload)))
             (\<lambda>p. or_raise ''UnicodeDecodeError'' (utf8_decode p))
      else Inl (OtherError ''ValueError''))"

definition envelope_provider :: "environ \<Rightarrow> string" where
  "envelope_provider env = lower (strip (str_or (env ''AUTHCLAW_ENVELOPE_PROVIDER'')
     (or_empty (env ''AUTHCLAW_KMS_PROVIDER''))))"

definition kms_region :: "environ \<Rightarrow> unit sm" where
  "kms_region env =
     (if truthy_str (env ''AWS_REGION'') \<or> truthy_str (env ''AWS_DEFAULT_REGION'') then Inr ()
      else Inl (SecretManagerError ''AWS_REGION or AWS_DEFAULT_REGION is required for AWS KMS.''))"

definition aws_kms_key_id :: "environ \<Rightarrow> string sm" where
  "aws_kms_key_id env =
     (if truthy_str (env ''AUTHCLAW_AWS_KMS_KEY_ID'') then Inr (or_empty (env ''AUTHCLAW_AWS_KMS_KEY_ID''))
      else if truthy_str (env ''AWS_KMS_KEY_ID'') then Inr (or_empty (env ''AWS_KMS_KEY_ID''))
      else Inl (SecretManagerError ''AUTHCLAW_AWS_KMS_KEY_ID or AWS_KMS_KEY_ID is required for AWS KMS envelope encryption.''))"

definition vault_transit_key :: "environ \<Rightarrow> string" where
  "vault_transit_key env = (case env ''VAULT_TRANSIT_KEY'' of None \<Rightarrow> ''authclaw-tenant-key'' | Some k \<Rightarrow> k)"

definition py_item :: "jval \<Rightarrow> string \<Rightarrow> string sm" where
  "py_item d k = (case d of
     JObj m \<Rightarrow> (case map_of m k of Some (JStr s) \<Rightarrow> Inr s | Some _ \<Rightarrow> Inl (OtherError ''TypeError'') | None \<Rightarrow> Inl (OtherError ''KeyError''))
   | _ \<Rightarrow> Inl (OtherError ''TypeError''))"

definition vault_data :: "jval option \<Rightarrow> jval sm" where
  "vault_data response =
     rbind (py_get (jor (case response of None \<Rightarrow> JNull | Some d \<Rightarrow> d) (JObj [])) ''data'' JNull)
       (\<lambda>d. Inr (jor d (JObj [])))"

definition generate_envelope_data_key :: "services \<Rightarrow> environ \<Rightarrow> string \<Rightarrow> (string \<times> string \<times> string) sm" where
  "generate_envelope_data_key sv env provider =
     (if provider \<in> {''aws'', ''aws_kms'', ''kms''}
      then rbind (aws_kms_key_id env) (\<lambda>key_id. rbind (kms_region env) (\<lambda>_.
             rbind (call_result OtherError (sv_kms_generate sv key_id)) (\<lambda>(plain, blob). Inr (plain, blob, key_id))))
      else if provider \<in> {''vault'', ''hashicorp_vault''}
      then (let key_name = vault_transit_key env in
            rbind (vault_request sv env ''POST'' (''transit/datakey/plaintext/'' @ key_name)
                     (Some (JObj [(''bits'', JInt 256)])) True) (\<lambda>response.
            rbind (vault_data response) (\<lambda>data.
            rbind (py_item data ''plaintext'') (\<lambda>p.
            rbind (or_raise ''binascii.Error'' (b64decode p)) (\<lambda>plaintext.
            rbind (py_item data ''ciphertext'') (\<lambda>c.
            Inr (plaintext, utf8 c, key_name)))))))
      else Inl (SecretManagerError (''Unsupported envelope provider '' @ quoted provider @ ''.'')))"

definition decrypt_envelope_data_key :: "services \<Rightarrow> environ \<Rightarrow> string \<Rightarrow> string \<Rightarrow> string option \<Rightarrow> string sm" where
  "decrypt_envelope_data_key sv env provider encrypted key_id =
     (if provider \<in> {''aws'', ''aws_kms'', ''kms''}
      then rbind (kms_region env) (\<lambda>_. call_result OtherError (sv_kms_decrypt sv encrypted))
      else if provider \<in> {''vault'', ''hashicorp_vault''}
      then rbind (or_raise ''UnicodeDecodeError'' (utf8_decode encrypted)) (\<lambda>c.
           rbind (vault_request sv env ''POST'' (''transit/decrypt/'' @ str_or key_id (vault_transit_key env))
                    (Some (JObj [(''ciphertext'', JStr c)])) True) (\<lambda>response.
           rbind (vault_data response) (\<lambda>data.
           rbind (py_item data ''plaintext'') (\<lambda>p. or_raise ''binascii.Error'' (b64decode p)))))
      else Inl (SecretManagerError (''Unsupported envelope provider '' @ quoted provider @ ''.'')))"

definition V2 :: string where "V2 = ''v2:aes256gcm:''"
definition V3 :: string where "V3 = ''v3:envelope:''"

definition envelope_payload :: "string \<Rightarrow> string \<Rightarrow> string \<Rightarrow> string \<Rightarrow> jval" where
  "envelope_payload provider key_id encrypted_key sealed = JObj
     [(''provider'', JStr provider), (''key_id'', JStr key_id),
      (''encrypted_data_key'', JStr (urlsafe_b64encode encrypted_key)),
      (''ciphertext'', JStr (urlsafe_b64encode sealed)), (''alg'', JStr ''AES-256-GCM'')]"

definition seal_envelope :: "services \<Rightarrow> environ \<Rightarrow> string \<Rightarrow> string \<Rightarrow> string sm" where
  "seal_envelope sv env nonce value =
     rbind (generate_envelope_data_key sv env (envelope_provider env)) (\<lambda>(key, encrypted_key, key_id).
     rbind (aes_encrypt sv key nonce (utf8 value)) (\<lambda>ct.
     Inr (V3 @ urlsafe_b64encode (utf8 (json_dumps
            (envelope_payload (envelope_provider env) key_id encrypted_key (nonce @ ct)))))))"

definition encrypt_with_envelope :: "services \<Rightarrow> environ \<Rightarrow> string \<Rightarrow> string \<Rightarrow> string option sm" where
  "encrypt_with_envelope sv env nonce value =
     (if envelope_provider env \<in> {'''', ''local'', ''local_env'', ''disabled'', ''none''} then Inr None
      else case seal_envelope sv env nonce value of
           Inr t \<Rightarrow> Inr (Some t)
         | Inl e \<Rightarrow>
             if is_production env \<and> lower (or_empty (env ''AUTHCLAW_REQUIRE_REMOTE_KMS'')) \<in> {''1'', ''true'', ''yes'', ''on''}
             then Inl e else Inr None)"

definition encrypt_local :: "services \<Rightarrow> string \<Rightarrow> string \<Rightarrow> string \<Rightarrow> sm_state \<Rightarrow> string sm" where
  "encrypt_local sv backend nonce value s =
     rbind (encryption_key sv backend s) (\<lambda>k.
     rbind (or_raise ''binascii.Error'' (urlsafe_b64decode (utf8 k))) (\<lambda>key.
     rbind (aes_encrypt sv key nonce (utf8 value)) (\<lambda>ct.
     Inr (V2 @ urlsafe_b64encode (nonce @ ct)))))"

definition encrypt_for_database :: "services \<Rightarrow> string \<Rightarrow> string \<Rightarrow> string \<Rightarrow> sm_state \<Rightarrow> string sm" where
  "encrypt_for_database sv backend nonce value s =
     rbind (encrypt_with_envelope sv (environ s) nonce value) (\<lambda>envelope.
       case envelope of
         Some t \<Rightarrow> Inr t
       | None \<Rightarrow> encrypt_local sv backend nonce value s)"

definition decrypt_with_envelope :: "services \<Rightarrow> environ \<Rightarrow> string \<Rightarrow> string sm" where
  "decrypt_with_envelope sv env t =
     rbind (or_raise ''binascii.Error'' (urlsafe_b64decode (utf8 (drop (length V3) t)))) (\<lambda>raw.
     rbind (or_raise ''UnicodeDecodeError'' (utf8_decode raw)) (\<lambda>txt.
     rbind (or_raise ''JSONDecodeError'' (json_loads txt)) (\<lambda>payload.
     rbind (py_get payload ''provider'' JNull) (\<lambda>pv.
     rbind (if truthy pv then json_str_option pv else Inr (Some (envelope_provider env))) (\<lambda>provider.
     rbind (py_item payload ''encrypted_data_key'') (\<lambda>ek64.
     rbind (or_raise ''binascii.Error'' (urlsafe_b64decode (utf8 ek64))) (\<lambda>ek.
     rbind (py_get payload ''key_id'' JNull) (\<lambda>kv.
     rbind (json_str_option kv) (\<lambda>key_id.
     rbind (decrypt_envelope_data_key sv env (lower (or_empty provider)) ek key_id) (\<lambda>key.
     rbind (py_item payload ''ciphertext'') (\<lambda>ct64.
     rbind (or_raise ''binascii.Error'' (urlsafe_b64decode (utf8 ct64))) (\<lambda>ct.
     aes_decrypt sv key ct))))))))))))"

definition decrypt_from_database :: "services \<Rightarrow> string \<Rightarrow> string \<Rightarrow> sm_state \<Rightarrow> string sm" where
  "decrypt_from_database sv backend t s =
     (if starts_with V3 t then decrypt_with_envelope sv (environ s) t
      else if starts_with V2 t
      then rbind (or_raise ''binascii.Error'' (urlsafe_b64decode (utf8 (drop (length V2) t)))) (\<lambda>payload.
           rbind (encryption_key sv backend s) (\<lambda>k.
           rbind (or_raise ''binascii.Error'' (urlsafe_b64decode (utf8 k))) (\<lambda>key.
           aes_decrypt sv key payload)))
      else rbind (encryption_key sv backend s) (\<lambda>k.
           rbind (or_raise ''InvalidToken'' (sv_fernet_decrypt sv k (utf8 t)))
             (\<lambda>p. or_raise ''UnicodeDecodeError'' (utf8_decode p))))"

section \<open>Provider credentials\<close>

record stored_payload =
  sp_provider :: string
  sp_secret_ref :: string
  sp_secret_backend :: string
  sp_secret_version :: "string option"
  sp_encrypted_payload :: string
  sp_key_fingerprint :: string
  sp_key_prefix :: string
  sp_rotated_at :: string

text \<open>\<open>str(payload.get("api_key") or "")\<close> on a payload whose key is a string.\<close>

definition api_key_of :: "(string \<times> jval) list \<Rightarrow> string" where
  "api_key_of payload = (case jget payload ''api_key'' of JStr s \<Rightarrow> s | _ \<Rightarrow> '''')"

definition jstr_opt :: "string option \<Rightarrow> jval" where
  "jstr_opt x = (case x of None \<Rightarrow> JNull | Some s \<Rightarrow> JStr s)"

definition store_provider_payload ::
  "services \<Rightarrow> string \<Rightarrow> int \<Rightarrow> string option \<Rightarrow> (string \<times> jval) list \<Rightarrow> string \<Rightarrow> string \<Rightarrow> bool
    \<Rightarrow> sm_state \<Rightarrow> stored_payload sm \<times> sm_state" where
  "store_provider_payload sv backend tenant_id provider payload nonce now db_ok s =
     (let normalized_provider = normalize_provider provider;
          name = secret_name_for_provider tenant_id (Some normalized_provider) in
      case put_secret sv backend name (json_dumps (JObj payload)) s of
        (Inl e, s1) \<Rightarrow> (Inl e, s1)
      | (Inr stored, s1) \<Rightarrow>
          (let database_payload = json_dumps (JObj
                 [(''provider'', JStr normalized_provider), (''secret_ref'', JStr (ss_name stored)),
                  (''secret_backend'', JStr (ss_backend stored)), (''secret_version'', jstr_opt (ss_version stored))])
           in case encrypt_for_database sv backend nonce database_payload s1 of
                Inl e \<Rightarrow> (Inl e, s1)
              | Inr enc \<Rightarrow>
                  (Inr \<lparr>sp_provider = normalized_provider, sp_secret_ref = ss_name stored,
                        sp_secret_backend = ss_backend stored, sp_secret_version = ss_version stored,
                        sp_encrypted_payload = enc,
                        sp_key_fingerprint = credential_fingerprint (sv_sha256 sv) (api_key_of payload),
                        sp_key_prefix = credential_prefix (api_key_of payload), sp_rotated_at = now\<rparr>,
                   audit_secret_event sv backend ''provider_secret_stored'' name ''tenant_admin''
                     (ss_version stored) now db_ok s1)))"

definition resolve_provider_payload ::
  "services \<Rightarrow> string \<Rightarrow> string option \<Rightarrow> string option \<Rightarrow> sm_state \<Rightarrow> jval sm" where
  "resolve_provider_payload sv backend secret_ref encrypted_payload s =
     rbind (if truthy_str secret_ref then get_secret sv backend (or_empty secret_ref) s else Inr None) (\<lambda>v.
       if truthy_str v then or_raise ''JSONDecodeError'' (json_loads (or_empty v))
       else if \<not> truthy_str encrypted_payload
       then Inl (SecretManagerError ''Provider credential payload is missing.'')
       else rbind (decrypt_from_database sv backend (or_empty encrypted_payload) s) (\<lambda>txt.
            rbind (or_raise ''JSONDecodeError'' (json_loads txt)) (\<lambda>payload.
              case payload of
                JObj m \<Rightarrow>
                  if truthy (jget m ''secret_ref'') \<and> \<not> truthy (jget m ''api_key'')
                  then rbind (json_str_option (jget m ''secret_ref'')) (\<lambda>ref.
                       rbind (get_secret sv backend (or_empty ref) s) (\<lambda>v2.
                         if truthy_str v2 then or_raise ''JSONDecodeError'' (json_loads (or_empty v2))
                         else Inl (SecretManagerError ''Provider credential secret reference is unavailable.'')))
                  else Inr payload
              | _ \<Rightarrow> Inr payload)))"

definition get_json_secret :: "services \<Rightarrow> string \<Rightarrow> string \<Rightarrow> sm_state \<Rightarrow> jval option sm" where
  "get_json_secret sv backend name s =
     rbind (get_secret sv backend name s) (\<lambda>v.
       if \<not> truthy_str v then Inr None
       else case json_loads (or_empty v) of
              Some j \<Rightarrow> Inr (Some j)
            | None \<Rightarrow> Inl (SecretManagerError (''Secret '' @ quoted name @ '' is not valid JSON.'')))"

section \<open>Health\<close>

definition error_text :: "sm_error \<Rightarrow> string" where
  "error_text e = (case e of SecretManagerError m \<Rightarrow> m | SecretValidationError m \<Rightarrow> m | OtherError m \<Rightarrow> m)"

text \<open>The two managed clients without a model report their own outcome.\<close>

definition health_check :: "services \<Rightarrow> unit sm \<Rightarrow> unit sm \<Rightarrow> string \<Rightarrow> sm_state \<Rightarrow> bool \<times> string" where
  "health_check sv azure google backend s =
     (let outcome =
        (if is_local backend
         then rbind (get_required_secret sv backend ''JWT_SECRET'' 32 s) (\<lambda>_.
              rbind (encryption_key sv backend s) (\<lambda>_.
              rbind (redaction_salt sv backend s) (\<lambda>_. Inr ())))
         else if backend = ''aws_secrets_manager'' then aws_client sv (environ s)
         else if backend \<in> {''hashicorp_vault'', ''vault''}
         then rbind (vault_request sv (environ s) ''GET'' ''sys/health'' None False) (\<lambda>_. Inr ())
         else if backend = ''azure_key_vault'' then azure
         else if backend = ''google_secret_manager'' then google
         else Inl (unsupported backend))
      in case outcome of Inr _ \<Rightarrow> (True, ''secret manager healthy'') | Inl e \<Rightarrow> (False, error_text e))"

definition validate_startup ::
  "services \<Rightarrow> unit sm \<Rightarrow> unit sm \<Rightarrow> string \<Rightarrow> bool option \<Rightarrow> sm_state \<Rightarrow> unit sm" where
  "validate_startup sv azure google backend production s =
     (let prod = (case production of None \<Rightarrow> is_production (environ s) | Some b \<Rightarrow> b);
          health = health_check sv azure google backend s;
          errors = (if fst health then [] else [snd health]) @
            (if prod \<and> is_local backend
             then [''production requires AUTHCLAW_SECRET_BACKEND to be aws_secrets_manager, hashicorp_vault, azure_key_vault, or google_secret_manager'']
             else [])
      in if errors \<noteq> [] then Inl (SecretValidationError (intercalate ''; '' errors)) else Inr ())"

definition bootstrap_local_process_secrets :: "string \<Rightarrow> string \<Rightarrow> string \<Rightarrow> environ \<Rightarrow> environ" where
  "bootstrap_local_process_secrets jwt fernet salt env =
     (if is_production env then env
      else let e1 = (if env ''AUTHCLAW_SECRET_BACKEND'' = None
                     then env(''AUTHCLAW_SECRET_BACKEND'' \<mapsto> ''local_env'') else env);
               e2 = (if \<not> truthy_str (e1 ''JWT_SECRET'') \<and> \<not> truthy_str (e1 ''AUTHCLAW_JWT_SECRET'')
                     then e1(''JWT_SECRET'' \<mapsto> jwt) else e1);
               e3 = (if \<not> truthy_str (e2 ''AUTHCLAW_ENCRYPTION_KEY'')
                     then e2(''AUTHCLAW_ENCRYPTION_KEY'' \<mapsto> fernet) else e2)
           in if \<not> truthy_str (e3 ''AUTHCLAW_REDACTION_SALT'')
              then e3(''AUTHCLAW_REDACTION_SALT'' \<mapsto> salt) else e3)"

section \<open>Laws\<close>

lemma get_secret_local: "is_local backend \<Longrightarrow> get_secret sv backend name s
    = Inr (if truthy_str (environ s name) then environ s name else local_cache s name)"
  by (simp add: get_secret_def)

lemma length_urlsafe_b64encode: "length (urlsafe_b64encode s) mod 4 = 0"
  by (induction s rule: urlsafe_b64encode.induct) (simp_all add: Let_def mod_Suc)

lemma urlsafe_b64encode_ascii: "is_ascii (urlsafe_b64encode s)"
proof -
  obtain k where "urlsafe_b64encode s = b64_core s @ replicate k (CHR ''='')" using encode_core by blast
  then show ?thesis using b64_core_ascii [of s] by (auto simp: is_ascii_def list_all_iff)
qed

lemma urlsafe_b64_roundtrip [simp]: "urlsafe_b64decode (urlsafe_b64encode s) = Some s"
proof -
  obtain k where k: "urlsafe_b64encode s = b64_core s @ replicate k (CHR ''='')" using encode_core by blast
  have "(length (b64_core s) + k) mod 4 = 0" using length_urlsafe_b64encode [of s] k by simp
  then show ?thesis using urlsafe_b64encode_ascii [of s]
    by (simp add: urlsafe_b64decode_def k a2b_core)
qed

interpretation column_b64: transport urlsafe_b64encode urlsafe_b64decode
  by unfold_locales simp

lemma utf8_b64 [simp]: "utf8 (urlsafe_b64encode s) = urlsafe_b64encode s"
  using urlsafe_b64encode_ascii [of s] by (simp add: is_ascii_def utf8_ascii)

text \<open>Authenticated encryption: what was sealed opens to the same text.\<close>

definition aead_law :: "services \<Rightarrow> bool" where
  "aead_law sv = (\<forall>k n p. length n = 12 \<longrightarrow> sv_unseal sv k n (sv_seal sv k n p) = Some p)"

definition kms_law :: "services \<Rightarrow> bool" where
  "kms_law sv = (\<forall>kid p blob. sv_kms_generate sv kid = Returned (p, blob) \<longrightarrow> sv_kms_decrypt sv blob = Returned p)"

text \<open>The transit engine of Vault decrypts, under the same key name, a data key it has generated.\<close>

definition vault_transit_law :: "services \<Rightarrow> bool" where
  "vault_transit_law sv = (\<forall>url tok key st body d p c.
     sv_http sv ''POST'' (url @ ''transit/datakey/plaintext/'' @ key) tok (Some (JObj [(''bits'', JInt 256)])) = (st, body) \<and>
     st < 400 \<and> vault_data body = Inr d \<and> py_item d ''plaintext'' = Inr p \<and> py_item d ''ciphertext'' = Inr c \<longrightarrow>
     (\<exists>body' d'. sv_http sv ''POST'' (url @ ''transit/decrypt/'' @ key) tok (Some (JObj [(''ciphertext'', JStr c)])) = (200, body') \<and>
        vault_data body' = Inr d' \<and> py_item d' ''plaintext'' = Inr p))"

lemma vault_transit_lawD:
  assumes "vault_transit_law sv"
    "sv_http sv ''POST'' (url @ ''transit/datakey/plaintext/'' @ key) tok (Some (JObj [(''bits'', JInt 256)])) = (st, body)"
    "st < 400" "vault_data body = Inr d" "py_item d ''plaintext'' = Inr p" "py_item d ''ciphertext'' = Inr c"
  shows "\<exists>body' d'. sv_http sv ''POST'' (url @ ''transit/decrypt/'' @ key) tok (Some (JObj [(''ciphertext'', JStr c)])) = (200, body') \<and>
     vault_data body' = Inr d' \<and> py_item d' ''plaintext'' = Inr p"
  using assms(1) [unfolded vault_transit_law_def, rule_format, of url key tok st body d p c] assms(2-) by simp

lemma aes_roundtrip:
  assumes "aead_law sv" "length nonce = 12" "aes_encrypt sv key nonce (utf8 value) = Inr ct"
  shows "aes_decrypt sv key (nonce @ ct) = Inr value"
  using assms by (auto simp: aead_law_def aes_encrypt_def aes_decrypt_def split: if_splits)

lemma data_key_roundtrip:
  assumes kms: "kms_law sv" and vault: "vault_transit_law sv"
    and gen: "generate_envelope_data_key sv env provider = Inr (key, ek, kid)"
  shows "decrypt_envelope_data_key sv env provider ek (Some kid) = Inr key"
proof (cases "provider \<in> {''aws'', ''aws_kms'', ''kms''}")
  case True
  then show ?thesis using gen kms
    by (auto simp: generate_envelope_data_key_def decrypt_envelope_data_key_def rbind_eq_Inr kms_law_def
        call_result_def split: call.splits)
next
  case False
  then have v: "provider \<in> {''vault'', ''hashicorp_vault''}"
    using gen by (auto simp: generate_envelope_data_key_def split: if_splits)
  let ?url = "vault_base (or_empty (env ''VAULT_ADDR'')) @ ''/v1/''"
  let ?tok = "or_empty (env ''VAULT_TOKEN'')"
  let ?kn = "vault_transit_key env"
  have gen': "rbind (vault_request sv env ''POST'' (''transit/datakey/plaintext/'' @ ?kn)
                     (Some (JObj [(''bits'', JInt 256)])) True) (\<lambda>response.
            rbind (vault_data response) (\<lambda>data.
            rbind (py_item data ''plaintext'') (\<lambda>p.
            rbind (or_raise ''binascii.Error'' (b64decode p)) (\<lambda>plaintext.
            rbind (py_item data ''ciphertext'') (\<lambda>c.
            Inr (plaintext, utf8 c, ?kn)))))) = Inr (key, ek, kid)"
    using gen v False unfolding generate_envelope_data_key_def Let_def by (simp only: if_True if_False)
  obtain response where r: "vault_request sv env ''POST'' (''transit/datakey/plaintext/'' @ ?kn)
      (Some (JObj [(''bits'', JInt 256)])) True = Inr response"
    and gen2: "rbind (vault_data response) (\<lambda>data.
            rbind (py_item data ''plaintext'') (\<lambda>p.
            rbind (or_raise ''binascii.Error'' (b64decode p)) (\<lambda>plaintext.
            rbind (py_item data ''ciphertext'') (\<lambda>c.
            Inr (plaintext, utf8 c, ?kn))))) = Inr (key, ek, kid)"
    using gen' unfolding rbind_eq_Inr by blast
  obtain d p c where kid: "kid = ?kn" and d: "vault_data response = Inr d" "py_item d ''plaintext'' = Inr p"
      "b64decode p = Some key" "py_item d ''ciphertext'' = Inr c" "ek = utf8 c"
    using gen2 by (auto simp: rbind_eq_Inr or_raise_def split: option.splits)
  obtain st where h: "sv_http sv ''POST'' (?url @ ''transit/datakey/plaintext/'' @ kid) ?tok
      (Some (JObj [(''bits'', JInt 256)])) = (st, response)" "st < 400"
    and addr: "truthy_str (env ''VAULT_ADDR'')" "truthy_str (env ''VAULT_TOKEN'')"
    using r kid by (simp add: vault_request_def lstrip_by_def split: if_splits prod.splits)
  obtain body' d' where "sv_http sv ''POST'' (?url @ ''transit/decrypt/'' @ kid) ?tok
      (Some (JObj [(''ciphertext'', JStr c)])) = (200, body')" "vault_data body' = Inr d'" "py_item d' ''plaintext'' = Inr p"
    using vault_transit_lawD [OF vault _ h(2) d(1,2,4), of ?url kid ?tok] h(1) by auto
  moreover have "str_or (Some kid) kid = kid" by (cases kid) auto
  ultimately show ?thesis using v False d addr kid
    unfolding decrypt_envelope_data_key_def by (simp add: vault_request_def lstrip_by_def del: insert_iff)
qed

lemma envelope_provider_lower [simp]: "lower (envelope_provider env) = envelope_provider env"
  by (simp add: envelope_provider_def)

lemma envelope_roundtrip:
  assumes laws: "aead_law sv" "kms_law sv" "vault_transit_law sv" and n: "length nonce = 12"
    and p: "envelope_provider env \<noteq> []" and e: "seal_envelope sv env nonce value = Inr t"
  shows "starts_with V3 t \<and> decrypt_with_envelope sv env t = Inr value"
proof -
  obtain key ek kid ct where g: "generate_envelope_data_key sv env (envelope_provider env) = Inr (key, ek, kid)"
    and a: "aes_encrypt sv key nonce (utf8 value) = Inr ct"
    and t: "t = V3 @ urlsafe_b64encode (utf8 (json_dumps (envelope_payload (envelope_provider env) kid ek (nonce @ ct))))"
    using e by (auto simp: seal_envelope_def rbind_eq_Inr)
  note data_key_roundtrip [OF laws(2,3) g] aes_roundtrip [OF laws(1) n a]
  then show ?thesis using p
    by (simp add: t decrypt_with_envelope_def envelope_payload_def py_get_def py_item_def json_str_option_def)
qed

lemma get_secret_put_local:
  assumes "is_local backend" "value \<noteq> []"
  shows "get_secret sv backend name' (snd (put_secret sv backend name value s))
    = (if name' = name then Inr (Some value) else get_secret sv backend name' s)"
  using assms by (cases "value") (auto simp: get_secret_local put_secret_def)

lemma v2_not_v3: "\<not> starts_with V3 (V2 @ t)"
  by (simp add: V2_def V3_def)

lemma local_roundtrip:
  assumes "aead_law sv" "length nonce = 12" "encrypt_local sv backend nonce value s = Inr t"
  shows "decrypt_from_database sv backend t s = Inr value"
proof -
  obtain k key ct where k: "encryption_key sv backend s = Inr k" "urlsafe_b64decode (utf8 k) = Some key"
    and c: "aes_encrypt sv key nonce (utf8 value) = Inr ct" and t: "t = V2 @ urlsafe_b64encode (nonce @ ct)"
    using assms(3) by (auto simp: encrypt_local_def rbind_eq_Inr or_raise_def split: option.splits)
  show ?thesis using k aes_roundtrip [OF assms(1,2) c]
    by (simp add: t decrypt_from_database_def v2_not_v3)
qed

lemma underscored_idem: "replace_char (CHR '' '') (CHR ''_'') (lower (replace_char (CHR '' '') (CHR ''_'') (lower x)))
    = replace_char (CHR '' '') (CHR ''_'') (lower x)"
proof -
  have "lower_char (CHR ''_'') = CHR ''_''" by (simp add: lower_char_def)
  then show ?thesis by (auto simp: replace_char_def lower_def)
qed

lemma normalize_provider_fixed: "p \<in> {''gemini'', ''azure_openai'', ''anthropic'', ''cohere''} \<Longrightarrow> normalize_provider (Some p) = p"
  by (elim insertE emptyE; hypsubst; code_simp)

lemma normalize_provider_cong:
  "replace_char (CHR '' '') (CHR ''_'') (lower (or_empty p)) = replace_char (CHR '' '') (CHR ''_'') (lower (or_empty q))
    \<Longrightarrow> normalize_provider p = normalize_provider q"
  unfolding normalize_provider_def by (simp only:)

lemma normalize_provider_idem: "normalize_provider (Some (normalize_provider p)) = normalize_provider p"
proof (cases "normalize_provider p \<in> {''gemini'', ''azure_openai'', ''anthropic'', ''cohere''}")
  case True
  then show ?thesis by (rule normalize_provider_fixed)
next
  case False
  then have q: "normalize_provider p = replace_char (CHR '' '') (CHR ''_'') (lower (or_empty p))"
    unfolding normalize_provider_def Let_def by (simp split: if_splits)
  show ?thesis
    by (rule normalize_provider_cong) (subst q, simp only: or_empty_simps underscored_idem)
qed

section \<open>Properties\<close>

text \<open>C24: What \<open>encrypt_for_database\<close> returns, with a local key, an AWS KMS data key or a
  Vault data key (or with the fallback to the local key when the envelope service fails),
  \<open>decrypt_from_database\<close> reads back, for an authenticated cipher and key services that
  decrypt what they generated.\<close>

theorem database_encryption_roundtrip:
  assumes "aead_law sv" "kms_law sv" "vault_transit_law sv" "length nonce = 12"
    and "encrypt_for_database sv backend nonce value s = Inr t"
  shows "decrypt_from_database sv backend t s = Inr value"
proof -
  obtain e where e: "encrypt_with_envelope sv (environ s) nonce value = Inr e"
    and t: "(case e of Some t' \<Rightarrow> Inr t' | None \<Rightarrow> encrypt_local sv backend nonce value s) = Inr t"
    using assms(5) by (auto simp: encrypt_for_database_def rbind_eq_Inr)
  show ?thesis
  proof (cases e)
    case None
    then show ?thesis using local_roundtrip [OF assms(1,4)] t by simp
  next
    case (Some t')
    then have "seal_envelope sv (environ s) nonce value = Inr t" "envelope_provider (environ s) \<noteq> []"
      using e t by (auto simp: encrypt_with_envelope_def split: if_splits sum.splits)
    then show ?thesis using envelope_roundtrip [OF assms(1-4)] by (simp add: decrypt_from_database_def)
  qed
qed

definition demo_services :: services where
  "demo_services = \<lparr>sv_sha256 = (\<lambda>x. replicate 64 (CHR ''a'')), sv_hmac = (\<lambda>k x. replicate 64 (CHR ''b'')),
     sv_seal = (\<lambda>k n p. rev p), sv_unseal = (\<lambda>k n c. Some (rev c)), sv_fernet_ok = (\<lambda>k. length k = 44),
     sv_fernet_decrypt = (\<lambda>k t. None), sv_aws_client = None, sv_aws_get = (\<lambda>n. Missing),
     sv_aws_put = (\<lambda>n v. Missing), sv_aws_create = (\<lambda>n v. Returned (Some ''1'')), sv_aws_delete = (\<lambda>n. Missing),
     sv_http = (\<lambda>m u t p. (503, None)), sv_azure_get = (\<lambda>n. Inr None), sv_azure_put = (\<lambda>n v. Inr None),
     sv_google_get = (\<lambda>n. Inr ''x''), sv_google_put = (\<lambda>n v. Inr ''1''),
     sv_kms_generate = (\<lambda>k. Returned (replicate 32 (CHR ''k''), ''blob'')),
     sv_kms_decrypt = (\<lambda>b. Returned (replicate 32 (CHR ''k'')))\<rparr>"

definition demo_env :: environ where
  "demo_env = [''AUTHCLAW_ENVELOPE_PROVIDER'' \<mapsto> '' AWS '', ''AWS_REGION'' \<mapsto> ''eu'', ''AWS_KMS_KEY_ID'' \<mapsto> ''key-1'']"

definition demo_state :: sm_state where
  "demo_state = \<lparr>environ = demo_env, local_cache = Map.empty, sm_chain = empty_audit_db\<rparr>"

lemma demo_laws: "aead_law demo_services" "kms_law demo_services" "vault_transit_law demo_services"
  by (simp_all add: aead_law_def kms_law_def vault_transit_law_def demo_services_def)

lemma demo_provider: "envelope_provider demo_env = ''aws''"
  by code_simp

lemma demo_encrypted: "\<exists>t. encrypt_for_database demo_services ''local_env'' (replicate 12 (CHR ''n'')) ''4111'' demo_state = Inr t"
  by (simp add: encrypt_for_database_def encrypt_with_envelope_def seal_envelope_def demo_state_def demo_provider
      generate_envelope_data_key_def aws_kms_key_id_def kms_region_def call_result_def aes_encrypt_def)
     (simp add: demo_env_def demo_services_def call_result_def)

theorem database_encryption_roundtrip_witness:
  "\<exists>t. encrypt_for_database demo_services ''local_env'' (replicate 12 (CHR ''n'')) ''4111'' demo_state = Inr t \<and>
     decrypt_from_database demo_services ''local_env'' t demo_state = Inr ''4111''"
  using demo_encrypted database_encryption_roundtrip [OF demo_laws,
      of "replicate 12 (CHR ''n'')" "''local_env''" "''4111''" demo_state] by auto

text \<open>A credential payload stored for a provider with a local backend is what the returned
  reference resolves to, until that name is written again.\<close>

theorem stored_payload_resolves:
  assumes "is_local backend" "dict_json (JObj payload)"
    and "store_provider_payload sv backend tenant_id provider payload nonce now db_ok s = (Inr row, s')"
  shows "resolve_provider_payload sv backend (Some (sp_secret_ref row)) enc s' = Inr (JObj payload)
    \<and> sp_secret_ref row = secret_name_for_provider tenant_id provider"
proof -
  let ?n = "secret_name_for_provider tenant_id (Some (normalize_provider provider))"
  let ?v = "json_dumps (JObj payload)"
  obtain c r where v: "?v = c # r" unfolding json_dumps_def using dumps_not_ws by blast
  obtain st s1 where p: "put_secret sv backend ?n ?v s = (Inr st, s1)" and st: "ss_name st = ?n"
    using assms(1) v by (auto simp: put_secret_def Let_def)
  have s1: "s1 = snd (put_secret sv backend ?n ?v s)" using p by simp
  have g: "get_secret sv backend ?n s1 = Inr (Some ?v)"
    unfolding s1 using assms(1) v by (simp add: get_secret_put_local)
  have row: "sp_secret_ref row = ?n" and s': "environ s' = environ s1" "local_cache s' = local_cache s1"
    using assms(3) p st
    by (auto simp: store_provider_payload_def Let_def audit_secret_event_def split: sum.splits if_splits)
  have "get_secret sv backend ?n s' = Inr (Some ?v)"
    using g unfolding get_secret_local [OF assms(1)] s' .
  moreover have "?n = secret_name_for_provider tenant_id provider"
    by (simp add: secret_name_for_provider_def normalize_provider_idem)
  moreover have "truthy_str (Some ?n)" by (simp add: secret_name_for_provider_def)
  moreover have "json_loads ?v = Some (JObj payload)" "truthy_str (Some ?v)"
    using json_loads_dumps [OF assms(2)] v by simp_all
  ultimately show ?thesis using row by (simp add: resolve_provider_payload_def del: dict_json.simps)
qed

definition demo_payload :: "(string \<times> jval) list" where
  "demo_payload = [(''api_key'', JStr ''k-1'')]"

lemma demo_encrypted_after_write:
  assumes "environ s = demo_env(''authclaw/tenants/7/providers/gemini'' \<mapsto> v)"
  shows "\<exists>t. encrypt_for_database demo_services backend (replicate 12 (CHR ''n'')) x s = Inr t"
proof -
  have "envelope_provider (environ s) = ''aws''"
    using demo_provider unfolding assms by (simp add: envelope_provider_def)
  then show ?thesis
    by (simp add: encrypt_for_database_def encrypt_with_envelope_def seal_envelope_def
        generate_envelope_data_key_def aws_kms_key_id_def kms_region_def call_result_def aes_encrypt_def)
       (simp add: assms demo_env_def demo_services_def call_result_def)
qed

lemma demo_stored: "\<exists>row s'. store_provider_payload demo_services ''local_env'' 7 (Some ''gemini'') demo_payload
    (replicate 12 (CHR ''n'')) ''now'' True demo_state = (Inr row, s')"
proof -
  let ?n = "''authclaw/tenants/7/providers/gemini''"
  have n: "normalize_provider (Some ''gemini'') = ''gemini''" by (rule normalize_provider_fixed) simp
  have sn: "secret_name_for_provider 7 (Some ''gemini'') = ?n"
    by (simp add: secret_name_for_provider_def n show_int_def show_nat.simps digit_char_def) code_simp
  obtain c r where v: "json_dumps (JObj demo_payload) = c # r"
    using dumps_not_ws unfolding json_dumps_def by blast
  obtain st s1 where p: "put_secret demo_services ''local_env'' ?n (json_dumps (JObj demo_payload)) demo_state = (Inr st, s1)"
    and e: "environ s1 = demo_env(?n \<mapsto> json_dumps (JObj demo_payload))"
    by (simp add: put_secret_def is_local_def v demo_state_def)
  obtain t where "encrypt_for_database demo_services ''local_env'' (replicate 12 (CHR ''n''))
      (json_dumps (JObj [(''provider'', JStr ''gemini''), (''secret_ref'', JStr (ss_name st)),
        (''secret_backend'', JStr (ss_backend st)), (''secret_version'', jstr_opt (ss_version st))])) s1 = Inr t"
    using demo_encrypted_after_write [OF e] by blast
  then show ?thesis
    unfolding store_provider_payload_def Let_def n sn p by simp
qed

theorem stored_payload_resolves_witness:
  "\<exists>row s'. store_provider_payload demo_services ''local_env'' 7 (Some ''gemini'') demo_payload
      (replicate 12 (CHR ''n'')) ''now'' True demo_state = (Inr row, s') \<and>
    resolve_provider_payload demo_services ''local_env'' (Some (sp_secret_ref row)) None s' = Inr (JObj demo_payload)"
proof -
  obtain row s' where r: "store_provider_payload demo_services ''local_env'' 7 (Some ''gemini'') demo_payload
      (replicate 12 (CHR ''n'')) ''now'' True demo_state = (Inr row, s')"
    using demo_stored by blast
  have "is_local ''local_env''" "dict_json (JObj demo_payload)" by (simp_all add: is_local_def demo_payload_def)
  then show ?thesis using stored_payload_resolves [OF _ _ r] r by blast
qed

text \<open>The process starts in production only on a managed backend that reports itself healthy.\<close>

theorem production_needs_managed_backend:
  "validate_startup sv azure google backend production s = Inr () \<longleftrightarrow>
     fst (health_check sv azure google backend s) \<and>
     \<not> ((case production of None \<Rightarrow> is_production (environ s) | Some b \<Rightarrow> b) \<and> is_local backend)"
  by (auto simp: validate_startup_def Let_def)

text \<open>The displayed prefix of a key has at most thirteen characters, and at most ten of the
  key's own.\<close>

theorem credential_prefix_bounds:
  "length (credential_prefix key) \<le> 13 \<and>
   (\<exists>a b. credential_prefix key \<in> {'''', a @ ''...'' @ b} \<and> length a + length b \<le> 10 \<and>
      prefix a key \<and> suffix b key \<and> length a + length b \<le> length key)"
proof (cases "12 < length key")
  case True
  then show ?thesis
    by (intro conjI exI [of _ "take 6 key"] exI [of _ "drop (length key - 4) key"])
       (auto simp: credential_prefix_def take_is_prefix suffix_drop)
next
  case False
  then show ?thesis
    by (intro conjI exI [of _ "take 3 key"] exI [of _ "[]"])
       (auto simp: credential_prefix_def take_is_prefix min_def)
qed

end
