(* ===== verification/Sensitive_Data.thy ===== *)
theory Sensitive_Data
  imports Complex_Main "HOL-Library.Product_Lexorder" Py_Regex Secret_Manager
begin

text \<open>
  \<open>services/sensitive_data_detection.py\<close>: the recognizers, the resolution of overlapping
  findings, the action and the replacement of a finding, and the redaction of a text.

  A finding is a \<open>record\<close>; its confidence is a rational.  The regular expressions of the class
  are transcribed into \<open>Py_Regex\<close>.  Presidio (analyzer and anonymizer), the compiler of
  tenant-supplied expressions and the clock are parameters; fingerprints come from
  \<open>Secret_Manager\<close>.  Two findings are the same object exactly if they have the same
  position in the list of all findings, so \<open>dedupe\<close> runs on numbered findings.
\<close>

section \<open>Recognizers\<close>

definition SECRET_TYPES :: "string set" where
  "SECRET_TYPES = {''openai_api_key'', ''google_api_key'', ''aws_access_key'', ''jwt_token'', ''bearer_token'',
     ''api_key_param'', ''secret_param'', ''token_param'', ''access_token'', ''private_key''}"

record sensitive_finding =
  entity_type :: string
  f_start :: nat
  f_end :: nat
  f_value :: string
  confidence :: rat
  f_source :: string

definition cls_or :: "(char \<Rightarrow> bool) \<Rightarrow> string \<Rightarrow> re" where
  "cls_or p cs = Cls (either_class p (one_of cs))"

definition letter :: "char \<Rightarrow> bool" where "letter c = (is_upper c \<or> is_lower c)"
definition upper_or_digit :: "char \<Rightarrow> bool" where "upper_or_digit c = (is_upper c \<or> is_digit c)"
definition not_digit_before :: re where "not_digit_before = NotBehind is_digit"
definition not_digit_after :: re where "not_digit_after = NotAhead is_digit"

definition email_re :: re where
  "email_re = seq [at_least 1 (cls_or is_word ''.+-''), chr (CHR ''@''), at_least 1 (cls_or is_word ''.-''),
     chr (CHR ''.''), at_least 2 (Cls letter)]"

definition phone_re :: re where
  "phone_re = seq [not_digit_before, opt (seq [lit ''+91'', opt (cls_or is_space ''-'')]),
     Cls (code_in 54 57), times 9 digit, not_digit_after]"

definition aadhaar_re :: re where
  "aadhaar_re = seq [not_digit_before, times 4 digit, opt (cls_or is_space ''-''), times 4 digit,
     opt (cls_or is_space ''-''), times 4 digit, not_digit_after]"

definition pan_re :: re where
  "pan_re = seq [WordB, times 5 (Cls is_upper), times 4 digit, Cls is_upper, WordB]"

definition gstin_re :: re where
  "gstin_re = seq [WordB, times 2 digit, times 5 (Cls is_upper), times 4 digit, Cls is_upper,
     Cls (either_class (code_in 49 57) is_upper), chr (CHR ''Z''), Cls upper_or_digit, WordB]"

definition card_brand_re :: re where
  "card_brand_re = seq [WordB, alts
     [seq [chr (CHR ''4''), times 12 digit, opt (times 3 digit)],
      seq [chr (CHR ''5''), Cls (code_in 49 53), times 14 digit],
      seq [chr (CHR ''3''), Cls (one_of ''47''), times 13 digit],
      seq [chr (CHR ''6''), alts [lit ''011'', seq [chr (CHR ''5''), times 2 digit],
             seq [chr (CHR ''4''), Cls (code_in 52 57), times 1 digit]], times 12 digit]], WordB]"

definition card_delimited_re :: re where
  "card_delimited_re = seq [WordB, times 4 digit, opt (Cls (one_of ''- '')), times 4 digit, opt (Cls (one_of ''- '')),
     times 4 digit, opt (Cls (one_of ''- '')), times 4 digit, WordB]"

definition ssn_re :: re where
  "ssn_re = seq [WordB, times 3 digit, chr (CHR ''-''), times 2 digit, chr (CHR ''-''), times 4 digit, WordB]"

definition name_re :: re where
  "name_re = seq [WordB, alts (map lit [''name'', ''full name'', ''patient name'', ''employee name'']), many space,
     alts [lit ''is'', lit '':''], many space,
     Grp 1 (seq [Cls is_upper, at_least 1 (Cls is_lower),
        between 1 3 (seq [at_least 1 space, Cls is_upper, at_least 1 (Cls is_lower)])]), WordB]"

definition address_re :: re where
  "address_re = icase (seq [WordB, alts (map lit [''address'', ''home address'', ''office address'']), many space,
     alts [lit ''is'', lit '':''], many space,
     Grp 1 (seq [Cls is_alnum, between 12 120 (Cls (either_class (either_class is_alnum is_space) (one_of '',.-/#'')))])])"

definition medical_record_re :: "nat \<Rightarrow> re" where
  "medical_record_re n = icase (seq [WordB,
     alts (map lit [''MR'', ''EMR'', ''PT'', ''PID'', ''PATIENT'', ''PATIENTID'']), opt (Cls (one_of ''- '')),
     between 4 n digit, WordB])"

definition medical_id_re :: re where
  "medical_id_re = icase (seq [WordB, alts (map lit [''medical record'', ''patient id'', ''patient identifier'']), many space,
     opt (alts [lit ''number'', lit ''no'', lit ''id'', lit ''is'', lit '':'']), many space,
     Grp 1 (between 4 16 (cls_or is_alnum ''_-'')), WordB])"

definition account_re :: re where
  "account_re = icase (seq [WordB, alts (map lit [''account number'', ''bank account'', ''routing number'', ''ifsc'']),
     many space, opt (alts [lit ''is'', lit '':'']), many space,
     Grp 1 (between 6 24 (cls_or upper_or_digit ''_-'')), WordB])"

definition ifsc_re :: re where
  "ifsc_re = seq [WordB, times 4 (Cls is_upper), chr (CHR ''0''), times 6 (Cls upper_or_digit), WordB]"

definition openai_re :: re where
  "openai_re = seq [WordB, lit ''sk-'', Cls is_alnum, at_least 15 (cls_or is_alnum ''_-''), WordB]"

definition google_re :: re where
  "google_re = seq [WordB, lit ''AIza'', at_least 20 (cls_or is_alnum ''_-''), WordB]"

definition aws_re :: re where
  "aws_re = seq [WordB, alts (map lit [''AKIA'', ''ASIA'', ''AROA'', ''ANPA'']), times 16 (Cls upper_or_digit), WordB]"

definition jwt_re :: re where
  "jwt_re = seq [WordB, lit ''eyJ'', at_least 20 (cls_or is_alnum ''_-''), chr (CHR ''.''),
     at_least 1 (cls_or is_alnum ''_-''), chr (CHR ''.''), at_least 1 (cls_or is_alnum ''_-''), WordB]"

definition bearer_re :: re where
  "bearer_re = icase (seq [WordB, lit ''Bearer'', at_least 1 space, at_least 20 (cls_or is_alnum ''._~+/=-''), WordB])"

text \<open>\<open>\b<name>\s*[=:]\s*['"]?([A-Za-z0-9._/+=-]{8,})['"]?\<close>, ignoring case.\<close>

definition param_re :: "re \<Rightarrow> re" where
  "param_re name = icase (seq [WordB, name, many space, Cls (one_of ''=:''), many space,
     opt (Cls (one_of [CHR 0x27, CHR 0x22])), Grp 1 (at_least 8 (cls_or is_alnum ''._/+=-'')),
     opt (Cls (one_of [CHR 0x27, CHR 0x22]))])"

definition joined :: "string \<Rightarrow> string \<Rightarrow> re" where
  "joined a b = seq [lit a, opt (Cls (one_of ''_-'')), lit b]"

definition custom_patterns :: "(string \<times> re \<times> rat) list" where
  "custom_patterns =
    [(''email'', email_re, 96/100),
     (''phone'', phone_re, 88/100),
     (''aadhaar'', aadhaar_re, 98/100),
     (''pan'', pan_re, 98/100),
     (''gstin'', gstin_re, 98/100),
     (''credit_card'', card_brand_re, 93/100),
     (''credit_card'', card_delimited_re, 86/100),
     (''ssn'', ssn_re, 92/100),
     (''name'', name_re, 82/100),
     (''address'', address_re, 82/100),
     (''medical_identifier'', medical_record_re 10, 90/100),
     (''medical_identifier'', medical_id_re, 88/100),
     (''financial_identifier'', account_re, 86/100),
     (''financial_identifier'', ifsc_re, 90/100),
     (''openai_api_key'', openai_re, 99/100),
     (''google_api_key'', google_re, 99/100),
     (''aws_access_key'', aws_re, 99/100),
     (''jwt_token'', jwt_re, 99/100),
     (''bearer_token'', bearer_re, 99/100),
     (''api_key_param'', param_re (joined ''api'' ''key''), 94/100),
     (''secret_param'', param_re (lit ''secret''), 94/100),
     (''token_param'', param_re (lit ''token''), 94/100),
     (''access_token'', param_re (joined ''access'' ''token''), 96/100),
     (''private_key'', param_re (joined ''private'' ''key''), 96/100)]"

text \<open>A finding of a match: group 1 where it took part, the whole match otherwise.\<close>

definition match_finding :: "string \<Rightarrow> string \<Rightarrow> rat \<Rightarrow> string \<Rightarrow> rmatch \<Rightarrow> sensitive_finding" where
  "match_finding text ty conf src m =
     (let g = (if m_caps m = [] then 0 else 1);
          sp = (case m_span m g of Some p \<Rightarrow> p | None \<Rightarrow> (0, 0))
      in \<lparr>entity_type = ty, f_start = fst sp, f_end = snd sp, f_value = m_group text m g,
          confidence = conf, f_source = src\<rparr>)"

definition custom_findings :: "string \<Rightarrow> sensitive_finding list" where
  "custom_findings text = concat (map (\<lambda>(ty, r, conf).
     map (match_finding text ty conf ''custom'') (finditer r text)) custom_patterns)"

text \<open>A tenant-defined entity; \<open>None\<close> for a missing field, and for a confidence also \<open>Some None\<close>
  where \<open>float\<close> refuses the value.\<close>

record entity_item =
  ei_type :: "string option"
  ei_pattern :: "string option"
  ei_ignore_case :: bool
  ei_confidence :: "rat option option"

record sensitive_policy =
  sp_actions :: "(string \<times> string) list option"
  sp_threshold :: "rat option"
  sp_default_action :: "string option"
  sp_custom_entities :: "entity_item list option"

definition empty_sensitive_policy :: sensitive_policy where
  "empty_sensitive_policy = \<lparr>sp_actions = None, sp_threshold = None, sp_default_action = None, sp_custom_entities = None\<rparr>"

record presidio_result =
  pr_type :: string
  pr_start :: nat
  pr_end :: nat
  pr_score :: rat

record sd_env =
  sd_policy :: "sensitive_policy option"
  sd_env_entities :: "entity_item list"
  sd_compile :: "string \<Rightarrow> bool \<Rightarrow> re option"
  sd_analyzer :: "(string \<Rightarrow> presidio_result list option) option"
  sd_anonymizer :: "(string \<Rightarrow> rat \<Rightarrow> string \<Rightarrow> string \<Rightarrow> string option) option"
  sd_services :: services
  sd_secrets :: sm_state

definition policy_config :: "sd_env \<Rightarrow> sensitive_policy" where
  "policy_config e = (case sd_policy e of None \<Rightarrow> empty_sensitive_policy | Some p \<Rightarrow> p)"

definition enterprise_patterns :: "sd_env \<Rightarrow> entity_item list" where
  "enterprise_patterns e = (case sp_custom_entities (policy_config e) of None \<Rightarrow> [] | Some l \<Rightarrow> l) @ sd_env_entities e"

definition compiled_entity :: "sd_env \<Rightarrow> entity_item \<Rightarrow> (string \<times> re \<times> rat) option" where
  "compiled_entity e it =
     (case (ei_type it, ei_pattern it) of
        (Some ty, Some p) \<Rightarrow>
          (case (sd_compile e p (ei_ignore_case it), ei_confidence it) of
             (None, _) \<Rightarrow> None
           | (Some r, None) \<Rightarrow> Some (replace_char (CHR '' '') (CHR ''_'') (strip (lower ty)), r, 86/100)
           | (Some r, Some None) \<Rightarrow> None
           | (Some r, Some (Some c)) \<Rightarrow> Some (replace_char (CHR '' '') (CHR ''_'') (strip (lower ty)), r, c))
      | _ \<Rightarrow> None)"

definition enterprise_findings :: "sd_env \<Rightarrow> string \<Rightarrow> sensitive_finding list" where
  "enterprise_findings e text = concat (map (\<lambda>it.
     case compiled_entity e it of
       None \<Rightarrow> []
     | Some (ty, r, conf) \<Rightarrow> map (match_finding text ty conf ''enterprise'') (finditer r text)) (enterprise_patterns e))"

definition presidio_map :: "(string \<times> string) list" where
  "presidio_map = [(''EMAIL_ADDRESS'', ''email''), (''PHONE_NUMBER'', ''phone''), (''CREDIT_CARD'', ''credit_card''),
     (''US_SSN'', ''ssn''), (''IBAN_CODE'', ''iban''), (''IP_ADDRESS'', ''ip_address''), (''PERSON'', ''person''),
     (''LOCATION'', ''address'')]"

definition presidio_findings :: "sd_env \<Rightarrow> bool \<Rightarrow> string \<Rightarrow> sensitive_finding list" where
  "presidio_findings e enabled text =
     (case (if enabled then sd_analyzer e else None) of
        None \<Rightarrow> []
      | Some analyze \<Rightarrow>
          (case analyze text of
             None \<Rightarrow> []
           | Some results \<Rightarrow> concat (map (\<lambda>r.
               case map_of presidio_map (pr_type r) of
                 None \<Rightarrow> []
               | Some ty \<Rightarrow> [\<lparr>entity_type = ty, f_start = pr_start r, f_end = pr_end r,
                   f_value = slice text (pr_start r) (pr_end r), confidence = pr_score r, f_source = ''presidio''\<rparr>]) results)))"

definition presidio_entity_for_internal :: "string \<Rightarrow> string option" where
  "presidio_entity_for_internal ty = map_option fst (find (\<lambda>p. snd p = ty) presidio_map)"

section \<open>Overlaps\<close>

type_synonym finding_object = "nat \<times> sensitive_finding"

definition overlapping :: "sensitive_finding \<Rightarrow> sensitive_finding \<Rightarrow> bool" where
  "overlapping f g = (\<not> (f_end f \<le> f_start g \<or> f_start f \<ge> f_end g))"

definition span_length :: "sensitive_finding \<Rightarrow> int" where
  "span_length f = int (f_end f) - int (f_start f)"

definition dedupe_key :: "sensitive_finding \<Rightarrow> nat \<times> int \<times> rat" where
  "dedupe_key f = (f_start f, - span_length f, - confidence f)"

definition strength :: "sensitive_finding \<Rightarrow> rat \<times> int" where
  "strength f = (confidence f, span_length f)"

text \<open>\<open>max(xs, key=k)\<close>: the first of the maximal elements.\<close>

fun first_max :: "('a \<Rightarrow> 'k::linorder) \<Rightarrow> 'a \<Rightarrow> 'a list \<Rightarrow> 'a" where
  "first_max k b [] = b"
| "first_max k b (x # xs) = first_max k (if k b < k x then x else b) xs"

definition equal_in :: "finding_object \<Rightarrow> finding_object list \<Rightarrow> bool" where
  "equal_in x xs = (snd x \<in> set (map snd xs))"

fun remove_equal :: "finding_object \<Rightarrow> finding_object list \<Rightarrow> finding_object list" where
  "remove_equal x [] = []"
| "remove_equal x (y # ys) = (if snd y = snd x then ys else y # remove_equal x ys)"

definition dedupe_step :: "finding_object \<Rightarrow> finding_object list \<Rightarrow> finding_object list" where
  "dedupe_step f selected =
     (case filter (\<lambda>it. overlapping (snd f) (snd it)) selected of
        [] \<Rightarrow> selected @ [f]
      | o1 # os \<Rightarrow>
          (let best = first_max (\<lambda>it. strength (snd it)) o1 (os @ [f]);
               kept = fold (\<lambda>it sel. if equal_in it sel \<and> fst it \<noteq> fst best then remove_equal it sel else sel)
                        (o1 # os) selected
           in if fst best = fst f \<and> \<not> equal_in f kept then kept @ [f] else kept))"

definition dedupe :: "sensitive_finding list \<Rightarrow> sensitive_finding list" where
  "dedupe findings = sort_key f_start (map snd
     (fold dedupe_step (sort_key (\<lambda>it. dedupe_key (snd it)) (enumerate 0 findings)) []))"

definition inspect :: "sd_env \<Rightarrow> bool \<Rightarrow> string \<Rightarrow> bool option \<Rightarrow> sensitive_finding list" where
  "inspect e enabled text use_presidio = dedupe (custom_findings text @ enterprise_findings e text @
     (if use_presidio \<noteq> Some False then presidio_findings e enabled text else []))"

section \<open>Actions and replacements\<close>

definition action_for :: "sd_env \<Rightarrow> string \<Rightarrow> rat \<Rightarrow> string" where
  "action_for e ty conf =
     (let p = policy_config e; actions = (case sp_actions p of None \<Rightarrow> [] | Some a \<Rightarrow> a) in
      case map_of actions ty of
        Some a \<Rightarrow> a
      | None \<Rightarrow>
          if ty \<in> SECRET_TYPES then (case map_of actions ''secrets'' of None \<Rightarrow> ''block'' | Some a \<Rightarrow> a)
          else if conf \<ge> (case sp_threshold p of None \<Rightarrow> 101/100 | Some t \<Rightarrow> t) then ''require_approval''
          else (case sp_default_action p of None \<Rightarrow> ''redact'' | Some a \<Rightarrow> a))"

definition split_once :: "char \<Rightarrow> string \<Rightarrow> string \<times> string" where
  "split_once c s = (takeWhile (\<lambda>x. x \<noteq> c) s, tl (dropWhile (\<lambda>x. x \<noteq> c) s))"

text \<open>\<open>str.isdigit\<close> also accepts the superscripts one, two and three.\<close>

definition py_isdigit :: "char \<Rightarrow> bool" where
  "py_isdigit c = (is_digit c \<or> (of_char c :: nat) \<in> {178, 179, 185})"

definition stars :: "nat \<Rightarrow> string" where "stars n = replicate n (CHR ''*'')"

definition mask_local :: "string \<Rightarrow> string" where
  "mask_local local = (if length local \<le> 2 then stars (length local)
     else hd local # stars (length local - 2) @ [last local])"

fun mask_digits :: "nat \<Rightarrow> nat \<Rightarrow> string \<Rightarrow> string" where
  "mask_digits hide index [] = []"
| "mask_digits hide index (c # s) =
     (if py_isdigit c then (if hide \<le> index then c else CHR ''*'') # mask_digits hide (index + 1) s
      else c # mask_digits hide index s)"

definition mask :: "string \<Rightarrow> string \<Rightarrow> string" where
  "mask ty v =
     (if ty = ''email'' \<and> CHR ''@'' \<in> set v
      then (let (local, domain) = split_once (CHR ''@'') v in mask_local local @ CHR ''@'' # domain)
      else if ty \<in> {''aadhaar'', ''credit_card'', ''phone''}
      then (let digits = filter py_isdigit v; visible = (if 4 \<le> length digits then 4 else 0)
            in mask_digits (length digits - visible) 0 v)
      else if length v \<le> 4 then stars (length v)
      else hd v # stars (length v - 2) @ [last v])"

definition sd_fingerprint :: "sd_env \<Rightarrow> string \<Rightarrow> string sm" where
  "sd_fingerprint e v = fingerprint (sd_services e) (select_secret_backend (environ (sd_secrets e)) None) v
     ''redaction'' (sd_secrets e)"

definition presidio_anonymized_value :: "sd_env \<Rightarrow> bool \<Rightarrow> sensitive_finding \<Rightarrow> string \<Rightarrow> string option" where
  "presidio_anonymized_value e enabled f action =
     (case (if enabled then sd_anonymizer e else None) of
        None \<Rightarrow> None
      | Some anonymize \<Rightarrow>
          if action \<notin> {''redact'', ''mask''} then None
          else anonymize (f_value f) (confidence f)
                 (case presidio_entity_for_internal (entity_type f) of None \<Rightarrow> ''DEFAULT'' | Some t \<Rightarrow> t)
                 (if action = ''mask'' then mask (entity_type f) (f_value f) else ''[REDACTED]''))"

definition plain_replacement :: "sd_env \<Rightarrow> sensitive_finding \<Rightarrow> string \<Rightarrow> string sm" where
  "plain_replacement e f action =
     (if action = ''allow'' then Inr (f_value f)
      else if action = ''block'' then Inr (''[BLOCKED_'' @ upper (entity_type f) @ '']'')
      else if action = ''require_approval'' then Inr (''[APPROVAL_REQUIRED_'' @ upper (entity_type f) @ '']'')
      else if action = ''hash'' then rbind (sd_fingerprint e (f_value f)) (\<lambda>h. Inr (''[HASH_'' @ h @ '']''))
      else if action = ''tokenize''
      then rbind (sd_fingerprint e (f_value f)) (\<lambda>h. Inr (''[TOKEN_'' @ upper (entity_type f) @ ''_'' @ h @ '']''))
      else if action = ''mask'' then Inr (mask (entity_type f) (f_value f))
      else Inr ''[REDACTED]'')"

definition replacement_for :: "sd_env \<Rightarrow> bool \<Rightarrow> sensitive_finding \<Rightarrow> string \<Rightarrow> string sm" where
  "replacement_for e enabled f action =
     (case (if f_source f = ''presidio'' then presidio_anonymized_value e enabled f action else None) of
        Some v \<Rightarrow> Inr v
      | None \<Rightarrow> plain_replacement e f action)"

text \<open>A finding as it goes to the policy engine and the logs; the last fields are absent from the
  findings of the baseline patterns.\<close>

record policy_trigger =
  pt_policy_name :: string
  pt_policy_type :: string
  pt_matched_pattern :: string
  pt_redacted_value :: string
  pt_username :: string
  pt_timestamp :: string
  pt_token_id :: "string option"
  pt_value_hash :: "string option"
  pt_confidence :: "rat option"
  pt_action :: "string option"
  pt_detector :: "string option"

text \<open>\<open>round(x, 4)\<close>: to the nearest multiple, ties to the even one.\<close>

definition round4 :: "rat \<Rightarrow> rat" where
  "round4 x = (let y = x * 10000; f = \<lfloor>y\<rfloor>; d = y - of_int f in
     of_int (if d < 1/2 \<or> (d = 1/2 \<and> even f) then f else f + 1) / 10000)"

definition to_policy_finding :: "sd_env \<Rightarrow> sensitive_finding \<Rightarrow> string \<Rightarrow> string \<Rightarrow> string \<Rightarrow> policy_trigger sm" where
  "to_policy_finding e f action username now =
     rbind (sd_fingerprint e (f_value f)) (\<lambda>h.
       (let token = ''tok_'' @ entity_type f @ ''_'' @ h in
        Inr \<lparr>pt_policy_name = ''Sensitive Data Detection'',
             pt_policy_type = (if entity_type f \<in> SECRET_TYPES then ''Secret'' else ''PII''),
             pt_matched_pattern = entity_type f, pt_redacted_value = token, pt_username = username,
             pt_timestamp = now, pt_token_id = Some token, pt_value_hash = Some h,
             pt_confidence = Some (round4 (confidence f)), pt_action = Some action,
             pt_detector = Some (f_source f)\<rparr>))"

definition redact_one :: "sd_env \<Rightarrow> bool \<Rightarrow> string \<Rightarrow> string \<Rightarrow> sensitive_finding \<Rightarrow> string \<times> policy_trigger list
    \<Rightarrow> (string \<times> policy_trigger list) sm" where
  "redact_one e enabled username now f acc =
     (let action = action_for e (entity_type f) (confidence f) in
      rbind (replacement_for e enabled f action) (\<lambda>replacement.
      rbind (to_policy_finding e f action username now) (\<lambda>meta.
        Inr (take (f_start f) (fst acc) @ replacement @ drop (f_end f) (fst acc), snd acc @ [meta]))))"

fun redact_loop :: "sd_env \<Rightarrow> bool \<Rightarrow> string \<Rightarrow> string \<Rightarrow> sensitive_finding list \<Rightarrow> string \<times> policy_trigger list
    \<Rightarrow> (string \<times> policy_trigger list) sm" where
  "redact_loop e enabled username now [] acc = Inr acc"
| "redact_loop e enabled username now (f # fs) acc =
     rbind (redact_one e enabled username now f acc) (redact_loop e enabled username now fs)"

text \<open>\<open>sorted(xs, key=k, reverse=True)\<close> keeps the order of equal elements.\<close>

definition sorted_desc :: "('a \<Rightarrow> 'k::linorder) \<Rightarrow> 'a list \<Rightarrow> 'a list" where
  "sorted_desc k xs = rev (sort_key k (rev xs))"

definition redact_findings :: "sd_env \<Rightarrow> bool \<Rightarrow> string \<Rightarrow> string \<Rightarrow> string \<Rightarrow> sensitive_finding list
    \<Rightarrow> (string \<times> policy_trigger list) sm" where
  "redact_findings e enabled text username now findings =
     (if findings = [] then Inr (text, [])
      else rbind (redact_loop e enabled username now (sorted_desc f_start findings) (text, []))
             (\<lambda>(redacted, metadata). Inr (redacted, rev metadata)))"

definition redact :: "sd_env \<Rightarrow> bool \<Rightarrow> string \<Rightarrow> string \<Rightarrow> bool option \<Rightarrow> string \<Rightarrow> (string \<times> policy_trigger list) sm" where
  "redact e enabled text username use_presidio now =
     redact_findings e enabled text username now (inspect e enabled text use_presidio)"

section \<open>Sanitized metadata\<close>

definition default_to :: "'a \<Rightarrow> 'a option \<Rightarrow> 'a option" where
  "default_to d x = (case x of None \<Rightarrow> Some d | Some v \<Rightarrow> Some v)"

definition with_defaults :: "policy_trigger \<Rightarrow> policy_trigger" where
  "with_defaults t = t\<lparr>pt_confidence := default_to (8/10) (pt_confidence t),
     pt_action := default_to ''redact'' (pt_action t)\<rparr>"

definition is_raw_value :: "string \<Rightarrow> bool" where
  "is_raw_value v = (v \<noteq> [] \<and> \<not> starts_with ''tok_'' v \<and> v \<notin> {''N/A'', ''[REDACTED]''})"

definition sanitize_one :: "sd_env \<Rightarrow> policy_trigger \<Rightarrow> policy_trigger sm" where
  "sanitize_one e t =
     (if lower (pt_matched_pattern t) = ''passport'' then Inr (with_defaults t)
      else if is_raw_value (pt_redacted_value t)
      then rbind (sd_fingerprint e (pt_redacted_value t)) (\<lambda>h.
        (let ty = replace_char (CHR '' '') (CHR ''_'') (lower (str_or (Some (pt_matched_pattern t))
                    (str_or (Some (pt_policy_type t)) ''sensitive'')));
             token = ''tok_'' @ ty @ ''_'' @ h
         in Inr (with_defaults (t\<lparr>pt_redacted_value := token, pt_token_id := Some token, pt_value_hash := Some h\<rparr>))))
      else Inr (with_defaults t))"

definition sanitize_finding_metadata :: "sd_env \<Rightarrow> policy_trigger list \<Rightarrow> policy_trigger list sm" where
  "sanitize_finding_metadata e ts = map_result (sanitize_one e) ts"

section \<open>Detector cache\<close>

text \<open>Whether a detector uses Presidio is fixed when it is built; the cache is keyed by tenant and
  by the requested flag.\<close>

definition presidio_requested :: "environ \<Rightarrow> bool" where
  "presidio_requested env = (lower (strip (case env ''USE_PRESIDIO'' of
       Some v \<Rightarrow> v
     | None \<Rightarrow> (case env ''AUTHCLAW_USE_PRESIDIO'' of None \<Rightarrow> ''true'' | Some v \<Rightarrow> v)))
     \<in> {''1'', ''true'', ''yes'', ''on''})"

type_synonym detector_key = "int option \<times> bool option"

definition new_detector :: "environ \<Rightarrow> bool option \<Rightarrow> bool" where
  "new_detector env use_presidio = (case use_presidio of None \<Rightarrow> presidio_requested env | Some b \<Rightarrow> b)"

definition get_sensitive_data_detector ::
  "environ \<Rightarrow> int option \<Rightarrow> bool option \<Rightarrow> (detector_key \<Rightarrow> bool option) \<Rightarrow> bool \<times> (detector_key \<Rightarrow> bool option)" where
  "get_sensitive_data_detector env tenant use_presidio cache =
     (case cache (tenant, use_presidio) of
        Some d \<Rightarrow> (d, cache)
      | None \<Rightarrow> (let d = new_detector env use_presidio in (d, cache((tenant, use_presidio) \<mapsto> d))))"

section \<open>The result of \<open>dedupe\<close>\<close>

definition proper :: "sensitive_finding \<Rightarrow> bool" where
  "proper f = (f_start f < f_end f)"

definition separate :: "finding_object list \<Rightarrow> bool" where
  "separate sel = (distinct (map fst sel) \<and>
     (\<forall>x\<in>set sel. \<forall>y\<in>set sel. x \<noteq> y \<longrightarrow> \<not> overlapping (snd x) (snd y)))"

lemma overlapping_sym: "proper f \<Longrightarrow> proper g \<Longrightarrow> overlapping f g = overlapping g f"
  by (auto simp: overlapping_def proper_def)

lemma overlapping_self: "proper f \<Longrightarrow> overlapping f f"
  by (simp add: overlapping_def proper_def)

lemma first_max_in: "first_max k b xs \<in> set (b # xs)"
  by (induction k b xs rule: first_max.induct) auto

lemma separate_inj:
  assumes "separate sel" "\<forall>x\<in>set sel. proper (snd x)" "x \<in> set sel" "y \<in> set sel" "snd x = snd y"
  shows "x = y"
  using assms overlapping_self unfolding separate_def by metis

lemma remove_equal_filter:
  assumes "separate sel" "\<forall>x\<in>set sel. proper (snd x)" "x \<in> set sel"
  shows "remove_equal x sel = filter (\<lambda>y. y \<noteq> x) sel"
  using assms
proof (induction sel)
  case (Cons y ys)
  have s: "separate ys" using Cons.prems(1) by (auto simp: separate_def)
  show ?case
  proof (cases "y = x")
    case True
    then have "x \<notin> set ys" using Cons.prems(1) by (auto simp: separate_def)
    then have "filter (\<lambda>y. y \<noteq> x) ys = ys" by (induction ys) auto
    then show ?thesis using True by simp
  next
    case False
    then have "snd y \<noteq> snd x"
      using separate_inj [OF Cons.prems(1,2), of y x] Cons.prems(3) by auto
    then show ?thesis using Cons s False by auto
  qed
qed simp

lemma separate_filter: "separate sel \<Longrightarrow> separate (filter P sel)"
  by (auto simp: separate_def distinct_map inj_on_def)

lemma remove_overlaps:
  assumes "separate sel" "\<forall>x\<in>set sel. proper (snd x)" "set os \<subseteq> set sel" "distinct os"
  shows "fold (\<lambda>it sel. if equal_in it sel \<and> fst it \<noteq> b then remove_equal it sel else sel) os sel
    = filter (\<lambda>x. \<not> (x \<in> set os \<and> fst x \<noteq> b)) sel"
  using assms
proof (induction os arbitrary: sel)
  case (Cons x os)
  have x: "x \<in> set sel" "equal_in x sel" using Cons.prems(3) by (auto simp: equal_in_def)
  show ?case
  proof (cases "fst x = b")
    case True
    then show ?thesis using Cons by (auto intro!: filter_cong)
  next
    case False
    let ?sel = "filter (\<lambda>y. y \<noteq> x) sel"
    have "fold (\<lambda>it sel. if equal_in it sel \<and> fst it \<noteq> b then remove_equal it sel else sel) os ?sel
        = filter (\<lambda>y. \<not> (y \<in> set os \<and> fst y \<noteq> b)) ?sel"
      using Cons.prems by (intro Cons.IH separate_filter) auto
    moreover have "remove_equal x sel = ?sel" by (rule remove_equal_filter) (use Cons.prems x in auto)
    ultimately show ?thesis using x False by (auto intro: filter_cong)
  qed
qed simp

lemma separate_snoc:
  "separate xs \<Longrightarrow> fst f \<notin> fst ` set xs \<Longrightarrow>
    \<forall>x\<in>set xs. \<not> overlapping (snd f) (snd x) \<and> \<not> overlapping (snd x) (snd f) \<Longrightarrow> separate (xs @ [f])"
  by (auto simp: separate_def)

lemma dedupe_step_separate:
  assumes sep: "separate sel" and pr: "\<forall>x\<in>set sel. proper (snd x)" and f: "proper (snd f)"
    and new: "fst f \<notin> fst ` set sel"
  shows "separate (dedupe_step f sel) \<and> set (dedupe_step f sel) \<subseteq> insert f (set sel)"
proof (cases "filter (\<lambda>it. overlapping (snd f) (snd it)) sel")
  case Nil
  then have "\<not> overlapping (snd f) (snd x)" if "x \<in> set sel" for x
    using that by (auto simp: filter_empty_conv)
  then show ?thesis using sep new Nil overlapping_sym [OF f] pr
    by (auto simp: dedupe_step_def separate_def)
next
  case (Cons o1 os)
  define ov where "ov = o1 # os"
  have ov: "ov = filter (\<lambda>it. overlapping (snd f) (snd it)) sel" using Cons ov_def by simp
  define best where "best = first_max (\<lambda>it. strength (snd it)) o1 (os @ [f])"
  define kept where "kept = filter (\<lambda>x. \<not> (x \<in> set ov \<and> fst x \<noteq> fst best)) sel"
  have dov: "distinct ov" using sep unfolding ov separate_def by (simp add: distinct_map)
  have rem: "fold (\<lambda>it sel. if equal_in it sel \<and> fst it \<noteq> fst best then remove_equal it sel else sel) ov sel = kept"
    unfolding kept_def by (rule remove_overlaps [OF sep pr _ dov]) (auto simp: ov)
  have step: "dedupe_step f sel = (if fst best = fst f \<and> \<not> equal_in f kept then kept @ [f] else kept)"
    unfolding dedupe_step_def Cons list.case Let_def best_def [symmetric] rem [unfolded ov_def] ..
  have sk: "separate kept" unfolding kept_def by (rule separate_filter [OF sep])
  show ?thesis
  proof (cases "fst best = fst f \<and> \<not> equal_in f kept")
    case True
    have "\<not> overlapping (snd f) (snd x)" if "x \<in> set kept" for x
    proof
      assume "overlapping (snd f) (snd x)"
      then have "fst x = fst f" using that True unfolding kept_def ov by auto
      then show False using that new unfolding kept_def by (metis (lifting) filter_is_subset imageI subsetD)
    qed
    moreover have "set kept \<subseteq> set sel" unfolding kept_def by simp
    ultimately have "\<forall>x\<in>set kept. \<not> overlapping (snd f) (snd x) \<and> \<not> overlapping (snd x) (snd f)"
      using overlapping_sym [OF f] pr by (metis subsetD)
    moreover have "fst f \<notin> fst ` set kept" using new \<open>set kept \<subseteq> set sel\<close> by blast
    ultimately have "separate (kept @ [f])" by (intro separate_snoc [OF sk])
    then show ?thesis using True unfolding step kept_def by auto
  next
    case False
    then show ?thesis using sk unfolding step kept_def by auto
  qed
qed

lemma disjoint_insert_mono: "A \<subseteq> insert a B \<Longrightarrow> a \<notin> C \<Longrightarrow> B \<inter> C = {} \<Longrightarrow> A \<inter> C = {}"
  by blast

lemma dedupe_fold_separate:
  "separate sel \<Longrightarrow> \<forall>x\<in>set sel. proper (snd x) \<Longrightarrow> \<forall>x\<in>set fs. proper (snd x) \<Longrightarrow> distinct (map fst fs) \<Longrightarrow>
    fst ` set sel \<inter> fst ` set fs = {} \<Longrightarrow>
    separate (fold dedupe_step fs sel) \<and> set (fold dedupe_step fs sel) \<subseteq> set sel \<union> set fs"
proof (induction fs arbitrary: sel)
  case (Cons f fs)
  have s: "separate (dedupe_step f sel)" "set (dedupe_step f sel) \<subseteq> insert f (set sel)"
    using dedupe_step_separate [of sel f] Cons.prems by auto
  have d: "fst ` set (dedupe_step f sel) \<inter> fst ` set fs = {}"
  proof -
    have "fst ` set (dedupe_step f sel) \<subseteq> insert (fst f) (fst ` set sel)" using s(2) by auto
    moreover have "fst f \<notin> fst ` set fs" using Cons.prems(4) by auto
    moreover have "fst ` set sel \<inter> fst ` set fs = {}" using Cons.prems(5) by auto
    ultimately show ?thesis by (rule disjoint_insert_mono)
  qed
  have "\<forall>x\<in>set (dedupe_step f sel). proper (snd x)" using s(2) Cons.prems(2,3) by auto
  then show ?case using Cons.IH [OF s(1) _ _ _ d] Cons.prems(3,4) s(2) by auto
qed simp

definition separate_findings :: "sensitive_finding list \<Rightarrow> bool" where
  "separate_findings fs = (distinct fs \<and> (\<forall>x\<in>set fs. \<forall>y\<in>set fs. x \<noteq> y \<longrightarrow> \<not> overlapping x y))"

abbreviation finding_spans :: "sensitive_finding list \<Rightarrow> (nat \<times> nat) list" where
  "finding_spans fs \<equiv> map (\<lambda>f. (f_start f, f_end f)) fs"

lemma separate_sorted_spans:
  "separate_findings fs \<Longrightarrow> sorted (map f_start fs) \<Longrightarrow> \<forall>f\<in>set fs. proper f \<and> p \<le> f_start f \<and> f_end f \<le> n \<Longrightarrow>
    p \<le> n \<Longrightarrow> spans_ok p n (finding_spans fs)"
proof (induction fs arbitrary: p)
  case (Cons f fs)
  have "f_end f \<le> f_start g" if "g \<in> set fs" for g
  proof -
    have "f \<noteq> g" "\<not> overlapping f g" "f_start f \<le> f_start g" "proper g" "proper f"
      using Cons.prems(1-3) that by (auto simp: separate_findings_def)
    then show ?thesis by (auto simp: overlapping_def proper_def)
  qed
  moreover have "separate_findings fs" using Cons.prems(1) by (auto simp: separate_findings_def)
  ultimately have "spans_ok (f_end f) n (finding_spans fs)"
    using Cons.prems by (intro Cons.IH) auto
  then show ?case using Cons.prems(3) by (auto simp: proper_def)
qed simp

lemma dedupe_separate:
  assumes "\<forall>f\<in>set fs. proper f"
  shows "separate_findings (dedupe fs)" "set (dedupe fs) \<subseteq> set fs" "sorted (map f_start (dedupe fs))"
proof -
  let ?fs = "sort_key (\<lambda>it. dedupe_key (snd it)) (enumerate 0 fs)"
  let ?sel = "fold dedupe_step ?fs []"
  have sf: "set ?fs = set (enumerate 0 fs)" by simp
  have sn: "snd ` set (enumerate 0 fs) = set fs" by (metis list.set_map map_snd_enumerate)
  have "distinct (map fst ?fs)"
    using distinct_map [of fst "enumerate 0 fs"] by (simp add: distinct_map)
  moreover have "\<forall>x\<in>set ?fs. proper (snd x)" using assms sn sf by (metis imageI)
  ultimately have sel: "separate ?sel" "set ?sel \<subseteq> set ?fs" "\<forall>x\<in>set ?sel. proper (snd x)"
    using dedupe_fold_separate [of "[]" ?fs] by (auto simp: separate_def)
  have "inj_on snd (set ?sel)"
    using separate_inj [OF sel(1,3)] by (meson inj_onI)
  moreover have "distinct ?sel" using sel(1) by (auto simp: separate_def distinct_map)
  ultimately have "distinct (map snd ?sel)" by (simp add: distinct_map)
  then show "separate_findings (dedupe fs)"
    using sel(1) unfolding separate_findings_def dedupe_def separate_def by (auto; metis snd_conv)
  show "set (dedupe fs) \<subseteq> set fs" using sel(2) sn sf unfolding dedupe_def by auto
  show "sorted (map f_start (dedupe fs))" by (simp add: dedupe_def)
qed

lemma dedupe_spans:
  assumes "\<forall>f\<in>set fs. f_start f < f_end f \<and> f_end f \<le> n"
  shows "set (dedupe fs) \<subseteq> set fs \<and> spans_ok 0 n (map (\<lambda>f. (f_start f, f_end f)) (dedupe fs))"
proof -
  have p: "\<forall>f\<in>set fs. proper f" using assms by (simp add: proper_def)
  note d = dedupe_separate [OF p]
  have "spans_ok 0 n (finding_spans (dedupe fs))"
    by (rule separate_sorted_spans [OF d(1,3)]) (use d(2) assms in \<open>auto simp: proper_def\<close>)
  then show ?thesis using d(2) by simp
qed

text \<open>The findings that survive the resolution of overlaps are findings of the input, in the
  order of the text, inside it, and pairwise disjoint.\<close>

theorem dedupe_disjoint:
  assumes "\<forall>f\<in>set fs. f_start f < f_end f \<and> f_end f \<le> n"
  shows "set (dedupe fs) \<subseteq> set fs \<and> spans_ok 0 n (map (\<lambda>f. (f_start f, f_end f)) (dedupe fs))"
  using assms by (rule dedupe_spans)

section \<open>The redacted text\<close>

text \<open>The replacements from right to left, as the loop makes them, against one pass from left
  to right.\<close>

lemma splice_right_to_left:
  "spans_ok p (length s) (edit_spans es) \<Longrightarrow>
    foldr (\<lambda>(i, j, r) t. take i t @ r @ drop j t) es s = take p s @ splice s p es"
proof (induction s p es rule: splice.induct)
  case (1 s p)
  then show ?case by simp
next
  case (2 s p i j r es)
  have b: "p \<le> i" "i \<le> j" "j \<le> length s" using 2(2) spans_ok_le by fastforce+
  have "foldr (\<lambda>(i, j, r) t. take i t @ r @ drop j t) es s = take j s @ splice s j es" using 2 by simp
  moreover have "take p s @ slice s p i = take i s"
    using b append_take_drop_id [of p "take i s"] by (simp add: slice_def min_def)
  ultimately show ?case using b by simp
qed

lemma sort_rev_strict:
  assumes "sorted (map k xs)" "distinct (map k xs)"
  shows "sort_key k (rev xs) = xs"
proof (rule map_sorted_distinct_set_unique [where f = k])
  show "inj_on k (set (sort_key k (rev xs)) \<union> set xs)" using assms(2) by (simp add: distinct_map)
  show "distinct (map k (sort_key k (rev xs)))" using assms(2) by (simp add: distinct_map)
qed (use assms in simp_all)

lemma spans_ok_starts:
  "spans_ok p n (finding_spans fs) \<Longrightarrow> \<forall>f\<in>set fs. proper f \<Longrightarrow>
    sorted (map f_start fs) \<and> distinct (map f_start fs) \<and> (\<forall>f\<in>set fs. p \<le> f_start f)"
proof (induction fs arbitrary: p)
  case (Cons f fs)
  then have "sorted (map f_start fs) \<and> distinct (map f_start fs) \<and> (\<forall>g\<in>set fs. f_end f \<le> f_start g)" by auto
  then show ?case using Cons.prems by (auto simp: proper_def)
qed simp

lemma sorted_desc_strict: "spans_ok p n (finding_spans fs) \<Longrightarrow> \<forall>f\<in>set fs. proper f \<Longrightarrow> sorted_desc f_start fs = rev fs"
  using spans_ok_starts [of p n fs] by (simp add: sorted_desc_def sort_rev_strict)

definition finding_edit :: "sensitive_finding \<Rightarrow> string \<Rightarrow> edit" where
  "finding_edit f r = (f_start f, f_end f, r)"

definition chosen_replacement :: "sd_env \<Rightarrow> bool \<Rightarrow> sensitive_finding \<Rightarrow> string sm" where
  "chosen_replacement e enabled f = replacement_for e enabled f (action_for e (entity_type f) (confidence f))"

lemma redact_loop_edits:
  "redact_loop e enabled username now fs acc = Inr (out, metadata) \<Longrightarrow>
    \<exists>rs ts. list_all2 (\<lambda>f r. chosen_replacement e enabled f = Inr r) fs rs
      \<and> out = fold (\<lambda>(i, j, r) t. take i t @ r @ drop j t) (map2 finding_edit fs rs) (fst acc)
      \<and> metadata = snd acc @ ts \<and> list_all2 (\<lambda>f t. pt_matched_pattern t = entity_type f \<and>
            pt_action t = Some (action_for e (entity_type f) (confidence f))) fs ts"
proof (induction fs arbitrary: acc)
  case (Cons f fs)
  obtain r t where r: "chosen_replacement e enabled f = Inr r"
    and t: "to_policy_finding e f (action_for e (entity_type f) (confidence f)) username now = Inr t"
    and l: "redact_loop e enabled username now fs (take (f_start f) (fst acc) @ r @ drop (f_end f) (fst acc), snd acc @ [t])
      = Inr (out, metadata)"
    using Cons.prems by (auto simp: redact_one_def Let_def rbind_eq_Inr chosen_replacement_def)
  have "pt_matched_pattern t = entity_type f \<and> pt_action t = Some (action_for e (entity_type f) (confidence f))"
    using t by (auto simp: to_policy_finding_def rbind_eq_Inr Let_def)
  moreover obtain rs ts where "list_all2 (\<lambda>f r. chosen_replacement e enabled f = Inr r) fs rs"
    "out = fold (\<lambda>(i, j, r) t. take i t @ r @ drop j t) (map2 finding_edit fs rs)
       (take (f_start f) (fst acc) @ r @ drop (f_end f) (fst acc))"
    "metadata = (snd acc @ [t]) @ ts" "list_all2 (\<lambda>f t. pt_matched_pattern t = entity_type f \<and>
            pt_action t = Some (action_for e (entity_type f) (confidence f))) fs ts"
    using Cons.IH [OF l] by auto
  ultimately show ?case using r
    by (intro exI [of _ "r # rs"] exI [of _ "t # ts"]) (auto simp: finding_edit_def)
qed simp

lemma redact_rebuilt:
  assumes "spans_ok 0 (length text) (map (\<lambda>f. (f_start f, f_end f)) fs)" "\<forall>f\<in>set fs. f_start f < f_end f"
    and "redact_findings e enabled text username now fs = Inr (out, metadata)"
  shows "\<exists>rs. list_all2 (\<lambda>f r. replacement_for e enabled f (action_for e (entity_type f) (confidence f)) = Inr r) fs rs
    \<and> out = splice text 0 (map2 (\<lambda>f r. (f_start f, f_end f, r)) fs rs)
    \<and> list_all2 (\<lambda>f t. pt_matched_pattern t = entity_type f \<and>
        pt_action t = Some (action_for e (entity_type f) (confidence f))) fs metadata"
proof (cases "fs = []")
  case True
  then show ?thesis using assms(3) by (simp add: redact_findings_def)
next
  case False
  have p: "\<forall>f\<in>set fs. proper f" using assms(2) by (simp add: proper_def)
  obtain md where l: "redact_loop e enabled username now (rev fs) (text, []) = Inr (out, md)" "metadata = rev md"
    using assms(3) False sorted_desc_strict [OF assms(1) p]
    by (auto simp: redact_findings_def rbind_eq_Inr)
  obtain rs where rs: "list_all2 (\<lambda>f r. chosen_replacement e enabled f = Inr r) (rev fs) rs"
    and out: "out = fold (\<lambda>(i, j, r) t. take i t @ r @ drop j t) (map2 finding_edit (rev fs) rs) text"
    and md: "list_all2 (\<lambda>f t. pt_matched_pattern t = entity_type f \<and>
        pt_action t = Some (action_for e (entity_type f) (confidence f))) (rev fs) md"
    using redact_loop_edits [OF l(1)] by auto
  have len: "length fs = length rs" using list_all2_lengthD [OF rs] by simp
  let ?es = "map2 finding_edit fs (rev rs)"
  have es: "map2 finding_edit (rev fs) rs = rev ?es"
    using len by (metis length_rev rev_map rev_rev_ident zip_rev)
  have "edit_spans ?es = finding_spans fs"
    using len by (intro nth_equalityI) (simp_all add: finding_edit_def)
  then have "spans_ok 0 (length text) (edit_spans ?es)" using assms(1) by simp
  from splice_right_to_left [OF this] have "out = splice text 0 ?es"
    using out by (simp add: es foldr_conv_fold)
  moreover have "list_all2 (\<lambda>f r. chosen_replacement e enabled f = Inr r) fs (rev rs)"
    using rs by (subst list_all2_rev [symmetric]) simp
  moreover have "list_all2 (\<lambda>f t. pt_matched_pattern t = entity_type f \<and>
        pt_action t = Some (action_for e (entity_type f) (confidence f))) fs metadata"
    using md l(2) by (subst list_all2_rev [symmetric]) simp
  ultimately show ?thesis unfolding chosen_replacement_def finding_edit_def by blast
qed

text \<open>C36: On disjoint findings in the order of the text, the loop that replaces them from right to
  left gives the text rebuilt in one pass from left to right: everything between the findings is
  kept, every finding is replaced by the replacement its action prescribes, and the
  metadata lists the findings and their actions in the same order.\<close>

theorem redact_rebuilds:
  assumes "spans_ok 0 (length text) (map (\<lambda>f. (f_start f, f_end f)) fs)" "\<forall>f\<in>set fs. f_start f < f_end f"
    and "redact_findings e enabled text username now fs = Inr (out, metadata)"
  shows "\<exists>rs. list_all2 (\<lambda>f r. replacement_for e enabled f (action_for e (entity_type f) (confidence f)) = Inr r) fs rs
    \<and> out = splice text 0 (map2 (\<lambda>f r. (f_start f, f_end f, r)) fs rs)
    \<and> list_all2 (\<lambda>f t. pt_matched_pattern t = entity_type f \<and>
        pt_action t = Some (action_for e (entity_type f) (confidence f))) fs metadata"
  using assms by (rule redact_rebuilt)

lemma dedupe_displaced:
  assumes "f_start a < f_start b" "f_start b < f_end a" "f_start b < f_end b" "confidence a < confidence b"
  shows "dedupe [a, b] = [b]"
proof -
  have "sort_key (\<lambda>it. dedupe_key (snd it)) (enumerate 0 [a, b]) = [(0, a), (1, b)]"
    using assms(1) by (simp add: dedupe_key_def)
  then show ?thesis using assms
    by (simp add: dedupe_def dedupe_step_def overlapping_def equal_in_def strength_def Let_def)
qed

text \<open>A finding that starts later, overlaps and has the higher confidence displaces the
  earlier one as a whole: the beginning of the displaced finding goes through unredacted.\<close>

theorem displaced_finding_goes_through:
  assumes "f_start a < f_start b" "f_start b < f_end a" "f_start b < f_end b" "confidence a < confidence b"
    and "redact_findings e enabled text username now (dedupe [a, b]) = Inr (out, metadata)"
  shows "take (f_start b) out = take (f_start b) text \<or> length text < f_start b"
proof -
  have "sorted_desc f_start [b] = [b]" by (simp add: sorted_desc_def)
  then obtain r where "out = take (f_start b) text @ r @ drop (f_end b) text"
    using assms(5) dedupe_displaced [OF assms(1-4)]
    by (auto simp: redact_findings_def redact_one_def Let_def rbind_eq_Inr)
  then show ?thesis by auto
qed

definition recognizers_ok :: bool where
  "recognizers_ok = list_all (\<lambda>(ty, r, c). 0 < min_len r \<and> single_group r) custom_patterns"

lemma recognizers_ok: recognizers_ok
  by code_simp

text \<open>The contract of a recognizer: its findings are nonempty, inside the text and carry the
  text they cover.\<close>

definition covers :: "string \<Rightarrow> sensitive_finding \<Rightarrow> bool" where
  "covers text f = (f_start f < f_end f \<and> f_end f \<le> length text \<and> f_value f = slice text (f_start f) (f_end f))"

locale recognizer =
  fixes recognize :: "string \<Rightarrow> sensitive_finding list"
  assumes recognize_covers: "f \<in> set (recognize text) \<Longrightarrow> covers text f"
begin

lemma deduped_covers: "f \<in> set (dedupe (recognize text)) \<Longrightarrow> covers text f"
  using dedupe_separate(2) [of "recognize text"] recognize_covers [of _ "text"]
  by (auto simp: covers_def proper_def)

lemma deduped_spans: "spans_ok 0 (length text) (finding_spans (dedupe (recognize text)))"
  using dedupe_spans [of "recognize text" "length text"] recognize_covers [of _ "text"]
  by (auto simp: covers_def)

end

lemma match_finding_covers:
  assumes "0 < min_len r" "single_group r" "m \<in> set (finditer r text)"
  shows "covers text (match_finding text ty conf src m)"
proof (cases "m_caps m = []")
  case True
  have "m_start m < m_end m" "m_end m \<le> length text" using finditer_match(1,2) [OF assms(3)] assms(1) by auto
  then show ?thesis using True by (simp add: covers_def match_finding_def m_span_def m_group_def)
next
  case False
  then obtain i j where "m_span m 1 = Some (i, j)" "i < j" "j \<le> length text"
    using finditer_single_group [OF assms(2,3)] by blast
  then show ?thesis using False by (simp add: covers_def match_finding_def m_group_def)
qed

lemma custom_findings_cover:
  assumes "f \<in> set (custom_findings text)"
  shows "covers text f"
proof -
  obtain ty r conf m where p: "(ty, r, conf) \<in> set custom_patterns" and m: "m \<in> set (finditer r text)"
    and f: "f = match_finding text ty conf ''custom'' m"
    using assms unfolding custom_findings_def by auto
  have "0 < min_len r \<and> single_group r"
    using recognizers_ok p unfolding recognizers_ok_def list_all_iff by fast
  then show ?thesis unfolding f using m by (intro match_finding_covers) auto
qed

interpretation offline: recognizer custom_findings
  by unfold_locales (rule custom_findings_cover)

text \<open>C21: Without Presidio and without tenant-defined entities, the detector reports disjoint,
  ordered, nonempty spans of the text with the text they cover, and the redacted text is the
  original in which exactly these spans are replaced.\<close>

theorem offline_redaction:
  assumes "enterprise_patterns e = []" "redact e enabled text username (Some False) now = Inr (out, metadata)"
  defines "fs \<equiv> inspect e enabled text (Some False)"
  shows "spans_ok 0 (length text) (map (\<lambda>f. (f_start f, f_end f)) fs)
    \<and> (\<forall>f\<in>set fs. f_start f < f_end f \<and> f_value f = slice text (f_start f) (f_end f))
    \<and> (\<exists>rs. list_all2 (\<lambda>f r. replacement_for e enabled f (action_for e (entity_type f) (confidence f)) = Inr r) fs rs
        \<and> out = splice text 0 (map2 (\<lambda>f r. (f_start f, f_end f, r)) fs rs))"
proof -
  have fs: "fs = dedupe (custom_findings text)"
    using assms(1) by (simp add: fs_def inspect_def enterprise_findings_def)
  have sp: "spans_ok 0 (length text) (finding_spans fs)" unfolding fs by (rule offline.deduped_spans)
  have cov: "\<forall>f\<in>set fs. covers text f" unfolding fs using offline.deduped_covers by blast
  then have "\<forall>f\<in>set fs. f_start f < f_end f" by (simp add: covers_def)
  from redact_rebuilt [OF sp this] show ?thesis
    using assms(2) cov sp unfolding redact_def fs_def [symmetric] covers_def by blast
qed

lemma filter_mask_digits:
  "filter py_isdigit (mask_digits hide i s) = drop (hide - i) (filter py_isdigit s)
   \<and> length (mask_digits hide i s) = length s"
proof (induction hide i s rule: mask_digits.induct)
  case (2 hide i c s)
  have "\<not> py_isdigit (CHR ''*'')" by code_simp
  then show ?case using 2 by (cases "hide \<le> i") (auto simp: Suc_diff_Suc drop_Cons')
qed simp

lemma mask_digits_others:
  "k < length s \<Longrightarrow> \<not> py_isdigit (s ! k) \<Longrightarrow> mask_digits hide i s ! k = s ! k"
  by (induction hide i s arbitrary: k rule: mask_digits.induct) (auto simp: nth_Cons split: nat.splits)

text \<open>Masking keeps the length of a value; of an Aadhaar, card or phone number it shows at most
  the last four digits and leaves every other character in place.\<close>

theorem mask_bounds:
  "length (mask ty v) = length v
   \<and> (ty \<in> {''aadhaar'', ''credit_card'', ''phone''} \<longrightarrow>
       length (filter py_isdigit (mask ty v)) \<le> 4
       \<and> suffix (filter py_isdigit (mask ty v)) (filter py_isdigit v)
       \<and> (\<forall>k<length v. \<not> py_isdigit (v ! k) \<longrightarrow> mask ty v ! k = v ! k))"
proof -
  let ?ds = "filter py_isdigit v"
  let ?h = "length ?ds - (if 4 \<le> length ?ds then 4 else 0)"
  have number: "mask ty v = mask_digits ?h 0 v" if "ty \<in> {''aadhaar'', ''credit_card'', ''phone''}"
    using that by (auto simp: mask_def Let_def)
  have email: "length (mask ty v) = length v" if ty: "ty = ''email''" and at: "CHR ''@'' \<in> set v"
  proof -
    obtain c r where d: "dropWhile (\<lambda>x. x \<noteq> CHR ''@'') v = c # r"
      using at by (cases "dropWhile (\<lambda>x. x \<noteq> CHR ''@'') v") (auto simp: dropWhile_eq_Nil_conv)
    have "length v = length (takeWhile (\<lambda>x. x \<noteq> CHR ''@'') v) + length (c # r)"
      using d by (metis length_append takeWhile_dropWhile_id)
    then show ?thesis using ty at d by (auto simp: mask_def split_once_def mask_local_def stars_def)
  qed
  have "length (mask ty v) = length v"
  proof (cases "ty = ''email'' \<and> CHR ''@'' \<in> set v")
    case False
    then show ?thesis using filter_mask_digits [of ?h 0 v]
      by (auto simp: mask_def Let_def stars_def)
  qed (use email in blast)
  moreover have "length (drop ?h ?ds) \<le> 4" by auto
  ultimately show ?thesis
    using number filter_mask_digits [of ?h 0 v] mask_digits_others [of _ v ?h 0] by (auto simp: suffix_drop)
qed

lemma token_not_raw: "\<not> is_raw_value (''tok_'' @ x)"
  by (simp add: is_raw_value_def)

lemma with_defaults_simps [simp]:
  "pt_matched_pattern (with_defaults t) = pt_matched_pattern t"
  "pt_redacted_value (with_defaults t) = pt_redacted_value t"
  by (simp_all add: with_defaults_def)

lemma sanitize_one_value:
  assumes "sanitize_one e t = Inr t'"
  shows "pt_matched_pattern t' = pt_matched_pattern t \<and>
      (if lower (pt_matched_pattern t) = ''passport'' then pt_redacted_value t' = pt_redacted_value t
       else \<not> is_raw_value (pt_redacted_value t'))"
proof (cases "lower (pt_matched_pattern t) \<noteq> ''passport'' \<and> is_raw_value (pt_redacted_value t)")
  case True
  then obtain h x where "t' = with_defaults (t\<lparr>pt_redacted_value := ''tok_'' @ x, pt_token_id := Some (''tok_'' @ x),
      pt_value_hash := Some h\<rparr>)"
    using assms unfolding sanitize_one_def Let_def rbind_eq_Inr by (simp only: if_False if_True rbind_eq_Inr) blast
  then show ?thesis using True token_not_raw by simp
next
  case False
  then have "t' = with_defaults t" using assms by (auto simp: sanitize_one_def split: if_splits)
  then show ?thesis using False by auto
qed

lemma map_result_nth:
  "map_result f xs = Inr ys \<Longrightarrow> list_all2 (\<lambda>x y. f x = Inr y) xs ys"
  by (induction xs arbitrary: ys) (auto simp: rbind_eq_Inr)


section \<open>Concrete inputs\<close>

definition sd_demo :: sd_env where
  "sd_demo = \<lparr>sd_policy = None, sd_env_entities = [], sd_compile = (\<lambda>p i. None), sd_analyzer = None,
     sd_anonymizer = None, sd_services = demo_services,
     sd_secrets = \<lparr>environ = [''AUTHCLAW_REDACTION_SALT'' \<mapsto> replicate 32 (CHR ''s'')],
        local_cache = Map.empty, sm_chain = empty_audit_db\<rparr>\<rparr>"

definition demo_address :: sensitive_finding where
  "demo_address = \<lparr>entity_type = ''address'', f_start = 9, f_end = 34, f_value = ''12 Park Street 9876543210'',
     confidence = 82/100, f_source = ''custom''\<rparr>"

definition demo_phone :: sensitive_finding where
  "demo_phone = \<lparr>entity_type = ''phone'', f_start = 24, f_end = 34, f_value = ''9876543210'',
     confidence = 88/100, f_source = ''custom''\<rparr>"

lemma demo_phone_simps [simp]:
  "f_start demo_phone = 24" "f_end demo_phone = 34" "confidence demo_phone = 88/100"
  "f_source demo_phone = ''custom''" "entity_type demo_phone \<notin> SECRET_TYPES" "confidence demo_phone < 101/100"
  by (simp_all add: demo_phone_def SECRET_TYPES_def)

lemma demo_address_simps [simp]:
  "f_start demo_address = 9" "f_end demo_address = 34" "confidence demo_address = 82/100"
  by (simp_all add: demo_address_def)

definition demo_text :: string where "demo_text = ''address: 12 Park Street 9876543210''"

lemma demo_fingerprint [simp]: "sd_fingerprint sd_demo v = Inr (replicate 20 (CHR ''b''))"
proof -
  have "select_secret_backend (environ (sd_secrets sd_demo)) None = ''local_env''" by code_simp
  then show ?thesis
    by (simp add: sd_fingerprint_def fingerprint_def redaction_salt_def get_required_secret_def get_secret_def
        is_local_def sd_demo_def demo_services_def truthy_str_def)
qed

lemma demo_action [simp]: "action_for sd_demo ty c = (if ty \<in> SECRET_TYPES then ''block''
    else if c \<ge> 101/100 then ''require_approval'' else ''redact'')"
  by (simp add: action_for_def policy_config_def sd_demo_def empty_sensitive_policy_def Let_def)

lemma demo_redact_one:
  "f_source f = ''custom'' \<Longrightarrow> entity_type f \<notin> SECRET_TYPES \<Longrightarrow> confidence f < 101/100 \<Longrightarrow>
    \<exists>t. redact_one sd_demo enabled u now f acc
      = Inr (take (f_start f) (fst acc) @ ''[REDACTED]'' @ drop (f_end f) (fst acc), snd acc @ [t])"
  by (simp add: redact_one_def Let_def replacement_for_def plain_replacement_def to_policy_finding_def)

lemma demo_redact_single:
  assumes "f_source f = ''custom''" "entity_type f \<notin> SECRET_TYPES" "confidence f < 101/100"
  shows "\<exists>md. redact_findings sd_demo enabled text u now [f]
    = Inr (take (f_start f) text @ ''[REDACTED]'' @ drop (f_end f) text, md)"
proof -
  have "sorted_desc f_start [f] = [f]" by (simp add: sorted_desc_def)
  then show ?thesis using demo_redact_one [OF assms, of enabled u now "(text, [])"]
    by (auto simp: redact_findings_def)
qed

theorem mask_bounds_witness:
  "length (filter py_isdigit (mask ''phone'' ''+91-98765'')) \<le> 4 \<and> mask ''phone'' ''+91-98765'' ! 3 = CHR ''-''"
proof -
  have "\<not> py_isdigit (''+91-98765'' ! 3)" by code_simp
  then show ?thesis using mask_bounds [of "''phone''" "''+91-98765''"] by simp
qed

theorem dedupe_disjoint_witness:
  "set (dedupe [demo_address, demo_phone]) \<subseteq> {demo_address, demo_phone} \<and>
   spans_ok 0 34 (map (\<lambda>f. (f_start f, f_end f)) (dedupe [demo_address, demo_phone]))"
  using dedupe_disjoint [of "[demo_address, demo_phone]" 34]
  by simp

theorem redact_rebuilds_witness:
  "\<exists>out md rs. redact_findings sd_demo False demo_text ''u'' ''now'' [demo_phone] = Inr (out, md) \<and>
     out = splice demo_text 0 (map2 (\<lambda>f r. (f_start f, f_end f, r)) [demo_phone] rs)"
proof -
  obtain md where "redact_findings sd_demo False demo_text ''u'' ''now'' [demo_phone]
      = Inr (take 24 demo_text @ ''[REDACTED]'' @ drop 34 demo_text, md)"
    using demo_redact_single [of demo_phone False demo_text "''u''" "''now''"]
    by auto
  moreover have "spans_ok 0 (length demo_text) (map (\<lambda>f. (f_start f, f_end f)) [demo_phone])"
    by (simp add: demo_text_def)
  ultimately show ?thesis using redact_rebuilds [of demo_text "[demo_phone]"] by fastforce
qed

theorem displaced_finding_goes_through_witness:
  "\<exists>out md. redact_findings sd_demo False demo_text ''u'' ''now'' (dedupe [demo_address, demo_phone]) = Inr (out, md) \<and>
     take 24 out = ''address: 12 Park Street ''"
proof -
  have d: "dedupe [demo_address, demo_phone] = [demo_phone]"
    by (rule dedupe_displaced) (simp_all add: demo_address_def demo_phone_def)
  obtain md where r: "redact_findings sd_demo False demo_text ''u'' ''now'' (dedupe [demo_address, demo_phone])
      = Inr (take 24 demo_text @ ''[REDACTED]'' @ drop 34 demo_text, md)"
    using demo_redact_single [of demo_phone False demo_text "''u''" "''now''"]
    by (auto simp: d)
  then have "take 24 (take 24 demo_text @ ''[REDACTED]'' @ drop 34 demo_text) = take 24 demo_text \<or> length demo_text < 24"
    using displaced_finding_goes_through [OF _ _ _ _ r] by simp
  then show ?thesis using r by (fastforce simp: demo_text_def)
qed

definition demo_email :: sensitive_finding where
  "demo_email = \<lparr>entity_type = ''email'', f_start = 0, f_end = 6, f_value = ''a@b.co'', confidence = 96/100, f_source = ''custom''\<rparr>"

lemma demo_email_simps:
  "f_start demo_email = 0" "f_end demo_email = 6" "confidence demo_email < 101/100"
  "f_source demo_email = ''custom''" "entity_type demo_email \<notin> SECRET_TYPES"
  by (simp_all add: demo_email_def SECRET_TYPES_def)

lemma demo_email_found: "custom_findings ''a@b.co'' = [demo_email]"
  by code_simp

lemma demo_no_entities: "enterprise_patterns sd_demo = []"
  by (simp add: enterprise_patterns_def policy_config_def sd_demo_def empty_sensitive_policy_def)

lemma demo_email_inspected: "inspect sd_demo False ''a@b.co'' (Some False) = [demo_email]"
proof -
  have "dedupe [demo_email] = [demo_email]" by (simp add: dedupe_def dedupe_step_def)
  then show ?thesis by (simp add: inspect_def demo_email_found enterprise_findings_def demo_no_entities)
qed

lemma demo_email_redacted: "\<exists>md. redact sd_demo False ''a@b.co'' ''u'' (Some False) ''now'' = Inr (''[REDACTED]'', md)"
  using demo_redact_single [OF demo_email_simps(4,5,3), of False "''a@b.co''" "''u''" "''now''"]
  by (simp add: redact_def demo_email_inspected demo_email_simps(1,2))

theorem offline_redaction_witness:
  "\<exists>md. redact sd_demo False ''a@b.co'' ''u'' (Some False) ''now'' = Inr (''[REDACTED]'', md) \<and>
     spans_ok 0 (length ''a@b.co'') (map (\<lambda>f. (f_start f, f_end f)) (inspect sd_demo False ''a@b.co'' (Some False)))"
proof -
  obtain md where r: "redact sd_demo False ''a@b.co'' ''u'' (Some False) ''now'' = Inr (''[REDACTED]'', md)"
    using demo_email_redacted by blast
  show ?thesis using offline_redaction [OF demo_no_entities r] r by blast
qed

definition demo_trigger :: policy_trigger where
  "demo_trigger = \<lparr>pt_policy_name = ''GDPR'', pt_policy_type = ''GDPR'', pt_matched_pattern = ''ssn'',
     pt_redacted_value = ''123-45-6789'', pt_username = ''u'', pt_timestamp = ''now'', pt_token_id = None,
     pt_value_hash = None, pt_confidence = None, pt_action = None, pt_detector = None\<rparr>"


end
