(* ===== verification/Redaction.thy ===== *)
theory Redaction
  imports Sensitive_Data
begin

text \<open>
  \<open>redaction.py\<close>: the rich redactor (the sensitive-data detector, then the patterns of the
  active compliance policies, then the baseline patterns of the policy file, then the
  sanitized metadata and the log lines) and the streaming redactor with its holdback window.

  Each compliance block of the code is a list of passes; a pass scans the current text for its
  pattern, records a trigger for every match whose value is not already a placeholder, and
  substitutes the matches.  The rows of the active policies and the redaction section of the policy
  file are arguments.
\<close>

section \<open>Patterns\<close>

definition id_token :: re where "id_token = at_least 1 (cls_or is_alnum ''_-'')"

text \<open>\<open>\b(words)(\s+(?:fillers)?\s*)([A-Za-z0-9_-]+)\b\<close>, ignoring case.\<close>

definition keyword_re :: "string list \<Rightarrow> string list \<Rightarrow> re" where
  "keyword_re ws fillers = icase (seq [WordB, Grp 1 (alts (map lit ws)),
     Grp 2 (seq [at_least 1 space, opt (alts (map lit fillers)), many space]), Grp 3 id_token, WordB])"

definition gdpr_ssn_raw :: re where "gdpr_ssn_raw = seq [WordB, times 9 digit, WordB]"
definition gdpr_passport :: re where
  "gdpr_passport = seq [WordB, between 1 2 (Cls letter), between 7 9 digit, WordB]"
definition gdpr_keyword :: re where
  "gdpr_keyword = keyword_re [''passport'', ''ssn'', ''social security number'']
     [''number'', ''no'', ''code'', ''is'', ''of'', '':'']"
definition hipaa_keyword :: re where
  "hipaa_keyword = keyword_re [''medical record'', ''diagnosis'', ''diagnoses'', ''health history'',
      ''patient identifier'', ''patient identifiers'']
     [''number'', ''no'', ''code'', ''is'', ''of'', ''includes'', '':'']"
definition soc2_card_digits :: re where "soc2_card_digits = seq [WordB, between 13 19 digit, WordB]"
definition soc2_keyword :: re where
  "soc2_keyword = keyword_re [''bank routing'', ''routing number'', ''pin'', ''pin number'', ''personal identification number'']
     [''number'', ''no'', ''code'', ''is'', ''of'', ''includes'', '':'']"
definition soc2_pin_near :: re where
  "soc2_pin_near = icase (seq [WordB, alts (map lit [''pin'', ''pin number'', ''personal identification number'']), WordB,
     between 1 15 (Cls (\<lambda>c. c \<noteq> CHR 0x0A)), WordB, Grp 1 (between 4 6 digit), WordB])"
definition baseline_email :: re where
  "baseline_email = seq [at_least 1 (cls_or is_word ''.-''), chr (CHR ''@''), at_least 1 (cls_or is_word ''.-''),
     chr (CHR ''.''), at_least 1 (Cls is_word)]"
definition baseline_aadhaar :: re where
  "baseline_aadhaar = seq [WordB, times 4 digit, opt (cls_or is_space ''-''), times 4 digit,
     opt (cls_or is_space ''-''), times 4 digit, WordB]"
definition baseline_phone :: re where "baseline_phone = seq [WordB, times 10 digit, WordB]"

definition STREAM_HINT_WORDS :: "string list" where
  "STREAM_HINT_WORDS = [''@'', ''sk-'', ''akia'', ''asia'', ''aroa'', ''anpa'', ''aiza'', ''bearer'', ''eyj'',
     ''api_key'', ''api-key'', ''secret='', ''secret:'', ''token='', ''token:'',
     ''access_token'', ''refresh_token'', ''password='', ''password:'', ''client_secret'',
     ''ssn'', ''social security'', ''passport'', ''medical record'', ''patient'',
     ''diagnosis'', ''health history'', ''routing number'', ''credit card'', ''pin '',
     ''ignore previous'', ''reveal system prompt'', ''developer mode'', ''jailbreak'',
     ''system prompt'', ''hidden_metadata'']"

section \<open>Replacing one match\<close>

definition redaction_fingerprint :: "services \<Rightarrow> environ \<Rightarrow> string \<Rightarrow> string" where
  "redaction_fingerprint sv env v =
     (let salt = str_or (env ''AUTHCLAW_REDACTION_SALT'') (str_or (env ''JWT_SECRET'')
        (str_or (env ''AUTHCLAW_JWT_SECRET'') (str_or (env ''AUTHCLAW_ENCRYPTION_KEY'') ''authclaw-local-redaction-salt'')))
      in take 16 (sv_hmac sv (utf8 salt) (utf8 v)))"

fun mask_leading :: "nat \<Rightarrow> nat \<Rightarrow> string \<Rightarrow> string" where
  "mask_leading n count [] = []"
| "mask_leading n count (c # s) =
     (if py_isdigit c
      then (if count + 4 < n then CHR ''*'' # mask_leading n (count + 1) s else c # mask_leading n count s)
      else c # mask_leading n count s)"

definition placeholder :: "string \<Rightarrow> string \<Rightarrow> string" where
  "placeholder field v =
     (if field = ''email'' then ''[REDACTED_EMAIL]''
      else if field = ''phone'' then ''[REDACTED_PHONE]''
      else if field = ''aadhaar'' then ''[REDACTED_AADHAAR]''
      else if field = ''credit_card'' then ''[REDACTED_CARD]''
      else v)"

definition apply_redaction :: "services \<Rightarrow> environ \<Rightarrow> string \<Rightarrow> string \<Rightarrow> string \<Rightarrow> string" where
  "apply_redaction sv env field v action =
     (let a = lower action in
      if a = ''mask'' \<and> field = ''email'' then
        (if CHR ''@'' \<in> set v
         then (let (local, domain) = split_once (CHR ''@'') v in mask_local local @ CHR ''@'' # domain)
         else ''***'')
      else if a = ''mask'' \<and> field = ''phone'' then stars 6 @ drop (length v - 4) v
      else if a = ''mask'' \<and> field \<in> {''aadhaar'', ''credit_card''}
      then mask_leading (length (filter py_isdigit v)) 0 v
      else if a = ''hash'' then ''[HASH_'' @ redaction_fingerprint sv env v @ '']''
      else if a = ''synthetic'' \<and> field = ''email'' then ''synthetic.email@example.com''
      else if a = ''synthetic'' \<and> field = ''phone'' then ''555-019-9283''
      else if a = ''synthetic'' \<and> field = ''aadhaar'' then ''0000 0000 0000''
      else if a = ''synthetic'' \<and> field = ''credit_card'' then ''4111-1111-1111-1111''
      else placeholder field v)"

text \<open>\<open>s.replace(old, new)\<close> for a nonempty \<open>old\<close>.\<close>

function str_replace :: "string \<Rightarrow> string \<Rightarrow> string \<Rightarrow> string" where
  "str_replace old new [] = []"
| "str_replace old new (c # s) =
     (if old \<noteq> [] \<and> starts_with old (c # s) then new @ str_replace old new (drop (length old) (c # s))
      else c # str_replace old new s)"
  by pat_completeness auto
termination by (relation "measure (\<lambda>(old, new, s). length s)") auto

section \<open>Passes\<close>

datatype label = Fixed string | Group_Label nat

record scan_pass =
  sp_re :: re
  sp_label :: label
  sp_value :: nat
  sp_sub :: "string \<Rightarrow> rmatch \<Rightarrow> string"

definition placeholder_sub :: "string \<Rightarrow> rmatch \<Rightarrow> string" where
  "placeholder_sub s m = ''[REDACTED]''"

definition keyword_sub :: "string \<Rightarrow> rmatch \<Rightarrow> string" where
  "keyword_sub s m = m_group s m 1 @ m_group s m 2 @ ''[REDACTED]''"

definition pin_sub :: "string \<Rightarrow> rmatch \<Rightarrow> string" where
  "pin_sub s m = str_replace (m_group s m 1) ''[REDACTED]'' (m_group s m 0)"

definition mk_pass :: "re \<Rightarrow> label \<Rightarrow> nat \<Rightarrow> (string \<Rightarrow> rmatch \<Rightarrow> string) \<Rightarrow> scan_pass" where
  "mk_pass r l v f = \<lparr>sp_re = r, sp_label = l, sp_value = v, sp_sub = f\<rparr>"

definition baseline_trigger :: "string \<Rightarrow> string \<Rightarrow> string \<Rightarrow> string \<Rightarrow> string \<Rightarrow> string \<Rightarrow> policy_trigger" where
  "baseline_trigger name ptype matched v username now =
     \<lparr>pt_policy_name = name, pt_policy_type = ptype, pt_matched_pattern = matched, pt_redacted_value = v,
      pt_username = username, pt_timestamp = now, pt_token_id = None, pt_value_hash = None,
      pt_confidence = None, pt_action = None, pt_detector = None\<rparr>"

definition run_pass :: "string \<Rightarrow> string \<Rightarrow> string \<Rightarrow> string \<Rightarrow> scan_pass \<Rightarrow> string \<times> policy_trigger list
    \<Rightarrow> string \<times> policy_trigger list" where
  "run_pass name ptype username now p st =
     (let s = fst st; ms = finditer (sp_re p) s;
          matched = (\<lambda>m. case sp_label p of Fixed l \<Rightarrow> l | Group_Label k \<Rightarrow> m_group s m k)
      in (sub_with (sp_re p) (sp_sub p s) s,
          snd st @ map (\<lambda>m. baseline_trigger name ptype (matched m) (m_group s m (sp_value p)) username now)
            (filter (\<lambda>m. m_group s m (sp_value p) \<noteq> ''[REDACTED]'') ms)))"

definition gdpr_passes :: "scan_pass list" where
  "gdpr_passes =
    [mk_pass ssn_re (Fixed ''ssn'') 0 placeholder_sub,
     mk_pass gdpr_ssn_raw (Fixed ''ssn'') 0 placeholder_sub,
     mk_pass gdpr_passport (Fixed ''passport'') 0 placeholder_sub,
     mk_pass gdpr_keyword (Group_Label 1) 3 keyword_sub]"

definition hipaa_passes :: "scan_pass list" where
  "hipaa_passes =
    [mk_pass (medical_record_re 8) (Fixed ''medical record'') 0 placeholder_sub,
     mk_pass hipaa_keyword (Group_Label 1) 3 keyword_sub]"

definition soc2_passes :: "scan_pass list" where
  "soc2_passes =
    [mk_pass card_brand_re (Fixed ''credit card'') 0 placeholder_sub,
     mk_pass card_delimited_re (Fixed ''credit card'') 0 placeholder_sub,
     mk_pass soc2_card_digits (Fixed ''credit card'') 0 placeholder_sub,
     mk_pass gdpr_ssn_raw (Fixed ''bank routing'') 0 placeholder_sub,
     mk_pass soc2_keyword (Group_Label 1) 3 keyword_sub,
     mk_pass soc2_pin_near (Fixed ''pin number'') 1 pin_sub]"

record db_policy =
  dp_name :: string
  dp_type :: string
  dp_rules :: jval

text \<open>\<open>{p["type"]: p for p in db_policies}\<close>: the last row of a type wins.\<close>

definition active_type :: "db_policy list \<Rightarrow> string \<Rightarrow> db_policy option" where
  "active_type ps t = last_such (\<lambda>p. dp_type p = t) ps"

definition compliance_block :: "db_policy list \<Rightarrow> string \<Rightarrow> scan_pass list \<Rightarrow> string \<Rightarrow> string
    \<Rightarrow> string \<times> policy_trigger list \<Rightarrow> (string \<times> policy_trigger list) sm" where
  "compliance_block ps t passes username now st =
     (case active_type ps t of
        None \<Rightarrow> Inr st
      | Some p \<Rightarrow> rbind (py_get (dp_rules p) ''pii_redaction'' (JBool False)) (\<lambda>flag.
          Inr (if truthy flag then fold (run_pass (dp_name p) t username now) passes st else st)))"

definition baseline_pass :: "services \<Rightarrow> environ \<Rightarrow> (string \<times> string) list \<Rightarrow> string \<Rightarrow> string \<Rightarrow> string \<times> re
    \<Rightarrow> string \<times> policy_trigger list \<Rightarrow> string \<times> policy_trigger list" where
  "baseline_pass sv env rules username now fr st =
     (let (field, r) = fr; s = fst st;
          action = (case map_of rules field of None \<Rightarrow> ''redact'' | Some a \<Rightarrow> a)
      in (sub_with r (\<lambda>m. apply_redaction sv env field (m_group s m 0) action) s,
          snd st @ map (\<lambda>m. baseline_trigger ''PII Protection'' ''Security'' field (m_group s m 0) username now)
            (filter (\<lambda>m. \<not> str_in ''[REDACTED'' (m_group s m 0)) (finditer r s))))"

definition baseline_fields :: "(string \<times> re) list" where
  "baseline_fields = [(''email'', baseline_email), (''aadhaar'', baseline_aadhaar), (''phone'', baseline_phone)]"

text \<open>\<open>yaml_rules\<close> is the \<open>redaction\<close> section of the policy file, empty where reading it raises.\<close>

definition redact_sensitive_data_rich ::
  "sd_env \<Rightarrow> db_policy list \<Rightarrow> (string \<times> string) list \<Rightarrow> string \<Rightarrow> string \<Rightarrow> bool \<Rightarrow> string
    \<Rightarrow> (string \<times> policy_trigger list) sm" where
  "redact_sensitive_data_rich e ps yaml_rules text username use_presidio now =
     rbind (redact e (new_detector (environ (sd_secrets e)) (Some use_presidio)) text username (Some use_presidio) now) (\<lambda>st0.
     rbind (compliance_block ps ''GDPR'' gdpr_passes username now st0) (\<lambda>st1.
     rbind (compliance_block ps ''HIPAA'' hipaa_passes username now st1) (\<lambda>st2.
     rbind (compliance_block ps ''SOC2'' soc2_passes username now st2) (\<lambda>st3.
       (let st4 = fold (baseline_pass (sd_services e) (environ (sd_secrets e)) yaml_rules username now) baseline_fields st3
        in rbind (sanitize_finding_metadata e (snd st4)) (\<lambda>triggers. Inr (fst st4, triggers)))))))"

definition trigger_log_line :: "policy_trigger \<Rightarrow> string" where
  "trigger_log_line t = [CHR 0x0A] @ ''[POLICY TRIGGERED] Time: '' @ pt_timestamp t @ '' | Policy: '' @ pt_policy_name t @ '' ('' @
     pt_policy_type t @ '') | Matched: '' @ pt_matched_pattern t @ '' | Redacted: '' @ pt_redacted_value t @
     '' | User: '' @ pt_username t @ [CHR 0x0A]"

definition redact_sensitive_data ::
  "sd_env \<Rightarrow> db_policy list \<Rightarrow> (string \<times> string) list \<Rightarrow> string \<Rightarrow> string \<Rightarrow> string sm" where
  "redact_sensitive_data e ps yaml_rules text now =
     rbind (redact_sensitive_data_rich e ps yaml_rules text ''admin_user'' True now) (\<lambda>r. Inr (fst r))"

section \<open>The stream\<close>

text \<open>\<open>int(s)\<close>: surrounding white space, a sign, digits with single underscores between them.\<close>

fun digits_ok :: "string \<Rightarrow> bool" where
  "digits_ok [] = False"
| "digits_ok [c] = is_digit c"
| "digits_ok (c # d # s) = (is_digit c \<and> (if d = CHR ''_'' then digits_ok s else digits_ok (d # s)))"

definition py_int :: "string \<Rightarrow> int option" where
  "py_int raw = (let s = strip raw; neg = (s \<noteq> [] \<and> hd s = CHR ''-'');
       body = (if s \<noteq> [] \<and> hd s \<in> {CHR ''-'', CHR ''+''} then tl s else s)
     in if digits_ok body
        then Some ((if neg then -1 else 1) * int (read_nat (filter (\<lambda>c. c \<noteq> CHR ''_'') body)))
        else None)"

definition stream_holdback_size :: "environ \<Rightarrow> int" where
  "stream_holdback_size env =
     (case py_int (case env ''AUTHCLAW_STREAM_REDACTION_HOLDBACK_CHARS'' of None \<Rightarrow> ''256'' | Some v \<Rightarrow> v) of
        None \<Rightarrow> 256
      | Some n \<Rightarrow> max 64 (min 4096 n))"

definition stream_needs_redaction_scan :: "string \<Rightarrow> bool" where
  "stream_needs_redaction_scan v =
     (list_ex (\<lambda>hint. str_in hint (lower v)) STREAM_HINT_WORDS \<or> 4 \<le> length (filter py_isdigit v))"

text \<open>The state of the generator: the pending text and the chunks yielded so far.\<close>

record stream_state =
  pending :: string
  yielded :: "string list"

definition yield_chunk :: "nat \<Rightarrow> string \<Rightarrow> stream_state \<Rightarrow> stream_state" where
  "yield_chunk n s st = \<lparr>pending = drop n s, yielded = yielded st @ (if take n s \<noteq> [] then [take n s] else [])\<rparr>"

definition stream_token :: "(string \<Rightarrow> string sm) \<Rightarrow> nat \<Rightarrow> string option \<Rightarrow> stream_state \<Rightarrow> stream_state sm" where
  "stream_token redactor holdback token st =
     (case token of
        None \<Rightarrow> Inr st
      | Some t \<Rightarrow>
          (let p = pending st @ t; st' = st\<lparr>pending := p\<rparr> in
           if length p \<le> holdback then Inr st'
           else if \<not> stream_needs_redaction_scan p then Inr (yield_chunk (length p - holdback) p st')
           else rbind (redactor p) (\<lambda>r.
             Inr (if holdback < length r then yield_chunk (length r - holdback) r st' else st'))))"

fun stream_tokens :: "(string \<Rightarrow> string sm) \<Rightarrow> nat \<Rightarrow> string option list \<Rightarrow> stream_state \<Rightarrow> stream_state sm" where
  "stream_tokens redactor holdback [] st = Inr st"
| "stream_tokens redactor holdback (t # ts) st =
     rbind (stream_token redactor holdback t st) (stream_tokens redactor holdback ts)"

definition stream_tail :: "(string \<Rightarrow> string sm) \<Rightarrow> stream_state \<Rightarrow> string list sm" where
  "stream_tail redactor st =
     (if pending st = [] then Inr (yielded st)
      else rbind (redactor (pending st)) (\<lambda>r. Inr (yielded st @ (if r = [] then [] else [r]))))"

definition stream_with :: "(string \<Rightarrow> string sm) \<Rightarrow> nat \<Rightarrow> string option list \<Rightarrow> string list sm" where
  "stream_with redactor holdback tokens =
     rbind (stream_tokens redactor holdback tokens \<lparr>pending = '''', yielded = []\<rparr>) (stream_tail redactor)"

definition redact_stream_buffer ::
  "sd_env \<Rightarrow> db_policy list \<Rightarrow> (string \<times> string) list \<Rightarrow> string \<Rightarrow> string \<Rightarrow> string \<Rightarrow> string sm" where
  "redact_stream_buffer e ps yaml_rules username now buffer =
     rbind (redact_sensitive_data_rich e ps yaml_rules buffer username False now) (\<lambda>r. Inr (fst r))"

definition stream_redact_sensitive_tokens ::
  "sd_env \<Rightarrow> db_policy list \<Rightarrow> (string \<times> string) list \<Rightarrow> string \<Rightarrow> string \<Rightarrow> nat option \<Rightarrow> string option list
    \<Rightarrow> string list sm" where
  "stream_redact_sensitive_tokens e ps yaml_rules username now holdback_chars tokens =
     stream_with (redact_stream_buffer e ps yaml_rules username now)
       (case holdback_chars of
          Some n \<Rightarrow> if n = 0 then nat (stream_holdback_size (environ (sd_secrets e))) else n
        | None \<Rightarrow> nat (stream_holdback_size (environ (sd_secrets e)))) tokens"

section \<open>Facts on passes\<close>

definition pass_ok :: "scan_pass \<Rightarrow> bool" where
  "pass_ok p = (0 < min_len (sp_re p))"

lemma compliance_passes_ok: "list_all pass_ok (gdpr_passes @ hipaa_passes @ soc2_passes)"
  by code_simp

definition pass_edits :: "scan_pass \<Rightarrow> string \<Rightarrow> edit list" where
  "pass_edits p s = map (\<lambda>m. (m_start m, m_end m, sp_sub p s m)) (finditer (sp_re p) s)"

lemma run_pass_text: "fst (run_pass name ptype username now p (s, ts)) = splice s 0 (pass_edits p s)"
  by (simp add: run_pass_def sub_with_def pass_edits_def Let_def)

lemma pass_edits_spans: "spans_ok 0 (length s) (edit_spans (pass_edits p s))"
proof -
  have "match_span = (\<lambda>m. (m_start m, m_end m))" by (rule ext) (simp add: match_span_def)
  then show ?thesis using finditer_spans [of s "sp_re p"] by (simp add: pass_edits_def comp_def)
qed

lemma pass_edits_complete:
  assumes "pass_ok p" "q \<le> length s" "match_at (sp_re p) s q \<noteq> None"
  shows "\<exists>(i, j, r)\<in>set (pass_edits p s). i \<le> q \<and> q < j"
proof -
  obtain m where m: "m \<in> set (finditer (sp_re p) s)" "m_start m \<le> q" "q < m_end m \<or> q = m_start m"
    using finditer_complete [OF assms(2,3)] by blast
  have "m_start m < m_end m" using finditer_match(1) [OF m(1)] assms(1) by (simp add: pass_ok_def)
  then show ?thesis using m by (auto simp: pass_edits_def)
qed

text \<open>A compliance pass rewrites exactly the matches of its pattern: its result is the text with
  an ordered list of disjoint spans replaced, and every position at which the pattern matches lies in
  one of them.\<close>

theorem compliance_pass_complete:
  assumes "p \<in> set (gdpr_passes @ hipaa_passes @ soc2_passes)"
  shows "\<exists>es. fst (run_pass name ptype username now p (s, ts)) = splice s 0 es
    \<and> spans_ok 0 (length s) (map (\<lambda>e. (fst e, fst (snd e))) es)
    \<and> (\<forall>q\<le>length s. match_at (sp_re p) s q \<noteq> None \<longrightarrow> (\<exists>(i, j, r)\<in>set es. i \<le> q \<and> q < j))"
proof -
  have "pass_ok p" using assms compliance_passes_ok unfolding list_all_iff by blast
  then show ?thesis
    using run_pass_text pass_edits_spans pass_edits_complete by (intro exI [of _ "pass_edits p s"]) auto
qed

definition ssn_pass :: scan_pass where "ssn_pass = mk_pass ssn_re (Fixed ''ssn'') 0 placeholder_sub"

theorem compliance_pass_complete_witness:
  "\<exists>es. fst (run_pass ''GDPR'' ''GDPR'' ''u'' ''now'' ssn_pass (''a 123-45-6789'', [])) = splice ''a 123-45-6789'' 0 es
    \<and> (\<exists>(i, j, r)\<in>set es. i \<le> 2 \<and> 2 < j)"
proof -
  have "ssn_pass \<in> set (gdpr_passes @ hipaa_passes @ soc2_passes)" by (simp add: ssn_pass_def gdpr_passes_def)
  from compliance_pass_complete [OF this, of "''GDPR''" "''GDPR''" "''u''" "''now''" "''a 123-45-6789''" "[]"]
  obtain es where es: "fst (run_pass ''GDPR'' ''GDPR'' ''u'' ''now'' ssn_pass (''a 123-45-6789'', [])) = splice ''a 123-45-6789'' 0 es"
    "\<forall>q\<le>length ''a 123-45-6789''. match_at (sp_re ssn_pass) ''a 123-45-6789'' q \<noteq> None \<longrightarrow>
       (\<exists>(i, j, r)\<in>set es. i \<le> q \<and> q < j)" by blast
  have "match_at (sp_re ssn_pass) ''a 123-45-6789'' 2 \<noteq> None" by code_simp
  then show ?thesis using es by (intro exI [of _ es]) auto
qed

text \<open>The triggers that leave the redactor, and reach the audit log and the log file, carry tokens
  or placeholders; only a passport trigger keeps the detected text.\<close>

theorem rich_triggers_sanitized:
  assumes "redact_sensitive_data_rich e ps yaml_rules text username use_presidio now = Inr (out, triggers)"
  shows "\<forall>t\<in>set triggers. lower (pt_matched_pattern t) = ''passport'' \<or> \<not> is_raw_value (pt_redacted_value t)"
proof -
  obtain ts where "sanitize_finding_metadata e ts = Inr triggers"
    using assms by (auto simp: redact_sensitive_data_rich_def rbind_eq_Inr Let_def)
  then have "list_all2 (\<lambda>t t'. sanitize_one e t = Inr t') ts triggers"
    unfolding sanitize_finding_metadata_def by (rule map_result_nth)
  then show ?thesis
    by (induction ts triggers rule: list_all2_induct) (auto dest!: sanitize_one_value split: if_splits)
qed

lemma demo_sanitize_ok: "\<exists>ts'. sanitize_finding_metadata sd_demo ts = Inr ts'"
proof -
  have "is_ok (sanitize_one sd_demo t)" for t by (simp add: sanitize_one_def Let_def)
  then have "is_ok (map_result (sanitize_one sd_demo) ts)" by (rule map_result_ok)
  then show ?thesis by (simp add: sanitize_finding_metadata_def is_ok_iff)
qed

lemma no_baseline_match:
  "list_all (\<lambda>(field, r). finditer r ''[REDACTED]'' = []) baseline_fields"
  by code_simp

lemma baseline_pass_idle: "finditer r s = [] \<Longrightarrow> baseline_pass sv env rules u now (field, r) (s, ts) = (s, ts)"
  by (simp add: baseline_pass_def Let_def sub_with_def)

theorem rich_triggers_sanitized_witness:
  "\<exists>triggers. redact_sensitive_data_rich sd_demo [] [] ''a@b.co'' ''u'' False ''now'' = Inr (''[REDACTED]'', triggers) \<and>
     (\<forall>t\<in>set triggers. lower (pt_matched_pattern t) = ''passport'' \<or> \<not> is_raw_value (pt_redacted_value t))"
proof -
  obtain md where r: "redact sd_demo False ''a@b.co'' ''u'' (Some False) ''now'' = Inr (''[REDACTED]'', md)"
    using demo_email_redacted by blast
  obtain ts where "sanitize_finding_metadata sd_demo md = Inr ts" using demo_sanitize_ok by blast
  moreover have "fold (baseline_pass sv env rules ''u'' ''now'') baseline_fields (''[REDACTED]'', md) = (''[REDACTED]'', md)" for sv env rules
    using no_baseline_match by (simp add: baseline_fields_def baseline_pass_idle)
  ultimately have "redact_sensitive_data_rich sd_demo [] [] ''a@b.co'' ''u'' False ''now'' = Inr (''[REDACTED]'', ts)"
    by (simp add: redact_sensitive_data_rich_def new_detector_def r compliance_block_def active_type_def Let_def)
  then show ?thesis using rich_triggers_sanitized by blast
qed

section \<open>Facts on the stream\<close>

lemma digits_ok_nonempty: "digits_ok s \<Longrightarrow> s \<noteq> []"
  by auto

text \<open>Whatever the environment says, the stream holds back between 64 and 4096 characters.\<close>

lemma holdback_bounds: "64 \<le> stream_holdback_size env \<and> stream_holdback_size env \<le> 4096"
  by (simp add: stream_holdback_size_def split: option.split)

lemma yield_chunk_text:
  "concat (yielded (yield_chunk n s st)) @ pending (yield_chunk n s st) = concat (yielded st) @ s"
  by (simp add: yield_chunk_def)

definition token_text :: "string option list \<Rightarrow> string" where
  "token_text ts = concat (map or_empty ts)"

lemma stream_token_identity:
  "\<exists>st'. stream_token Inr holdback t st = Inr st' \<and>
     concat (yielded st') @ pending st' = concat (yielded st) @ pending st @ or_empty t"
proof (cases t)
  case (Some x)
  let ?p = "pending st @ x"
  consider "length ?p \<le> holdback" | "holdback < length ?p" by linarith
  then show ?thesis
  proof cases
    case 2
    then show ?thesis using Some yield_chunk_text [of "length ?p - holdback" ?p "st\<lparr>pending := ?p\<rparr>"]
      by (simp add: stream_token_def Let_def)
  qed (simp add: stream_token_def Some)
qed (simp add: stream_token_def)

lemma stream_tokens_identity:
  "\<exists>st'. stream_tokens Inr holdback ts st = Inr st' \<and>
     concat (yielded st') @ pending st' = concat (yielded st) @ pending st @ token_text ts"
proof (induction ts arbitrary: st)
  case (Cons t ts)
  obtain st1 where 1: "stream_token Inr holdback t st = Inr st1"
    "concat (yielded st1) @ pending st1 = concat (yielded st) @ pending st @ or_empty t"
    using stream_token_identity by blast
  obtain st2 where "stream_tokens Inr holdback ts st1 = Inr st2"
    "concat (yielded st2) @ pending st2 = concat (yielded st1) @ pending st1 @ token_text ts"
    using Cons.IH by blast
  then show ?case using 1 by (simp add: token_text_def)
qed (simp add: token_text_def)

text \<open>Streaming only cuts: with a redactor that leaves its input alone, the chunks concatenate
  to the tokens, whatever the holdback, the token boundaries and the scan decisions.\<close>

theorem stream_preserves_text:
  "\<exists>chunks. stream_with Inr holdback tokens = Inr chunks \<and> concat chunks = concat (map or_empty tokens)"
proof -
  obtain st where "stream_tokens Inr holdback tokens \<lparr>pending = '''', yielded = []\<rparr> = Inr st"
    "concat (yielded st) @ pending st = token_text tokens"
    using stream_tokens_identity [of holdback tokens "\<lparr>pending = '''', yielded = []\<rparr>"] by auto
  then show ?thesis by (cases "pending st = []") (auto simp: stream_with_def stream_tail_def token_text_def)
qed

definition name_stream :: string where
  "name_stream = ''name is Priya Sharma'' @ replicate 64 (CHR '' '')"

lemma name_stream_unscanned: "\<not> stream_needs_redaction_scan name_stream"
  by code_simp

lemma name_stream_parts:
  "length name_stream = 84" "take 20 name_stream = ''name is Priya Sharma''"
  "drop 20 name_stream = replicate 64 (CHR '' '')"
  by (simp_all add: name_stream_def)

lemma name_stream_found: "map match_span (finditer name_re (take 20 name_stream)) = [(0, 20)]"
  by code_simp

text \<open>A buffer without a hint word and with fewer than four digits is not scanned: the
  stream releases a name that the detector recognizes in the same text, whatever the redactor.\<close>

theorem stream_releases_names:
  "stream_token redactor 64 (Some name_stream) \<lparr>pending = '''', yielded = []\<rparr>
     = Inr \<lparr>pending = replicate 64 (CHR '' ''), yielded = [''name is Priya Sharma'']\<rparr>
   \<and> map match_span (finditer name_re ''name is Priya Sharma'') = [(0, 20)]"
  using name_stream_unscanned name_stream_found
  by (simp add: stream_token_def yield_chunk_def name_stream_parts)

end
