(* ===== verification/Policy_Engine.thy ===== *)
theory Policy_Engine
  imports Sensitive_Data
begin

text \<open>
  \<open>services/policy_engine.py\<close>: tenant policies, the findings of the detector, of the baseline
  patterns, of the topics and of the keywords, the final governance action, policy simulation,
  loading from the table, the policy history and the validation of rules before publication.

  The rules of a policy are decoded JSON.  A governance action is a datatype ordered by
  \<open>ACTION_PRIORITY\<close>.  Evaluation may raise: a truthy \<open>category_actions\<close> that is not an object has
  no \<open>items\<close>.
\<close>

section \<open>Actions\<close>

datatype action = ACTION_ALLOW | ACTION_REDACT | ACTION_REQUIRE_APPROVAL | ACTION_BLOCK

primrec ACTION_PRIORITY :: "action \<Rightarrow> nat" where
  "ACTION_PRIORITY ACTION_ALLOW = 0"
| "ACTION_PRIORITY ACTION_REDACT = 1"
| "ACTION_PRIORITY ACTION_REQUIRE_APPROVAL = 2"
| "ACTION_PRIORITY ACTION_BLOCK = 3"

lemma ACTION_PRIORITY_inj: "ACTION_PRIORITY a = ACTION_PRIORITY b \<longleftrightarrow> a = b"
  by (cases a; cases b) auto

instantiation action :: linorder
begin

definition less_eq_action :: "action \<Rightarrow> action \<Rightarrow> bool" where
  "less_eq_action a b = (ACTION_PRIORITY a \<le> ACTION_PRIORITY b)"

definition less_action :: "action \<Rightarrow> action \<Rightarrow> bool" where
  "less_action a b = (ACTION_PRIORITY a < ACTION_PRIORITY b)"

instance
  by standard (auto simp: less_eq_action_def less_action_def ACTION_PRIORITY_inj)

end

primrec action_name :: "action \<Rightarrow> string" where
  "action_name ACTION_ALLOW = ''ALLOW''"
| "action_name ACTION_REDACT = ''REDACT''"
| "action_name ACTION_REQUIRE_APPROVAL = ''REQUIRE_APPROVAL''"
| "action_name ACTION_BLOCK = ''BLOCK''"

section \<open>Categories and patterns\<close>

definition LIFECYCLE_ALLOWED_RULE_KEYS :: "string list" where
  "LIFECYCLE_ALLOWED_RULE_KEYS = [''action'', ''allowed_topics'', ''blocked_keywords'', ''blocked_topics'',
     ''categories'', ''category'', ''category_actions'', ''pii_redaction'', ''secret_detection'', ''actions'']"

definition CATEGORY_PRIORITY :: "(string \<times> nat) list" where
  "CATEGORY_PRIORITY = [(''PROMPT_INJECTION'', 0), (''SECURITY_BYPASS'', 1), (''DATA_EXFILTRATION'', 2), (''SECRETS'', 3),
     (''PII'', 4), (''FINANCIAL_DATA'', 5), (''MEDICAL_DATA'', 6), (''LEGAL_DATA'', 7), (''CUSTOMER_DEFINED_TOPICS'', 8)]"

definition category_priority :: "string \<Rightarrow> nat" where
  "category_priority c = (case map_of CATEGORY_PRIORITY c of None \<Rightarrow> 100 | Some n \<Rightarrow> n)"

definition CATEGORY_ALIASES :: "(string \<times> string) list" where
  "CATEGORY_ALIASES = [(''pii'', ''PII''), (''personal_data'', ''PII''), (''secrets'', ''SECRETS''), (''secret'', ''SECRETS''),
     (''prompt_injection'', ''PROMPT_INJECTION''), (''jailbreak'', ''PROMPT_INJECTION''), (''financial'', ''FINANCIAL_DATA''),
     (''financial_data'', ''FINANCIAL_DATA''), (''medical'', ''MEDICAL_DATA''), (''medical_data'', ''MEDICAL_DATA''),
     (''legal'', ''LEGAL_DATA''), (''legal_data'', ''LEGAL_DATA''), (''customer_topic'', ''CUSTOMER_DEFINED_TOPICS''),
     (''customer_defined_topics'', ''CUSTOMER_DEFINED_TOPICS''), (''data_exfiltration'', ''DATA_EXFILTRATION''),
     (''security_bypass'', ''SECURITY_BYPASS''), (''custom'', ''CUSTOMER_DEFINED_TOPICS'')]"

definition ENTITY_CATEGORIES :: "(string \<times> string) list" where
  "ENTITY_CATEGORIES = [(''email'', ''PII''), (''phone'', ''PII''), (''aadhaar'', ''PII''), (''pan'', ''PII''), (''name'', ''PII''),
     (''address'', ''PII''), (''ssn'', ''PII''), (''credit_card'', ''FINANCIAL_DATA''),
     (''financial_identifier'', ''FINANCIAL_DATA''), (''iban'', ''FINANCIAL_DATA''), (''medical_identifier'', ''MEDICAL_DATA'')]"

definition PROMPT_INJECTION_PATTERNS :: "string list" where
  "PROMPT_INJECTION_PATTERNS = [''ignore previous instructions'', ''ignore all instructions'', ''ignore all company policies'',
     ''bypass policy'', ''bypass policies'', ''reveal system prompt'', ''show internal system prompts'',
     ''forget your instructions'', ''developer mode'', ''jailbreak'']"

definition SECURITY_BYPASS_PATTERNS :: "string list" where
  "SECURITY_BYPASS_PATTERNS = [''disable logging'', ''disable security logging'', ''disable monitoring'', ''disable audit trails'',
     ''disable audit logging'', ''disable guardrails'', ''turn off logging'', ''turn off monitoring'', ''turn off audit'',
     ''bypass security'', ''disable security'', ''remove restrictions'', ''bypass authentication'', ''disable access control'']"

definition DATA_EXFILTRATION_PATTERNS :: "string list" where
  "DATA_EXFILTRATION_PATTERNS = [''export customer data'', ''export all customer data'', ''export customer record'',
     ''export every customer'', ''export production database'', ''show me every customer ssn'',
     ''show me every customer'' @ [CHR 0x27] @ ''s ssn'', ''show me every customers ssn'', ''reveal ssn'',
     ''reveal every customer ssn'', ''reveal admin passwords'', ''reveal passwords'', ''reveal hidden admin passwords'',
     ''reveal secrets'', ''dump database'', ''database dump'', ''download database'', ''download all users'',
     ''extract records'', ''customer emails'', ''export user data'', ''exfiltrate'', ''steal data'', ''leak data'']"

definition LEGAL_PATTERNS :: "string list" where
  "LEGAL_PATTERNS = [''legal advice'', ''lawsuit strategy'', ''privileged communication'', ''attorney client'',
     ''contract clause'', ''settlement agreement'']"

definition MEDICAL_PATTERNS :: "string list" where
  "MEDICAL_PATTERNS = [''diagnosis'', ''medical record'', ''patient'', ''prescription'', ''treatment plan'', ''health history'']"

definition FINANCIAL_PATTERNS :: "string list" where
  "FINANCIAL_PATTERNS = [''bank account'', ''routing number'', ''credit card'', ''wire transfer'', ''tax id'', ''financial statement'']"

section \<open>Python's \<open>str\<close> on decoded values\<close>

definition repr_char :: "char \<Rightarrow> char \<Rightarrow> string" where
  "repr_char q c = (let n = of_char c :: nat in
     if c = q \<or> n = 92 then [CHR 0x5C, c]
     else if n = 10 then [CHR 0x5C, CHR ''n''] else if n = 13 then [CHR 0x5C, CHR ''r''] else if n = 9 then [CHR 0x5C, CHR ''t'']
     else if n < 32 \<or> (127 \<le> n \<and> n \<le> 160) \<or> n = 173 then [CHR 0x5C, CHR ''x'', hex_digit (n div 16), hex_digit (n mod 16)]
     else [c])"

definition repr_string :: "string \<Rightarrow> string" where
  "repr_string s = (let q = (if CHR 0x27 \<in> set s \<and> CHR 0x22 \<notin> set s then CHR 0x22 else CHR 0x27)
     in q # concat (map (repr_char q) s) @ [q])"

fun py_repr :: "jval \<Rightarrow> string" where
  "py_repr JNull = ''None''"
| "py_repr (JBool b) = (if b then ''True'' else ''False'')"
| "py_repr (JInt i) = show_int i"
| "py_repr (JStr s) = repr_string s"
| "py_repr (JList l) = CHR ''['' # intercalate '', '' (map py_repr l) @ '']''"
| "py_repr (JObj m) = CHR ''{'' # intercalate '', '' (map (\<lambda>(k, v). repr_string k @ '': '' @ py_repr v) m) @ ''}''"

definition py_str :: "jval \<Rightarrow> string" where
  "py_str v = (case v of JStr s \<Rightarrow> s | _ \<Rightarrow> py_repr v)"

definition str_or_empty :: "jval \<Rightarrow> string" where
  "str_or_empty v = (if truthy v then py_str v else '''')"

section \<open>Policies\<close>

type_synonym rules = "(string \<times> jval) list"

record tenant_policy =
  tp_id :: "int option"
  tp_name :: string
  tp_type :: string
  tp_rules :: rules
  tp_enabled :: bool
  tp_tenant_id :: "int option"
  tp_version :: int
  tp_status :: string
  tp_severity_level :: string

definition normalize_key :: "string \<Rightarrow> string" where
  "normalize_key s = replace_char (CHR ''-'') (CHR ''_'') (replace_char (CHR '' '') (CHR ''_'') (lower (strip s)))"

definition normalize_category :: "jval \<Rightarrow> string" where
  "normalize_category c = (let key = normalize_key (str_or_empty c) in
     case map_of CATEGORY_ALIASES key of Some a \<Rightarrow> a | None \<Rightarrow> if key \<noteq> [] then upper key else '''')"

definition normalize_action :: "jval \<Rightarrow> action option" where
  "normalize_action a = (let key = normalize_key (str_or_empty a) in
     if key \<in> {''allow'', ''allowed''} then Some ACTION_ALLOW
     else if key \<in> {''redact'', ''mask'', ''hash'', ''tokenize''} then Some ACTION_REDACT
     else if key \<in> {''block'', ''deny'', ''blocked'', ''block_or_review''} then Some ACTION_BLOCK
     else if key \<in> {''approval'', ''require_approval'', ''approval_required'', ''human_approval''} then Some ACTION_REQUIRE_APPROVAL
     else None)"

definition list_rules :: "rules \<Rightarrow> string \<Rightarrow> string list" where
  "list_rules r key =
     (case map_of r key of
        Some (JStr s) \<Rightarrow> [s]
      | Some (JList l) \<Rightarrow> filter (\<lambda>s. strip s \<noteq> []) (map py_str l)
      | Some (JObj m) \<Rightarrow> filter (\<lambda>s. strip s \<noteq> []) (map fst m)
      | _ \<Rightarrow> [])"

definition policy_categories :: "tenant_policy \<Rightarrow> string list" where
  "policy_categories p =
     (let r = tp_rules p;
          named = list_rules r ''categories'' @ (case map_of r ''category'' of Some (JStr c) \<Rightarrow> [c] | _ \<Rightarrow> []);
          pii = (if truthy (jget r ''pii_redaction'') \<or> str_in ''pii'' (lower (tp_type p)) then [''PII''] else []);
          secrets = (if truthy (jget r ''secret_detection'') then [''SECRETS''] else []);
          topics = (if list_rules r ''blocked_topics'' \<noteq> [] \<or> list_rules r ''allowed_topics'' \<noteq> []
                    then [''CUSTOMER_DEFINED_TOPICS''] else []);
          ty = normalize_category (JStr (tp_type p));
          cats = named @ pii @ secrets @ topics @ (if ty \<noteq> [] then [ty] else [])
      in sort (remdups (filter (\<lambda>c. c \<noteq> []) (map (\<lambda>c. normalize_category (JStr c)) cats))))"

definition category_for_policy :: "tenant_policy \<Rightarrow> string" where
  "category_for_policy p = (case policy_categories p of [] \<Rightarrow> ''CUSTOMER_DEFINED_TOPICS'' | c # _ \<Rightarrow> c)"

definition matching_policy_for_category :: "string \<Rightarrow> tenant_policy list \<Rightarrow> tenant_policy option" where
  "matching_policy_for_category c ps = find (\<lambda>p. normalize_category (JStr c) \<in> set (policy_categories p)) ps"

definition action_for_category :: "string \<Rightarrow> tenant_policy option \<Rightarrow> action option sm" where
  "action_for_category c policy =
     (case policy of
        None \<Rightarrow> Inr None
      | Some p \<Rightarrow>
          (let r = tp_rules p; key = lower (normalize_category (JStr c)) in
           case jor (jor (jget r ''category_actions'') (jget r ''actions'')) (JObj []) of
             JObj m \<Rightarrow> Inr (case find (\<lambda>(k, v). lower (normalize_category (JStr k)) = key) m of
                 Some (k, v) \<Rightarrow> normalize_action v
               | None \<Rightarrow> normalize_action (jget r ''action''))
           | _ \<Rightarrow> Inl (OtherError ''AttributeError'')))"

section \<open>Findings\<close>

record policy_finding =
  pf_policy_name :: string
  pf_policy_type :: string
  pf_category :: string
  pf_action :: action
  pf_matched_pattern :: string
  pf_reason :: string
  pf_confidence :: rat
  pf_policy_id :: "int option"
  pf_policy_version :: int
  pf_redacted_value :: string
  pf_value_hash :: "string option"
  pf_detector :: string

definition or_action :: "action option \<Rightarrow> action option \<Rightarrow> action option" where
  "or_action a b = (case a of None \<Rightarrow> b | Some x \<Rightarrow> Some x)"

definition action_or :: "action option \<Rightarrow> action \<Rightarrow> action" where
  "action_or a d = (case a of None \<Rightarrow> d | Some x \<Rightarrow> x)"

definition entity_category :: "string \<Rightarrow> string" where
  "entity_category entity = (if entity \<in> SECRET_TYPES then ''SECRETS''
     else case map_of ENTITY_CATEGORIES entity of None \<Rightarrow> ''PII'' | Some c \<Rightarrow> c)"

definition detector_finding :: "tenant_policy list \<Rightarrow> policy_trigger \<Rightarrow> policy_finding sm" where
  "detector_finding ps item =
     (let entity = lower (pt_matched_pattern item);
          category = entity_category entity;
          policy = matching_policy_for_category category ps;
          det = (\<lambda>d. case pt_detector item of None \<Rightarrow> d | Some x \<Rightarrow> x) in
      rbind (action_for_category category policy) (\<lambda>a.
        Inr \<lparr>pf_policy_name = (case policy of None \<Rightarrow> ''Sensitive Data Detection'' | Some p \<Rightarrow> tp_name p),
             pf_policy_type = (case policy of None \<Rightarrow> category | Some p \<Rightarrow> tp_type p),
             pf_category = category,
             pf_action = action_or (or_action a (normalize_action (case pt_action item of None \<Rightarrow> JNull | Some s \<Rightarrow> JStr s))) ACTION_REDACT,
             pf_matched_pattern = entity,
             pf_reason = category @ '' detected by '' @ det ''detector'',
             pf_confidence = (case pt_confidence item of None \<Rightarrow> 8/10 | Some c \<Rightarrow> c),
             pf_policy_id = (case policy of None \<Rightarrow> None | Some p \<Rightarrow> tp_id p),
             pf_policy_version = (case policy of None \<Rightarrow> 1 | Some p \<Rightarrow> tp_version p),
             pf_redacted_value = pt_redacted_value item,
             pf_value_hash = pt_value_hash item,
             pf_detector = det ''sensitive_data''\<rparr>))"

definition detector_findings :: "policy_trigger list \<Rightarrow> tenant_policy list \<Rightarrow> policy_finding list sm" where
  "detector_findings items ps = map_result (detector_finding ps) items"

definition engine_finding :: "string \<Rightarrow> string \<Rightarrow> string \<Rightarrow> action \<Rightarrow> string \<Rightarrow> string \<Rightarrow> rat \<Rightarrow> int option \<Rightarrow> int \<Rightarrow> policy_finding" where
  "engine_finding name ty category act matched reason conf pid version =
     \<lparr>pf_policy_name = name, pf_policy_type = ty, pf_category = category, pf_action = act,
      pf_matched_pattern = matched, pf_reason = reason, pf_confidence = conf, pf_policy_id = pid,
      pf_policy_version = version, pf_redacted_value = ''N/A'', pf_value_hash = None, pf_detector = ''policy_engine''\<rparr>"

definition baseline_security_findings :: "string \<Rightarrow> policy_finding list" where
  "baseline_security_findings text =
     (let low = lower text; hits = (\<lambda>name ty cat reason conf ps.
            map (\<lambda>p. engine_finding name ty cat ACTION_BLOCK p reason conf None 1) (filter (\<lambda>p. str_in p low) ps)) in
      hits ''Baseline Prompt Injection Defense'' ''prompt_injection'' ''PROMPT_INJECTION''
        ''Prompt injection pattern matched'' (97/100) PROMPT_INJECTION_PATTERNS @
      hits ''Baseline Security Bypass Defense'' ''security_bypass'' ''SECURITY_BYPASS''
        ''Security bypass pattern matched'' (96/100) SECURITY_BYPASS_PATTERNS @
      hits ''Baseline Data Exfiltration Defense'' ''data_exfiltration'' ''DATA_EXFILTRATION''
        ''Data exfiltration pattern matched'' (96/100) DATA_EXFILTRATION_PATTERNS)"

definition topic_finding :: "tenant_policy \<Rightarrow> string \<Rightarrow> string \<Rightarrow> string \<Rightarrow> policy_finding sm" where
  "topic_finding p category pattern reason =
     rbind (action_for_category category (Some p)) (\<lambda>a.
       Inr (engine_finding (tp_name p) (tp_type p) category
         (action_or (or_action a (normalize_action (jget (tp_rules p) ''action''))) ACTION_REQUIRE_APPROVAL)
         pattern reason (86/100) (tp_id p) (tp_version p)))"

definition built_in_topics :: "(string \<times> string list) list" where
  "built_in_topics = [(''FINANCIAL_DATA'', FINANCIAL_PATTERNS), (''MEDICAL_DATA'', MEDICAL_PATTERNS), (''LEGAL_DATA'', LEGAL_PATTERNS)]"

text \<open>The findings to make, in order, as arguments of \<open>topic_finding\<close>.\<close>

definition topic_hits :: "string \<Rightarrow> tenant_policy list \<Rightarrow> (tenant_policy \<times> string \<times> string \<times> string) list" where
  "topic_hits text ps =
     (let low = lower text in
      concat (map (\<lambda>(category, patterns).
        case matching_policy_for_category category ps of
          None \<Rightarrow> []
        | Some p \<Rightarrow> map (\<lambda>pat. (p, category, pat, ''Built-in category topic matched'')) (filter (\<lambda>pat. str_in pat low) patterns))
        built_in_topics) @
      concat (map (\<lambda>p.
        map (\<lambda>t. (p, ''CUSTOMER_DEFINED_TOPICS'', t, ''Tenant blocked topic matched''))
          (filter (\<lambda>t. str_in (lower t) low) (list_rules (tp_rules p) ''blocked_topics'')) @
        (let allowed = list_rules (tp_rules p) ''allowed_topics'' in
         if allowed \<noteq> [] \<and> \<not> list_ex (\<lambda>t. str_in (lower t) low) allowed
         then [(p, ''CUSTOMER_DEFINED_TOPICS'', ''outside_allowed_topics'', ''Prompt is outside tenant allowed topics'')] else [])) ps))"

definition topic_findings :: "string \<Rightarrow> tenant_policy list \<Rightarrow> policy_finding list sm" where
  "topic_findings text ps = map_result (\<lambda>(p, category, pat, reason). topic_finding p category pat reason) (topic_hits text ps)"

definition keyword_findings :: "string \<Rightarrow> tenant_policy list \<Rightarrow> policy_finding list" where
  "keyword_findings text ps = concat (map (\<lambda>p.
     map (\<lambda>k. engine_finding (tp_name p) (tp_type p) (category_for_policy p)
            (action_or (normalize_action (jget (tp_rules p) ''action'')) ACTION_BLOCK) k
            ''Tenant policy keyword matched'' (9/10) (tp_id p) (tp_version p))
       (filter (\<lambda>k. str_in (lower k) (lower text)) (list_rules (tp_rules p) ''blocked_keywords''))) ps)"

section \<open>Evaluation\<close>

definition final_action :: "action list \<Rightarrow> action" where
  "final_action as = fold max as ACTION_ALLOW"

definition risk_level :: "action \<Rightarrow> policy_finding list \<Rightarrow> string" where
  "risk_level a fs = (if a = ACTION_BLOCK then ''HIGH'' else if a = ACTION_REQUIRE_APPROVAL then ''HIGH''
     else if a = ACTION_REDACT \<or> fs \<noteq> [] then ''MEDIUM'' else ''LOW'')"

definition reason_of :: "action \<Rightarrow> policy_finding list \<Rightarrow> string" where
  "reason_of a fs = (if a = ACTION_ALLOW then ''policy_checks_passed''
     else case fs of [] \<Rightarrow> ''policy_action_required''
     | f # r \<Rightarrow> pf_reason (first_max (\<lambda>x. ACTION_PRIORITY (pf_action x)) f r))"

record finding_dict =
  fd_finding :: policy_finding
  fd_action :: string
  fd_confidence :: rat
  fd_username :: string
  fd_tenant_id :: "int option"
  fd_timestamp :: string

definition to_dict :: "policy_finding \<Rightarrow> string \<Rightarrow> int option \<Rightarrow> string \<Rightarrow> finding_dict" where
  "to_dict f username tenant now = \<lparr>fd_finding = f, fd_action = lower (action_name (pf_action f)),
     fd_confidence = round4 (pf_confidence f), fd_username = username, fd_tenant_id = tenant, fd_timestamp = now\<rparr>"

record evaluation =
  ev_action :: action
  ev_allowed :: bool
  ev_risk_level :: string
  ev_redacted_text :: string
  ev_findings :: "finding_dict list"
  ev_policy_versions :: "(int option \<times> string \<times> int \<times> string) list"
  ev_triggered_categories :: "string list"
  ev_reason :: string

text \<open>\<open>sorted({...}, key=...)\<close>; Python leaves the order of categories of equal priority open, here it
  is that of their first finding.\<close>

definition triggered_categories :: "policy_finding list \<Rightarrow> string list" where
  "triggered_categories fs = sort_key category_priority (remdups (map pf_category fs))"

definition all_findings :: "string \<Rightarrow> policy_trigger list \<Rightarrow> tenant_policy list \<Rightarrow> policy_finding list sm" where
  "all_findings text items ps =
     rbind (detector_findings items ps) (\<lambda>ds.
     rbind (topic_findings text ps) (\<lambda>ts.
       Inr (ds @ baseline_security_findings text @ ts @ keyword_findings text ps)))"

definition evaluate :: "sd_env \<Rightarrow> string \<Rightarrow> int option \<Rightarrow> string \<Rightarrow> tenant_policy list \<Rightarrow> string \<Rightarrow> evaluation sm" where
  "evaluate e text tenant username ps now =
     rbind (redact e (new_detector (environ (sd_secrets e)) None) text username None now) (\<lambda>(redacted, items).
     rbind (all_findings text items ps) (\<lambda>fs.
       (let fin = final_action (map pf_action fs);
            act = (if fin = ACTION_ALLOW \<and> items \<noteq> [] then ACTION_REDACT else fin)
        in Inr \<lparr>ev_action = act, ev_allowed = (act \<in> {ACTION_ALLOW, ACTION_REDACT}),
                ev_risk_level = risk_level act fs, ev_redacted_text = redacted,
                ev_findings = map (\<lambda>f. to_dict f username tenant now) fs,
                ev_policy_versions = map (\<lambda>p. (tp_id p, tp_name p, tp_version p, tp_status p)) ps,
                ev_triggered_categories = triggered_categories fs, ev_reason = reason_of act fs\<rparr>)))"

section \<open>Loading, simulating, recording\<close>

definition parse_rules :: "jval \<Rightarrow> rules" where
  "parse_rules v = (case v of
     JObj m \<Rightarrow> m
   | JStr s \<Rightarrow> (case json_loads s of Some (JObj m) \<Rightarrow> m | _ \<Rightarrow> [])
   | _ \<Rightarrow> [])"

record policy_row =
  pr_id :: int
  pr_name :: "string option"
  pr_rtype :: "string option"
  pr_rules :: jval
  pr_enabled :: "bool option"
  pr_tenant_id :: "int option"
  pr_version :: "int option"
  pr_status :: "string option"
  pr_severity :: "string option"

text \<open>The \<open>WHERE\<close> clause: a comparison with \<open>NULL\<close> is not true.\<close>

definition policy_selected :: "int option \<Rightarrow> policy_row \<Rightarrow> bool" where
  "policy_selected tenant r =
     (pr_enabled r = Some True \<and>
      (pr_tenant_id r = None \<or> (tenant \<noteq> None \<and> pr_tenant_id r = tenant)) \<and>
      (case pr_status r of None \<Rightarrow> True | Some s \<Rightarrow> s \<in> {''published'', ''active''}))"

definition policy_from_row :: "policy_row \<Rightarrow> tenant_policy" where
  "policy_from_row r =
     \<lparr>tp_id = Some (pr_id r), tp_name = str_or (pr_name r) ''Unnamed Policy'', tp_type = str_or (pr_rtype r) ''Custom'',
      tp_rules = parse_rules (pr_rules r), tp_enabled = (pr_enabled r = Some True), tp_tenant_id = pr_tenant_id r,
      tp_version = (case pr_version r of None \<Rightarrow> 1 | Some v \<Rightarrow> if v = 0 then 1 else v),
      tp_status = str_or (Some (case pr_status r of None \<Rightarrow> ''published'' | Some s \<Rightarrow> s)) ''published'',
      tp_severity_level = str_or (Some (case pr_severity r of None \<Rightarrow> ''MEDIUM'' | Some s \<Rightarrow> s)) ''MEDIUM''\<rparr>"

definition load_policies :: "int option \<Rightarrow> policy_row list \<Rightarrow> tenant_policy list" where
  "load_policies tenant rows = map policy_from_row (sort_key pr_id (filter (policy_selected tenant) rows))"

record policy_payload =
  pp_id :: "int option"
  pp_name :: "string option"
  pp_type :: "string option"
  pp_rules :: "jval option"
  pp_enabled :: "jval option"
  pp_version :: "int option"
  pp_severity :: "string option"

definition simulated_policy :: "policy_payload \<Rightarrow> int option \<Rightarrow> tenant_policy" where
  "simulated_policy p tenant =
     \<lparr>tp_id = pp_id p, tp_name = (case pp_name p of None \<Rightarrow> ''Simulation Policy'' | Some n \<Rightarrow> n),
      tp_type = (case pp_type p of None \<Rightarrow> ''Custom'' | Some t \<Rightarrow> t),
      tp_rules = parse_rules (case pp_rules p of None \<Rightarrow> JObj [] | Some v \<Rightarrow> v),
      tp_enabled = (case pp_enabled p of None \<Rightarrow> True | Some v \<Rightarrow> truthy v), tp_tenant_id = tenant,
      tp_version = (case pp_version p of None \<Rightarrow> 1 | Some v \<Rightarrow> if v = 0 then 1 else v),
      tp_status = ''draft'', tp_severity_level = (case pp_severity p of None \<Rightarrow> ''MEDIUM'' | Some s \<Rightarrow> s)\<rparr>"

record simulation =
  sim_decision :: action
  sim_allowed :: bool
  sim_risk_level :: string
  sim_redacted_text :: string
  sim_findings :: "finding_dict list"
  sim_triggered_categories :: "string list"
  sim_policy_versions :: "(int option \<times> string \<times> int \<times> string) list"

definition simulate :: "sd_env \<Rightarrow> policy_payload \<Rightarrow> string \<Rightarrow> int option \<Rightarrow> string \<Rightarrow> string \<Rightarrow> simulation sm" where
  "simulate e payload sample tenant username now =
     rbind (evaluate e sample tenant username [simulated_policy payload tenant] now) (\<lambda>r.
       Inr \<lparr>sim_decision = ev_action r, sim_allowed = ev_allowed r, sim_risk_level = ev_risk_level r,
            sim_redacted_text = ev_redacted_text r, sim_findings = ev_findings r,
            sim_triggered_categories = ev_triggered_categories r, sim_policy_versions = ev_policy_versions r\<rparr>)"

record history_row =
  hr_tenant_id :: "int option"
  hr_policy_id :: "int option"
  hr_action :: string
  hr_actor :: string
  hr_before :: "string option"
  hr_after :: "string option"
  hr_version :: int
  hr_status :: string
  hr_created_at :: string

definition record_policy_history ::
  "int option \<Rightarrow> int option \<Rightarrow> string \<Rightarrow> string \<Rightarrow> rules option \<Rightarrow> rules option \<Rightarrow> int \<Rightarrow> string \<Rightarrow> string
    \<Rightarrow> history_row list \<Rightarrow> history_row list" where
  "record_policy_history tenant pid act actor before after version status now rows =
     rows @ [\<lparr>hr_tenant_id = tenant, hr_policy_id = pid, hr_action = act, hr_actor = actor,
       hr_before = map_option (\<lambda>m. json_dumps (JObj m)) before, hr_after = map_option (\<lambda>m. json_dumps (JObj m)) after,
       hr_version = version, hr_status = status, hr_created_at = now\<rparr>]"

section \<open>Validation before publication\<close>

definition list_rule_errors :: "rules \<Rightarrow> string \<Rightarrow> string list" where
  "list_rule_errors r key =
     (case map_of r key of
        None \<Rightarrow> []
      | Some v \<Rightarrow>
          (case (case v of JStr s \<Rightarrow> Some [v] | JList l \<Rightarrow> Some l | _ \<Rightarrow> None) of
             None \<Rightarrow> [''Policy rules.'' @ key @ '' must be a string or list of strings.'']
           | Some items \<Rightarrow>
               (if key \<noteq> ''allowed_topics'' \<and> filter (\<lambda>i. strip (py_str i) \<noteq> []) items = []
                then [''Policy rules.'' @ key @ '' must contain at least one non-empty value.''] else []) @
               (if list_ex (\<lambda>i. case i of JStr s \<Rightarrow> strip s = [] | _ \<Rightarrow> True) items
                then [''Policy rules.'' @ key @ '' contains an empty or non-string value.''] else [])))"

fun action_entry_errors :: "string \<Rightarrow> (string \<times> jval) list \<Rightarrow> string list" where
  "action_entry_errors key [] = []"
| "action_entry_errors key ((category, act) # m) =
     (if strip category = [] then [''Policy rules.'' @ key @ '' contains an invalid category name.'']
      else (if normalize_action act = None
            then [''Policy rules.'' @ key @ ''.'' @ category @ '' action '' @ quoted (py_str act) @ '' is not supported.'']
            else []) @ action_entry_errors key m)"

definition action_rule_errors :: "rules \<Rightarrow> string \<Rightarrow> string list" where
  "action_rule_errors r key =
     (case map_of r key of
        None \<Rightarrow> []
      | Some (JObj m) \<Rightarrow> action_entry_errors key m
      | Some _ \<Rightarrow> [''Policy rules.'' @ key @ '' must be an object.''])"

definition flag_rule_errors :: "rules \<Rightarrow> string \<Rightarrow> string list" where
  "flag_rule_errors r key =
     (case map_of r key of
        None \<Rightarrow> []
      | Some (JBool b) \<Rightarrow> []
      | Some _ \<Rightarrow> [''Policy rules.'' @ key @ '' must be a boolean.''])"

definition validate_policy_rules_for_lifecycle :: "jval \<Rightarrow> string list" where
  "validate_policy_rules_for_lifecycle v =
     (case v of
        JObj r \<Rightarrow>
          (let unknown = sort (remdups (filter (\<lambda>k. k \<notin> set LIFECYCLE_ALLOWED_RULE_KEYS) (map fst r))) in
           (if list_ex (\<lambda>k. k \<in> fst ` set r) LIFECYCLE_ALLOWED_RULE_KEYS then []
            else [''Policy rules must contain at least one enforceable control.'']) @
           (if unknown \<noteq> [] then [''Policy rules contain unsupported keys: '' @ intercalate '', '' unknown @ ''.''] else []) @
           (if jget r ''action'' \<noteq> JNull \<and> normalize_action (jget r ''action'') = None
            then [''Policy action '' @ quoted (py_str (jget r ''action'')) @ '' is not supported.''] else []) @
           concat (map (list_rule_errors r) [''blocked_keywords'', ''blocked_topics'', ''allowed_topics'', ''categories'']) @
           concat (map (action_rule_errors r) [''category_actions'', ''actions'']) @
           concat (map (flag_rule_errors r) [''pii_redaction'', ''secret_detection'']))
      | _ \<Rightarrow> [''Policy rules must be a JSON object.''])"

section \<open>Facts\<close>

lemma fold_max_iff: "fold max as b \<le> (c :: 'a::linorder) \<longleftrightarrow> b \<le> c \<and> (\<forall>a\<in>set as. a \<le> c)"
  by (induction as arbitrary: b) auto

lemma final_action_le: "final_action as \<le> c \<longleftrightarrow> (\<forall>a\<in>set as. a \<le> c)"
proof -
  have "ACTION_ALLOW \<le> c" by (simp add: less_eq_action_def)
  then show ?thesis by (simp add: final_action_def fold_max_iff)
qed

lemma final_action_in: "as \<noteq> [] \<Longrightarrow> final_action as \<in> insert ACTION_ALLOW (set as)"
proof -
  have "fold max as b \<in> insert b (set as)" for b :: action
    by (induction as arbitrary: b) (auto simp: max_def)
  then show ?thesis by (simp add: final_action_def)
qed

lemma final_action_upper: "a \<in> set as \<Longrightarrow> a \<le> final_action as"
  using final_action_le [of as "final_action as"] by blast

lemma action_le_redact: "a \<le> ACTION_REDACT \<longleftrightarrow> a \<in> {ACTION_ALLOW, ACTION_REDACT}"
  by (cases a) (auto simp: less_eq_action_def)

lemma action_le_allow: "a \<le> ACTION_ALLOW \<longleftrightarrow> a = ACTION_ALLOW"
  by (cases a) (auto simp: less_eq_action_def)

lemma block_le: "ACTION_BLOCK \<le> a \<longleftrightarrow> a = ACTION_BLOCK"
  by (cases a) (auto simp: less_eq_action_def)

text \<open>What an evaluation consists of.\<close>

lemma evaluate_facts:
  assumes "evaluate e text tenant username ps now = Inr r"
  shows "\<exists>items fs.
    redact e (new_detector (environ (sd_secrets e)) None) text username None now = Inr (ev_redacted_text r, items) \<and>
    all_findings text items ps = Inr fs \<and>
    ev_action r = (if final_action (map pf_action fs) = ACTION_ALLOW \<and> items \<noteq> [] then ACTION_REDACT
       else final_action (map pf_action fs)) \<and>
    ev_allowed r = (ev_action r \<in> {ACTION_ALLOW, ACTION_REDACT}) \<and>
    ev_findings r = map (\<lambda>f. to_dict f username tenant now) fs \<and>
    ev_triggered_categories r = triggered_categories fs \<and>
    ev_reason r = reason_of (ev_action r) fs \<and> ev_risk_level r = risk_level (ev_action r) fs"
  using assms by (auto simp: evaluate_def rbind_eq_Inr Let_def)

lemma map_result_length: "map_result f xs = Inr ys \<Longrightarrow> length ys = length xs"
  using map_result_nth list_all2_lengthD by metis

definition baseline_pattern_in :: "string \<Rightarrow> bool" where
  "baseline_pattern_in text = list_ex (\<lambda>p. str_in p (lower text))
     (PROMPT_INJECTION_PATTERNS @ SECURITY_BYPASS_PATTERNS @ DATA_EXFILTRATION_PATTERNS)"

lemma baseline_findings_block: "f \<in> set (baseline_security_findings text) \<Longrightarrow> pf_action f = ACTION_BLOCK"
  by (auto simp: baseline_security_findings_def Let_def engine_finding_def)

lemma baseline_findings_nonempty: "baseline_pattern_in text \<longleftrightarrow> baseline_security_findings text \<noteq> []"
  by (auto simp: baseline_pattern_in_def baseline_security_findings_def Let_def filter_empty_conv list_ex_iff)

section \<open>Properties\<close>

text \<open>C23: A prompt is allowed exactly when no finding demands more than redaction; otherwise the
  final action is the strongest action of a finding.\<close>

theorem allowed_iff_findings:
  assumes "evaluate e text tenant username ps now = Inr r"
  shows "(ev_allowed r \<longleftrightarrow> (\<forall>f\<in>set (ev_findings r). pf_action (fd_finding f) \<in> {ACTION_ALLOW, ACTION_REDACT}))
    \<and> (\<forall>f\<in>set (ev_findings r). pf_action (fd_finding f) \<le> ev_action r)
    \<and> (\<not> ev_allowed r \<longrightarrow> (\<exists>f\<in>set (ev_findings r). pf_action (fd_finding f) = ev_action r))"
proof -
  obtain items :: "policy_trigger list" and fs where act: "ev_action r = (if final_action (map pf_action fs) = ACTION_ALLOW \<and> items \<noteq> [] then ACTION_REDACT
       else final_action (map pf_action fs))"
    and al: "ev_allowed r = (ev_action r \<in> {ACTION_ALLOW, ACTION_REDACT})"
    and fd: "ev_findings r = map (\<lambda>f. to_dict f username tenant now) fs"
    using evaluate_facts [OF assms] by blast
  let ?fin = "final_action (map pf_action fs)"
  have sel: "(\<forall>f\<in>set (ev_findings r). P (pf_action (fd_finding f))) = (\<forall>a\<in>set (map pf_action fs). P a)" for P
    by (simp add: fd to_dict_def)
  have "ev_action r \<le> ACTION_REDACT \<longleftrightarrow> ?fin \<le> ACTION_REDACT"
    unfolding act by (auto simp: less_eq_action_def)
  then have 1: "ev_allowed r = (\<forall>f\<in>set (ev_findings r). pf_action (fd_finding f) \<in> {ACTION_ALLOW, ACTION_REDACT})"
    using sel [of "\<lambda>a. a \<le> ACTION_REDACT"] unfolding al action_le_redact [symmetric] final_action_le by (rule trans [OF _ sym])
  have "?fin \<le> ev_action r" unfolding act by (auto simp: less_eq_action_def)
  then have 2: "\<forall>f\<in>set (ev_findings r). pf_action (fd_finding f) \<le> ev_action r"
    using sel [of "\<lambda>a. a \<le> ev_action r"] final_action_upper [of _ "map pf_action fs"] by (meson order_trans)
  have 3: "\<exists>f\<in>set (ev_findings r). pf_action (fd_finding f) = ev_action r" if na: "\<not> ev_allowed r"
  proof -
    have fin: "ev_action r = ?fin" "?fin \<noteq> ACTION_ALLOW" using na unfolding act al by (auto split: if_splits)
    then have "fs \<noteq> []" by (auto simp: final_action_def)
    then have "?fin \<in> set (map pf_action fs)" using final_action_in [of "map pf_action fs"] fin by auto
    then show ?thesis unfolding fin(1) fd by (auto simp: to_dict_def)
  qed
  show ?thesis using 1 2 3 by blast
qed

text \<open>C22: A prompt that contains a baseline attack pattern is blocked under every set of tenant
  policies, and a prompt with a detected secret or personal datum never goes through as ALLOW.\<close>

theorem baseline_always_blocks:
  assumes "evaluate e text tenant username ps now = Inr r"
  shows "(baseline_pattern_in text \<longrightarrow> ev_action r = ACTION_BLOCK \<and> \<not> ev_allowed r \<and> ev_risk_level r = ''HIGH'')
    \<and> (inspect e (new_detector (environ (sd_secrets e)) None) text None \<noteq> [] \<longrightarrow> ev_action r \<noteq> ACTION_ALLOW)"
proof -
  let ?en = "new_detector (environ (sd_secrets e)) None"
  obtain items fs where red: "redact e ?en text username None now = Inr (ev_redacted_text r, items)"
    and fs: "all_findings text items ps = Inr fs"
    and act: "ev_action r = (if final_action (map pf_action fs) = ACTION_ALLOW \<and> items \<noteq> [] then ACTION_REDACT
       else final_action (map pf_action fs))"
    and al: "ev_allowed r = (ev_action r \<in> {ACTION_ALLOW, ACTION_REDACT})"
    and rk: "ev_risk_level r = risk_level (ev_action r) fs"
    using evaluate_facts [OF assms] by blast
  have "ev_action r = ACTION_BLOCK" if b: "baseline_pattern_in text"
  proof -
    obtain f where f: "f \<in> set (baseline_security_findings text)"
      using b baseline_findings_nonempty [of "text"] by (meson last_in_set)
    have "f \<in> set fs" using fs f by (auto simp: all_findings_def rbind_eq_Inr)
    then have "ACTION_BLOCK \<le> final_action (map pf_action fs)"
      using final_action_upper [of ACTION_BLOCK "map pf_action fs"] baseline_findings_block [OF f] by force
    then show ?thesis unfolding act by (simp add: block_le)
  qed
  moreover have "items \<noteq> []" if i: "inspect e ?en text None \<noteq> []"
  proof -
    obtain md where l: "redact_loop e ?en username now (sorted_desc f_start (inspect e ?en text None)) (text, [])
        = Inr (ev_redacted_text r, md)" "items = rev md"
      using red i by (auto simp: redact_def redact_findings_def rbind_eq_Inr)
    from redact_loop_edits [OF l(1)] obtain ts where "md = ts"
      "length ts = length (sorted_desc f_start (inspect e ?en text None))"
      by (auto dest: list_all2_lengthD)
    then show ?thesis using l(2) i by (auto simp: sorted_desc_def)
  qed
  ultimately show ?thesis unfolding al rk act by (auto simp: risk_level_def)
qed

text \<open>The triggered categories are exactly the categories of the findings, each once, in the
  order of their priority.\<close>

theorem triggered_categories_exact:
  assumes "evaluate e text tenant username ps now = Inr r"
  shows "set (ev_triggered_categories r) = (\<lambda>f. pf_category (fd_finding f)) ` set (ev_findings r)
    \<and> distinct (ev_triggered_categories r) \<and> sorted (map category_priority (ev_triggered_categories r))"
proof -
  obtain fs where "ev_triggered_categories r = triggered_categories fs"
    "ev_findings r = map (\<lambda>f. to_dict f username tenant now) fs"
    using evaluate_facts [OF assms] by blast
  then show ?thesis by (auto simp: triggered_categories_def to_dict_def image_image)
qed

lemma action_entries_ok:
  "action_rule_errors r k = [] \<Longrightarrow> jget r k = JNull \<or> (\<exists>m. jget r k = JObj m)"
  by (auto simp: action_rule_errors_def jget_def split: option.splits jval.splits)

lemma validated_action_for_category:
  assumes "validate_policy_rules_for_lifecycle (JObj (tp_rules p)) = []"
  shows "is_ok (action_for_category c (Some p))"
proof -
  have "action_rule_errors (tp_rules p) ''category_actions'' = []" "action_rule_errors (tp_rules p) ''actions'' = []"
    using assms by (simp_all add: validate_policy_rules_for_lifecycle_def Let_def)
  then obtain "jget (tp_rules p) ''category_actions'' = JNull \<or> (\<exists>m. jget (tp_rules p) ''category_actions'' = JObj m)"
    "jget (tp_rules p) ''actions'' = JNull \<or> (\<exists>m. jget (tp_rules p) ''actions'' = JObj m)"
    using action_entries_ok by blast
  then show ?thesis by (auto simp: action_for_category_def jor_def Let_def)
qed

lemma matching_policy_in: "matching_policy_for_category c ps = Some p \<Longrightarrow> p \<in> set ps"
  by (auto simp: matching_policy_for_category_def find_Some_iff)

lemma topic_hits_policies: "(p, c, pat, reason) \<in> set (topic_hits text ps) \<Longrightarrow> p \<in> set ps"
  unfolding topic_hits_def
  by (auto simp: Let_def dest: matching_policy_in matching_policy_in [OF sym] split: option.splits if_splits prod.splits)

lemma all_findings_ok:
  assumes "\<forall>p\<in>set ps. validate_policy_rules_for_lifecycle (JObj (tp_rules p)) = []"
  shows "is_ok (all_findings text items ps)"
proof -
  have a: "is_ok (action_for_category c q)" if "q = None \<or> (\<exists>p\<in>set ps. q = Some p)" for c q
    using that validated_action_for_category assms by (auto simp: action_for_category_def)
  have m: "matching_policy_for_category c ps = None \<or> (\<exists>p\<in>set ps. matching_policy_for_category c ps = Some p)" for c
    by (cases "matching_policy_for_category c ps") (auto simp: matching_policy_for_category_def find_Some_iff)
  have "is_ok (detector_finding ps item)" for item
    using a [OF m] by (auto simp: detector_finding_def Let_def is_ok_iff rbind_eq_Inr)
  then have 1: "is_ok (detector_findings items ps)" unfolding detector_findings_def by (intro map_result_ok)
  have "is_ok (topic_finding p c pat reason)" if "p \<in> set ps" for p c pat reason
    using a [of "Some p" c] that by (auto simp: topic_finding_def is_ok_iff rbind_eq_Inr)
  then have 2: "is_ok (topic_findings text ps)"
    unfolding topic_findings_def by (intro map_result_ok) (auto dest: topic_hits_policies)
  show ?thesis using 1 2 by (auto simp: all_findings_def is_ok_iff)
qed

text \<open>Policies whose rules pass the validation before publication cannot make the evaluation
  raise: it returns whenever the detector does.\<close>

theorem validated_policies_evaluate:
  assumes "\<forall>p\<in>set ps. validate_policy_rules_for_lifecycle (JObj (tp_rules p)) = []"
    and "redact e (new_detector (environ (sd_secrets e)) None) text username None now = Inr (redacted, items)"
  shows "\<exists>r. evaluate e text tenant username ps now = Inr r \<and> ev_redacted_text r = redacted"
proof -
  obtain fs where "all_findings text items ps = Inr fs"
    using all_findings_ok [OF assms(1)] by (auto simp: is_ok_iff)
  then show ?thesis using assms(2) by (simp add: evaluate_def Let_def)
qed

lemma policy_selected_iff: "policy_selected tenant r \<longleftrightarrow> pr_enabled r = Some True \<and>
    (pr_tenant_id r = None \<or> (\<exists>t. tenant = Some t \<and> pr_tenant_id r = Some t)) \<and>
    (pr_status r = None \<or> pr_status r = Some ''published'' \<or> pr_status r = Some ''active'')"
  by (cases "pr_status r"; cases tenant) (auto simp: policy_selected_def)

text \<open>The policies loaded for a tenant are its own and the global ones, enabled and published,
  in the order of their ids; without a tenant only the global ones.\<close>

lemma load_policies_tenant:
  "p \<in> set (load_policies tenant rows) \<longleftrightarrow>
     (\<exists>r\<in>set rows. p = policy_from_row r \<and> pr_enabled r = Some True \<and>
        (pr_tenant_id r = None \<or> (\<exists>t. tenant = Some t \<and> pr_tenant_id r = Some t)) \<and>
        (pr_status r = None \<or> pr_status r = Some ''published'' \<or> pr_status r = Some ''active''))"
  by (simp add: load_policies_def image_iff policy_selected_iff) blast

section \<open>A concrete evaluation\<close>

definition injection_text :: string where "injection_text = ''Please jailbreak''"

definition demo_policy :: tenant_policy where
  "demo_policy = \<lparr>tp_id = Some 1, tp_name = ''P'', tp_type = ''Custom'',
     tp_rules = [(''blocked_keywords'', JList [JStr ''please'']), (''action'', JStr ''mask''),
       (''category_actions'', JObj [(''legal'', JStr ''block'')])],
     tp_enabled = True, tp_tenant_id = Some 7, tp_version = 2, tp_status = ''published'', tp_severity_level = ''HIGH''\<rparr>"

lemma demo_policy_valid: "validate_policy_rules_for_lifecycle (JObj (tp_rules demo_policy)) = []"
  by code_simp

lemma injection_not_detected: "custom_findings injection_text = []"
  by code_simp

lemma injection_redact: "redact sd_demo enabled injection_text ''u'' None ''now'' = Inr (injection_text, [])"
proof -
  have "presidio_findings sd_demo enabled injection_text = []" by (simp add: presidio_findings_def sd_demo_def)
  then have "inspect sd_demo enabled injection_text None = []"
    by (simp add: inspect_def injection_not_detected enterprise_findings_def demo_no_entities dedupe_def)
  then show ?thesis by (simp add: redact_def redact_findings_def)
qed

lemma injection_pattern: "baseline_pattern_in injection_text"
  by code_simp

lemma demo_evaluates: "\<exists>r. evaluate sd_demo injection_text (Some 7) ''u'' [demo_policy] ''now'' = Inr r"
  using all_findings_ok [of "[demo_policy]" injection_text "[]"] demo_policy_valid injection_redact
  by (auto simp: evaluate_def Let_def is_ok_iff)

theorem validated_policies_evaluate_witness:
  "\<exists>r. evaluate sd_demo injection_text (Some 7) ''u'' [demo_policy] ''now'' = Inr r \<and> ev_redacted_text r = injection_text"
  using validated_policies_evaluate [of "[demo_policy]" sd_demo injection_text "''u''" "''now''" injection_text "[]" "Some 7"]
    demo_policy_valid injection_redact by simp

theorem baseline_always_blocks_witness:
  "\<exists>r. evaluate sd_demo injection_text (Some 7) ''u'' [demo_policy] ''now'' = Inr r \<and> ev_action r = ACTION_BLOCK"
proof -
  obtain r where r: "evaluate sd_demo injection_text (Some 7) ''u'' [demo_policy] ''now'' = Inr r"
    using demo_evaluates by blast
  then show ?thesis using baseline_always_blocks [OF r] injection_pattern by blast
qed

theorem allowed_iff_findings_witness:
  "\<exists>r. evaluate sd_demo injection_text (Some 7) ''u'' [demo_policy] ''now'' = Inr r \<and>
     (\<forall>f\<in>set (ev_findings r). pf_action (fd_finding f) \<le> ev_action r)"
proof -
  obtain r where r: "evaluate sd_demo injection_text (Some 7) ''u'' [demo_policy] ''now'' = Inr r"
    using demo_evaluates by blast
  then show ?thesis using allowed_iff_findings [OF r] by blast
qed

theorem triggered_categories_exact_witness:
  "\<exists>r. evaluate sd_demo injection_text (Some 7) ''u'' [demo_policy] ''now'' = Inr r \<and> distinct (ev_triggered_categories r)"
proof -
  obtain r where r: "evaluate sd_demo injection_text (Some 7) ''u'' [demo_policy] ''now'' = Inr r"
    using demo_evaluates by blast
  then show ?thesis using triggered_categories_exact [OF r] by blast
qed

end

