(* ===== verification/Policy_Opa.thy ===== *)
theory Policy_Opa
  imports Policy_Engine
begin

text \<open>
  \<open>policy.py\<close>: the Rego module generated from the policy file, the OPA client with its circuit
  breaker and its fail-closed mode, the cached database policies, and the entry points that
  combine OPA with the policy engine (\<open>is_blocked\<close>, \<open>is_high_risk\<close>, \<open>validate_policy\<close>,
  \<open>check_policy_violations\<close>, \<open>enforce_policy\<close>).

  The reply of the policy endpoint is an argument; the clock reads seconds.  The state is the
  instant until which the client is disabled.  In the generated text a back quote stands for a double
  quote and a caret for a backslash, which \<open>raw\<close> puts back.
\<close>

section \<open>The Rego module\<close>

definition raw :: "string \<Rightarrow> string" where
  "raw s = map (\<lambda>c. if c = CHR ''`'' then CHR 0x22 else if c = CHR ''^'' then CHR 0x5C else c) s"

definition rego_prompt_injection :: "string list" where
  "rego_prompt_injection =
    [''ignore previous instructions'',
     ''ignore all instructions'',
     ''reveal system prompt'',
     ''show internal system prompts'',
     ''forget your instructions'',
     ''developer mode'',
     ''jailbreak'',
     ''bypass policy'']"

definition rego_security_bypass :: "string list" where
  "rego_security_bypass =
    [''disable logging'',
     ''disable audit logging'',
     ''disable monitoring'',
     ''disable guardrails'',
     ''bypass security'',
     ''bypass authentication'',
     ''disable access control'']"

definition rego_data_exfiltration :: "string list" where
  "rego_data_exfiltration =
    [''dump database'',
     ''export customer data'',
     ''export production database'',
     ''download all users'',
     ''reveal secrets'',
     ''reveal passwords'',
     ''exfiltrate'']"

definition rego_secret_regexes :: "string list" where
  "rego_secret_regexes =
    [raw ''(?i)^beyJ[a-z0-9_-]{8,}^.[a-z0-9_-]{8,}^.[a-z0-9_-]{8,}^b'',
     raw ''^bA(KIA|SIA)[A-Z0-9]{16}^b'',
     raw ''^bsk-[A-Za-z0-9_-]{16,}^b'',
     raw ''^bsk-ant-[A-Za-z0-9_-]{16,}^b'',
     raw ''^bSG^.[A-Za-z0-9_-]{10,}^.[A-Za-z0-9_-]{10,}^b'',
     raw ''^bAIza[0-9A-Za-z_-]{20,}^b'',
     raw (''(?i)^b(api[_-]?key|secret|access[_-]?token|password)^s*[:=]^s*[^`'' @ [CHR 0x27] @ '']?[A-Za-z0-9._~+/=-]{12,}'')]"

definition rego_pii_regexes :: "string list" where
  "rego_pii_regexes =
    [raw ''^b[A-Za-z0-9._%+^-]+@[A-Za-z0-9.^-]+^.[A-Za-z]{2,}^b'',
     raw ''(?i)(?:^+?^d{1,3}[^s.-]?)?(?:^(?^d{3,5}^)?[^s.-]?)^d{3,5}[^s.-]?^d{3,6}^b'',
     raw ''^b^d{3}-^d{2}-^d{4}^b'']"

definition rego_phi_regexes :: "string list" where
  "rego_phi_regexes =
    [raw ''(?i)^b(patient|medical record|mrn|diagnosis|prescription|treatment plan)^b'']"

definition rego_financial_regexes :: "string list" where
  "rego_financial_regexes =
    [raw ''^b(?:^d[ -]*?){13,19}^b'',
     raw ''(?i)^b(bank account|routing number|iban|wire transfer)^b'']"

definition rego_rules :: "string list" where
  "rego_rules =
    ['''',
     raw ''normalized_text := lower(sprintf(`%v`, [input.text]))'',
     raw ''body_text := lower(sprintf(`%v`, [input.context.body]))'',
     raw ''combined_text := concat(` `, [normalized_text, body_text])'',
     '''',
     ''block if {'',
     ''  some keyword in blocked_keywords'',
     ''  contains(combined_text, keyword)'',
     ''}'',
     '''',
     ''block if {'',
     ''  some keyword in prompt_injection_keywords'',
     ''  contains(combined_text, keyword)'',
     ''}'',
     '''',
     ''block if {'',
     ''  some keyword in security_bypass_keywords'',
     ''  contains(combined_text, keyword)'',
     ''}'',
     '''',
     ''block if {'',
     ''  some keyword in data_exfiltration_keywords'',
     ''  contains(combined_text, keyword)'',
     ''}'',
     '''',
     ''block if {'',
     ''  some pattern in secret_regexes'',
     ''  regex.match(pattern, combined_text)'',
     ''}'',
     '''',
     ''requires_approval if {'',
     ''  some keyword in high_risk_keywords'',
     ''  contains(combined_text, keyword)'',
     ''}'',
     '''',
     ''requires_redaction if {'',
     ''  some pattern in pii_regexes'',
     ''  regex.match(pattern, combined_text)'',
     ''}'',
     '''',
     ''requires_redaction if {'',
     ''  some pattern in phi_regexes'',
     ''  regex.match(pattern, combined_text)'',
     ''}'',
     '''',
     ''requires_redaction if {'',
     ''  some pattern in financial_regexes'',
     ''  regex.match(pattern, combined_text)'',
     ''}'',
     '''',
     ''medium_risk if {'',
     ''  some keyword in medium_risk_keywords'',
     ''  contains(combined_text, keyword)'',
     ''}'',
     '''',
     ''allow := false if block'',
     ''allow := false if requires_approval'',
     raw ''decision := `BLOCK` if block'',
     raw ''decision := `REQUIRE_APPROVAL` if {'',
     ''  not block'',
     ''  requires_approval'',
     ''}'',
     raw ''decision := `REDACT` if {'',
     ''  not block'',
     ''  not requires_approval'',
     ''  requires_redaction'',
     ''}'',
     raw ''decision := `REDACT` if {'',
     ''  not block'',
     ''  not requires_approval'',
     ''  not requires_redaction'',
     ''  medium_risk'',
     ''}'',
     raw ''reason := `Blocked by AuthClaw OPA policy` if block'',
     raw ''reason := `High-risk action requires approval` if {'',
     ''  not block'',
     ''  requires_approval'',
     ''}'',
     raw ''reason := `Sensitive data requires redaction` if {'',
     ''  not block'',
     ''  not requires_approval'',
     ''  requires_redaction'',
     ''}'',
     raw ''risk_level := `HIGH` if block'',
     raw ''risk_level := `HIGH` if requires_approval'',
     raw ''risk_level := `MEDIUM` if requires_redaction'',
     raw ''risk_level := `LOW` if {'',
     ''  not block'',
     ''  not requires_approval'',
     ''  not requires_redaction'',
     ''}'']"

definition rego_finding_rules :: "string list" where
  "rego_finding_rules =
    ['''',
     ''findings contains finding if {'',
     ''  some keyword in blocked_keywords'',
     ''  contains(combined_text, keyword)'',
     raw ''  finding := {`policy_name`: `OPA blocked keyword`, `category`: `CUSTOMER_DEFINED_TOPICS`, `action`: `BLOCK`, `matched`: keyword}'',
     ''}'',
     '''',
     ''findings contains finding if {'',
     ''  some keyword in prompt_injection_keywords'',
     ''  contains(combined_text, keyword)'',
     raw ''  finding := {`policy_name`: `OPA prompt injection`, `category`: `PROMPT_INJECTION`, `action`: `BLOCK`, `matched`: keyword}'',
     ''}'',
     '''',
     ''findings contains finding if {'',
     ''  some keyword in security_bypass_keywords'',
     ''  contains(combined_text, keyword)'',
     raw ''  finding := {`policy_name`: `OPA security bypass`, `category`: `SECURITY_BYPASS`, `action`: `BLOCK`, `matched`: keyword}'',
     ''}'',
     '''',
     ''findings contains finding if {'',
     ''  some keyword in data_exfiltration_keywords'',
     ''  contains(combined_text, keyword)'',
     raw ''  finding := {`policy_name`: `OPA data exfiltration`, `category`: `DATA_EXFILTRATION`, `action`: `BLOCK`, `matched`: keyword}'',
     ''}'',
     '''',
     ''findings contains finding if {'',
     ''  some pattern in secret_regexes'',
     ''  regex.match(pattern, combined_text)'',
     raw ''  finding := {`policy_name`: `OPA secret detector`, `category`: `SECRETS`, `action`: `BLOCK`, `matched`: pattern}'',
     ''}'',
     '''',
     ''findings contains finding if {'',
     ''  some pattern in pii_regexes'',
     ''  regex.match(pattern, combined_text)'',
     raw ''  finding := {`policy_name`: `OPA PII detector`, `category`: `PII`, `action`: `REDACT`, `matched`: pattern}'',
     ''}'',
     '''',
     ''findings contains finding if {'',
     ''  some pattern in phi_regexes'',
     ''  regex.match(pattern, combined_text)'',
     raw ''  finding := {`policy_name`: `OPA PHI detector`, `category`: `MEDICAL_DATA`, `action`: `REDACT`, `matched`: pattern}'',
     ''}'',
     '''',
     ''findings contains finding if {'',
     ''  some pattern in financial_regexes'',
     ''  regex.match(pattern, combined_text)'',
     raw ''  finding := {`policy_name`: `OPA financial detector`, `category`: `FINANCIAL_DATA`, `action`: `REDACT`, `matched`: pattern}'',
     ''}'']"

text \<open>\<open>sorted({str(item).lower() for item in policy.get(key, [])})\<close> on a list of values.\<close>

definition keyword_set :: "jval list \<Rightarrow> string list" where
  "keyword_set l = sort (remdups (map (\<lambda>v. lower (py_str v)) l))"

definition json_strings :: "string list \<Rightarrow> string" where
  "json_strings l = json_dumps (JList (map JStr l))"

record yaml_policy =
  yp_blocked :: "jval list"
  yp_high_risk :: "jval list"
  yp_medium_risk :: "jval list"
  yp_opa :: rules
  yp_version :: jval

definition rego_package :: "yaml_policy \<Rightarrow> jval" where
  "rego_package p = (case map_of (yp_opa p) ''package'' of None \<Rightarrow> JStr ''authclaw.policy'' | Some v \<Rightarrow> v)"

definition rego_head :: "yaml_policy \<Rightarrow> string list" where
  "rego_head p =
    [''package '' @ py_str (rego_package p), '''', ''default allow := true'', raw ''default decision := `ALLOW`'',
     raw ''default reason := `Allowed by AuthClaw OPA policy`'', '''',
     ''blocked_keywords := '' @ json_strings (keyword_set (yp_blocked p)),
     ''high_risk_keywords := '' @ json_strings (keyword_set (yp_high_risk p)),
     ''medium_risk_keywords := '' @ json_strings (keyword_set (yp_medium_risk p)),
     ''prompt_injection_keywords := '' @ json_strings rego_prompt_injection,
     ''security_bypass_keywords := '' @ json_strings rego_security_bypass,
     ''data_exfiltration_keywords := '' @ json_strings rego_data_exfiltration,
     ''secret_regexes := '' @ json_strings rego_secret_regexes,
     ''pii_regexes := '' @ json_strings rego_pii_regexes,
     ''phi_regexes := '' @ json_strings rego_phi_regexes,
     ''financial_regexes := '' @ json_strings rego_financial_regexes]"

definition compile_policy_to_rego :: "yaml_policy \<Rightarrow> string" where
  "compile_policy_to_rego p = intercalate [CHR 0x0A] (rego_head p @ rego_rules @ rego_finding_rules)"

definition build_opa_bundle :: "yaml_policy \<Rightarrow> jval \<times> string" where
  "build_opa_bundle p =
     (JObj [(''revision'', jor (jget (yp_opa p) ''bundle_version'') (yp_version p)),
            (''roots'', JList [JStr ''authclaw'']),
            (''metadata'', JObj [(''policy_version'', yp_version p), (''package'', rego_package p),
               (''fail_closed'', JBool (case map_of (yp_opa p) ''fail_closed'' of None \<Rightarrow> True | Some v \<Rightarrow> truthy v))])],
      compile_policy_to_rego p)"

section \<open>The OPA client\<close>

definition truthy_default :: "string option \<Rightarrow> bool \<Rightarrow> bool" where
  "truthy_default v d = (case v of None \<Rightarrow> d | Some s \<Rightarrow> lower (strip s) \<in> {''1'', ''true'', ''yes'', ''on''})"

definition opa_enabled :: "environ \<Rightarrow> bool" where
  "opa_enabled env = truthy_default (env ''AUTHCLAW_OPA_ENABLED'') True"

definition opa_required :: "environ \<Rightarrow> bool" where
  "opa_required env =
     (lower (strip (case env ''AUTHCLAW_ENV'' of None \<Rightarrow> ''development'' | Some v \<Rightarrow> v)) \<in> {''production'', ''prod''} \<or>
      truthy_default (env ''AUTHCLAW_OPA_REQUIRED'') False)"

record opa_decision =
  od_allowed :: bool
  od_decision :: string
  od_reason :: string
  od_category :: string
  od_findings :: "jval list"
  od_risk_level :: jval

definition opa_fail_closed :: "string \<Rightarrow> opa_decision" where
  "opa_fail_closed reason =
     \<lparr>od_allowed = False, od_decision = ''BLOCK'', od_reason = reason, od_category = ''opa_enforcement'',
      od_findings = [JObj [(''policy_name'', JStr ''OPA enforcement availability''), (''category'', JStr ''OPA''),
         (''action'', JStr ''BLOCK''), (''reason'', JStr reason), (''confidence'', JStr ''fail-closed'')]],
      od_risk_level = JStr ''HIGH''\<rparr>"

text \<open>\<open>None\<close> is the empty dictionary.\<close>

definition normalize_opa_result :: "jval \<Rightarrow> opa_decision option" where
  "normalize_opa_result v =
     (let result = (case v of JObj m \<Rightarrow> (case map_of m ''result'' of Some x \<Rightarrow> x | None \<Rightarrow> v) | _ \<Rightarrow> v) in
      case result of
        JObj m \<Rightarrow>
          (let d0 = upper (str_or_empty (jget m ''decision''));
               av = (case map_of m ''allow'' of Some x \<Rightarrow> x | None \<Rightarrow> jget m ''allowed'');
               a0 = (if av = JNull then d0 \<notin> {''BLOCK'', ''DENY'', ''REQUIRE_APPROVAL''} else truthy av);
               (d, a) = (if jget m ''block'' = JBool True then (''BLOCK'', False)
                         else if jget m ''requires_approval'' = JBool True \<and> d0 = [] then (''REQUIRE_APPROVAL'', False)
                         else if d0 = [] then (if a0 then ''ALLOW'' else ''BLOCK'', a0)
                         else (d0, a0));
               fs = jor (jor (jget m ''findings'') (jget m ''matched_policies'')) (JList []);
               text = (\<lambda>v dflt. if truthy v then py_str v else dflt)
           in Some \<lparr>od_allowed = a, od_decision = d,
                od_reason = text (jor (jget m ''reason'') (jget m ''explanation'')) ''OPA policy decision'',
                od_category = text (jget m ''category'') ''opa'',
                od_findings = (case fs of JObj x \<Rightarrow> [fs] | JList l \<Rightarrow> l | _ \<Rightarrow> []),
                od_risk_level = jget m ''risk_level''\<rparr>)
      | _ \<Rightarrow> None)"

text \<open>What the HTTP call does: a reply with its status and its decoded body (\<open>None\<close> where it is not JSON),
  or one of the handled exceptions.\<close>

datatype opa_reply = Reply int "jval option" | Unreachable string

definition opa_failure :: "bool \<Rightarrow> string \<Rightarrow> opa_decision option" where
  "opa_failure required reason = (if required then Some (opa_fail_closed reason) else None)"

definition evaluate_opa_policy :: "environ \<Rightarrow> rat \<Rightarrow> rat \<Rightarrow> opa_reply \<Rightarrow> rat \<Rightarrow> opa_decision option \<times> rat" where
  "evaluate_opa_policy env break_seconds now reply disabled_until =
     (let required = opa_required env in
      if \<not> opa_enabled env
      then (opa_failure required ''OPA enforcement is required but AUTHCLAW_OPA_ENABLED is false.'', disabled_until)
      else if now < disabled_until
      then (opa_failure required ''OPA enforcement is required but the OPA circuit breaker is open.'', disabled_until)
      else case reply of
        Reply status body \<Rightarrow>
          if status < 200 \<or> 300 \<le> status
          then (opa_failure required (''OPA policy endpoint returned HTTP '' @ show_int status @ ''.''), disabled_until)
          else (case body of
                  Some v \<Rightarrow> (normalize_opa_result v, disabled_until)
                | None \<Rightarrow> (opa_failure required ''OPA enforcement is required but unavailable: JSONDecodeError.'',
                           now + break_seconds))
      | Unreachable exn \<Rightarrow>
          (opa_failure required (''OPA enforcement is required but unavailable: '' @ exn @ ''.''), now + break_seconds))"

section \<open>The policy file and the database cache\<close>

text \<open>\<open>get_policy\<close> keeps the first policy that loaded; a failing load raises and caches nothing.\<close>

definition get_policy :: "yaml_policy sm \<Rightarrow> yaml_policy option \<Rightarrow> yaml_policy sm \<times> yaml_policy option" where
  "get_policy loaded cached =
     (case cached of
        Some p \<Rightarrow> (Inr p, cached)
      | None \<Rightarrow> (case loaded of Inl e \<Rightarrow> (Inl e, None) | Inr p \<Rightarrow> (Inr p, Some p)))"

record db_policy_row =
  br_name :: string
  br_type :: string
  br_rules :: jval
  br_enabled :: bool
  br_tenant :: "int option"

type_synonym db_cache = "int option \<Rightarrow> (rat \<times> db_policy_row list) option"

text \<open>A text column is decoded where it is JSON and kept otherwise.\<close>

definition decoded_rules :: "jval \<Rightarrow> jval" where
  "decoded_rules v = (case v of JStr s \<Rightarrow> (case json_loads s of Some j \<Rightarrow> j | None \<Rightarrow> v) | _ \<Rightarrow> v)"

definition get_db_policies ::
  "bool \<Rightarrow> rat \<Rightarrow> int option \<Rightarrow> db_policy_row list option \<Rightarrow> db_cache \<Rightarrow> db_policy_row list \<times> db_cache" where
  "get_db_policies in_pytest now tenant table cache =
     (case (if in_pytest then None else cache tenant) of
        Some (t, ps) \<Rightarrow> if now - t < 2 then (ps, cache) else
          (case table of
             None \<Rightarrow> ([], cache)
           | Some rows \<Rightarrow>
               (let ps = map (\<lambda>r. r\<lparr>br_rules := decoded_rules (br_rules r)\<rparr>)
                      (filter (\<lambda>r. br_enabled r \<and> (tenant = None \<or> br_tenant r = tenant)) rows)
                in (ps, cache(tenant \<mapsto> (now, ps)))))
      | None \<Rightarrow>
          (case table of
             None \<Rightarrow> ([], cache)
           | Some rows \<Rightarrow>
               (let ps = map (\<lambda>r. r\<lparr>br_rules := decoded_rules (br_rules r)\<rparr>)
                      (filter (\<lambda>r. br_enabled r \<and> (tenant = None \<or> br_tenant r = tenant)) rows)
                in (ps, if in_pytest then cache else cache(tenant \<mapsto> (now, ps))))))"

section \<open>Entry points\<close>

text \<open>\<open>opa\<close> is the decision of the client (\<open>None\<close>: fall back), \<open>yaml\<close> the policy file, and \<open>ev\<close> the
  evaluation by the policy engine.\<close>

definition is_blocked :: "opa_decision option \<Rightarrow> yaml_policy sm \<Rightarrow> string \<Rightarrow> bool sm" where
  "is_blocked opa yaml text =
     (case opa of
        Some d \<Rightarrow> Inr (od_decision d = ''BLOCK'' \<or> \<not> od_allowed d)
      | None \<Rightarrow> rbind yaml (\<lambda>p. Inr (list_ex (\<lambda>w. str_in (py_str w) (lower text)) (yp_blocked p))))"

definition is_high_risk :: "opa_decision option \<Rightarrow> yaml_policy sm \<Rightarrow> string \<Rightarrow> bool sm" where
  "is_high_risk opa yaml text =
     (case opa of
        Some d \<Rightarrow> Inr (od_decision d = ''REQUIRE_APPROVAL'' \<or> od_risk_level d = JStr ''HIGH'')
      | None \<Rightarrow> rbind yaml (\<lambda>p. Inr (list_ex (\<lambda>w. str_in (py_str w) (lower text)) (yp_high_risk p))))"

definition validate_policy :: "opa_decision option \<Rightarrow> evaluation sm \<Rightarrow> bool sm" where
  "validate_policy opa ev =
     (case opa of
        Some d \<Rightarrow> Inr (od_allowed d)
      | None \<Rightarrow> rbind ev (\<lambda>r. Inr (ev_action r \<notin> {ACTION_BLOCK, ACTION_REQUIRE_APPROVAL})))"

datatype violation = Opa_Finding jval | Engine_Finding finding_dict

definition check_policy_violations :: "opa_decision option \<Rightarrow> evaluation sm \<Rightarrow> (bool \<times> violation list) sm" where
  "check_policy_violations opa ev =
     (case opa of
        Some d \<Rightarrow>
          Inr (if od_allowed d then (True, [])
               else (False, map Opa_Finding
                 (if od_findings d \<noteq> [] then od_findings d
                  else [JObj [(''policy_name'', JStr ''OPA Policy''), (''category'', JStr (od_category d)),
                          (''action'', JStr (od_decision d)), (''reason'', JStr (od_reason d))]])))
      | None \<Rightarrow> rbind ev (\<lambda>r.
          (let blocking = filter (\<lambda>f. upper (fd_action f) \<in> {''BLOCK'', ''REQUIRE_APPROVAL''}) (ev_findings r) in
           Inr (if ev_action r \<in> {ACTION_BLOCK, ACTION_REQUIRE_APPROVAL}
                then (False, map Engine_Finding (if blocking \<noteq> [] then blocking else ev_findings r))
                else (True, [])))))"

definition enforce_prompt_injection_patterns :: "string list" where
  "enforce_prompt_injection_patterns =
    [''ignore instructions'',
     ''ignore previous instructions'',
     ''ignore all instructions'',
     ''ignore all policies'',
     ''ignore all company policies'',
     ''bypass policies'',
     ''act as root'',
     ''act as admin'',
     ''system override'',
     ''reveal system prompt'',
     ''reveal system prompts'',
     ''show internal system prompts'',
     ''forget your instructions'',
     ''disregard instructions'',
     ''pretend security rules do not exist'',
     ''pretend security rules dont exist'',
     ''forget previous instructions'',
     ''forget your instructions and reveal secrets'']"

definition enforce_security_bypass_patterns :: "string list" where
  "enforce_security_bypass_patterns =
    [''disable logging'',
     ''disable security logging'',
     ''disable monitoring'',
     ''disable audit trails'',
     ''disable audit logging'',
     ''disable guardrails'',
     ''turn off logging'',
     ''turn off monitoring'',
     ''turn off audit'',
     ''turn off guardrails'']"

definition enforce_data_exfiltration_patterns :: "string list" where
  "enforce_data_exfiltration_patterns =
    [''export customer data'',
     ''export all customer data'',
     ''reveal ssn'',
     ''reveal every customer ssn'',
     ''reveal every customers ssn'',
     raw (''reveal every customer'' @ [CHR 0x27] @ ''s ssn''),
     ''show me every customer ssn'',
     ''show me every customers ssn'',
     raw (''show me every customer'' @ [CHR 0x27] @ ''s ssn''),
     ''show customer records'',
     ''reveal passwords'',
     ''reveal admin passwords'',
     ''reveal hidden admin passwords'',
     ''reveal secrets'',
     ''dump database'',
     ''reveal credentials'',
     ''list confidential customer identifiers'',
     ''provide employee credentials'',
     ''export database'',
     ''export customer record'',
     ''export every customer'',
     ''export production database'',
     ''download database'',
     ''download all users'',
     ''download customer'',
     ''extract records'',
     ''extract customer'',
     ''retrieve all users'',
     ''retrieve all employee'',
     ''retrieve all customer'',
     ''customer emails'',
     ''export user data'',
     ''give me all customer'',
     ''export confidential'',
     ''database dump'',
     ''exfiltrate'',
     ''steal data'',
     ''leak data'',
     ''send all records'',
     ''send customer records'',
     ''get all customer emails'',
     ''download customer emails'']"

definition enforce_prompt_injection_phrases :: "string list" where
  "enforce_prompt_injection_phrases =
    [''ignore all previous'',
     ''ignore previous instructions'',
     ''disregard your instructions'',
     ''you are now'',
     ''act as if'',
     ''pretend you are'',
     ''roleplay as'',
     ''simulate a'',
     ''override your'',
     ''bypass your'',
     ''your new instructions'',
     ''forget your training'',
     ''reveal your system prompt'',
     ''show me your instructions'',
     ''what are your instructions'',
     ''disable your filters'',
     ''turn off your'',
     ''jailbreak'',
     ''dan mode'',
     ''developer mode'']"

definition enforce_security_bypass_phrases :: "string list" where
  "enforce_security_bypass_phrases =
    [''disable logging'',
     ''turn off logging'',
     ''disable audit'',
     ''disable monitoring'',
     ''bypass security'',
     ''disable security'',
     ''turn off monitoring'',
     ''disable guardrail'',
     ''remove restrictions'',
     ''disable restrictions'',
     ''bypass authentication'',
     ''disable access control'',
     ''turn off access control'',
     ''disable firewall'']"

text \<open>\<open>re.sub(r'[^\w\s]', '', s)\<close> and \<open>re.sub(r'\s+', ' ', s)\<close>.\<close>

definition only_words :: "string \<Rightarrow> string" where
  "only_words s = filter (\<lambda>c. is_word c \<or> is_space c) s"

fun squeeze :: "bool \<Rightarrow> string \<Rightarrow> string" where
  "squeeze after_space [] = []"
| "squeeze after_space (c # s) =
     (if is_space c then (if after_space then squeeze True s else CHR '' '' # squeeze True s) else c # squeeze False s)"

definition cleaned_text :: "string \<Rightarrow> string" where
  "cleaned_text s = strip (squeeze False (only_words (lower s)))"

definition first_match :: "(string \<Rightarrow> string) \<Rightarrow> string \<Rightarrow> string list \<Rightarrow> string option" where
  "first_match f s ps = find (\<lambda>p. str_in (f p) s) ps"

definition enforce_layers :: "(string list \<times> (string \<Rightarrow> string) \<times> string \<times> string) list" where
  "enforce_layers =
    [(enforce_prompt_injection_patterns, \<lambda>p. lower (only_words p), ''matched pattern'', ''prompt_injection''),
     (enforce_security_bypass_patterns, \<lambda>p. lower (only_words p), ''matched pattern'', ''security_bypass''),
     (enforce_data_exfiltration_patterns, \<lambda>p. lower (only_words p), ''matched pattern'', ''data_exfiltration''),
     (enforce_prompt_injection_phrases, \<lambda>p. p, ''prompt injection pattern'', ''prompt_injection''),
     (enforce_security_bypass_phrases, \<lambda>p. p, ''security bypass pattern'', ''security_bypass'')]"

fun enforce_patterns :: "string \<Rightarrow> (string list \<times> (string \<Rightarrow> string) \<times> string \<times> string) list \<Rightarrow> bool \<times> string \<times> string" where
  "enforce_patterns s [] = (False, '''', '''')"
| "enforce_patterns s ((ps, f, what, category) # ls) =
     (case first_match f s ps of
        Some p \<Rightarrow> (True, ''Policy violation: '' @ what @ '' '' @ quoted p, category)
      | None \<Rightarrow> enforce_patterns s ls)"

definition enforce_policy :: "opa_decision option \<Rightarrow> evaluation sm \<Rightarrow> string \<Rightarrow> bool \<times> string \<times> string" where
  "enforce_policy opa ev text =
     (let offline = enforce_patterns (cleaned_text text) enforce_layers in
      case (case opa of Some d \<Rightarrow> if od_allowed d then None else Some d | None \<Rightarrow> None) of
        Some d \<Rightarrow> (True, od_reason d, od_category d)
      | None \<Rightarrow>
          (case ev of
             Inr r \<Rightarrow>
               if ev_action r = ACTION_BLOCK
               then (True, ev_reason r, (case ev_triggered_categories r of c # _ \<Rightarrow> lower c | [] \<Rightarrow> ''policy''))
               else offline
           | Inl e \<Rightarrow> offline))"

section \<open>Properties\<close>

text \<open>C29: Where OPA is required, the client either refuses with the fail-closed decision or
  interprets a successful JSON reply received while it was enabled and the breaker closed.  The empty
  reply that OPA gives for an undefined policy document is such a reply, and it is allowed.\<close>

theorem opa_required_fails_closed:
  assumes "opa_required env"
  shows "((\<exists>reason. fst (evaluate_opa_policy env b now reply until) = Some (opa_fail_closed reason))
     \<or> (\<exists>status v. reply = Reply status (Some v) \<and> 200 \<le> status \<and> status < 300 \<and> opa_enabled env \<and> until \<le> now \<and>
          fst (evaluate_opa_policy env b now reply until) = normalize_opa_result v))
    \<and> map_option od_allowed (normalize_opa_result (JObj [])) = Some True"
proof -
  have "map_option od_allowed (normalize_opa_result (JObj [])) = Some True" by code_simp
  then show ?thesis using assms
    by (cases reply) (auto simp: evaluate_opa_policy_def opa_failure_def Let_def split: option.splits)
qed

definition production_env :: environ where "production_env = [''AUTHCLAW_ENV'' \<mapsto> ''production'']"

theorem opa_required_fails_closed_witness:
  "opa_required production_env \<and>
   (\<exists>reason. fst (evaluate_opa_policy production_env 30 5 (Unreachable ''URLError'') 0) = Some (opa_fail_closed reason))"
proof -
  have r: "opa_required production_env" by code_simp
  from opa_required_fails_closed [OF this, of 30 5 "Unreachable ''URLError''" 0] show ?thesis using r by simp
qed

text \<open>The two entry points agree: \<open>check_policy_violations\<close> reports a violation exactly when
  \<open>validate_policy\<close> refuses, and fails exactly when it fails.\<close>

theorem check_agrees_with_validate:
  "map_sum id fst (check_policy_violations opa ev) = validate_policy opa ev"
proof (cases opa)
  case None
  then show ?thesis by (cases ev) (auto simp: check_policy_violations_def validate_policy_def Let_def)
qed (simp add: check_policy_violations_def validate_policy_def)

text \<open>The client over a sequence of calls.\<close>

fun opa_calls :: "environ \<Rightarrow> rat \<Rightarrow> (rat \<times> opa_reply) list \<Rightarrow> rat \<Rightarrow> rat" where
  "opa_calls env b [] until = until"
| "opa_calls env b ((now, reply) # cs) until = opa_calls env b cs (snd (evaluate_opa_policy env b now reply until))"

lemma breaker_step: "snd (evaluate_opa_policy env b now reply until) \<in> {until, now + b}"
  by (cases reply) (auto simp: evaluate_opa_policy_def Let_def split: option.splits)

lemma breaker_bound:
  "0 \<le> b \<Longrightarrow> until \<le> t + b \<Longrightarrow> \<forall>(now, reply)\<in>set cs. now \<le> t \<Longrightarrow> opa_calls env b cs until \<le> t + b"
proof (induction cs arbitrary: until)
  case (Cons c cs)
  obtain now reply where c: "c = (now, reply)" by (cases c)
  have "snd (evaluate_opa_policy env b now reply until) \<le> t + b"
    using breaker_step [of env b now reply until] Cons.prems c by auto
  then show ?case using Cons c by auto
qed simp

text \<open>The circuit breaker always closes again: after any sequence of calls up to a time \<open>t\<close>, an
  enabled client consults OPA at every time from \<open>t\<close> plus the break on.\<close>

theorem breaker_closes_again:
  assumes "0 \<le> b" "\<forall>(now, reply)\<in>set calls. now \<le> t" "0 \<le> t" "t + b \<le> now" "opa_enabled env"
  shows "fst (evaluate_opa_policy env b now (Reply 200 (Some v)) (opa_calls env b calls 0)) = normalize_opa_result v"
proof -
  have "opa_calls env b calls 0 \<le> t + b" by (rule breaker_bound) (use assms in auto)
  then show ?thesis using assms(4,5) by (simp add: evaluate_opa_policy_def Let_def)
qed

theorem breaker_closes_again_witness:
  "fst (evaluate_opa_policy production_env 30 40 (Reply 200 (Some JNull))
     (opa_calls production_env 30 [(5, Unreachable ''URLError''), (10, Unreachable ''URLError'')] 0)) = normalize_opa_result JNull"
proof -
  have "opa_enabled production_env" by code_simp
  then show ?thesis by (intro breaker_closes_again [where t = 10]) auto
qed

text \<open>The generated module depends on the keywords of the policy file only as sets of
  lower-case words: order, repetition and case do not matter.\<close>

theorem rego_deterministic:
  assumes "(\<lambda>v. lower (py_str v)) ` set (yp_blocked p) = (\<lambda>v. lower (py_str v)) ` set (yp_blocked q)"
    "(\<lambda>v. lower (py_str v)) ` set (yp_high_risk p) = (\<lambda>v. lower (py_str v)) ` set (yp_high_risk q)"
    "(\<lambda>v. lower (py_str v)) ` set (yp_medium_risk p) = (\<lambda>v. lower (py_str v)) ` set (yp_medium_risk q)"
    "yp_opa p = yp_opa q"
  shows "compile_policy_to_rego p = compile_policy_to_rego q"
proof -
  have k: "keyword_set l = keyword_set l'" if "(\<lambda>v. lower (py_str v)) ` set l = (\<lambda>v. lower (py_str v)) ` set l'" for l l'
  proof -
    have "keyword_set l = sorted_list_of_set ((\<lambda>v. lower (py_str v)) ` set l)" for l
      by (simp add: keyword_set_def sorted_list_of_set_sort_remdups flip: set_map)
    then show ?thesis using that by simp
  qed
  show ?thesis using k [OF assms(1)] k [OF assms(2)] k [OF assms(3)] assms(4)
    by (simp add: compile_policy_to_rego_def rego_head_def rego_package_def)
qed

definition yaml_a :: yaml_policy where
  "yaml_a = \<lparr>yp_blocked = [JStr ''Bomb'', JStr ''hack''], yp_high_risk = [], yp_medium_risk = [], yp_opa = [], yp_version = JStr ''1''\<rparr>"

definition yaml_b :: yaml_policy where
  "yaml_b = \<lparr>yp_blocked = [JStr ''hack'', JStr ''bomb'', JStr ''HACK''], yp_high_risk = [], yp_medium_risk = [], yp_opa = [],
     yp_version = JStr ''2''\<rparr>"

theorem rego_deterministic_witness: "compile_policy_to_rego yaml_a = compile_policy_to_rego yaml_b"
proof (rule rego_deterministic)
  have "lower ''Bomb'' = ''bomb''" "lower ''bomb'' = ''bomb''" "lower ''hack'' = ''hack''" "lower ''HACK'' = ''hack''"
    by code_simp+
  then show "(\<lambda>v. lower (py_str v)) ` set (yp_blocked yaml_a) = (\<lambda>v. lower (py_str v)) ` set (yp_blocked yaml_b)"
    by (simp add: yaml_a_def yaml_b_def py_str_def insert_commute)
qed (simp_all add: yaml_a_def yaml_b_def)

end
