(* ===== verification/Provider_Clients.thy ===== *)
theory Provider_Clients
  imports Complex_Main Secret_Manager
begin

text \<open>
  \<open>providers/\<close>: the clients of the model providers, the requests they build, how they read a
  reply, and the retry loop of the Gemini client with its overall time budget.

  A client is a record; the constructors are the \<open>__init__\<close> methods.  The HTTP library is a
  parameter: each call answers with a status and a decoded body, or raises.  \<open>generate\<close> is
  called with the prompt alone, so the optional sampling arguments are left out.
\<close>

section \<open>Exceptions\<close>

text \<open>The name of the exception's class and its text.\<close>

datatype exn = Exn string string

definition exn_type :: "exn \<Rightarrow> string" where "exn_type e = (case e of Exn t _ \<Rightarrow> t)"

definition exn_text :: "exn \<Rightarrow> string" where "exn_text e = (case e of Exn _ m \<Rightarrow> m)"

lemma exn_simps [simp]: "exn_type (Exn t m) = t" "exn_text (Exn t m) = m"
  by (simp_all add: exn_type_def exn_text_def)

text \<open>The text of an exception raised by a decoder or by the interpreter is not modelled.\<close>

definition exn_of :: "sm_error \<Rightarrow> exn" where
  "exn_of e = (case e of SecretManagerError m \<Rightarrow> Exn ''SecretManagerError'' m
     | SecretValidationError m \<Rightarrow> Exn ''SecretValidationError'' m | OtherError t \<Rightarrow> Exn t '''')"

definition lift_sm :: "'a sm \<Rightarrow> exn + 'a" where "lift_sm = map_sum exn_of id"

lemma lift_sm_simps [simp]: "lift_sm (Inl e) = Inl (exn_of e)" "lift_sm (Inr a) = Inr a"
  by (simp_all add: lift_sm_def)

text \<open>\<open>isinstance(e, ValueError)\<close>: the decoders' exceptions are subclasses.\<close>

definition is_value_error :: "exn \<Rightarrow> bool" where
  "is_value_error e = (exn_type e \<in> {''ValueError'', ''JSONDecodeError'', ''UnicodeDecodeError'', ''binascii.Error''})"

definition value_error :: "string \<Rightarrow> exn" where "value_error m = Exn ''ValueError'' m"
definition runtime_error :: "string \<Rightarrow> exn" where "runtime_error m = Exn ''RuntimeError'' m"

section \<open>Clients\<close>

datatype provider_class = GeminiProvider | OpenAIProvider | AnthropicProvider | CohereProvider | AzureOpenAIProvider | LocalProvider

primrec class_name :: "provider_class \<Rightarrow> string" where
  "class_name GeminiProvider = ''GeminiProvider''"
| "class_name OpenAIProvider = ''OpenAIProvider''"
| "class_name AnthropicProvider = ''AnthropicProvider''"
| "class_name CohereProvider = ''CohereProvider''"
| "class_name AzureOpenAIProvider = ''AzureOpenAIProvider''"
| "class_name LocalProvider = ''LocalProvider''"

record client =
  cl_class :: provider_class
  cl_api_key :: jval
  cl_model :: jval
  cl_url :: jval
  cl_version :: jval

text \<open>\<open>(url or default).rstrip("/")\<close>; only strings have the method.\<close>

definition base_url :: "jval \<Rightarrow> string \<Rightarrow> exn + jval" where
  "base_url url dflt = (case jor url (JStr dflt) of
     JStr s \<Rightarrow> Inr (JStr (rstrip_by (\<lambda>c. c = CHR ''/'') s))
   | _ \<Rightarrow> Inl (Exn ''AttributeError'' ''''))"

definition simple_client :: "provider_class \<Rightarrow> string \<Rightarrow> string \<Rightarrow> string \<Rightarrow> jval \<Rightarrow> jval \<Rightarrow> jval \<Rightarrow> exn + client" where
  "simple_client cls name dflt_model dflt_url api_key model url =
     rbind (base_url url dflt_url) (\<lambda>u.
       if \<not> truthy api_key then Inl (value_error (name @ '' provider credential is not configured.''))
       else Inr \<lparr>cl_class = cls, cl_api_key = api_key, cl_model = jor model (JStr dflt_model), cl_url = u,
                 cl_version = JNull\<rparr>)"

definition openai_provider :: "jval \<Rightarrow> jval \<Rightarrow> jval \<Rightarrow> exn + client" where
  "openai_provider = simple_client OpenAIProvider ''OpenAI'' ''gpt-4o'' ''https://api.openai.com/v1''"

definition anthropic_provider :: "jval \<Rightarrow> jval \<Rightarrow> jval \<Rightarrow> exn + client" where
  "anthropic_provider = simple_client AnthropicProvider ''Anthropic'' ''claude-3-5-sonnet-20241022'' ''https://api.anthropic.com''"

definition cohere_provider :: "jval \<Rightarrow> jval \<Rightarrow> jval \<Rightarrow> exn + client" where
  "cohere_provider = simple_client CohereProvider ''Cohere'' ''command-r-plus'' ''https://api.cohere.com''"

definition azure_openai_provider :: "jval \<Rightarrow> jval \<Rightarrow> jval \<Rightarrow> jval \<Rightarrow> exn + client" where
  "azure_openai_provider api_key deployment url version =
     rbind (base_url url '''') (\<lambda>u.
       if \<not> truthy api_key then Inl (value_error ''Azure OpenAI provider credential is not configured.'')
       else if u = JStr '''' then Inl (value_error ''Azure OpenAI endpoint is not configured.'')
       else Inr \<lparr>cl_class = AzureOpenAIProvider, cl_api_key = api_key, cl_model = jor deployment (JStr ''gpt-4o''),
                 cl_url = u, cl_version = jor version (JStr ''2024-02-15-preview'')\<rparr>)"

text \<open>The module constants are read from the environment with \<open>os.getenv\<close>.\<close>

definition env_or :: "environ \<Rightarrow> string \<Rightarrow> string \<Rightarrow> string" where
  "env_or env k d = (case env k of None \<Rightarrow> d | Some v \<Rightarrow> v)"

definition gemini_provider :: "environ \<Rightarrow> jval \<Rightarrow> jval \<Rightarrow> jval \<Rightarrow> exn + client" where
  "gemini_provider env api_key model url =
     (let key = jor api_key (jstr_opt (env ''GOOGLE_API_KEY''));
          m = jor (jor model (jstr_opt (env ''MODEL_NAME''))) (JStr (env_or env ''MODEL_NAME'' ''gemini-2.5-flash-lite''))
      in if \<not> truthy key then Inl (value_error ''GOOGLE_API_KEY environment variable is not set.'')
         else Inr \<lparr>cl_class = GeminiProvider, cl_api_key = key,
                   cl_model = (if m = JStr ''gemini-3.1-flash-lite'' then JStr ''gemini-2.5-flash-lite'' else m),
                   cl_url = jor url (JStr (env_or env ''GOOGLE_API_URL'' ''https://generativelanguage.googleapis.com'')),
                   cl_version = JNull\<rparr>)"

definition local_provider :: client where
  "local_provider = \<lparr>cl_class = LocalProvider, cl_api_key = JNull, cl_model = JStr ''authclaw-local-secure'',
     cl_url = JStr ''local://authclaw'', cl_version = JNull\<rparr>"

text \<open>\<open>providers/__init__.py\<close>: the provider named by the process environment.\<close>

definition get_provider :: "environ \<Rightarrow> exn + client" where
  "get_provider env =
     (let configured = env_or env ''MODEL_PROVIDER'' ''gemini'';
          name = replace_char (CHR '' '') (CHR ''_'') (lower configured) in
      if name = ''gemini'' then gemini_provider env JNull JNull JNull
      else if name = ''openai'' then openai_provider (jstr_opt (env ''OPENAI_API_KEY'')) (JStr ''gpt-4o'') JNull
      else if name = ''anthropic''
      then anthropic_provider (jstr_opt (env ''ANTHROPIC_API_KEY'')) (JStr ''claude-3-5-sonnet-20241022'') JNull
      else if name = ''cohere'' then cohere_provider (jstr_opt (env ''COHERE_API_KEY'')) (JStr ''command-r-plus'') JNull
      else if name \<in> {''azure'', ''azure_openai''}
      then azure_openai_provider (jstr_opt (env ''AZURE_OPENAI_API_KEY''))
             (jor (jstr_opt (env ''AZURE_OPENAI_DEPLOYMENT'')) (jstr_opt (env ''MODEL_NAME'')))
             (jstr_opt (env ''AZURE_OPENAI_ENDPOINT'')) (jstr_opt (env ''AZURE_OPENAI_API_VERSION''))
      else Inl (value_error (''Unsupported model provider configured: '' @ configured)))"

section \<open>Requests and replies\<close>

text \<open>A call of the HTTP library: a status with the decoded body (\<open>None\<close> where the body is not
  JSON), or an exception.\<close>

datatype http_outcome =
    Http int "jval option"
  | Timed_out
  | Connection_failed string
  | Http_raised string string

record history_item =
  hi_role :: "string option"
  hi_content :: "jval option"

text \<open>\<open>item.get("role", "user")\<close>, forced to \<open>user\<close> outside the roles of the provider.\<close>

definition message_of :: "string list \<Rightarrow> history_item \<Rightarrow> jval" where
  "message_of roles h =
     (let role = (case hi_role h of None \<Rightarrow> ''user'' | Some r \<Rightarrow> r) in
      JObj [(''role'', JStr (if role \<in> set roles then role else ''user'')),
            (''content'', case hi_content h of None \<Rightarrow> JStr '''' | Some c \<Rightarrow> c)])"

definition user_message :: "string \<Rightarrow> jval" where
  "user_message prompt = JObj [(''role'', JStr ''user''), (''content'', JStr prompt)]"

definition chat_messages :: "string option \<Rightarrow> history_item list \<Rightarrow> string \<Rightarrow> jval" where
  "chat_messages sys hist prompt = JList
     ((if truthy_str sys then [JObj [(''role'', JStr ''system''), (''content'', JStr (or_empty sys))]] else []) @
      map (message_of [''system'', ''user'', ''assistant'']) hist @ [user_message prompt])"

definition openai_payload :: "client \<Rightarrow> string option \<Rightarrow> history_item list \<Rightarrow> string \<Rightarrow> jval" where
  "openai_payload c sys hist prompt = JObj [(''model'', cl_model c), (''messages'', chat_messages sys hist prompt)]"

definition azure_payload :: "string option \<Rightarrow> history_item list \<Rightarrow> string \<Rightarrow> jval" where
  "azure_payload sys hist prompt = JObj [(''messages'', chat_messages sys hist prompt)]"

definition anthropic_payload :: "client \<Rightarrow> string option \<Rightarrow> history_item list \<Rightarrow> string \<Rightarrow> jval" where
  "anthropic_payload c sys hist prompt = JObj
     ([(''model'', cl_model c), (''max_tokens'', JInt 1024),
       (''messages'', JList (map (message_of [''user'', ''assistant'']) hist @ [user_message prompt]))] @
      (if truthy_str sys then [(''system'', JStr (or_empty sys))] else []))"

definition gemini_part :: "string \<Rightarrow> jval \<Rightarrow> jval" where
  "gemini_part role content = JObj [(''role'', JStr role), (''parts'', JList [JObj [(''text'', content)]])]"

definition gemini_payload :: "string option \<Rightarrow> history_item list \<Rightarrow> string \<Rightarrow> jval" where
  "gemini_payload sys hist prompt = JObj
     ((''contents'', JList (map (\<lambda>h. gemini_part (if hi_role h = None \<or> hi_role h = Some ''user'' then ''user'' else ''model'')
          (case hi_content h of None \<Rightarrow> JStr '''' | Some c \<Rightarrow> c)) hist @ [gemini_part ''user'' (JStr prompt)])) #
      (if truthy_str sys then [(''systemInstruction'', JObj [(''parts'', JList [JObj [(''text'', JStr (or_empty sys))]])])] else []))"

text \<open>\<open>d[k]\<close> and \<open>d[0]\<close> on a decoded value.\<close>

definition py_key :: "jval \<Rightarrow> string \<Rightarrow> exn + jval" where
  "py_key v k = (case v of
     JObj m \<Rightarrow> (case map_of m k of None \<Rightarrow> Inl (Exn ''KeyError'' k) | Some x \<Rightarrow> Inr x)
   | _ \<Rightarrow> Inl (Exn ''TypeError'' ''''))"

definition py_first :: "jval \<Rightarrow> exn + jval" where
  "py_first v = (case v of
     JList [] \<Rightarrow> Inl (Exn ''IndexError'' '''')
   | JList (x # xs) \<Rightarrow> Inr x
   | JStr [] \<Rightarrow> Inl (Exn ''IndexError'' '''')
   | JStr (c # s) \<Rightarrow> Inr (JStr [c])
   | JObj m \<Rightarrow> Inl (Exn ''KeyError'' ''0'')
   | _ \<Rightarrow> Inl (Exn ''TypeError'' ''''))"

definition json_body :: "jval option \<Rightarrow> exn + jval" where
  "json_body b = (case b of None \<Rightarrow> Inl (Exn ''JSONDecodeError'' '''') | Some v \<Rightarrow> Inr v)"

definition raise_for_status :: "int \<Rightarrow> exn + unit" where
  "raise_for_status status = (if 400 \<le> status \<and> status < 600 then Inl (Exn ''HTTPError'' (show_int status)) else Inr ())"

text \<open>A single request, its status check and its body.\<close>

definition checked_body :: "http_outcome \<Rightarrow> exn + jval" where
  "checked_body out = (case out of
     Http status body \<Rightarrow> rbind (raise_for_status status) (\<lambda>_. json_body body)
   | Timed_out \<Rightarrow> Inl (Exn ''Timeout'' '''')
   | Connection_failed m \<Rightarrow> Inl (Exn ''ConnectionError'' m)
   | Http_raised t m \<Rightarrow> Inl (Exn t m))"

definition openai_text :: "jval \<Rightarrow> exn + jval" where
  "openai_text data = rbind (py_key data ''choices'') (\<lambda>cs. rbind (py_first cs) (\<lambda>c.
     rbind (py_key c ''message'') (\<lambda>m. py_key m ''content'')))"

text \<open>\<open>"".join(part.get("text", "") for part in parts if ...)\<close>.\<close>

fun join_parts :: "(jval \<Rightarrow> bool) \<Rightarrow> jval list \<Rightarrow> exn + string" where
  "join_parts wanted [] = Inr []"
| "join_parts wanted (JObj m # ps) =
     (if wanted (jget m ''type'')
      then (case (case map_of m ''text'' of None \<Rightarrow> JStr '''' | Some v \<Rightarrow> v) of
              JStr s \<Rightarrow> rbind (join_parts wanted ps) (\<lambda>r. Inr (s @ r))
            | _ \<Rightarrow> (case join_parts wanted ps of Inl e \<Rightarrow> Inl e | Inr _ \<Rightarrow> Inl (Exn ''TypeError'' '''')))
      else join_parts wanted ps)"
| "join_parts wanted (_ # ps) = Inl (Exn ''AttributeError'' '''')"

definition anthropic_text :: "jval \<Rightarrow> exn + jval" where
  "anthropic_text data = (case data of
     JObj m \<Rightarrow>
       (case (case map_of m ''content'' of None \<Rightarrow> JList [] | Some v \<Rightarrow> v) of
          JList ps \<Rightarrow> map_sum id JStr (join_parts (\<lambda>t. t = JStr ''text'') ps)
        | JStr s \<Rightarrow> (if s = [] then Inr (JStr '''') else Inl (Exn ''AttributeError'' ''''))
        | JObj d \<Rightarrow> (if d = [] then Inr (JStr '''') else Inl (Exn ''AttributeError'' ''''))
        | _ \<Rightarrow> Inl (Exn ''TypeError'' ''''))
   | _ \<Rightarrow> Inl (Exn ''AttributeError'' ''''))"

definition cohere_text :: "jval \<Rightarrow> exn + jval" where
  "cohere_text data = (case data of
     JObj m \<Rightarrow>
       (case jor (jget m ''message'') (JObj []) of
          JObj msg \<Rightarrow>
            (case jget msg ''content'' of
               JList ps \<Rightarrow> map_sum id JStr (join_parts (\<lambda>t. t = JNull \<or> t = JStr ''text'') ps)
             | JStr s \<Rightarrow> Inr (JStr s)
             | _ \<Rightarrow> Inr (if truthy (jget m ''text'') then jget m ''text'' else JStr ''''))
        | _ \<Rightarrow> Inl (Exn ''AttributeError'' ''''))
   | _ \<Rightarrow> Inl (Exn ''AttributeError'' ''''))"


section \<open>The Gemini retry loop\<close>

text \<open>\<open>float(s)\<close> on a plain decimal number: a sign, digits with a point, an exponent.  The other
  spellings Python accepts (underscores, infinities) do not occur in a \<open>retryDelay\<close>.\<close>

definition all_digits :: "string \<Rightarrow> bool" where
  "all_digits s = (s \<noteq> [] \<and> list_all is_digit s)"

definition unsigned_decimal :: "string \<Rightarrow> rat option" where
  "unsigned_decimal s =
     (let i = takeWhile is_digit s; r = dropWhile is_digit s in
      if r = [] then (if i = [] then None else Some (of_nat (read_nat i)))
      else if hd r = CHR ''.'' \<and> list_all is_digit (tl r) \<and> (i \<noteq> [] \<or> tl r \<noteq> [])
      then Some (of_nat (read_nat i) + (if tl r = [] then 0 else of_nat (read_nat (tl r)) / 10 ^ length (tl r)))
      else None)"

definition py_float :: "string \<Rightarrow> rat option" where
  "py_float s =
     (let t = strip s in
      if t \<noteq> [] \<and> hd t = CHR ''-'' then map_option uminus (unsigned_decimal (tl t))
      else if t \<noteq> [] \<and> hd t = CHR ''+'' then unsigned_decimal (tl t)
      else unsigned_decimal t)"

text \<open>The delay of the first \<open>RetryInfo\<close> detail that ends in \<open>s\<close>; any exception keeps the
  default.\<close>

fun retry_info :: "jval list \<Rightarrow> rat option" where
  "retry_info [] = None"
| "retry_info (JObj d # ds) =
     (if jget d ''@type'' = JStr ''type.googleapis.com/google.rpc.RetryInfo''
      then (case (case map_of d ''retryDelay'' of None \<Rightarrow> JStr '''' | Some v \<Rightarrow> v) of
              JStr s \<Rightarrow> (if ends_with ''s'' s then py_float (butlast s) else retry_info ds)
            | _ \<Rightarrow> None)
      else retry_info ds)"
| "retry_info (_ # ds) = None"

definition retry_delay :: "jval option \<Rightarrow> rat option" where
  "retry_delay body = (case body of
     Some (JObj m) \<Rightarrow>
       (case (case map_of m ''error'' of None \<Rightarrow> JObj [] | Some e \<Rightarrow> e) of
          JObj e \<Rightarrow> (case jget e ''details'' of JList ds \<Rightarrow> retry_info ds | _ \<Rightarrow> None)
        | _ \<Rightarrow> None)
   | _ \<Rightarrow> None)"

text \<open>The result of the loop: the reply or the exception, the instant it ends (seconds since it
  started), the number of requests sent.\<close>

type_synonym gemini_result = "(exn + int \<times> jval option) \<times> rat \<times> nat"

text \<open>What an exception inside the \<open>try\<close> leads to: give up with an annotated \<open>RuntimeError\<close> on the
  last attempt or past the budget, else sleep and go on.  \<open>retry\<close> continues at a later instant.\<close>

definition give_up_or_retry :: "rat \<Rightarrow> bool \<Rightarrow> rat \<Rightarrow> rat \<Rightarrow> string \<Rightarrow> nat \<Rightarrow> (rat \<Rightarrow> gemini_result) \<Rightarrow> gemini_result" where
  "give_up_or_retry timeout final t backoff msg calls retry =
     (if final \<or> timeout \<le> t then (Inl (runtime_error msg), t, calls)
      else retry (t + min backoff (max 1 (timeout - t))))"

text \<open>\<open>requests.Response\<close> is falsy for an error status, so the status recovered in the \<open>HTTPError\<close>
  branch is always 500.  The dash in two of the messages is outside the characters of the model
  and is written as a hyphen.\<close>

fun gemini_loop :: "rat \<Rightarrow> string \<Rightarrow> (nat \<Rightarrow> rat \<Rightarrow> rat \<times> http_outcome) \<Rightarrow> nat \<Rightarrow> nat \<Rightarrow> rat \<Rightarrow> rat \<Rightarrow> gemini_result" where
  "gemini_loop timeout model post 0 n t backoff =
     (Inl (runtime_error ''Provider unavailable: No response received''), t, n)"
| "gemini_loop timeout model post (Suc rem) n t backoff =
     (if timeout \<le> t
      then (Inl (runtime_error ''Provider unavailable: Timeout exceeded before request''), t, n)
      else
        let (d, out) = post n (max 1 (timeout - t)); t1 = t + d; final = (rem = 0);
            later = (\<lambda>t2. gemini_loop timeout model post rem (n + 1) t2 (backoff * 2));
            failed = (\<lambda>msg. give_up_or_retry timeout final t1 backoff msg (n + 1) later)
        in case out of
             Timed_out \<Rightarrow> failed ''Provider unavailable: Timeout''
           | Connection_failed m \<Rightarrow> failed (''Provider unavailable: Network Error - '' @ m)
           | Http_raised ty m \<Rightarrow> failed (''Provider unavailable: Unexpected error ('' @ ty @ '': '' @ m @ '')'')
           | Http status body \<Rightarrow>
               if status = 429 then
                 (let sleep_time = max (case retry_delay body of None \<Rightarrow> backoff | Some v \<Rightarrow> v) backoff + 1 in
                  if timeout \<le> t1 + sleep_time
                  then (Inl (runtime_error ''Provider unavailable: Quota Exceeded (Rate Limited and Timeout)''), t1, n + 1)
                  else if \<not> final then later (t1 + sleep_time)
                  else (Inl (runtime_error ''Provider unavailable: Quota Exceeded (Rate Limited)''), t1, n + 1))
               else if status = 401
               then failed ''Provider unavailable: Unexpected error (ValueError: Provider not configured: Invalid API Key (401 Unauthorized))''
               else if status = 403
               then failed ''Provider unavailable: Unexpected error (ValueError: Provider not configured: Forbidden (403))''
               else if status = 404
               then (Inl (runtime_error (''Provider unavailable: Model Not Found ('' @ model @ '')'')), t1, n + 1)
               else if status = 503 then
                 (if \<not> final then later (t1 + min backoff (max 1 (timeout - t1)))
                  else (Inl (runtime_error ''Provider unavailable: Service Unavailable (503)''), t1, n + 1))
               else if 400 \<le> status \<and> status < 600
               then failed ''Provider unavailable: API Error (500)''
               else (Inr (status, body), t1, n + 1))"

definition gemini_request :: "rat \<Rightarrow> string \<Rightarrow> (nat \<Rightarrow> rat \<Rightarrow> rat \<times> http_outcome) \<Rightarrow> gemini_result" where
  "gemini_request timeout model post = gemini_loop timeout model post 3 0 0 2"

text \<open>Reading the reply.  \<open>KeyError\<close> and \<open>IndexError\<close> are annotated; the text of the whole reply,
  which the messages quote, is left out.\<close>

definition annotate_parse :: "exn + jval \<Rightarrow> exn + jval" where
  "annotate_parse r = (case r of
     Inl e \<Rightarrow> Inl (if exn_type e \<in> {''KeyError'', ''IndexError''}
        then runtime_error ''Failed to parse text from Gemini API response'' else e)
   | Inr v \<Rightarrow> Inr v)"

definition gemini_text :: "jval \<Rightarrow> exn + jval" where
  "gemini_text data = (case data of
     JObj m \<Rightarrow> annotate_parse
       (let candidates = (case map_of m ''candidates'' of None \<Rightarrow> JList [] | Some v \<Rightarrow> v) in
        if \<not> truthy candidates
        then Inl (runtime_error (if truthy (case map_of m ''promptFeedback'' of None \<Rightarrow> JObj [] | Some v \<Rightarrow> v)
          then ''Gemini API response blocked by safety settings'' else ''Gemini API response contains no candidates''))
        else rbind (py_first candidates) (\<lambda>c. (case c of
               JObj _ \<Rightarrow> rbind (py_key c ''content'') (\<lambda>x. rbind (py_key x ''parts'') (\<lambda>ps.
                 rbind (py_first ps) (\<lambda>p. py_key p ''text'')))
             | _ \<Rightarrow> Inl (Exn ''AttributeError'' ''''))))
   | _ \<Rightarrow> Inl (Exn ''AttributeError'' ''''))"

definition gemini_generate :: "rat \<Rightarrow> client \<Rightarrow> (nat \<Rightarrow> rat \<Rightarrow> rat \<times> http_outcome) \<Rightarrow> (exn + jval) \<times> rat \<times> nat" where
  "gemini_generate timeout c post =
     (if \<not> truthy (cl_api_key c) \<or> cl_api_key c \<in> {JStr ''dummy'', JStr ''dummy-api-key''}
      then (Inl (value_error ''Provider not configured''), 0, 0)
      else case gemini_request timeout (case cl_model c of JStr m \<Rightarrow> m | _ \<Rightarrow> '''') post of
             (Inl e, t, n) \<Rightarrow> (Inl e, t, n)
           | (Inr (_, body), t, n) \<Rightarrow> (rbind (json_body body) gemini_text, t, n))"

text \<open>\<open>generate(prompt)\<close> of every class, with the exchange it has with the HTTP library; the second
  component counts the requests sent.\<close>

record wire =
  w_timeout :: rat
  w_post :: "client \<Rightarrow> jval \<Rightarrow> nat \<Rightarrow> rat \<Rightarrow> rat \<times> http_outcome"

definition local_reply :: string where
  "local_reply = ''AuthClaw local provider response: the request completed through the gateway policy, redaction, and audit pipeline. Configure an OpenAI, Anthropic, Cohere, or Azure OpenAI credential on the Providers page to forward prompts to an external model.''"

definition generate :: "wire \<Rightarrow> client \<Rightarrow> string \<Rightarrow> (exn + jval) \<times> nat" where
  "generate w c prompt =
     (case cl_class c of
        OpenAIProvider \<Rightarrow> (rbind (checked_body (snd (w_post w c (openai_payload c None [] prompt) 0 (w_timeout w)))) openai_text, 1)
      | AzureOpenAIProvider \<Rightarrow> (rbind (checked_body (snd (w_post w c (azure_payload None [] prompt) 0 (w_timeout w)))) openai_text, 1)
      | AnthropicProvider \<Rightarrow> (rbind (checked_body (snd (w_post w c (anthropic_payload c None [] prompt) 0 (w_timeout w)))) anthropic_text, 1)
      | CohereProvider \<Rightarrow> (rbind (checked_body (snd (w_post w c (openai_payload c None [] prompt) 0 (w_timeout w)))) cohere_text, 1)
      | GeminiProvider \<Rightarrow> (let (r, _, n) = gemini_generate (w_timeout w) c (w_post w c (gemini_payload None [] prompt)) in (r, n))
      | LocalProvider \<Rightarrow> (Inr (JStr local_reply), 0))"

section \<open>Facts about the retry loop\<close>

text \<open>The HTTP library keeps the timeout it is given.\<close>

definition keeps_deadline :: "(nat \<Rightarrow> rat \<Rightarrow> rat \<times> http_outcome) \<Rightarrow> bool" where
  "keeps_deadline post = (\<forall>n r. 1 \<le> r \<longrightarrow> 0 \<le> fst (post n r) \<and> fst (post n r) \<le> r)"

definition is_runtime_error :: "exn \<Rightarrow> bool" where "is_runtime_error e = (exn_type e = ''RuntimeError'')"

lemma is_runtime_error_runtime_error [simp]: "is_runtime_error (runtime_error m)"
  by (simp add: is_runtime_error_def runtime_error_def)

definition result_ok :: "rat \<Rightarrow> nat \<Rightarrow> gemini_result \<Rightarrow> bool" where
  "result_ok bound calls r = (case r of (out, t, n) \<Rightarrow> t < bound \<and> n \<le> calls \<and> (\<forall>e. out = Inl e \<longrightarrow> is_runtime_error e))"

lemma result_ok_Inl [simp]: "result_ok b c (Inl (runtime_error m), t, n) \<longleftrightarrow> t < b \<and> n \<le> c"
  and result_ok_Inr [simp]: "result_ok b c (Inr x, t, n) \<longleftrightarrow> t < b \<and> n \<le> c"
  by (auto simp: result_ok_def)

lemma give_up_now [simp]:
  "give_up_or_retry timeout True t b m n retry = (Inl (runtime_error m), t, n)"
  by (simp add: give_up_or_retry_def)

lemma give_up_or_retry_ok:
  assumes "t < timeout + 1" "n \<le> c" "\<And>t2. t2 < timeout + 2 \<Longrightarrow> result_ok (timeout + 2) c (retry t2)"
  shows "result_ok (timeout + 2) c (give_up_or_retry timeout final t b m n retry)"
  using assms(1,2) by (auto simp: give_up_or_retry_def intro!: assms(3))

lemma gemini_loop_ok:
  assumes post: "keeps_deadline post"
  shows "t < timeout + 2 \<Longrightarrow> result_ok (timeout + 2) (n + rem) (gemini_loop timeout model post rem n t b)"
proof (induction rem arbitrary: n t b)
  case (Suc rem)
  obtain d out where p: "post n (max 1 (timeout - t)) = (d, out)" by fastforce
  show ?case
  proof (cases "timeout \<le> t")
    case False
    have d: "0 \<le> d" "d \<le> max 1 (timeout - t)"
      using post [unfolded keeps_deadline_def, rule_format, of "max 1 (timeout - t)" n] p by simp_all
    then have t1: "t + d < timeout + 1" using False by (auto simp: max_def split: if_splits)
    have later: "\<And>t2 b. t2 < timeout + 2 \<Longrightarrow>
        result_ok (timeout + 2) (Suc (n + rem)) (gemini_loop timeout model post rem (Suc n) t2 b)"
      using Suc.IH [where n = "Suc n"] by simp
    have again: "\<And>final m b b2. result_ok (timeout + 2) (Suc (n + rem)) (give_up_or_retry timeout final (t + d) b m (Suc n)
        (\<lambda>t2. gemini_loop timeout model post rem (Suc n) t2 b2))"
      by (rule give_up_or_retry_ok [OF t1]) (simp_all add: later del: gemini_loop.simps)
    show ?thesis
    proof (cases out)
      case (Http status body)
      show ?thesis using False t1
        by (auto simp: p Http Let_def not_le intro!: again later)
    qed (use False in \<open>auto simp: p Let_def intro!: again\<close>)
  qed (use Suc.prems in simp)
qed simp

text \<open>The Gemini client sends at most three requests and ends less than two seconds past its
  budget; whatever the API answers, the exception it raises is a \<open>RuntimeError\<close>: the
  \<open>ValueError\<close> of a refused key (401, 403) is caught by its own handler, retried and renamed.\<close>

theorem gemini_bounded:
  assumes "keeps_deadline post" and "0 \<le> timeout"
  shows "case gemini_request timeout model post of (out, t, n) \<Rightarrow>
    n \<le> 3 \<and> t < timeout + 2 \<and> (\<forall>e. out = Inl e \<longrightarrow> exn_type e = ''RuntimeError'')"
  using gemini_loop_ok [OF assms(1), of 0 timeout 0 3 model 2] assms(2)
  by (auto simp: gemini_request_def result_ok_def is_runtime_error_def split: prod.splits)

definition refusing_post :: "nat \<Rightarrow> rat \<Rightarrow> rat \<times> http_outcome" where
  "refusing_post n r = (1, Http 401 None)"

theorem gemini_bounded_witness:
  "(case gemini_request 30 ''m'' refusing_post of (out, t, n) \<Rightarrow> n \<le> 3 \<and> t < 30 + 2 \<and>
     (\<forall>e. out = Inl e \<longrightarrow> exn_type e = ''RuntimeError''))
   \<and> fst (gemini_request 30 ''m'' refusing_post) = Inl (runtime_error
      ''Provider unavailable: Unexpected error (ValueError: Provider not configured: Invalid API Key (401 Unauthorized))'')"
proof
  show "case gemini_request 30 ''m'' refusing_post of (out, t, n) \<Rightarrow> n \<le> 3 \<and> t < 30 + 2 \<and>
     (\<forall>e. out = Inl e \<longrightarrow> exn_type e = ''RuntimeError'')"
    by (rule gemini_bounded) (simp_all add: keeps_deadline_def refusing_post_def)
  show "fst (gemini_request 30 ''m'' refusing_post) = Inl (runtime_error
      ''Provider unavailable: Unexpected error (ValueError: Provider not configured: Invalid API Key (401 Unauthorized))'')"
    by code_simp
qed

end
