(* ===== verification/Rbac.thy ===== *)
theory Rbac
  imports Secret_Manager Py_Regex
begin

text \<open>
  \<open>services/rbac_matrix.py\<close> and the middleware of \<open>main.py\<close> that enforces it: the public
  endpoints, the ordered table of rules, the decision for a role, a method and a path, and the
  reports over the registered routes.

  Paths are matched by \<open>fnmatch\<close>; the patterns of the program hold no wildcard but the star.
  A role claim that is not a string belongs to no rule and counts as absent.
\<close>

section \<open>Roles and public paths\<close>

definition ROLE_PLATFORM_ADMIN :: string where "ROLE_PLATFORM_ADMIN = ''Platform Admin''"
definition ROLE_SUPER_ADMIN :: string where "ROLE_SUPER_ADMIN = ''Super Admin''"
definition ROLE_SECURITY_ADMIN :: string where "ROLE_SECURITY_ADMIN = ''Security Admin''"
definition ROLE_COMPLIANCE_OFFICER :: string where "ROLE_COMPLIANCE_OFFICER = ''Compliance Officer''"
definition ROLE_AUDITOR :: string where "ROLE_AUDITOR = ''Auditor''"
definition ROLE_DEVELOPER :: string where "ROLE_DEVELOPER = ''Developer''"
definition ROLE_VIEWER :: string where "ROLE_VIEWER = ''Viewer''"

definition ALL_ROLES :: "string list" where
  "ALL_ROLES = [ROLE_PLATFORM_ADMIN, ROLE_SUPER_ADMIN, ROLE_SECURITY_ADMIN, ROLE_COMPLIANCE_OFFICER, ROLE_AUDITOR,
     ROLE_DEVELOPER, ROLE_VIEWER]"

definition TENANT_ADMIN_ROLES :: "string list" where "TENANT_ADMIN_ROLES = [ROLE_SUPER_ADMIN, ROLE_SECURITY_ADMIN]"

definition TENANT_READ_ROLES :: "string list" where
  "TENANT_READ_ROLES = TENANT_ADMIN_ROLES @ [ROLE_COMPLIANCE_OFFICER, ROLE_AUDITOR, ROLE_VIEWER]"

definition GATEWAY_USER_ROLES :: "string list" where "GATEWAY_USER_ROLES = TENANT_READ_ROLES @ [ROLE_DEVELOPER]"

definition PUBLIC_PATHS :: "string list" where
  "PUBLIC_PATHS = [
    ''GET /'', ''GET /docs'', ''GET /docs/oauth2-redirect'', ''GET /openapi.json'', ''GET /redoc'', ''GET /health'',
    ''GET /health/details'', ''GET /health/ready'', ''GET /.well-known/jwks.json'', ''GET /auth/jwks'',
    ''GET /auth/oidc/providers'', ''GET /auth/oidc/login'', ''GET /auth/oidc/callback'',
    ''POST /auth/oidc/callback'', ''POST /auth/login'', ''POST /auth/register'', ''POST /auth/verify-email'',
    ''POST /auth/verify-domain'', ''POST /auth/password/reset-request'', ''POST /auth/password/reset-confirm'',
    ''POST /auth/mfa/reset-request'', ''POST /auth/mfa/reset-confirm'', ''POST /auth/verify-otp'',
    ''POST /auth/refresh'', ''POST /auth/logout'', ''POST /audit/export/verify'', ''GET /trust/public'',
    ''GET /trust/public/health'']"

section \<open>Matching\<close>

text \<open>A star stands for any characters, the slash included.\<close>

primrec fnmatch :: "string \<Rightarrow> string \<Rightarrow> bool" where
  "fnmatch [] s = (s = [])"
| "fnmatch (c # p) s =
     (if c = CHR ''*'' then list_ex (fnmatch p) (map (\<lambda>i. drop i s) [0..<length s + 1])
      else (case s of [] \<Rightarrow> False | d # t \<Rightarrow> c = d \<and> fnmatch p t))"

definition template_re :: re where
  "template_re = seq [chr (CHR 0x7B), at_least 1 (Cls (\<lambda>c. c \<noteq> CHR ''/'')), chr (CHR 0x7D)]"

definition normalize_path_template :: "string \<Rightarrow> string" where
  "normalize_path_template path =
     (let p = sub_with template_re (\<lambda>_. ''*'') (if path = [] then ''/'' else path)
      in if p \<noteq> ''/'' \<and> ends_with ''/'' p then butlast p else p)"

record endpoint_rule =
  er_method :: string
  er_pattern :: string
  er_roles :: "string list"
  er_permission :: string
  er_tenant_required :: bool
  er_audit_required :: bool
  er_description :: string

definition endpoint_rule :: "string \<Rightarrow> string \<Rightarrow> string list \<Rightarrow> string \<Rightarrow> bool \<Rightarrow> bool \<Rightarrow> string \<Rightarrow> endpoint_rule" where
  "endpoint_rule m p roles perm tenant audit descr = \<lparr>er_method = m, er_pattern = p, er_roles = roles, er_permission = perm,
     er_tenant_required = tenant, er_audit_required = audit, er_description = descr\<rparr>"

definition rule_matches :: "endpoint_rule \<Rightarrow> string \<Rightarrow> string \<Rightarrow> bool" where
  "rule_matches r m path =
     ((er_method r = ''*'' \<or> upper m = er_method r) \<and>
      fnmatch (normalize_path_template (er_pattern r)) (normalize_path_template path))"

definition ENDPOINT_RULES :: "endpoint_rule list" where
  "ENDPOINT_RULES = [
     endpoint_rule ''*'' ''/platform/*'' ([ROLE_PLATFORM_ADMIN]) ''platform:admin'' False True ''Platform-wide tenant administration.'',
     endpoint_rule ''*'' ''/identity/*'' (TENANT_ADMIN_ROLES) ''identity:manage'' True True ''Tenant OIDC and IdP administration.'',
     endpoint_rule ''GET'' ''/security/posture'' (TENANT_READ_ROLES) ''security:read'' True True ''Security posture view.'',
     endpoint_rule ''GET'' ''/security/*'' (TENANT_ADMIN_ROLES) ''security:admin'' True True ''Security readiness administration.'',
     endpoint_rule ''*'' ''/providers*'' (TENANT_ADMIN_ROLES) ''providers:manage'' True True ''Provider credential lifecycle.'',
     endpoint_rule ''*'' ''/routes*'' (TENANT_ADMIN_ROLES) ''gateway-routes:manage'' True True ''Gateway route lifecycle.'',
     endpoint_rule ''GET'' ''/gateway/requests*'' (TENANT_READ_ROLES @ [ROLE_DEVELOPER]) ''gateway:read'' True True ''Gateway request explorer.'',
     endpoint_rule ''GET'' ''/gateway/approvals*'' (TENANT_READ_ROLES) ''approvals:read'' True True ''Gateway approval visibility.'',
     endpoint_rule ''*'' ''/gateway/documents/*'' (GATEWAY_USER_ROLES) ''documents:redact'' True True ''Gateway document redaction.'',
     endpoint_rule ''*'' ''/gateway/chat'' (GATEWAY_USER_ROLES) ''gateway:invoke'' True True ''Gateway chat invocation.'',
     endpoint_rule ''*'' ''/chat*'' (GATEWAY_USER_ROLES) ''chat:use'' True False ''Tenant chat sessions.'',
     endpoint_rule ''*'' ''/sessions*'' (GATEWAY_USER_ROLES) ''chat:use'' True False ''Legacy tenant chat session aliases.'',
     endpoint_rule ''*'' ''/v1/chat/completions'' (GATEWAY_USER_ROLES) ''gateway:invoke'' True True ''OpenAI-compatible gateway invocation.'',
     endpoint_rule ''GET'' ''/approvals*'' (TENANT_READ_ROLES) ''approvals:read'' True True ''Approval queue read.'',
     endpoint_rule ''POST'' ''/approve/*'' (TENANT_ADMIN_ROLES) ''approvals:approve'' True True ''HITL approval.'',
     endpoint_rule ''POST'' ''/reject/*'' (TENANT_ADMIN_ROLES) ''approvals:reject'' True True ''HITL rejection.'',
     endpoint_rule ''POST'' ''/execute/*'' (TENANT_ADMIN_ROLES) ''approvals:execute'' True True ''HITL execution.'',
     endpoint_rule ''POST'' ''/test/*'' ([ROLE_SUPER_ADMIN]) ''testing:local'' True True ''Local test utilities.'',
     endpoint_rule ''GET'' ''/audit*'' ([ROLE_SUPER_ADMIN, ROLE_SECURITY_ADMIN, ROLE_COMPLIANCE_OFFICER, ROLE_AUDITOR]) ''audit:read'' True True ''Audit and signed export read.'',
     endpoint_rule ''POST'' ''/audit/export/verify'' (ALL_ROLES) ''audit:verify'' False False ''Public export verification.'',
     endpoint_rule ''*'' ''/policies*'' ([ROLE_SUPER_ADMIN, ROLE_SECURITY_ADMIN, ROLE_COMPLIANCE_OFFICER]) ''policies:manage'' True True ''Policy lifecycle.'',
     endpoint_rule ''*'' ''/policy/bundles*'' ([ROLE_SUPER_ADMIN, ROLE_SECURITY_ADMIN, ROLE_COMPLIANCE_OFFICER]) ''policy-bundles:manage'' True True ''OPA policy bundle lifecycle.'',
     endpoint_rule ''POST'' ''/internal/policy/evaluate'' (GATEWAY_USER_ROLES) ''policy:evaluate'' True True ''Gateway policy preflight.'',
     endpoint_rule ''*'' ''/rag*'' ([ROLE_SUPER_ADMIN, ROLE_SECURITY_ADMIN, ROLE_COMPLIANCE_OFFICER]) ''rag:manage'' True True ''Regulatory RAG corpus.'',
     endpoint_rule ''*'' ''/documents*'' ([ROLE_SUPER_ADMIN, ROLE_SECURITY_ADMIN, ROLE_COMPLIANCE_OFFICER]) ''documents:manage'' True True ''Document intelligence.'',
     endpoint_rule ''*'' ''/compliance*'' ([ROLE_SUPER_ADMIN, ROLE_SECURITY_ADMIN, ROLE_COMPLIANCE_OFFICER, ROLE_AUDITOR]) ''compliance:read'' True True ''Framework scoring and controls.'',
     endpoint_rule ''*'' ''/evidence*'' ([ROLE_SUPER_ADMIN, ROLE_SECURITY_ADMIN, ROLE_COMPLIANCE_OFFICER, ROLE_AUDITOR]) ''evidence:read'' True True ''Evidence vault.'',
     endpoint_rule ''*'' ''/auditor/*'' ([ROLE_SUPER_ADMIN, ROLE_SECURITY_ADMIN, ROLE_COMPLIANCE_OFFICER, ROLE_AUDITOR]) ''audit:export'' True True ''Auditor packages.'',
     endpoint_rule ''*'' ''/access-control/*'' ([ROLE_SUPER_ADMIN, ROLE_SECURITY_ADMIN]) ''rbac:manage'' True True ''Tenant RBAC user administration.'',
     endpoint_rule ''*'' ''/tenants*'' (TENANT_ADMIN_ROLES) ''tenant:manage'' True True ''Tenant settings.'',
     endpoint_rule ''*'' ''/tenant/plan*'' (TENANT_ADMIN_ROLES) ''tenant-plan:manage'' True True ''Tenant plan and quota management.'',
     endpoint_rule ''*'' ''/keys*'' (TENANT_ADMIN_ROLES @ [ROLE_DEVELOPER]) ''api-keys:manage'' True True ''Tenant API key lifecycle.'',
     endpoint_rule ''*'' ''/reports/*'' ([ROLE_SUPER_ADMIN, ROLE_SECURITY_ADMIN, ROLE_COMPLIANCE_OFFICER, ROLE_AUDITOR]) ''reports:read'' True True ''Governance reports.'',
     endpoint_rule ''*'' ''/cloud/connectors/*'' (TENANT_ADMIN_ROLES) ''connectors:manage'' True True ''Cloud connector sync/status.'',
     endpoint_rule ''*'' ''/analytics/*'' (TENANT_READ_ROLES) ''analytics:read'' True True ''Governance analytics.'',
     endpoint_rule ''*'' ''/remediation/*'' (TENANT_ADMIN_ROLES @ [ROLE_COMPLIANCE_OFFICER]) ''remediation:manage'' True True ''Remediation runtime.'',
     endpoint_rule ''*'' ''/redteam/*'' ([ROLE_SUPER_ADMIN, ROLE_SECURITY_ADMIN, ROLE_COMPLIANCE_OFFICER, ROLE_AUDITOR]) ''redteam:read'' True True ''Red-team probe history and reports.'',
     endpoint_rule ''GET'' ''/metrics'' (TENANT_READ_ROLES @ [ROLE_DEVELOPER]) ''metrics:read'' True True ''Tenant metrics and observability.'',
     endpoint_rule ''POST'' ''/observability/*'' (TENANT_ADMIN_ROLES) ''observability:operate'' True True ''Event pipeline operations.'',
     endpoint_rule ''GET'' ''/trust/public'' (ALL_ROLES) ''trust:public'' False False ''Public signed Trust Center state.'',
     endpoint_rule ''GET'' ''/health*'' (ALL_ROLES) ''health:read'' False False ''Health checks.'',
     endpoint_rule ''GET'' ''/'' (ALL_ROLES) ''health:read'' False False ''Root liveness.'',
     endpoint_rule ''*'' ''/auth/*'' (ALL_ROLES) ''auth:public-or-session'' False False ''Authentication and session lifecycle.'']"

definition is_public_endpoint :: "string \<Rightarrow> string \<Rightarrow> bool" where
  "is_public_endpoint m path = list_ex (\<lambda>p. fnmatch p (upper m @ '' '' @ normalize_path_template path)) PUBLIC_PATHS"

definition resolve_rule :: "string \<Rightarrow> string \<Rightarrow> endpoint_rule option" where
  "resolve_rule m path = find (\<lambda>r. rule_matches r (upper m) path) ENDPOINT_RULES"

definition role_allowed :: "string option \<Rightarrow> string \<Rightarrow> string \<Rightarrow> bool" where
  "role_allowed role m path =
     (is_public_endpoint m path \<or>
      (case resolve_rule m path of
         None \<Rightarrow> False
       | Some r \<Rightarrow> role = Some ROLE_PLATFORM_ADMIN \<or> or_empty role \<in> set (er_roles r)))"

section \<open>Enforcement\<close>

text \<open>An \<open>HTTPException\<close>: its status and its detail.\<close>

type_synonym http_error = "nat \<times> string"

definition role_claim :: "(string \<times> jval) list \<Rightarrow> string option" where
  "role_claim payload = (case jget payload ''role'' of JStr r \<Rightarrow> Some r | _ \<Rightarrow> None)"

definition enforce_request_access :: "string \<Rightarrow> string \<Rightarrow> (string \<times> jval) list \<Rightarrow> http_error + unit" where
  "enforce_request_access m path payload =
     (if is_public_endpoint m path then Inr ()
      else if \<not> role_allowed (role_claim payload) m path then Inl (403, ''Role is not authorized for this endpoint.'')
      else (case resolve_rule m path of
              Some r \<Rightarrow> if er_tenant_required r \<and> \<not> truthy (jget payload ''tenant_id'')
                then Inl (401, ''Session token is missing tenant scope.'') else Inr ()
            | None \<Rightarrow> Inr ()))"

definition rbac_enforcement_enabled :: "environ \<Rightarrow> bool" where
  "rbac_enforcement_enabled env =
     (case env ''AUTHCLAW_ENABLE_RBAC_ENFORCEMENT'' of
        Some _ \<Rightarrow> is_truthy_flag (env ''AUTHCLAW_ENABLE_RBAC_ENFORCEMENT'')
      | None \<Rightarrow> is_production env)"

text \<open>\<open>decode\<close> is \<open>decode_jwt\<close>; the middleware reads the \<open>Authorization\<close> header alone.\<close>

definition optional_user_from_request :: "(string \<Rightarrow> (string \<times> jval) list option) \<Rightarrow> string option \<Rightarrow> (string \<times> jval) list" where
  "optional_user_from_request decode authorization =
     (if \<not> truthy_str authorization then []
      else (let a = or_empty authorization; token = (if starts_with ''Bearer '' a then drop 7 a else a)
            in case decode token of None \<Rightarrow> [] | Some payload \<Rightarrow> payload))"

definition rbac_middleware :: "environ \<Rightarrow> (string \<Rightarrow> (string \<times> jval) list option) \<Rightarrow> string \<Rightarrow> string \<Rightarrow> string option
    \<Rightarrow> (unit \<Rightarrow> http_error + 'a) \<Rightarrow> http_error + 'a" where
  "rbac_middleware env decode m path authorization call_next =
     (if rbac_enforcement_enabled env \<and> \<not> is_public_endpoint (upper m) path
      then rbind (enforce_request_access (upper m) path (optional_user_from_request decode authorization)) call_next
      else call_next ())"

section \<open>Reports\<close>

record endpoint_item =
  ei_method :: string
  ei_path :: string
  ei_public :: bool
  ei_covered :: bool
  ei_roles :: "string list"
  ei_permission :: string
  ei_tenant_required :: bool
  ei_audit_required :: bool

definition endpoint_item :: "string \<Rightarrow> string \<Rightarrow> endpoint_item" where
  "endpoint_item m path =
     (let rule = resolve_rule m path; pub = is_public_endpoint m path in
      \<lparr>ei_method = m, ei_path = path, ei_public = pub, ei_covered = (rule \<noteq> None \<or> pub),
       ei_roles = (case rule of Some r \<Rightarrow> er_roles r | None \<Rightarrow> []),
       ei_permission = (case rule of Some r \<Rightarrow> er_permission r | None \<Rightarrow> if pub then ''public'' else ''unmapped''),
       ei_tenant_required = (case rule of Some r \<Rightarrow> er_tenant_required r | None \<Rightarrow> False),
       ei_audit_required = (case rule of Some r \<Rightarrow> er_audit_required r | None \<Rightarrow> False)\<rparr>)"

text \<open>A route has a set of methods, given as a list, and a path.\<close>

definition endpoint_inventory :: "(string list \<times> string) list \<Rightarrow> endpoint_item list" where
  "endpoint_inventory routes =
     sort_key ei_path (sort_key ei_method (concat (map (\<lambda>(verbs, path).
       if path = [] then [] else map (\<lambda>m. endpoint_item m path) (sort (filter (\<lambda>m. m \<notin> {''HEAD'', ''OPTIONS''}) verbs))) routes)))"

record coverage =
  cv_generated_at :: string
  cv_roles :: "string list"
  cv_total :: nat
  cv_protected :: nat
  cv_public :: nat
  cv_mapped :: nat
  cv_unmapped :: "endpoint_item list"
  cv_matrix :: "(endpoint_item \<times> (string \<times> bool) list) list"
  cv_complete :: bool

definition coverage_report :: "string \<Rightarrow> (string list \<times> string) list \<Rightarrow> coverage" where
  "coverage_report now routes =
     (let inventory = endpoint_inventory routes;
          unmapped = filter (\<lambda>i. \<not> ei_covered i) inventory;
          protected = filter (\<lambda>i. \<not> ei_public i) inventory
      in \<lparr>cv_generated_at = now, cv_roles = ALL_ROLES, cv_total = length inventory, cv_protected = length protected,
          cv_public = length inventory - length protected, cv_mapped = length inventory - length unmapped,
          cv_unmapped = unmapped,
          cv_matrix = map (\<lambda>i. (i, map (\<lambda>role. (role, role_allowed (Some role) (ei_method i) (ei_path i))) ALL_ROLES)) inventory,
          cv_complete = (unmapped = [])\<rparr>)"

definition py_bool :: "bool \<Rightarrow> string" where "py_bool b = (if b then ''True'' else ''False'')"

definition matrix_row :: "endpoint_item \<Rightarrow> string" where
  "matrix_row i =
     (let roles = (if ei_roles i \<noteq> [] then intercalate '', '' (ei_roles i) else if ei_public i then ''public'' else ''UNMAPPED'')
      in ''| '' @ ei_method i @ '' | `'' @ ei_path i @ ''` | '' @ py_bool (ei_public i) @ '' | `'' @ ei_permission i @ ''` | '' @
         roles @ '' | '' @ py_bool (ei_tenant_required i) @ '' | '' @ py_bool (ei_audit_required i) @ '' |'')"

definition matrix_markdown :: "string \<Rightarrow> (string list \<times> string) list \<Rightarrow> string" where
  "matrix_markdown now routes =
     (let r = coverage_report now routes in
      intercalate [CHR 0x0A]
        ([''# AuthClaw RBAC Permission Matrix'', '''', ''Generated: '' @ cv_generated_at r, '''',
          ''| Method | Path | Public | Permission | Roles | Tenant | Audit |'', ''| --- | --- | --- | --- | --- | --- | --- |''] @
         map (matrix_row \<circ> fst) (cv_matrix r) @
         (if cv_unmapped r \<noteq> []
          then ['''', ''## Unmapped Endpoints'', ''''] @ map (\<lambda>i. ''- `'' @ ei_method i @ '' '' @ ei_path i @ ''`'') (cv_unmapped r)
          else [])) @ [CHR 0x0A])"

text \<open>The routes that the decorators of \<open>main.py\<close> register, in the order of the file.\<close>

definition app_routes :: "(string \<times> string) list" where
  "app_routes = [
    (''GET'', ''/''), (''POST'', ''/gateway/chat''), (''POST'', ''/chat''), (''POST'', ''/chat/sessions''),
    (''GET'', ''/chat/sessions''), (''GET'', ''/chat/sessions/{session_id}''),
    (''DELETE'', ''/chat/sessions/{session_id}''), (''DELETE'', ''/chat/sessions''),
    (''DELETE'', ''/chat/sessions/{session_id}''), (''DELETE'', ''/sessions/{session_id}''),
    (''DELETE'', ''/chat/sessions''), (''DELETE'', ''/sessions''), (''POST'', ''/policies/redact''),
    (''GET'', ''/approvals''), (''GET'', ''/approvals/{approval_id}''),
    (''GET'', ''/approvals/{approval_id}/history''), (''POST'', ''/approve/{approval_id}''),
    (''POST'', ''/reject/{approval_id}''), (''POST'', ''/execute/{approval_id}''),
    (''POST'', ''/test/expire/{approval_id}''), (''GET'', ''/audit/verify''), (''GET'', ''/audit/verify/summary''),
    (''GET'', ''/audit/hash-chain''), (''POST'', ''/v1/chat/completions''), (''GET'', ''/policies''),
    (''POST'', ''/policies/reload''), (''GET'', ''/health''), (''GET'', ''/health/details''),
    (''GET'', ''/health/ready''), (''GET'', ''/trust/public/health''), (''GET'', ''/metrics''),
    (''POST'', ''/observability/pipeline/retry''), (''GET'', ''/platform/summary''),
    (''GET'', ''/platform/tenants''), (''GET'', ''/providers''), (''GET'', ''/providers/{provider_id}''),
    (''GET'', ''/routes''), (''POST'', ''/routes''), (''PUT'', ''/routes/{route_id}''),
    (''DELETE'', ''/routes/{route_id}''), (''GET'', ''/tenants''), (''POST'', ''/tenants''),
    (''PUT'', ''/tenants/{tenant_id}''), (''DELETE'', ''/tenants/{tenant_id}''), (''GET'', ''/policies/list''),
    (''POST'', ''/policies''), (''PUT'', ''/policies/{policy_id}''), (''DELETE'', ''/policies/{policy_id}''),
    (''POST'', ''/policies/simulate''), (''POST'', ''/policies/{policy_id}/simulate''),
    (''POST'', ''/policies/{policy_id}/publish''), (''GET'', ''/policies/{policy_id}/history''),
    (''GET'', ''/policies/{policy_id}/versions''), (''GET'', ''/policies/{policy_id}/approvals''),
    (''POST'', ''/policies/{policy_id}/approve''), (''POST'', ''/policies/{policy_id}/reject''),
    (''POST'', ''/policies/{policy_id}/archive''), (''POST'', ''/policies/{policy_id}/rollback''),
    (''POST'', ''/internal/policy/evaluate''), (''GET'', ''/rag/documents''), (''POST'', ''/rag/documents''),
    (''POST'', ''/documents/upload''), (''POST'', ''/gateway/documents/redact''),
    (''GET'', ''/documents/scans/{scan_id}''), (''POST'', ''/documents/scan''), (''GET'', ''/documents''),
    (''GET'', ''/documents/{id}''), (''GET'', ''/documents/{id}/findings''), (''GET'', ''/documents/{id}/audit''),
    (''POST'', ''/compliance/analyze''), (''POST'', ''/documents/chat''),
    (''GET'', ''/evidence/download/{filename}''), (''DELETE'', ''/rag/documents/{doc_id}''),
    (''GET'', ''/rag/chunks/{doc_id}''), (''POST'', ''/rag/search''), (''GET'', ''/access-control/users''),
    (''POST'', ''/access-control/users''), (''GET'', ''/evidence''), (''POST'', ''/evidence/collect''),
    (''GET'', ''/compliance/controls''), (''GET'', ''/compliance/corpus''), (''GET'', ''/compliance/score-changes''),
    (''GET'', ''/compliance/controls/{control_id}/evidence''), (''GET'', ''/compliance/evidence/export/csv''),
    (''DELETE'', ''/evidence/{id}''), (''GET'', ''/evidence/export/csv''), (''GET'', ''/evidence/export/pdf''),
    (''GET'', ''/audit/export/csv''), (''GET'', ''/audit/export/pdf''), (''GET'', ''/compliance/framework-scores''),
    (''GET'', ''/compliance/framework-explorer''), (''GET'', ''/policy/bundles''),
    (''POST'', ''/policy/bundles/build''), (''POST'', ''/policy/bundles/promote''),
    (''POST'', ''/policy/bundles/rollback''), (''GET'', ''/redteam/history''), (''GET'', ''/redteam/report''),
    (''POST'', ''/redteam/run''), (''GET'', ''/tenant/plan''), (''POST'', ''/tenant/plan/override''),
    (''GET'', ''/audit/export/package''), (''GET'', ''/auditor/package/export''),
    (''POST'', ''/audit/export/verify''), (''GET'', ''/trust/public''), (''GET'', ''/.well-known/jwks.json''),
    (''GET'', ''/auth/jwks''), (''GET'', ''/auth/oidc/providers''), (''GET'', ''/auth/oidc/login''),
    (''GET'', ''/auth/oidc/callback''), (''POST'', ''/auth/oidc/callback''), (''POST'', ''/auth/logout''),
    (''GET'', ''/identity/providers''), (''POST'', ''/identity/providers''),
    (''POST'', ''/identity/providers/{provider_id}/enabled''), (''GET'', ''/security/posture''),
    (''GET'', ''/security/rbac/matrix''), (''GET'', ''/security/tenant-isolation''),
    (''GET'', ''/security/secrets/health''), (''GET'', ''/security/production-readiness''),
    (''POST'', ''/auth/login''), (''POST'', ''/auth/password/reset-request''),
    (''POST'', ''/auth/password/reset-confirm''), (''POST'', ''/auth/verify-otp''),
    (''POST'', ''/auth/mfa/reset-request''), (''POST'', ''/auth/mfa/reset-confirm''), (''POST'', ''/auth/refresh''),
    (''GET'', ''/reports/{type}/{format}''), (''GET'', ''/cloud/connectors/status''),
    (''POST'', ''/cloud/connectors/sync''), (''POST'', ''/auth/register''), (''POST'', ''/auth/verify-email''),
    (''POST'', ''/auth/verify-domain''), (''GET'', ''/analytics/governance''),
    (''GET'', ''/remediation/connectors''), (''POST'', ''/remediation/connectors''),
    (''POST'', ''/remediation/connectors/{connector_id}/test''), (''POST'', ''/remediation/scans''),
    (''GET'', ''/remediation/findings''), (''POST'', ''/remediation/findings/{finding_id}/plan''),
    (''POST'', ''/remediation/plans/{plan_id}/approval''), (''GET'', ''/remediation/workers/{worker_id}''),
    (''POST'', ''/keys/generate''), (''GET'', ''/keys/list''), (''DELETE'', ''/keys/{key_id}''),
    (''POST'', ''/keys/{key_id}/rotate''), (''POST'', ''/providers/connect''), (''GET'', ''/providers/list''),
    (''POST'', ''/providers/{provider}/rotate''), (''POST'', ''/providers/{provider}/test''),
    (''GET'', ''/providers/{provider}/health''), (''DELETE'', ''/providers/{provider}''),
    (''GET'', ''/gateway/requests''), (''GET'', ''/gateway/requests/{request_id}''),
    (''GET'', ''/gateway/approvals''), (''GET'', ''/gateway/approvals/{approval_id}/history'')]"

end
