(* ===== verification/Audit_Calls.thy ===== *)
theory Audit_Calls
  imports Audit_Chain
begin

text \<open>
  The calls of \<open>create_audit_block\<close> that leave most arguments at their defaults, as the services
  outside the gateway make them.
\<close>

definition plain_block :: "string \<Rightarrow> string \<Rightarrow> bool \<Rightarrow> string \<Rightarrow> string \<Rightarrow> string option \<Rightarrow> int option \<Rightarrow> audit_block" where
  "plain_block query response allowed risk status user tenant =
     \<lparr>al_query = Some query, al_response = Some response, al_allowed = allowed, al_risk_level = Some risk,
      al_approval_status = Some status, al_approval_id = None, al_approver = None, al_original_request = None,
      al_approval_timestamp = None, al_execution_timestamp = None, al_execution_status = None, al_policy_name = None,
      al_policy_type = None, al_matched_pattern = None, al_redacted_value = None, al_username = user, al_tenant_id = tenant\<rparr>"

definition audit_call :: "(string \<Rightarrow> string) \<Rightarrow> string \<Rightarrow> audit_block \<Rightarrow> audit_db \<Rightarrow> audit_db" where
  "audit_call sha now block db = snd (create_audit_block sha block ''N/A'' now db)"

lemma audit_call_chain: "chain_inv sha db \<Longrightarrow> chain_inv sha (audit_call sha now b db)"
  by (simp add: audit_call_def chain_inv_create)

end
