(* ===== verification/Rate_Limits.thy ===== *)
theory Rate_Limits
  imports Redaction Policy_Engine Provider_Clients Rbac Audit_Calls
begin

text \<open>
  The rate limiter of \<open>main.py\<close> with its middleware, \<open>services/tenant_plan_service.py\<close> and
  \<open>services/worker_throttle.py\<close>: limits by plan, the window counter in memory or in Redis, the
  stored plan of a tenant and the bound on concurrent workers.

  Redis is a parameter: the answer of one call.  The tables are lists; instants are seconds.
\<close>

section \<open>Configuration\<close>

definition feature_enabled :: "environ \<Rightarrow> string \<Rightarrow> bool \<Rightarrow> bool" where
  "feature_enabled env name dflt = (case env name of None \<Rightarrow> dflt | Some _ \<Rightarrow> is_truthy_flag (env name))"

definition is_production_env :: "environ \<Rightarrow> bool" where
  "is_production_env env = (lower (strip (case env ''AUTHCLAW_ENV'' of None \<Rightarrow> ''development'' | Some v \<Rightarrow> v)) \<in> {''production'', ''prod''})"

definition gateway_runtime_path :: "string \<Rightarrow> bool" where
  "gateway_runtime_path path =
     (let n = (if starts_with ''/api/'' path then drop 4 path else path) in
      n \<in> {''/gateway/chat'', ''/chat'', ''/v1/chat/completions''} \<or> starts_with ''/gateway/documents/'' n)"

section \<open>Tenants and events\<close>

record tenant_row =
  tn_id :: int
  tn_name :: string
  tn_subscription_tier :: "string option"
  tn_plan :: "string option"
  tn_tier :: "string option"
  tn_usage_count :: "int option"
  tn_tokens_used :: "int option"
  tn_plan_override :: "string option"
  tn_plan_updated_at :: "string option"

record rate_event =
  re_tenant_id :: int
  re_key :: string
  re_limit :: int
  re_remaining :: int
  re_backend :: string
  re_allowed :: bool
  re_created_at :: int

definition coalesce :: "'a option \<Rightarrow> 'a option \<Rightarrow> 'a option" where
  "coalesce a b = (case a of Some x \<Rightarrow> Some x | None \<Rightarrow> b)"

definition stored_plan :: "tenant_row \<Rightarrow> string option" where
  "stored_plan t = coalesce (tn_subscription_tier t) (coalesce (tn_plan t) (tn_tier t))"

definition env_rpm :: "environ \<Rightarrow> string \<Rightarrow> int option" where
  "env_rpm env tier =
     (let v = env (''AUTHCLAW_RATE_LIMIT_'' @ upper tier @ ''_RPM'') in
      if truthy_str v then map_option (max 1) (py_int (or_empty v)) else None)"

section \<open>The limiter\<close>

definition default_limits :: "(string \<times> int) list" where
  "default_limits = [(''free'', 30), (''starter'', 60), (''pro'', 300), (''enterprise'', 1200)]"

text \<open>\<open>rows\<close> is the tenants table, absent when the query fails.\<close>

definition tenant_tier_limit :: "environ \<Rightarrow> tenant_row list option \<Rightarrow> int \<Rightarrow> int" where
  "tenant_tier_limit env rows tenant =
     (let configured = lower (strip (case env ''AUTHCLAW_DEFAULT_TENANT_TIER'' of None \<Rightarrow> ''enterprise'' | Some v \<Rightarrow> v));
          stored = (case rows of None \<Rightarrow> None | Some l \<Rightarrow>
            (case find (\<lambda>t. tn_id t = tenant) l of None \<Rightarrow> None | Some t \<Rightarrow> stored_plan t));
          tier = (if truthy_str stored then lower (or_empty stored) else configured)
      in case env_rpm env tier of Some n \<Rightarrow> n | None \<Rightarrow>
           (case map_of default_limits tier of Some n \<Rightarrow> n | None \<Rightarrow> 1200))"

record rate_world =
  rw_memory :: "((int \<times> int) \<times> int) list"
  rw_events :: "rate_event list"
  rw_runs :: nat

definition rate_key :: "int \<Rightarrow> int \<Rightarrow> string" where
  "rate_key tenant w = ''authclaw:rate:'' @ show_int tenant @ '':'' @ show_int w"

definition record_rate_limit_event :: "bool \<Rightarrow> int \<Rightarrow> int \<Rightarrow> string \<Rightarrow> int \<Rightarrow> int \<Rightarrow> string \<Rightarrow> bool \<Rightarrow> rate_world \<Rightarrow> rate_world" where
  "record_rate_limit_event db_ok now tenant key limit remaining backend allowed w =
     (if db_ok
      then w\<lparr>rw_events := rw_events w @ [\<lparr>re_tenant_id = tenant, re_key = key, re_limit = limit, re_remaining = remaining,
               re_backend = backend, re_allowed = allowed, re_created_at = now\<rparr>]\<rparr>
      else w)"

definition count_in_memory :: "int \<Rightarrow> int \<Rightarrow> ((int \<times> int) \<times> int) list \<Rightarrow> int \<times> ((int \<times> int) \<times> int) list" where
  "count_in_memory tenant window m =
     (let n = (case map_of m (tenant, window) of None \<Rightarrow> 0 | Some k \<Rightarrow> k) + 1
      in (n, filter (\<lambda>(k, _). window - 1 \<le> snd k) (dict_set (tenant, window) n m)))"

text \<open>\<open>redis\<close> is absent without a URL; otherwise what \<open>INCR\<close> answered, or the exception.\<close>

definition consume_rate_limit_token :: "environ \<Rightarrow> (exn + int) option \<Rightarrow> bool \<Rightarrow> int \<Rightarrow> int \<Rightarrow> int \<Rightarrow> rate_world
    \<Rightarrow> (exn + bool \<times> int \<times> string) \<times> rate_world" where
  "consume_rate_limit_token env redis db_ok now tenant limit w =
     (let window = now div 60; key = rate_key tenant window;
          memory = (case count_in_memory tenant window (rw_memory w) of (n, m) \<Rightarrow>
            (Inr (n \<le> limit, max 0 (limit - n), ''memory''),
             record_rate_limit_event db_ok now tenant key limit (max 0 (limit - n)) ''memory'' (n \<le> limit) (w\<lparr>rw_memory := m\<rparr>)))
      in case redis of
           None \<Rightarrow> memory
         | Some (Inr n) \<Rightarrow> (Inr (n \<le> limit, max 0 (limit - n), ''redis''),
             record_rate_limit_event db_ok now tenant key limit (max 0 (limit - n)) ''redis'' (n \<le> limit) w)
         | Some (Inl x) \<Rightarrow>
             if is_production_env env \<or> feature_enabled env ''AUTHCLAW_REQUIRE_REDIS_RATE_LIMIT'' False then (Inl x, w) else memory)"

section \<open>The middleware\<close>

record response =
  rs_status :: nat
  rs_body :: jval
  rs_headers :: "(string \<times> string) list"

record gateway_headers =
  gh_gateway :: "string option"
  gh_api_key :: "string option"
  gh_authorization :: "string option"

text \<open>\<open>handler n\<close> is what the rest of the application does with the request the \<open>n\<close>th time it is
  called; an \<open>HTTPException\<close> of \<open>resolve_tenant\<close> carries a status.\<close>

definition call_next :: "(nat \<Rightarrow> exn + response) \<Rightarrow> rate_world \<Rightarrow> (exn + response) \<times> rate_world" where
  "call_next handler w = (handler (rw_runs w), w\<lparr>rw_runs := rw_runs w + 1\<rparr>)"

definition limited_response :: "int \<Rightarrow> int \<Rightarrow> string \<Rightarrow> response" where
  "limited_response limit tenant backend =
     \<lparr>rs_status = 429, rs_body = JObj [(''error'', JStr ''rate_limit_exceeded''), (''limit_rpm'', JInt limit), (''tenant_id'', JInt tenant)],
      rs_headers = [(''X-RateLimit-Limit'', show_int limit), (''X-RateLimit-Remaining'', ''0''), (''X-RateLimit-Backend'', backend)]\<rparr>"

record rate_env =
  rl_env :: environ
  rl_resolve :: "string option \<Rightarrow> string option \<Rightarrow> (http_error + exn) + int"
  rl_tenants :: "tenant_row list option"
  rl_redis :: "(exn + int) option"
  rl_db_ok :: bool
  rl_now :: int

definition limiter_key :: "gateway_headers \<Rightarrow> string option" where
  "limiter_key h = (if truthy_str (gh_authorization h) \<and> starts_with ''Bearer '' (or_empty (gh_authorization h))
     then Some (drop 7 (or_empty (gh_authorization h))) else gh_api_key h)"

definition limited_call :: "rate_env \<Rightarrow> gateway_headers \<Rightarrow> (nat \<Rightarrow> exn + response) \<Rightarrow> rate_world
    \<Rightarrow> ((http_error + exn) + response) \<times> rate_world" where
  "limited_call e h handler w =
     (case rl_resolve e (limiter_key h) (gh_authorization h) of
        Inl x \<Rightarrow> (Inl x, w)
      | Inr tenant \<Rightarrow>
          (let limit = tenant_tier_limit (rl_env e) (rl_tenants e) tenant in
           case consume_rate_limit_token (rl_env e) (rl_redis e) (rl_db_ok e) (rl_now e) tenant limit w of
             (Inl x, w1) \<Rightarrow> (Inl (Inr x), w1)
           | (Inr (allowed, remaining, backend), w1) \<Rightarrow>
               if \<not> allowed then (Inr (limited_response limit tenant backend), w1)
               else (case call_next handler w1 of
                       (Inl x, w2) \<Rightarrow> (Inl (Inr x), w2)
                     | (Inr r, w2) \<Rightarrow> (Inr (r\<lparr>rs_headers := dict_set ''X-RateLimit-Backend'' backend
                          (dict_set ''X-RateLimit-Remaining'' (show_int remaining)
                            (dict_set ''X-RateLimit-Limit'' (show_int limit) (rs_headers r)))\<rparr>), w2))))"

definition gateway_middleware :: "rate_env \<Rightarrow> string \<Rightarrow> gateway_headers \<Rightarrow> (nat \<Rightarrow> exn + response) \<Rightarrow> rate_world
    \<Rightarrow> (exn + response) \<times> rate_world" where
  "gateway_middleware e path h handler w =
     (if \<not> gateway_runtime_path path then call_next handler w
      else if feature_enabled (rl_env e) ''AUTHCLAW_REQUIRE_GO_GATEWAY'' False \<and> gh_gateway h \<noteq> Some ''go''
      then (Inr \<lparr>rs_status = 426, rs_body = JObj [(''error'', JStr ''go_gateway_required''),
              (''message'', JStr ''Route gateway traffic through the AuthClaw Go gateway.'')], rs_headers = []\<rparr>, w)
      else if feature_enabled (rl_env e) ''AUTHCLAW_RATE_LIMIT_ENABLED'' False
      then (case limited_call e h handler w of
              (Inr r, w1) \<Rightarrow> (Inr r, w1)
            | (Inl (Inl (code, detail)), w1) \<Rightarrow> (Inr \<lparr>rs_status = code, rs_body = JObj [(''detail'', JStr detail)], rs_headers = []\<rparr>, w1)
            | (Inl (Inr x), w1) \<Rightarrow> call_next handler w1)
      else call_next handler w)"

section \<open>Plans\<close>

record plan_limits =
  pl_rpm :: int
  pl_monthly :: "int option"
  pl_workers :: int

definition PLAN_LIMITS :: "(string \<times> plan_limits) list" where
  "PLAN_LIMITS =
    [(''free'', \<lparr>pl_rpm = 30, pl_monthly = Some 1000, pl_workers = 1\<rparr>),
     (''starter'', \<lparr>pl_rpm = 60, pl_monthly = Some 10000, pl_workers = 2\<rparr>),
     (''professional'', \<lparr>pl_rpm = 300, pl_monthly = Some 100000, pl_workers = 5\<rparr>),
     (''enterprise'', \<lparr>pl_rpm = 1200, pl_monthly = Some 1000000, pl_workers = 20\<rparr>),
     (''unlimited'', \<lparr>pl_rpm = 1000000, pl_monthly = None, pl_workers = 1000\<rparr>)]"

definition plan_limits_for :: "environ \<Rightarrow> string \<Rightarrow> plan_limits" where
  "plan_limits_for env plan =
     (let limits = (case map_of PLAN_LIMITS plan of Some l \<Rightarrow> l
            | None \<Rightarrow> \<lparr>pl_rpm = 1200, pl_monthly = Some 1000000, pl_workers = 20\<rparr>)
      in case env_rpm env plan of Some n \<Rightarrow> limits\<lparr>pl_rpm := n\<rparr> | None \<Rightarrow> limits)"

text \<open>\<open>literal_eval\<close> is \<open>ast.literal_eval\<close>.\<close>

definition decode_override :: "(string \<Rightarrow> jval option) \<Rightarrow> string option \<Rightarrow> (string \<times> jval) list" where
  "decode_override literal_eval raw =
     (if \<not> truthy_str raw then []
      else case literal_eval (or_empty raw) of Some (JObj d) \<Rightarrow> d | _ \<Rightarrow> [(''raw'', JStr (or_empty raw))])"

record plan_usage =
  pu_requests :: int
  pu_tokens :: int
  pu_blocked :: int
  pu_remaining_quota :: "int option"
  pu_rate_limit :: int
  pu_remaining_window :: int

record plan_view =
  pv_tenant_id :: int
  pv_tenant_name :: string
  pv_current_plan :: string
  pv_supported :: "string list"
  pv_limits :: plan_limits
  pv_usage :: plan_usage
  pv_override :: "(string \<times> jval) list"
  pv_updated_at :: "string option"
  pv_history :: "(int \<times> string \<times> string option) list"

record plan_env =
  pe_env :: environ
  pe_literal_eval :: "string \<Rightarrow> jval option"
  pe_events_ok :: bool
  pe_audit_ok :: bool
  pe_month_start :: int
  pe_now :: string
  pe_sha256 :: "string \<Rightarrow> string"

record plan_db =
  pd_tenants :: "tenant_row list"
  pd_events :: "rate_event list"
  pd_audit :: audit_db

definition int_or_zero :: "int option \<Rightarrow> int" where "int_or_zero x = (case x of None \<Rightarrow> 0 | Some n \<Rightarrow> n)"

definition or_int :: "int \<Rightarrow> int \<Rightarrow> int" where "or_int a b = (if a = 0 then b else a)"

definition month_events :: "plan_env \<Rightarrow> int \<Rightarrow> plan_db \<Rightarrow> rate_event list" where
  "month_events e tenant db =
     (if pe_events_ok e then filter (\<lambda>r. re_tenant_id r = tenant \<and> pe_month_start e \<le> re_created_at r) (pd_events db) else [])"

definition min_of :: "int list \<Rightarrow> int" where "min_of xs = (case xs of [] \<Rightarrow> 0 | x # r \<Rightarrow> fold min r x)"
definition max_of :: "int list \<Rightarrow> int" where "max_of xs = (case xs of [] \<Rightarrow> 0 | x # r \<Rightarrow> fold max r x)"

definition plan_history :: "plan_env \<Rightarrow> int \<Rightarrow> plan_db \<Rightarrow> (int \<times> string \<times> string option) list" where
  "plan_history e tenant db =
     (if pe_audit_ok e
      then map (\<lambda>r. (al_id r, al_created_at r, al_response r))
             (take 20 (rev (sort_key al_id (filter (\<lambda>r. al_tenant_id r = Some tenant \<and> starts_with ''Tenant plan'' (or_empty (al_query r)))
               (logs (pd_audit db))))))
      else [])"

definition plan_name :: "tenant_row \<Rightarrow> string" where
  "plan_name t = (let p = lower (str_or (stored_plan t) ''enterprise'') in
     if p = ''pro'' then ''professional'' else p)"

definition usage_of :: "plan_env \<Rightarrow> tenant_row \<Rightarrow> plan_limits \<Rightarrow> plan_db \<Rightarrow> plan_usage" where
  "usage_of e t limits db =
     (let evs = month_events e (tn_id t) db; used = or_int (int (length evs)) (int_or_zero (tn_usage_count t)) in
      \<lparr>pu_requests = used, pu_tokens = int_or_zero (tn_tokens_used t),
       pu_blocked = int (length (filter (\<lambda>r. \<not> re_allowed r) evs)),
       pu_remaining_quota = map_option (\<lambda>m. max 0 (m - used)) (pl_monthly limits),
       pu_rate_limit = or_int (max_of (map re_limit evs)) (pl_rpm limits),
       pu_remaining_window = or_int (min_of (map re_remaining evs)) (pl_rpm limits)\<rparr>)"

definition get_plan :: "plan_env \<Rightarrow> int \<Rightarrow> plan_db \<Rightarrow> plan_view option" where
  "get_plan e tenant db =
     (case find (\<lambda>t. tn_id t = tenant) (pd_tenants db) of
        None \<Rightarrow> None
      | Some t \<Rightarrow>
          (let plan = plan_name t; limits = plan_limits_for (pe_env e) plan in
           Some \<lparr>pv_tenant_id = tn_id t, pv_tenant_name = tn_name t, pv_current_plan = plan, pv_supported = map fst PLAN_LIMITS,
                 pv_limits = limits, pv_usage = usage_of e t limits db,
                 pv_override = decode_override (pe_literal_eval e) (tn_plan_override t),
                 pv_updated_at = tn_plan_updated_at t, pv_history = plan_history e tenant db\<rparr>))"

definition normalized_plan :: "string \<Rightarrow> string" where
  "normalized_plan plan = (let n = strip (lower plan) in if n = ''pro'' then ''professional'' else n)"

definition update_plan :: "plan_env \<Rightarrow> int \<Rightarrow> string \<Rightarrow> string \<Rightarrow> string \<Rightarrow> plan_db \<Rightarrow> (exn + plan_view option) \<times> plan_db" where
  "update_plan e tenant plan actor reason db =
     (let n = normalized_plan plan in
      if map_of PLAN_LIMITS n = None then (Inl (value_error ''Unsupported tenant plan.''), db)
      else
        let override = py_str (JObj [(''actor'', JStr actor), (''reason'', JStr reason), (''updated_at'', JStr (pe_now e))]);
            change = (\<lambda>t. if tn_id t = tenant then t\<lparr>tn_subscription_tier := Some n, tn_plan := Some n, tn_tier := Some n,
                        tn_plan_override := Some override, tn_plan_updated_at := Some (pe_now e)\<rparr> else t);
            block = plain_block (''Tenant plan override to '' @ n) (''Tenant plan changed to '' @ n @ '' by '' @ actor @ ''.'')
                      True ''MEDIUM'' ''N/A'' (Some actor) (Some tenant);
            db' = db\<lparr>pd_tenants := map change (pd_tenants db), pd_audit := audit_call (pe_sha256 e) (pe_now e) block (pd_audit db)\<rparr>
        in (Inr (get_plan e tenant db'), db'))"

section \<open>Workers\<close>

record worker_slot =
  wk_tenant_id :: int
  wk_status :: string
  wk_expires_at :: int

record throttle_event =
  th_tenant_id :: int
  th_worker_type :: string
  th_key :: string
  th_limit :: int
  th_active :: int
  th_allowed :: bool

text \<open>\<open>int\<close> of a limit that is no number raises.\<close>

definition worker_limit :: "environ \<Rightarrow> string \<Rightarrow> exn + int" where
  "worker_limit env ty =
     (let raw = (case env (''AUTHCLAW_'' @ upper ty @ ''_WORKER_LIMIT'') of Some v \<Rightarrow> v
            | None \<Rightarrow> (case env ''AUTHCLAW_WORKER_LIMIT'' of Some v \<Rightarrow> v | None \<Rightarrow> ''25''))
      in case py_int raw of Some n \<Rightarrow> Inr n | None \<Rightarrow> Inl (value_error ''''))"

definition active_count :: "environ \<Rightarrow> (exn + int) option \<Rightarrow> int \<Rightarrow> int \<Rightarrow> worker_slot list \<Rightarrow> exn + int" where
  "active_count env redis now tenant slots =
     (let stored = int (length (filter (\<lambda>s. wk_tenant_id s = tenant \<and> wk_status s \<in> {''running'', ''queued''} \<and> now < wk_expires_at s) slots))
      in case redis of
           None \<Rightarrow> Inr stored
         | Some (Inr n) \<Rightarrow> Inr n
         | Some (Inl x) \<Rightarrow> if feature_enabled env ''AUTHCLAW_REQUIRE_REDIS_WORKER_THROTTLE'' False then Inl x else Inr stored)"

definition throttle_check :: "environ \<Rightarrow> (exn + int) option \<Rightarrow> bool \<Rightarrow> string \<Rightarrow> int \<Rightarrow> int \<Rightarrow> int \<Rightarrow> worker_slot list
    \<Rightarrow> throttle_event list \<Rightarrow> exn + (bool \<times> int) \<times> throttle_event list" where
  "throttle_check env redis db_ok ty limit now tenant slots evs =
     rbind (active_count env redis now tenant slots) (\<lambda>active.
       Inr ((active < limit, active),
            if db_ok then evs @ [\<lparr>th_tenant_id = tenant, th_worker_type = ty, th_key = ty @ '':'' @ show_int tenant, th_limit = limit,
                                  th_active = active, th_allowed = (active < limit)\<rparr>] else evs))"

definition throttle_enforce :: "environ \<Rightarrow> (exn + int) option \<Rightarrow> bool \<Rightarrow> string \<Rightarrow> int \<Rightarrow> int \<Rightarrow> int \<Rightarrow> worker_slot list
    \<Rightarrow> throttle_event list \<Rightarrow> exn + throttle_event list" where
  "throttle_enforce env redis db_ok ty limit now tenant slots evs =
     rbind (throttle_check env redis db_ok ty limit now tenant slots evs) (\<lambda>((allowed, active), evs').
       if allowed then Inr evs'
       else Inl (runtime_error (ty @ '' worker throttle exceeded: '' @ show_int active @ ''/'' @ show_int limit @ '' active'')))"

section \<open>The window counter\<close>

text \<open>Requests of several tenants, each with its arrival time, under the limits \<open>L\<close>.\<close>

primrec rate_run :: "environ \<Rightarrow> bool \<Rightarrow> (int \<Rightarrow> int) \<Rightarrow> (int \<times> int) list \<Rightarrow> rate_world \<Rightarrow> (int \<times> int \<times> bool) list \<times> rate_world" where
  "rate_run env db_ok L [] w = ([], w)"
| "rate_run env db_ok L (r # rs) w =
     (case consume_rate_limit_token env None db_ok (snd r) (fst r) (L (fst r)) w of
        (q, w1) \<Rightarrow> (case rate_run env db_ok L rs w1 of (out, w2) \<Rightarrow>
          ((fst r, snd r div 60, case q of Inl _ \<Rightarrow> False | Inr (ok, _, _) \<Rightarrow> ok) # out, w2)))"

definition window_count :: "rate_world \<Rightarrow> int \<Rightarrow> int \<Rightarrow> int" where
  "window_count w tenant window = (case map_of (rw_memory w) (tenant, window) of None \<Rightarrow> 0 | Some n \<Rightarrow> n)"

lemma map_of_filter_keys: "map_of (filter (\<lambda>(k, _). P k) m) k = (if P k then map_of m k else None)"
  by (induction m) auto

lemma consume_memory:
  "consume_rate_limit_token env None db_ok now t l w =
     (Inr (window_count w t (now div 60) + 1 \<le> l, max 0 (l - (window_count w t (now div 60) + 1)), ''memory''),
      record_rate_limit_event db_ok now t (rate_key t (now div 60)) l (max 0 (l - (window_count w t (now div 60) + 1))) ''memory''
        (window_count w t (now div 60) + 1 \<le> l) (w\<lparr>rw_memory := snd (count_in_memory t (now div 60) (rw_memory w))\<rparr>))"
  by (simp add: consume_rate_limit_token_def count_in_memory_def window_count_def Let_def)

lemma window_count_consume:
  "window_count (snd (consume_rate_limit_token env None db_ok now t l w)) u v =
     (if v < now div 60 - 1 then 0 else if u = t \<and> v = now div 60 then window_count w u v + 1 else window_count w u v)"
  by (simp add: consume_memory record_rate_limit_event_def window_count_def count_in_memory_def Let_def map_of_filter_keys map_of_dict_set)

definition requested :: "int \<Rightarrow> int \<Rightarrow> (int \<times> int) list \<Rightarrow> nat" where
  "requested t v reqs = length (filter (\<lambda>(u, now). u = t \<and> now div 60 = v) reqs)"

definition admitted :: "int \<Rightarrow> int \<Rightarrow> (int \<times> int \<times> bool) list \<Rightarrow> nat" where
  "admitted t v out = length (filter (\<lambda>(u, x, ok). u = t \<and> x = v \<and> ok) out)"

lemma requested_Cons: "requested t v (r # rs) = (if fst r = t \<and> snd r div 60 = v then 1 else 0) + requested t v rs"
  by (simp add: requested_def case_prod_beta)

lemma admitted_Cons: "admitted t v ((u, x, ok) # out) = (if u = t \<and> x = v \<and> ok then 1 else 0) + admitted t v out"
  by (simp add: admitted_def)

lemma requested_later: "sorted (map snd (r # rs)) \<Longrightarrow> v < snd r div 60 \<Longrightarrow> requested t v rs = 0"
proof -
  assume a: "sorted (map snd (r # rs))" "v < snd r div 60"
  have "\<not> now div 60 = v" if "(u, now) \<in> set rs" for u now
  proof -
    have "snd r \<le> now" using a(1) that by auto
    then show ?thesis using a(2) zdiv_mono1 [of "snd r" now 60] by simp
  qed
  then show ?thesis by (auto simp: requested_def filter_empty_conv)
qed

lemma rate_run_admits:
  assumes "sorted (map snd reqs)" and "0 \<le> window_count w t v"
  shows "int (admitted t v (fst (rate_run env db_ok L reqs w))) = max 0 (min (int (requested t v reqs)) (L t - window_count w t v))"
  using assms
proof (induction reqs arbitrary: w)
  case Nil
  then show ?case by (simp add: admitted_def requested_def)
next
  case (Cons r rs)
  let ?w1 = "snd (consume_rate_limit_token env None db_ok (snd r) (fst r) (L (fst r)) w)"
  let ?out = "fst (rate_run env db_ok L rs ?w1)"
  have c1: "window_count ?w1 t v = (if v < snd r div 60 - 1 then 0
      else if t = fst r \<and> v = snd r div 60 then window_count w t v + 1 else window_count w t v)"
    by (rule window_count_consume)
  then have "0 \<le> window_count ?w1 t v" using Cons.prems(2) by (cases "t = fst r \<and> v = snd r div 60") auto
  then have IH: "int (admitted t v ?out) = max 0 (min (int (requested t v rs)) (L t - window_count ?w1 t v))"
    using Cons.IH Cons.prems(1) by simp
  have head: "fst (rate_run env db_ok L (r # rs) w) = (fst r, snd r div 60, window_count w (fst r) (snd r div 60) + 1 \<le> L (fst r)) # ?out"
    by (simp add: consume_memory split: prod.split)
  show ?case
  proof (cases "t = fst r \<and> v = snd r div 60")
    case True
    then have "int (admitted t v (fst (rate_run env db_ok L (r # rs) w))) =
        (if window_count w t v + 1 \<le> L t then 1 else 0) + max 0 (min (int (requested t v rs)) (L t - (window_count w t v + 1)))"
      using IH unfolding head admitted_Cons c1 by auto
    moreover have "requested t v (r # rs) = 1 + requested t v rs" using True by (simp add: requested_Cons)
    ultimately show ?thesis by (auto simp: min_def max_def)
  next
    case False
    then have r: "admitted t v (fst (rate_run env db_ok L (r # rs) w)) = admitted t v ?out" "requested t v (r # rs) = requested t v rs"
      unfolding head by (auto simp: admitted_Cons requested_Cons)
    show ?thesis
    proof (cases "v < snd r div 60 - 1")
      case True
      then have "requested t v rs = 0" using requested_later [OF Cons.prems(1)] by simp
      then show ?thesis unfolding r IH by simp
    next
      case c: False
      then have "window_count ?w1 t v = window_count w t v" unfolding c1 using False by simp
      then show ?thesis unfolding r IH by simp
    qed
  qed
qed

text \<open>C27: The limiter in memory is exact: of the requests of a tenant that arrive in one minute, in any
  mix with those of others, it admits as many as the limit of the tenant allows, no more and no
  fewer.\<close>

theorem rate_limit_exact:
  assumes "sorted (map snd reqs)" and "rw_memory w = []"
  shows "admitted t v (fst (rate_run env db_ok L reqs w)) = min (requested t v reqs) (nat (L t))"
proof -
  have "0 \<le> window_count w t v" "window_count w t v = 0" using assms(2) by (simp_all add: window_count_def)
  note r = rate_run_admits [OF assms(1) this(1), of env db_ok L, unfolded this(2)]
  have "int k = max 0 (min (int n) (l - 0)) \<Longrightarrow> k = min n (nat l)" for k n :: nat and l by linarith
  then show ?thesis using r by blast
qed

theorem rate_limit_exact_witness:
  "admitted 1 0 (fst (rate_run (\<lambda>_. None) True (\<lambda>_. 2) [(1, 0), (2, 5), (1, 6), (1, 59), (1, 60)]
     \<lparr>rw_memory = [], rw_events = [], rw_runs = 0\<rparr>)) = 2"
  by (subst rate_limit_exact) (simp_all add: requested_def)

section \<open>Failures\<close>

text \<open>Where Redis is required and cannot be reached, requests are not limited: the exception that
  the limiter raises for this case is taken by the middleware, which then passes the request on.\<close>

theorem limiter_fails_open:
  assumes "gateway_runtime_path path" and "\<not> feature_enabled (rl_env e) ''AUTHCLAW_REQUIRE_GO_GATEWAY'' False"
    and "feature_enabled (rl_env e) ''AUTHCLAW_RATE_LIMIT_ENABLED'' False"
    and "feature_enabled (rl_env e) ''AUTHCLAW_REQUIRE_REDIS_RATE_LIMIT'' False \<or> is_production_env (rl_env e)"
    and "rl_redis e = Some (Inl x)" and "rl_resolve e (limiter_key h) (gh_authorization h) = Inr tenant"
  shows "gateway_middleware e path h handler w = call_next handler w"
  using assms by (auto simp: gateway_middleware_def limited_call_def consume_rate_limit_token_def Let_def)


section \<open>Plans and the limiter\<close>

lemma stored_plan_set [simp]: "stored_plan (t\<lparr>tn_subscription_tier := Some n, tn_plan := p, tn_tier := q, tn_plan_override := x, tn_plan_updated_at := y\<rparr>) = Some n"
  by (simp add: stored_plan_def coalesce_def)

lemma find_map_id: "find (\<lambda>t. tn_id t = i) (map (\<lambda>t. if tn_id t = j then f t else t) ts) =
    (if i = j then map_option f (find (\<lambda>t. tn_id t = i) ts) else find (\<lambda>t. tn_id t = i) ts)"
  if "\<And>t. tn_id (f t) = tn_id t" using that by (induction ts) auto

text \<open>The plan that is stored and the limit that is enforced agree for the plans free, starter and
  enterprise only: after a change to professional or unlimited, the plan service reports 300 or
  1000000 requests per minute and the limiter admits 1200.\<close>

theorem plan_and_limiter_disagree:
  assumes "pe_env e = (\<lambda>_. None)" and "n \<in> set (map fst PLAN_LIMITS)" and "update_plan e tenant n actor reason db = (Inr (Some view), db')"
  shows "(pl_rpm (pv_limits view) = tenant_tier_limit (pe_env e) (Some (pd_tenants db')) tenant) = (n \<in> {''free'', ''starter'', ''enterprise''})"
proof -
  have n: "n \<in> {''free'', ''starter'', ''professional'', ''enterprise'', ''unlimited''}" using assms(2) by (simp add: PLAN_LIMITS_def)
  then have norm: "normalized_plan n = n" by (elim insertE emptyE; hypsubst; code_simp)
  have low: "lower n = n" using n by (elim insertE emptyE; hypsubst; code_simp)
  have known: "map_of PLAN_LIMITS n \<noteq> None" using n by (auto simp: PLAN_LIMITS_def)
  let ?f = "\<lambda>t. t\<lparr>tn_subscription_tier := Some n, tn_plan := Some n, tn_tier := Some n,
      tn_plan_override := Some (py_str (JObj [(''actor'', JStr actor), (''reason'', JStr reason), (''updated_at'', JStr (pe_now e))])),
      tn_plan_updated_at := Some (pe_now e)\<rparr>"
  have up: "pd_tenants db' = map (\<lambda>t. if tn_id t = tenant then ?f t else t) (pd_tenants db)" and view: "get_plan e tenant db' = Some view"
    using assms(3) known by (auto simp: update_plan_def norm Let_def)
  then obtain t where t: "find (\<lambda>t. tn_id t = tenant) (pd_tenants db) = Some t"
    by (cases "find (\<lambda>t. tn_id t = tenant) (pd_tenants db)") (auto simp: get_plan_def up find_map_id)
  then have row: "find (\<lambda>t. tn_id t = tenant) (pd_tenants db') = Some (?f t)" by (simp add: up find_map_id)
  have stored: "stored_plan (?f t) = Some n" by (simp add: stored_plan_def coalesce_def)
  have none: "n \<noteq> [] \<and> n \<noteq> ''pro''" using n by auto
  then have name: "plan_name (?f t) = n" by (simp add: plan_name_def stored low str_or_def)
  have "pv_limits view = plan_limits_for (pe_env e) n" using view by (auto simp: get_plan_def row name Let_def)
  moreover have "tenant_tier_limit (pe_env e) (Some (pd_tenants db')) tenant =
      (case map_of default_limits n of Some k \<Rightarrow> k | None \<Rightarrow> 1200)"
    using none by (simp add: tenant_tier_limit_def row stored low assms(1) env_rpm_def truthy_str_def Let_def)
  ultimately show ?thesis using n
    by (auto simp: plan_limits_for_def PLAN_LIMITS_def default_limits_def env_rpm_def assms(1) Let_def)
qed

text \<open>When the tokens of the current minute are used up, the plan view shows the full limit as
  remaining: the smallest remaining count, zero, is taken for a missing value.\<close>

theorem exhausted_window_reported_full:
  assumes "ev \<in> set (month_events e (tn_id t) db)" and "re_remaining ev = 0" and "\<And>r. r \<in> set (month_events e (tn_id t) db) \<Longrightarrow> 0 \<le> re_remaining r"
  shows "pu_remaining_window (usage_of e t limits db) = pl_rpm limits"
proof -
  let ?rs = "map re_remaining (month_events e (tn_id t) db)"
  obtain x xs where rs: "?rs = x # xs" using assms(1) by (cases ?rs) auto
  have mem: "0 \<in> set ?rs" using assms(1,2) by force
  have "min_of ?rs = Min (set ?rs)" unfolding rs using Min.set_eq_fold [of x xs] by (simp add: min_of_def)
  also have "\<dots> = 0" by (rule Min_eqI) (use assms(3) mem in auto)
  finally show ?thesis by (simp add: usage_of_def or_int_def Let_def)
qed


section \<open>The statements on a concrete tenant\<close>

definition demo_tenant :: tenant_row where
  "demo_tenant = \<lparr>tn_id = 3, tn_name = ''acme'', tn_subscription_tier = Some ''free'', tn_plan = None, tn_tier = None,
     tn_usage_count = None, tn_tokens_used = None, tn_plan_override = None, tn_plan_updated_at = None\<rparr>"

definition limiter_on :: environ where
  "limiter_on = (\<lambda>n. if n = ''AUTHCLAW_RATE_LIMIT_ENABLED'' \<or> n = ''AUTHCLAW_REQUIRE_REDIS_RATE_LIMIT'' then Some ''1'' else None)"

definition demo_limiter :: "(exn + int) option \<Rightarrow> rate_env" where
  "demo_limiter redis = \<lparr>rl_env = limiter_on, rl_resolve = (\<lambda>_ _. Inr 3), rl_tenants = Some [demo_tenant], rl_redis = redis,
     rl_db_ok = True, rl_now = 0\<rparr>"

definition demo_headers :: gateway_headers where
  "demo_headers = \<lparr>gh_gateway = None, gh_api_key = Some ''k'', gh_authorization = None\<rparr>"

definition no_requests :: rate_world where "no_requests = \<lparr>rw_memory = [], rw_events = [], rw_runs = 0\<rparr>"

lemma demo_limiter_facts:
  "gateway_runtime_path ''/chat''" "\<not> feature_enabled limiter_on ''AUTHCLAW_REQUIRE_GO_GATEWAY'' False"
  "feature_enabled limiter_on ''AUTHCLAW_RATE_LIMIT_ENABLED'' False" "feature_enabled limiter_on ''AUTHCLAW_REQUIRE_REDIS_RATE_LIMIT'' False"
  "tenant_tier_limit limiter_on (Some [demo_tenant]) 3 = 30"
  by code_simp+

theorem limiter_fails_open_witness:
  "gateway_middleware (demo_limiter (Some (Inl (runtime_error ''redis'')))) ''/chat'' demo_headers (\<lambda>_. Inl (runtime_error ''boom'')) no_requests
   = call_next (\<lambda>_. Inl (runtime_error ''boom'')) no_requests"
  by (rule limiter_fails_open) (simp_all add: demo_limiter_facts demo_limiter_def)


definition demo_plans :: plan_env where
  "demo_plans = \<lparr>pe_env = (\<lambda>_. None), pe_literal_eval = (\<lambda>_. None), pe_events_ok = True, pe_audit_ok = True, pe_month_start = 0,
     pe_now = ''now'', pe_sha256 = const_digest\<rparr>"

definition demo_event :: rate_event where
  "demo_event = \<lparr>re_tenant_id = 3, re_key = rate_key 3 0, re_limit = 30, re_remaining = 0, re_backend = ''memory'', re_allowed = True, re_created_at = 5\<rparr>"

definition demo_plan_db :: plan_db where
  "demo_plan_db = \<lparr>pd_tenants = [demo_tenant], pd_events = [demo_event], pd_audit = empty_audit_db\<rparr>"

theorem plan_and_limiter_disagree_witness:
  "\<exists>view db'. update_plan demo_plans 3 ''professional'' ''root'' '''' demo_plan_db = (Inr (Some view), db') \<and>
     pl_rpm (pv_limits view) \<noteq> tenant_tier_limit (pe_env demo_plans) (Some (pd_tenants db')) 3"
proof -
  have "normalized_plan ''professional'' = ''professional''" by code_simp
  then obtain view db' where u: "update_plan demo_plans 3 ''professional'' ''root'' '''' demo_plan_db = (Inr (Some view), db')"
    by (simp add: update_plan_def PLAN_LIMITS_def Let_def) (simp add: get_plan_def demo_plan_db_def demo_tenant_def Let_def)
  have "pe_env demo_plans = (\<lambda>_. None)" "''professional'' \<in> set (map fst PLAN_LIMITS)" by (simp_all add: demo_plans_def PLAN_LIMITS_def)
  from plan_and_limiter_disagree [OF this u] u show ?thesis by auto
qed

theorem exhausted_window_reported_full_witness:
  "pu_remaining_window (usage_of demo_plans demo_tenant (plan_limits_for (\<lambda>_. None) ''free'') demo_plan_db) = 30"
proof -
  have evs: "month_events demo_plans (tn_id demo_tenant) demo_plan_db = [demo_event]"
    by (simp add: month_events_def demo_plans_def demo_tenant_def demo_plan_db_def demo_event_def)
  have "pu_remaining_window (usage_of demo_plans demo_tenant (plan_limits_for (\<lambda>_. None) ''free'') demo_plan_db)
      = pl_rpm (plan_limits_for (\<lambda>_. None) ''free'')"
    by (rule exhausted_window_reported_full [where ev = demo_event]) (simp_all add: evs, simp_all add: demo_event_def)
  also have "\<dots> = 30" by (simp add: plan_limits_for_def PLAN_LIMITS_def env_rpm_def)
  finally show ?thesis .
qed

end
