(* ===== verification/Approval_Store.thy ===== *)
theory Approval_Store
  imports Audit_Chain
begin

text \<open>
  The approval store of \<open>approval_store.py\<close>: records as mutable objects on a heap, the
  in-memory dictionary \<open>_approvals\<close> from approval ids to objects, and the table
  \<open>gateway_approvals\<close>.  Every \<open>record[k] = v\<close> writes the object and then upserts its whole
  row, a database failure being swallowed (\<open>e_db_up\<close>).

  Instants are integers (microseconds); \<open>e_iso\<close> renders one.  One clock reading and one
  state of the database serve a whole uninterrupted section of a handler.
\<close>

section \<open>Records\<close>

datatype approval_status =
  Pending | Approved | Rejected | Expired | Executing | Executed | Execution_failed

fun status_name :: "approval_status \<Rightarrow> string" where
  "status_name Pending = ''pending''"
| "status_name Approved = ''approved''"
| "status_name Rejected = ''rejected''"
| "status_name Expired = ''expired''"
| "status_name Executing = ''executing''"
| "status_name Executed = ''executed''"
| "status_name Execution_failed = ''execution_failed''"

record approval_note =
  n_action :: string
  n_actor :: string
  n_comment :: "string option"
  n_mfa_verified :: bool
  n_reason :: string
  n_created_at :: int
  n_metadata :: "(string \<times> jval) list"

record approval =
  ap_id :: string
  ap_request_id :: string
  ap_correlation_id :: string
  ap_tenant_id :: "int option"
  ap_status :: approval_status
  ap_created_at :: int
  ap_expires_at :: "int option"
  ap_approved_at :: "int option"
  ap_rejected_at :: "int option"
  ap_executed_at :: "int option"
  ap_requested_action :: string
  ap_query :: string
  ap_risk_level :: string
  ap_audit_id :: "string option"
  ap_reason :: string
  ap_comments :: "approval_note list"
  ap_approved_by :: "string option"
  ap_rejected_by :: "string option"
  ap_executed_by :: "string option"
  ap_mfa_verified :: bool
  ap_approval_mfa_verified :: bool
  ap_execution_mfa_verified :: bool
  ap_approval_mfa_binding_hash :: "string option"
  ap_execution_mfa_binding_hash :: "string option"
  ap_approval_mfa_counter :: "int option"
  ap_execution_mfa_counter :: "int option"
  ap_execution_token_hash :: "string option"
  ap_execution_token_used_at :: "int option"
  ap_execution_expires_at :: "int option"
  ap_last_action_at :: int
  ap_metadata :: "(string \<times> jval) list"

text \<open>A row of \<open>approval_audit_events\<close>.\<close>

record approval_event =
  ev_tenant_id :: "int option"
  ev_approval_id :: string
  ev_request_id :: string
  ev_note :: approval_note

text \<open>The environment of a section: clock, database, configuration, users and the
  functions of other components.\<close>

record user_secret =
  us_id :: int
  us_tenant_id :: int
  us_email :: string
  us_totp_secret :: "string option"

record approval_env =
  e_now :: int
  e_db_up :: bool
  e_sha256 :: "string \<Rightarrow> string"
  e_iso :: "int \<Rightarrow> string"
  e_require_mfa :: bool
  e_expiry_minutes :: int
  e_execution_expiry_minutes :: int
  e_users :: "user_secret list"
  e_tenant_secrets :: "(int \<times> string option) list"
  e_totp_counter :: "string \<Rightarrow> string \<Rightarrow> int \<Rightarrow> int option"

text \<open>Objects are heap indices; \<open>executions\<close> lists the approvals whose action was handed
  to the gateway or to the remediation runtime, in that order.\<close>

record approval_state =
  heap :: "approval list"
  approvals :: "(string \<times> nat) list"
  table :: "(string \<times> approval) list"
  events :: "approval_event list"
  event_log :: "(string \<times> string) list"
  chain :: audit_db
  executions :: "string list"

definition init_state :: approval_state where
  "init_state = \<lparr>heap = [], approvals = [], table = [], events = [], event_log = [],
     chain = empty_audit_db, executions = []\<rparr>"

definition minutes :: "int \<Rightarrow> int" where
  "minutes m = m * 60000000"

section \<open>Writing\<close>

definition upsert :: "approval \<Rightarrow> (string \<times> approval) list \<Rightarrow> (string \<times> approval) list" where
  "upsert r rows =
     (case map_of rows (ap_id r) of
        None \<Rightarrow> rows @ [(ap_id r, r)]
      | Some old \<Rightarrow> dict_set (ap_id r) (r\<lparr>ap_created_at := ap_created_at old\<rparr>) rows)"

definition persist_record :: "approval_env \<Rightarrow> nat \<Rightarrow> approval_state \<Rightarrow> approval_state" where
  "persist_record env x s = (if e_db_up env then s\<lparr>table := upsert (heap s ! x) (table s)\<rparr> else s)"

definition set_item :: "approval_env \<Rightarrow> nat \<Rightarrow> (approval \<Rightarrow> approval) \<Rightarrow> approval_state \<Rightarrow> approval_state" where
  "set_item env x f s = persist_record env x (s\<lparr>heap := (heap s)[x := f (heap s ! x)]\<rparr>)"

definition set_items :: "approval_env \<Rightarrow> nat \<Rightarrow> (approval \<Rightarrow> approval) list \<Rightarrow> approval_state \<Rightarrow> approval_state" where
  "set_items env x fs s = fold (set_item env x) fs s"

definition log_event :: "string \<Rightarrow> approval \<Rightarrow> approval_state \<Rightarrow> approval_state" where
  "log_event name r s = s\<lparr>event_log := event_log s @ [(name, ap_id r)]\<rparr>"

definition append_approval_audit :: "approval_env \<Rightarrow> nat \<Rightarrow> string \<Rightarrow> string \<Rightarrow> string option \<Rightarrow> bool
    \<Rightarrow> (string \<times> jval) list \<Rightarrow> approval_state \<Rightarrow> approval_state" where
  "append_approval_audit env x action actor comment mfa_verified metadata s =
     (let r = heap s ! x;
          note = \<lparr>n_action = action, n_actor = actor, n_comment = comment, n_mfa_verified = mfa_verified,
                  n_reason = ap_reason r, n_created_at = e_now env, n_metadata = metadata\<rparr>;
          s1 = (if truthy_str comment
                then set_item env x (\<lambda>r. r\<lparr>ap_comments := ap_comments r @ [note]\<rparr>) s else s)
      in if e_db_up env
         then s1\<lparr>events := events s1 @ [\<lparr>ev_tenant_id = ap_tenant_id r, ev_approval_id = ap_id r,
                 ev_request_id = ap_request_id r, ev_note = note\<rparr>]\<rparr>
         else s1)"

section \<open>Reading, with lazy expiry\<close>

definition jiso :: "approval_env \<Rightarrow> int option \<Rightarrow> jval" where
  "jiso env t = (case t of None \<Rightarrow> JNull | Some i \<Rightarrow> JStr (e_iso env i))"

definition overdue :: "approval_env \<Rightarrow> int option \<Rightarrow> bool" where
  "overdue env t = (case t of None \<Rightarrow> False | Some e \<Rightarrow> e \<le> e_now env)"

definition check_expiry :: "approval_env \<Rightarrow> nat \<Rightarrow> approval_state \<Rightarrow> approval_state" where
  "check_expiry env x s =
     (let r = heap s ! x in
      if ap_status r = Pending \<and> overdue env (ap_expires_at r)
      then log_event ''approval_expired'' r
             (append_approval_audit env x ''expired'' ''system''
                (Some ''Approval expired before a human decision.'') False
                [(''expires_at'', jiso env (ap_expires_at r))]
                (persist_record env x
                  (set_items env x [\<lambda>r. r\<lparr>ap_status := Expired\<rparr>, \<lambda>r. r\<lparr>ap_last_action_at := e_now env\<rparr>] s)))
      else s)"

definition load_record :: "approval_env \<Rightarrow> string \<Rightarrow> approval_state \<Rightarrow> approval option" where
  "load_record env aid s = (if e_db_up env then map_of (table s) aid else None)"

text \<open>A new object is put at the end of the heap.\<close>

definition alloc :: "approval \<Rightarrow> approval_state \<Rightarrow> approval_state" where
  "alloc r s = s\<lparr>heap := heap s @ [r], approvals := dict_set (ap_id r) (length (heap s)) (approvals s)\<rparr>"

definition get_approval :: "approval_env \<Rightarrow> string \<Rightarrow> approval_state \<Rightarrow> nat option \<times> approval_state" where
  "get_approval env aid s =
     (case map_of (approvals s) aid of
        Some x \<Rightarrow> (Some x, check_expiry env x s)
      | None \<Rightarrow>
          (case load_record env aid s of
             None \<Rightarrow> (None, s)
           | Some r \<Rightarrow> (Some (length (heap s)), check_expiry env (length (heap s)) (alloc r s))))"

text \<open>\<open>_load_all_records\<close> rebuilds the object of every selected row and replaces the
  one the dictionary held.\<close>

definition load_all_records :: "approval_env \<Rightarrow> int option \<Rightarrow> approval_state \<Rightarrow> approval_state" where
  "load_all_records env tenant s =
     (if e_db_up env
      then fold (\<lambda>(aid, r) s. if tenant = None \<or> ap_tenant_id r = tenant then alloc r s else s) (table s) s
      else s)"

definition get_all_approvals :: "approval_env \<Rightarrow> int option \<Rightarrow> approval_state \<Rightarrow> nat list \<times> approval_state" where
  "get_all_approvals env tenant s =
     (let s1 = load_all_records env tenant s;
          xs = filter (\<lambda>x. tenant = None \<or> ap_tenant_id (heap s1 ! x) = tenant) (map snd (approvals s1))
      in (xs, fold (check_expiry env) xs s1))"

definition remaining_seconds :: "approval_env \<Rightarrow> approval \<Rightarrow> int" where
  "remaining_seconds env r =
     (if ap_status r \<noteq> Pending then 0
      else case ap_expires_at r of None \<Rightarrow> 0 | Some e \<Rightarrow> max 0 ((e - e_now env) div 1000000))"

definition get_approval_history :: "approval_env \<Rightarrow> string \<Rightarrow> int option \<Rightarrow> approval_state \<Rightarrow> approval_note list" where
  "get_approval_history env aid tenant s =
     (if e_db_up env
      then map ev_note (sort_key (\<lambda>e. n_created_at (ev_note e))
             (filter (\<lambda>e. ev_approval_id e = aid \<and> (tenant = None \<or> ev_tenant_id e = tenant)) (events s)))
      else [])"

text \<open>The two dictionary views.\<close>

definition view_contains :: "approval_status \<Rightarrow> approval_env \<Rightarrow> string \<Rightarrow> approval_state \<Rightarrow> bool \<times> approval_state" where
  "view_contains st env aid s =
     (case get_approval env aid s of
        (None, s') \<Rightarrow> (False, s')
      | (Some x, s') \<Rightarrow> (ap_status (heap s' ! x) = st, s'))"

section \<open>Creating\<close>

definition new_approval :: "approval_env \<Rightarrow> string \<Rightarrow> string \<Rightarrow> string \<Rightarrow> string \<Rightarrow> string
    \<Rightarrow> int option \<Rightarrow> string option \<Rightarrow> (string \<times> jval) list \<Rightarrow> approval" where
  "new_approval env aid request_id correlation_id query risk_level tenant reason metadata =
     \<lparr>ap_id = aid, ap_request_id = request_id, ap_correlation_id = correlation_id,
      ap_tenant_id = tenant, ap_status = Pending, ap_created_at = e_now env,
      ap_expires_at = Some (e_now env + minutes (e_expiry_minutes env)),
      ap_approved_at = None, ap_rejected_at = None, ap_executed_at = None,
      ap_requested_action = query, ap_query = query, ap_risk_level = risk_level,
      ap_audit_id = None, ap_reason = str_or reason ''high_risk'', ap_comments = [],
      ap_approved_by = None, ap_rejected_by = None, ap_executed_by = None,
      ap_mfa_verified = False, ap_approval_mfa_verified = False, ap_execution_mfa_verified = False,
      ap_approval_mfa_binding_hash = None, ap_execution_mfa_binding_hash = None,
      ap_approval_mfa_counter = None, ap_execution_mfa_counter = None,
      ap_execution_token_hash = None, ap_execution_token_used_at = None,
      ap_execution_expires_at = None, ap_last_action_at = e_now env, ap_metadata = metadata\<rparr>"

text \<open>The three identifiers are the generated (or given) ones.\<close>

definition create_approval :: "approval_env \<Rightarrow> string \<Rightarrow> string \<Rightarrow> string \<Rightarrow> string \<Rightarrow> string
    \<Rightarrow> int option \<Rightarrow> string option \<Rightarrow> (string \<times> jval) list \<Rightarrow> approval_state \<Rightarrow> nat \<times> approval_state" where
  "create_approval env aid request_id correlation_id query risk_level tenant reason metadata s =
     (let r = new_approval env aid request_id correlation_id query risk_level tenant reason metadata;
          x = length (heap s);
          s1 = persist_record env x (alloc r s);
          s2 = append_approval_audit env x ''created'' ''system''
                 (Some (''Approval created for reason: '' @ ap_reason r)) False
                 [(''risk_level'', JStr risk_level), (''expires_at'', jiso env (ap_expires_at r))] s1
      in (x, log_event ''approval_created'' r s2))"

section \<open>Laws of the store\<close>

lemma heap_persist [simp]: "heap (persist_record env x s) = heap s"
  by (simp add: persist_record_def)

lemma approvals_persist [simp]: "approvals (persist_record env x s) = approvals s"
  by (simp add: persist_record_def)

lemma executions_persist [simp]: "executions (persist_record env x s) = executions s"
  by (simp add: persist_record_def)

lemma map_of_upsert:
  "map_of (upsert r rows) = (map_of rows)(ap_id r \<mapsto>
     (case map_of rows (ap_id r) of None \<Rightarrow> r | Some old \<Rightarrow> r\<lparr>ap_created_at := ap_created_at old\<rparr>))"
  by (auto simp: upsert_def map_add_def fun_eq_iff split: option.splits)

lemma set_items_Nil [simp]: "set_items env x [] s = s"
  by (simp add: set_items_def)

lemma heap_set_item [simp]: "heap (set_item env x f s) = (heap s)[x := f (heap s ! x)]"
  by (simp add: set_item_def)

lemma approvals_set_item [simp]: "approvals (set_item env x f s) = approvals s"
  by (simp add: set_item_def)

lemma executions_set_item [simp]: "executions (set_item env x f s) = executions s"
  by (simp add: set_item_def)

lemma length_heap_set_items [simp]: "length (heap (set_items env x fs s)) = length (heap s)"
  by (induction fs arbitrary: s) (simp_all add: set_items_def)

lemma approvals_set_items [simp]: "approvals (set_items env x fs s) = approvals s"
  by (induction fs arbitrary: s) (simp_all add: set_items_def)

lemma executions_set_items [simp]: "executions (set_items env x fs s) = executions s"
  by (induction fs arbitrary: s) (simp_all add: set_items_def)

lemma heap_set_items:
  "x < length (heap s) \<Longrightarrow>
     heap (set_items env x fs s) = (heap s)[x := fold (\<lambda>f r. f r) fs (heap s ! x)]"
  by (induction fs arbitrary: s) (simp_all add: set_items_def)

end
