(* ===== verification/Approval_Flow.thy ===== *)
theory Approval_Flow
  imports Approval_Store
begin

text \<open>
  The human-in-the-loop routes of \<open>main.py\<close> over the approval store: approve, reject,
  execute, list, read and the expiry test hook.  The three asynchronous handlers are cut
  where they await the request body; a started handler waits as a \<open>handler\<close> value that
  holds the record object it looked up, so an interleaving is a list of steps.
\<close>

section \<open>Callers and second factors\<close>

record user_payload =
  up_tenant_id :: "int option"
  up_user_id :: "int option"
  up_sub :: "string option"
  up_email :: "string option"

definition anonymous :: user_payload where
  "anonymous = \<lparr>up_tenant_id = None, up_user_id = None, up_sub = None, up_email = None\<rparr>"

definition approval_actor_from_payload :: "user_payload \<Rightarrow> string" where
  "approval_actor_from_payload u = str_or (up_email u) (str_or (up_sub u) ''System Admin'')"

text \<open>False where \<open>ensure_approval_tenant_access\<close> raises a 404.\<close>

definition approval_tenant_access :: "approval \<Rightarrow> user_payload \<Rightarrow> bool" where
  "approval_tenant_access r u =
     (up_tenant_id u = None \<or> ap_tenant_id r = None \<or> ap_tenant_id r = up_tenant_id u)"

text \<open>False where \<open>_approval_authenticated_payload\<close> raises a 401.\<close>

definition approval_authenticated :: "user_payload \<Rightarrow> bool" where
  "approval_authenticated u = (up_tenant_id u \<noteq> None \<and> up_tenant_id u \<noteq> Some 0)"

definition approval_execution_expiry_minutes :: "approval_env \<Rightarrow> int" where
  "approval_execution_expiry_minutes env = max 1 (e_execution_expiry_minutes env)"

definition jget_default :: "(string \<times> jval) list \<Rightarrow> string \<Rightarrow> jval \<Rightarrow> jval" where
  "jget_default m k d = (case map_of m k of None \<Rightarrow> d | Some v \<Rightarrow> v)"

definition approval_action_payload :: "approval \<Rightarrow> jval" where
  "approval_action_payload r = JObj
     [(''approval_id'', JStr (ap_id r)),
      (''tenant_id'', jint_opt (ap_tenant_id r)),
      (''requested_action'', JStr (ap_requested_action r)),
      (''query'', JStr (ap_query r)),
      (''risk_level'', JStr (ap_risk_level r)),
      (''reason'', JStr (ap_reason r)),
      (''execution_target'', jget_default (ap_metadata r) ''execution_target'' (JStr ''gateway'')),
      (''remediation_plan_id'', jget (ap_metadata r) ''remediation_plan_id''),
      (''finding_id'', jget (ap_metadata r) ''finding_id''),
      (''action_payload'', jget (ap_metadata r) ''action_payload'')]"

definition approval_action_payload_hash :: "(string \<Rightarrow> string) \<Rightarrow> approval \<Rightarrow> string" where
  "approval_action_payload_hash sha256 r = sha256 (canonical_json_bytes (approval_action_payload r))"

datatype mfa_stage = Approval_stage | Execution_stage

fun stage_name :: "mfa_stage \<Rightarrow> string" where
  "stage_name Approval_stage = ''approval''"
| "stage_name Execution_stage = ''execution''"

definition mfa_binding_payload :: "(string \<Rightarrow> string) \<Rightarrow> approval \<Rightarrow> string \<Rightarrow> mfa_stage \<Rightarrow> int \<Rightarrow> jval \<Rightarrow> jval" where
  "mfa_binding_payload sha256 r actor stage counter expiry_at = JObj
     [(''tenant_id'', jint_opt (ap_tenant_id r)),
      (''approver'', JStr actor),
      (''approval_id'', JStr (ap_id r)),
      (''action_payload_hash'', JStr (approval_action_payload_hash sha256 r)),
      (''expiry_window'', expiry_at),
      (''stage'', JStr (stage_name stage)),
      (''totp_counter'', JInt counter)]"

definition approval_mfa_binding_hash ::
  "(string \<Rightarrow> string) \<Rightarrow> approval \<Rightarrow> string \<Rightarrow> mfa_stage \<Rightarrow> int \<Rightarrow> jval \<Rightarrow> string" where
  "approval_mfa_binding_hash sha256 r actor stage counter expiry_at =
     sha256 (canonical_json_bytes (mfa_binding_payload sha256 r actor stage counter expiry_at))"

text \<open>The secret of the user, or else of the tenant; \<open>scalar()\<close> of the first matching row.\<close>

definition user_secret_where :: "(user_secret \<Rightarrow> bool) \<Rightarrow> approval_env \<Rightarrow> string option" where
  "user_secret_where P env = (case find P (e_users env) of None \<Rightarrow> None | Some u \<Rightarrow> us_totp_secret u)"

definition approval_totp_secret :: "approval_env \<Rightarrow> approval \<Rightarrow> user_payload \<Rightarrow> string option" where
  "approval_totp_secret env r u =
     (case ap_tenant_id r of
        None \<Rightarrow> None
      | Some t \<Rightarrow>
          if t = 0 then None
          else
            let by_id = (case up_user_id u of None \<Rightarrow> None
                 | Some i \<Rightarrow> if i = 0 then None
                     else user_secret_where (\<lambda>v. us_id v = i \<and> us_tenant_id v = t) env);
                name = str_or (up_sub u) (or_empty (up_email u));
                by_name = (if name = [] then None
                     else user_secret_where (\<lambda>v. lower (us_email v) = lower name \<and> us_tenant_id v = t) env)
            in if truthy_str by_id then by_id
               else if truthy_str by_name then by_name
               else (case map_of (e_tenant_secrets env) t of None \<Rightarrow> None | Some x \<Rightarrow> x))"

datatype mfa_result =
    Mfa_denied string
  | Mfa_db_error
  | Mfa_not_configured
  | Mfa_ok string int

definition verify_approval_stage_mfa :: "approval_env \<Rightarrow> approval \<Rightarrow> user_payload \<Rightarrow> string option
    \<Rightarrow> mfa_stage \<Rightarrow> jval \<Rightarrow> mfa_result" where
  "verify_approval_stage_mfa env r u mfa_code stage expiry_at =
     (if \<not> truthy_str mfa_code then Mfa_denied ''MFA code is required''
      else if ap_tenant_id r \<noteq> None \<and> ap_tenant_id r \<noteq> Some 0 \<and> \<not> e_db_up env then Mfa_db_error
      else if \<not> truthy_str (approval_totp_secret env r u) then Mfa_not_configured
      else case e_totp_counter env (or_empty (approval_totp_secret env r u)) (or_empty mfa_code) (e_now env) of
             None \<Rightarrow> Mfa_denied ''Invalid MFA code''
           | Some counter \<Rightarrow>
               let prior = (case stage of Approval_stage \<Rightarrow> ap_approval_mfa_counter r
                              | Execution_stage \<Rightarrow> ap_execution_mfa_counter r)
               in if prior = Some counter then Mfa_denied ''Stale MFA code is not allowed''
                  else if stage = Execution_stage \<and> ap_approval_mfa_counter r = Some counter
                  then Mfa_denied ''Fresh execution MFA code is required''
                  else Mfa_ok (approval_mfa_binding_hash (e_sha256 env) r (approval_actor_from_payload u)
                                 stage counter expiry_at) counter)"

definition approval_is_expired :: "approval_env \<Rightarrow> approval \<Rightarrow> bool" where
  "approval_is_expired env r = overdue env (ap_expires_at r)"

section \<open>Requests and replies\<close>

datatype body = No_body | Bad_json | Body "string option" "string option"

datatype reply = Reply int string

datatype handler =
    Approve_run nat user_payload
  | Reject_run nat user_payload
  | Execute_run nat user_payload string

text \<open>\<open>(payload.get("comment") or "").strip() or None\<close>\<close>

definition body_comment :: "body \<Rightarrow> string option" where
  "body_comment b = (case b of Body _ c \<Rightarrow> (if strip (or_empty c) = [] then None else Some (strip (or_empty c)))
     | _ \<Rightarrow> None)"

definition body_mfa_code :: "body \<Rightarrow> string option" where
  "body_mfa_code b = (case b of Body m _ \<Rightarrow> m | _ \<Rightarrow> None)"

text \<open>The audit block of a decision; it raises when the database is down.\<close>

definition decision_block :: "approval_env \<Rightarrow> approval \<Rightarrow> string \<Rightarrow> bool \<Rightarrow> string \<Rightarrow> string
    \<Rightarrow> int option \<Rightarrow> int option \<Rightarrow> audit_block" where
  "decision_block env r response allowed status approver approval_ts execution_ts =
     \<lparr>al_query = Some (ap_query r), al_response = Some response, al_allowed = allowed,
      al_risk_level = Some (ap_risk_level r), al_approval_status = Some status,
      al_approval_id = Some (ap_id r), al_approver = Some approver,
      al_original_request = Some (ap_query r),
      al_approval_timestamp = map_option (e_iso env) approval_ts,
      al_execution_timestamp = map_option (e_iso env) execution_ts,
      al_execution_status = Some status, al_policy_name = None, al_policy_type = None,
      al_matched_pattern = None, al_redacted_value = None, al_username = None,
      al_tenant_id = ap_tenant_id r\<rparr>"

definition audit_decision :: "approval_env \<Rightarrow> approval \<Rightarrow> audit_block \<Rightarrow> reply
    \<Rightarrow> approval_state \<Rightarrow> reply \<times> approval_state" where
  "audit_decision env r a ok s =
     (if e_db_up env
      then (ok, s\<lparr>chain := snd (create_audit_block (e_sha256 env) a (ap_correlation_id r) (e_iso env (e_now env)) (chain s))\<rparr>)
      else (Reply 500 ''Internal Server Error'', s))"

section \<open>Approve\<close>

definition approve_refusal :: "approval_status \<Rightarrow> string option" where
  "approve_refusal st =
     (case st of
        Expired \<Rightarrow> Some ''Approval request has expired''
      | Rejected \<Rightarrow> Some ''Approval request has already been rejected''
      | Executed \<Rightarrow> Some ''Approval request has already been executed''
      | Executing \<Rightarrow> Some ''Approval request is already executing''
      | Execution_failed \<Rightarrow> Some ''Approval execution already failed. Create a new approval to retry.''
      | _ \<Rightarrow> None)"

definition approve_start :: "approval_env \<Rightarrow> string \<Rightarrow> user_payload \<Rightarrow> approval_state
    \<Rightarrow> (reply + handler) \<times> approval_state" where
  "approve_start env aid u s =
     (case get_approval env aid s of
        (None, s1) \<Rightarrow> (Inl (Reply 404 ''Approval ID not found''), s1)
      | (Some x, s1) \<Rightarrow>
          if \<not> approval_authenticated u then (Inl (Reply 401 ''Authorization credentials missing.''), s1)
          else if \<not> approval_tenant_access (heap s1 ! x) u then (Inl (Reply 404 ''Approval ID not found''), s1)
          else (case approve_refusal (ap_status (heap s1 ! x)) of
                  Some detail \<Rightarrow> (Inl (Reply 400 detail), s1)
                | None \<Rightarrow> (Inr (Approve_run x u), s1)))"

text \<open>The assignments that make a record approved.\<close>

definition approved_items :: "approval_env \<Rightarrow> string \<Rightarrow> bool \<Rightarrow> string option \<Rightarrow> int option \<Rightarrow> (approval \<Rightarrow> approval) list" where
  "approved_items env approver mfa binding counter =
     [\<lambda>r. r\<lparr>ap_status := Approved\<rparr>,
      \<lambda>r. r\<lparr>ap_approved_at := Some (e_now env)\<rparr>,
      \<lambda>r. r\<lparr>ap_approved_by := Some approver\<rparr>,
      \<lambda>r. r\<lparr>ap_mfa_verified := mfa\<rparr>,
      \<lambda>r. r\<lparr>ap_approval_mfa_verified := mfa\<rparr>,
      \<lambda>r. r\<lparr>ap_approval_mfa_binding_hash := binding\<rparr>,
      \<lambda>r. r\<lparr>ap_approval_mfa_counter := counter\<rparr>,
      \<lambda>r. r\<lparr>ap_execution_expires_at := Some (e_now env + minutes (approval_execution_expiry_minutes env))\<rparr>,
      \<lambda>r. r\<lparr>ap_last_action_at := e_now env\<rparr>]"

definition approve_record :: "approval_env \<Rightarrow> nat \<Rightarrow> string \<Rightarrow> string option \<Rightarrow> bool \<Rightarrow> string option \<Rightarrow> int option
    \<Rightarrow> approval_state \<Rightarrow> reply \<times> approval_state" where
  "approve_record env x approver comment mfa binding counter s =
     (let s1 = set_items env x (approved_items env approver mfa binding counter) s;
          r1 = heap s1 ! x;
          s2 = append_approval_audit env x ''approved'' approver comment mfa
                 [(''action_payload_hash'', JStr (approval_action_payload_hash (e_sha256 env) r1)),
                  (''mfa_binding_hash'', jopt binding),
                  (''execution_expires_at'', jiso env (ap_execution_expires_at r1))] s1;
          s3 = log_event ''approval_approved'' r1 s2
      in audit_decision env r1
           (decision_block env r1 ''Approval request approved. MFA validation passed.'' True ''approved''
              approver (ap_approved_at r1) None)
           (Reply 200 ''Request Approved'') s3)"

definition approve_finish :: "approval_env \<Rightarrow> nat \<Rightarrow> user_payload \<Rightarrow> body \<Rightarrow> approval_state \<Rightarrow> reply \<times> approval_state" where
  "approve_finish env x u b s =
     (let r = heap s ! x; approver = approval_actor_from_payload u; comment = body_comment b in
      if b = Bad_json then (Reply 400 ''Invalid JSON payload'', s)
      else if e_require_mfa env \<and> b = No_body then (Reply 401 ''MFA code is required'', s)
      else if \<not> e_require_mfa env then approve_record env x approver comment False None None s
      else case verify_approval_stage_mfa env r u (body_mfa_code b) Approval_stage (jiso env (ap_expires_at r)) of
        Mfa_denied detail \<Rightarrow>
          (Reply 401 detail,
           append_approval_audit env x ''approval_mfa_failed'' approver None False [(''error'', JStr detail)]
             (log_event ''approval_mfa_failed'' r s))
      | Mfa_db_error \<Rightarrow> (Reply 500 ''Internal Server Error'', s)
      | Mfa_not_configured \<Rightarrow> (Reply 400 ''MFA_NOT_CONFIGURED'', log_event ''approval_mfa_failed'' r s)
      | Mfa_ok binding counter \<Rightarrow> approve_record env x approver comment True (Some binding) (Some counter) s)"

section \<open>Reject\<close>

definition reject_start :: "approval_env \<Rightarrow> string \<Rightarrow> user_payload \<Rightarrow> approval_state
    \<Rightarrow> (reply + handler) \<times> approval_state" where
  "reject_start env aid u s =
     (case get_approval env aid s of
        (None, s1) \<Rightarrow> (Inl (Reply 404 ''Approval ID not found''), s1)
      | (Some x, s1) \<Rightarrow>
          if \<not> approval_tenant_access (heap s1 ! x) u then (Inl (Reply 404 ''Approval ID not found''), s1)
          else (Inr (Reject_run x u), s1))"

definition reject_refusal :: "approval_status \<Rightarrow> string option" where
  "reject_refusal st =
     (case st of
        Expired \<Rightarrow> Some ''Approval request has expired''
      | Approved \<Rightarrow> Some ''Approval request is already approved''
      | Executed \<Rightarrow> Some ''Approval request is already executed''
      | _ \<Rightarrow> None)"

definition rejected_items :: "approval_env \<Rightarrow> string \<Rightarrow> (approval \<Rightarrow> approval) list" where
  "rejected_items env approver =
     [\<lambda>r. r\<lparr>ap_status := Rejected\<rparr>,
      \<lambda>r. r\<lparr>ap_rejected_at := Some (e_now env)\<rparr>,
      \<lambda>r. r\<lparr>ap_rejected_by := Some approver\<rparr>,
      \<lambda>r. r\<lparr>ap_last_action_at := e_now env\<rparr>]"

definition reject_finish :: "approval_env \<Rightarrow> nat \<Rightarrow> user_payload \<Rightarrow> body \<Rightarrow> approval_state \<Rightarrow> reply \<times> approval_state" where
  "reject_finish env x u b s =
     (let approver = approval_actor_from_payload u in
      if b = Bad_json then (Reply 400 ''Invalid JSON payload'', s)
      else case reject_refusal (ap_status (heap s ! x)) of
        Some detail \<Rightarrow> (Reply 400 detail, s)
      | None \<Rightarrow>
          (let s1 = set_items env x (rejected_items env approver) s;
               r1 = heap s1 ! x;
               s2 = append_approval_audit env x ''rejected'' approver (body_comment b) False
                      [(''reason'', JStr (ap_reason r1))] s1;
               s3 = log_event ''approval_rejected'' r1 s2
           in audit_decision env r1
                (decision_block env r1 ''Approval request explicitly rejected.'' False ''rejected''
                   approver None (ap_rejected_at r1))
                (Reply 200 ''Request Rejected'') s3))"

section \<open>Execute\<close>

datatype exec_outcome =
    Exec_result "string option" "string option" string string
  | Exec_config_error
  | Exec_unavailable string
  | Exec_exception string

definition execute_start :: "approval_env \<Rightarrow> string \<Rightarrow> user_payload \<Rightarrow> approval_state
    \<Rightarrow> (reply + handler) \<times> approval_state" where
  "execute_start env aid u s =
     (case get_approval env aid s of
        (None, s1) \<Rightarrow> (Inl (Reply 404 ''Request not approved''), s1)
      | (Some x, s1) \<Rightarrow>
          if \<not> approval_authenticated u then (Inl (Reply 401 ''Authorization credentials missing.''), s1)
          else if \<not> approval_tenant_access (heap s1 ! x) u then (Inl (Reply 404 ''Approval ID not found''), s1)
          else (Inr (Execute_run x u aid), s1))"

text \<open>The conditional update that is to let one execution through: it succeeds only on a
  row that is approved and whose token is unused.\<close>

definition lock_execution :: "approval_env \<Rightarrow> string \<Rightarrow> string \<Rightarrow> string \<Rightarrow> string \<Rightarrow> int
    \<Rightarrow> approval_state \<Rightarrow> approval_state option" where
  "lock_execution env aid actor token binding counter s =
     (case map_of (table s) aid of
        None \<Rightarrow> None
      | Some row \<Rightarrow>
          if ap_status row = Approved \<and> ap_execution_token_used_at row = None
          then Some (s\<lparr>table := dict_set aid
                 (row\<lparr>ap_status := Executing, ap_execution_token_hash := Some token,
                      ap_execution_token_used_at := Some (e_now env), ap_execution_mfa_verified := True,
                      ap_execution_mfa_binding_hash := Some binding, ap_execution_mfa_counter := Some counter,
                      ap_executed_by := Some actor, ap_last_action_at := e_now env\<rparr>) (table s)\<rparr>)
          else None)"

definition executing_items :: "approval_env \<Rightarrow> string \<Rightarrow> string \<Rightarrow> string \<Rightarrow> int \<Rightarrow> (approval \<Rightarrow> approval) list" where
  "executing_items env approver token binding counter =
     [\<lambda>r. r\<lparr>ap_status := Executing\<rparr>,
      \<lambda>r. r\<lparr>ap_executed_by := Some approver\<rparr>,
      \<lambda>r. r\<lparr>ap_execution_mfa_verified := True\<rparr>,
      \<lambda>r. r\<lparr>ap_execution_mfa_binding_hash := Some binding\<rparr>,
      \<lambda>r. r\<lparr>ap_execution_mfa_counter := Some counter\<rparr>,
      \<lambda>r. r\<lparr>ap_execution_token_hash := Some token\<rparr>,
      \<lambda>r. r\<lparr>ap_execution_token_used_at := Some (e_now env)\<rparr>,
      \<lambda>r. r\<lparr>ap_last_action_at := e_now env\<rparr>]"

definition status_items :: "approval_env \<Rightarrow> approval_status \<Rightarrow> (approval \<Rightarrow> approval) list" where
  "status_items env st = [\<lambda>r. r\<lparr>ap_status := st\<rparr>, \<lambda>r. r\<lparr>ap_last_action_at := e_now env\<rparr>]"

definition executed_items :: "approval_env \<Rightarrow> (approval \<Rightarrow> approval) list" where
  "executed_items env =
     [\<lambda>r. r\<lparr>ap_status := Executed\<rparr>, \<lambda>r. r\<lparr>ap_executed_at := Some (e_now env)\<rparr>,
      \<lambda>r. r\<lparr>ap_last_action_at := e_now env\<rparr>]"

text \<open>The call of the gateway (or of the remediation runtime) and what follows each outcome.\<close>

definition execution_failed :: "approval_env \<Rightarrow> nat \<Rightarrow> string \<Rightarrow> (string \<times> jval) list \<Rightarrow> approval_state \<Rightarrow> approval_state" where
  "execution_failed env x approver metadata s =
     append_approval_audit env x ''execution_failed'' approver None False metadata
       (set_items env x (status_items env Execution_failed) s)"

definition run_execution :: "approval_env \<Rightarrow> nat \<Rightarrow> string \<Rightarrow> string option \<Rightarrow> string \<Rightarrow> exec_outcome
    \<Rightarrow> approval_state \<Rightarrow> reply \<times> approval_state" where
  "run_execution env x approver comment binding outcome s0 =
     (let s = s0\<lparr>executions := executions s0 @ [ap_id (heap s0 ! x)]\<rparr> in
      case outcome of
        Exec_config_error \<Rightarrow>
          (Reply 500 ''provider_not_configured'',
           execution_failed env x approver [(''error'', JStr ''provider_not_configured'')] s)
      | Exec_unavailable rid \<Rightarrow>
          (Reply 503 ''provider_unavailable'',
           execution_failed env x approver [(''error'', JStr ''provider_unavailable''), (''request_id'', JStr rid)] s)
      | Exec_exception e \<Rightarrow>
          (Reply 500 ''Internal Server Error'', execution_failed env x approver [(''error'', JStr e)] s)
      | Exec_result response rid provider model \<Rightarrow>
          (let s1 = set_items env x (executed_items env) s;
               s2 = append_approval_audit env x ''executed'' approver comment True
                      [(''execution_request_id'', jopt rid), (''provider'', JStr provider), (''model'', JStr model),
                       (''execution_mfa_binding_hash'', JStr binding)] s1;
               r2 = heap s2 ! x;
               s3 = log_event ''approval_executed'' r2 s2
           in audit_decision env r2
                (decision_block env r2 (case response of None \<Rightarrow> ''No response generated'' | Some t \<Rightarrow> t)
                   True ''executed'' approver (ap_approved_at r2) (ap_executed_at r2))
                (Reply 200 ''Executed Successfully'') s3))"

definition execute_finish :: "approval_env \<Rightarrow> nat \<Rightarrow> user_payload \<Rightarrow> string \<Rightarrow> body \<Rightarrow> string \<Rightarrow> exec_outcome
    \<Rightarrow> approval_state \<Rightarrow> reply \<times> approval_state" where
  "execute_finish env x u aid b token outcome s =
     (let r = heap s ! x; approver = approval_actor_from_payload u; comment = body_comment b in
      if b = Bad_json then (Reply 400 ''Invalid JSON payload'', s)
      else if ap_status r \<noteq> Approved then
        (Reply 400 (''Request not approved. Status is '' @ [CHR 0x27] @ status_name (ap_status r) @ [CHR 0x27, CHR ''.'']),
         if ap_status r \<in> {Executing, Executed, Execution_failed}
         then append_approval_audit env x ''replay_rejected'' approver None False
                [(''status'', JStr (status_name (ap_status r)))] s
         else s)
      else if truthy_str (ap_approved_by r) \<and> ap_approved_by r \<noteq> Some approver then
        (Reply 403 ''Approval execution is bound to the approving actor.'',
         append_approval_audit env x ''transfer_rejected'' approver None False
           [(''approved_by'', jopt (ap_approved_by r))] s)
      else if approval_is_expired env r then
        (Reply 400 ''Approval request has expired'',
         append_approval_audit env x ''expired'' ''system'' (Some ''Approval expired before execution.'') False
           [(''expires_at'', jiso env (ap_expires_at r))] (set_items env x (status_items env Expired) s))
      else if overdue env (ap_execution_expires_at r) then
        (Reply 400 ''Approval execution window has expired'',
         append_approval_audit env x ''expired'' ''system'' (Some ''Approval execution window expired.'') False
           [(''execution_expires_at'', jiso env (ap_execution_expires_at r))]
           (set_items env x (status_items env Expired) s))
      else if b = No_body then (Reply 401 ''MFA code is required'', s)
      else case verify_approval_stage_mfa env r u (body_mfa_code b) Execution_stage
                  (jiso env (if ap_execution_expires_at r = None then ap_expires_at r else ap_execution_expires_at r)) of
        Mfa_denied detail \<Rightarrow>
          (Reply 401 detail,
           log_event ''execution_mfa_failed'' r
             (append_approval_audit env x ''execution_mfa_failed'' approver None False [(''error'', JStr detail)] s))
      | Mfa_db_error \<Rightarrow> (Reply 500 ''Internal Server Error'', s)
      | Mfa_not_configured \<Rightarrow>
          (Reply 400 ''MFA_NOT_CONFIGURED'',
           append_approval_audit env x ''execution_mfa_failed'' approver None False
             [(''error'', JStr ''MFA_NOT_CONFIGURED'')] s)
      | Mfa_ok binding counter \<Rightarrow>
          if \<not> e_db_up env then (Reply 500 ''Internal Server Error'', s)
          else (case lock_execution env aid approver token binding counter s of
                  None \<Rightarrow>
                    (Reply 400 ''Approval execution token already used.'',
                     append_approval_audit env x ''replay_rejected'' approver None False
                       [(''reason'', JStr ''single_use_token_already_consumed'')] s)
                | Some s1 \<Rightarrow>
                    (let s2 = set_items env x (executing_items env approver token binding counter) s1;
                         s3 = append_approval_audit env x ''executing'' approver comment True
                                [(''action_payload_hash'', JStr (approval_action_payload_hash (e_sha256 env) (heap s2 ! x))),
                                 (''mfa_binding_hash'', JStr binding)] s2
                     in run_execution env x approver comment binding outcome s3)))"

section \<open>The other routes\<close>

definition test_expire_approval :: "approval_env \<Rightarrow> string \<Rightarrow> approval_state \<Rightarrow> reply \<times> approval_state" where
  "test_expire_approval env aid s =
     (case get_approval env aid s of
        (None, s1) \<Rightarrow> (Reply 404 ''Approval ID not found'', s1)
      | (Some x, s1) \<Rightarrow>
          (Reply 200 ''Approval simulated to expire'',
           set_items env x [\<lambda>r. r\<lparr>ap_expires_at := Some (e_now env - minutes 5)\<rparr>, \<lambda>r. r\<lparr>ap_status := Pending\<rparr>] s1))"

record approval_view =
  av_record :: approval
  av_remaining_seconds :: int
  av_history :: "approval_note list"

definition approval_response_record :: "approval_env \<Rightarrow> int option \<Rightarrow> approval_state \<Rightarrow> approval \<Rightarrow> approval_view" where
  "approval_response_record env tenant s r =
     \<lparr>av_record = r, av_remaining_seconds = remaining_seconds env r,
      av_history = get_approval_history env (ap_id r) tenant s\<rparr>"

text \<open>\<open>GET /approvals\<close>: without a token the caller sees the approvals of every tenant.\<close>

definition get_approvals_list :: "approval_env \<Rightarrow> user_payload option \<Rightarrow> approval_state
    \<Rightarrow> approval_view list \<times> approval_state" where
  "get_approvals_list env u s =
     (let tenant = (case u of None \<Rightarrow> None | Some p \<Rightarrow> up_tenant_id p)
      in case get_all_approvals env tenant s of
           (xs, s1) \<Rightarrow> (map (\<lambda>x. approval_response_record env tenant s1 (heap s1 ! x)) xs, s1))"

definition get_approval_by_id :: "approval_env \<Rightarrow> string \<Rightarrow> user_payload option \<Rightarrow> approval_state
    \<Rightarrow> (reply + approval_view) \<times> approval_state" where
  "get_approval_by_id env aid u s =
     (case get_approval env aid s of
        (None, s1) \<Rightarrow> (Inl (Reply 404 ''Approval ID not found''), s1)
      | (Some x, s1) \<Rightarrow>
          (case u of
             None \<Rightarrow> (Inr (approval_response_record env None s1 (heap s1 ! x)), s1)
           | Some p \<Rightarrow>
               if approval_tenant_access (heap s1 ! x) p
               then (Inr (approval_response_record env (up_tenant_id p) s1 (heap s1 ! x)), s1)
               else (Inl (Reply 404 ''Approval ID not found''), s1)))"

section \<open>Interleavings\<close>

datatype step =
    Create approval_env string string string string string "int option" "string option" "(string \<times> jval) list"
  | Read approval_env string
  | List_all approval_env "user_payload option"
  | Start_approve approval_env string user_payload
  | Start_reject approval_env string user_payload
  | Start_execute approval_env string user_payload
  | Finish approval_env nat body string exec_outcome
  | Test_expire approval_env string

record system =
  store :: approval_state
  running :: "handler option list"
  replies :: "reply list"

definition init_system :: system where
  "init_system = \<lparr>store = init_state, running = [], replies = []\<rparr>"

definition started :: "(reply + handler) \<times> approval_state \<Rightarrow> system \<Rightarrow> system" where
  "started res c =
     (case res of
        (Inl r, s) \<Rightarrow> c\<lparr>store := s, replies := replies c @ [r]\<rparr>
      | (Inr h, s) \<Rightarrow> c\<lparr>store := s, running := running c @ [Some h]\<rparr>)"

definition finish :: "approval_env \<Rightarrow> handler \<Rightarrow> body \<Rightarrow> string \<Rightarrow> exec_outcome \<Rightarrow> approval_state \<Rightarrow> reply \<times> approval_state" where
  "finish env h b token outcome s =
     (case h of
        Approve_run x u \<Rightarrow> approve_finish env x u b s
      | Reject_run x u \<Rightarrow> reject_finish env x u b s
      | Execute_run x u aid \<Rightarrow> execute_finish env x u aid b token outcome s)"

definition finished :: "nat \<Rightarrow> reply \<times> approval_state \<Rightarrow> system \<Rightarrow> system" where
  "finished k res c = (case res of (r, s) \<Rightarrow>
     c\<lparr>store := s, running := (running c)[k := None], replies := replies c @ [r]\<rparr>)"

fun apply_step :: "step \<Rightarrow> system \<Rightarrow> system" where
  "apply_step (Create env aid rid cid query risk tenant reason meta) c =
     c\<lparr>store := snd (create_approval env aid rid cid query risk tenant reason meta (store c))\<rparr>"
| "apply_step (Read env aid) c = c\<lparr>store := snd (get_approval env aid (store c))\<rparr>"
| "apply_step (List_all env u) c = c\<lparr>store := snd (get_approvals_list env u (store c))\<rparr>"
| "apply_step (Start_approve env aid u) c = started (approve_start env aid u (store c)) c"
| "apply_step (Start_reject env aid u) c = started (reject_start env aid u (store c)) c"
| "apply_step (Start_execute env aid u) c = started (execute_start env aid u (store c)) c"
| "apply_step (Finish env k b token outcome) c =
     (if k < length (running c)
      then (case running c ! k of
              None \<Rightarrow> c
            | Some h \<Rightarrow> finished k (finish env h b token outcome (store c)) c)
      else c)"
| "apply_step (Test_expire env aid) c =
     (case test_expire_approval env aid (store c) of
        (r, s) \<Rightarrow> c\<lparr>store := s, replies := replies c @ [r]\<rparr>)"

definition run_steps :: "step list \<Rightarrow> system \<Rightarrow> system" where
  "run_steps ss c = fold apply_step ss c"

end
