(* ===== verification/Approval_Spec.thy ===== *)
theory Approval_Spec
  imports Approval_Flow
begin

text \<open>
  An abstract step relation for the approval store and the proof that every section of every
  handler is a sequence of its steps.  Invariants of the store are then proved once per
  abstract step, by rule induction.
\<close>

section \<open>The effect of a group of assignments\<close>

definition items :: "(approval \<Rightarrow> approval) list \<Rightarrow> approval \<Rightarrow> approval" where
  "items fs r = fold (\<lambda>f r. f r) fs r"

lemma items_simps [simp]: "items [] r = r" "items (f # fs) r = items fs (f r)"
  by (simp_all add: items_def)

definition keeps_key :: "(approval \<Rightarrow> approval) \<Rightarrow> bool" where
  "keeps_key f = (\<forall>r. ap_id (f r) = ap_id r \<and> ap_created_at (f r) = ap_created_at r
     \<and> ap_tenant_id (f r) = ap_tenant_id r)"

lemma items_keep_key:
  "list_all keeps_key fs \<Longrightarrow> ap_id (items fs r) = ap_id r \<and> ap_created_at (items fs r) = ap_created_at r
     \<and> ap_tenant_id (items fs r) = ap_tenant_id r"
  by (induction fs arbitrary: r) (simp_all add: keeps_key_def)

lemma heap_items: "x < length (heap s) \<Longrightarrow> heap (set_items env x fs s) = (heap s)[x := items fs (heap s ! x)]"
  by (simp add: heap_set_items items_def)

definition merged :: "approval \<Rightarrow> approval option \<Rightarrow> approval" where
  "merged r old = (case old of None \<Rightarrow> r | Some q \<Rightarrow> r\<lparr>ap_created_at := ap_created_at q\<rparr>)"

lemma merged_simps [simp]:
  "ap_id (merged r old) = ap_id r" "ap_status (merged r old) = ap_status r"
  "ap_execution_token_used_at (merged r old) = ap_execution_token_used_at r"
  by (simp_all add: merged_def split: option.splits)

lemma map_of_upsert': "map_of (upsert r rows) = (map_of rows)(ap_id r \<mapsto> merged r (map_of rows (ap_id r)))"
  by (simp add: map_of_upsert merged_def)

lemma table_set_item:
  "x < length (heap s) \<Longrightarrow> map_of (table (set_item env x f s)) =
     (if e_db_up env then (map_of (table s))(ap_id (f (heap s ! x)) \<mapsto>
        merged (f (heap s ! x)) (map_of (table s) (ap_id (f (heap s ! x))))) else map_of (table s))"
  by (simp add: set_item_def persist_record_def map_of_upsert')

lemma merged_merged: "ap_created_at q = ap_created_at r \<Longrightarrow> merged r (Some (merged q old)) = merged r old"
  by (cases old) (simp_all add: merged_def)

lemma table_set_items:
  assumes "x < length (heap s)" "list_all keeps_key fs" "fs \<noteq> []"
  shows "map_of (table (set_items env x fs s)) =
     (if e_db_up env then (map_of (table s))(ap_id (heap s ! x) \<mapsto>
        merged (items fs (heap s ! x)) (map_of (table s) (ap_id (heap s ! x)))) else map_of (table s))"
  using assms
proof (induction fs arbitrary: s)
  case (Cons f fs)
  have f: "ap_id (f r) = ap_id r" "ap_created_at (f r) = ap_created_at r" for r
    using Cons.prems(2) by (simp_all add: keeps_key_def)
  let ?s = "set_item env x f s"
  have step: "set_items env x (f # fs) s = set_items env x fs ?s" by (simp add: set_items_def)
  show ?case
  proof (cases "fs = []")
    case True
    then show ?thesis using Cons.prems by (simp add: set_items_def table_set_item f)
  next
    case False
    then show ?thesis using Cons.IH[of ?s] Cons.prems
        items_keep_key[of fs "f (heap s ! x)"]
      by (auto simp: step table_set_item f merged_merged)
  qed
qed simp

lemma dict_set_same: "map_of m k = Some v \<Longrightarrow> dict_set k v m = m"
  by (induction m) (auto split: if_splits)

lemma dict_set_twice: "dict_set k v (dict_set k v' m) = dict_set k v m"
  by (induction m) auto

lemma dict_set_snoc: "map_of m k = None \<Longrightarrow> dict_set k v (m @ [(k, v')]) = m @ [(k, v)]"
  by (induction m) (auto split: if_splits)

lemma upsert_upsert: "upsert r (upsert r rows) = upsert r rows"
proof (cases "map_of rows (ap_id r)")
  case None
  then have "map_of (rows @ [(ap_id r, r)]) (ap_id r) = Some r" by (simp add: map_add_def)
  then show ?thesis using None by (simp add: upsert_def dict_set_snoc)
next
  case (Some old)
  then show ?thesis by (simp add: upsert_def dict_set_twice)
qed

text \<open>A persist after an assignment changes nothing more.\<close>

lemma persist_set_item: "x < length (heap s) \<Longrightarrow> persist_record env x (set_item env x f s) = set_item env x f s"
  by (simp add: set_item_def persist_record_def upsert_upsert)

lemma persist_set_items:
  "x < length (heap s) \<Longrightarrow> fs \<noteq> [] \<Longrightarrow> persist_record env x (set_items env x fs s) = set_items env x fs s"
proof (induction fs rule: rev_induct)
  case (snoc f fs)
  have "set_items env x (fs @ [f]) s = set_item env x f (set_items env x fs s)" by (simp add: set_items_def)
  then show ?case using snoc.prems by (simp add: persist_set_item)
qed simp

section \<open>Abstract steps\<close>

definition test_items :: "approval_env \<Rightarrow> (approval \<Rightarrow> approval) list" where
  "test_items env = [\<lambda>r. r\<lparr>ap_expires_at := Some (e_now env - minutes 5)\<rparr>, \<lambda>r. r\<lparr>ap_status := Pending\<rparr>]"

text \<open>What approval writes: with a second factor, its binding hash and its counter, which is
  not the one used for the previous approval.\<close>

definition approval_factor :: "approval_env \<Rightarrow> approval \<Rightarrow> bool \<Rightarrow> string option \<Rightarrow> int option \<Rightarrow> bool" where
  "approval_factor env r mfa binding counter =
     (if e_require_mfa env
      then mfa \<and> binding \<noteq> None \<and> counter \<noteq> None \<and> counter \<noteq> ap_approval_mfa_counter r
      else \<not> mfa \<and> binding = None \<and> counter = None)"

text \<open>The conditions under which an action is executed.\<close>

definition execution_guard :: "approval_env \<Rightarrow> approval \<Rightarrow> string \<Rightarrow> int \<Rightarrow> bool" where
  "execution_guard env r approver counter =
     (ap_status r = Approved
      \<and> (truthy_str (ap_approved_by r) \<longrightarrow> ap_approved_by r = Some approver)
      \<and> \<not> overdue env (ap_expires_at r) \<and> \<not> overdue env (ap_execution_expires_at r)
      \<and> ap_approval_mfa_counter r \<noteq> Some counter \<and> ap_execution_mfa_counter r \<noteq> Some counter)"

inductive legal_write :: "approval_env \<Rightarrow> approval \<Rightarrow> (approval \<Rightarrow> approval) list \<Rightarrow> bool" where
  expire_pending: "ap_status r = Pending \<Longrightarrow> overdue env (ap_expires_at r) \<Longrightarrow>
     legal_write env r (status_items env Expired)"
| expire_approved: "ap_status r = Approved \<Longrightarrow> overdue env (ap_expires_at r) \<or> overdue env (ap_execution_expires_at r) \<Longrightarrow>
     legal_write env r (status_items env Expired)"
| approve: "approval_factor env r mfa binding counter \<Longrightarrow>
     legal_write env r (approved_items env approver mfa binding counter)"
| reject: "ap_status r \<notin> {Expired, Approved, Executed} \<Longrightarrow> legal_write env r (rejected_items env approver)"
| test_expire: "legal_write env r (test_items env)"

definition record_execution :: "nat \<Rightarrow> approval_state \<Rightarrow> approval_state" where
  "record_execution x s = s\<lparr>executions := executions s @ [ap_id (heap s ! x)]\<rparr>"

inductive prim :: "bool \<Rightarrow> approval_env \<Rightarrow> approval_state \<Rightarrow> approval_state \<Rightarrow> bool" where
  p_create: "map_of (approvals s) aid = None \<Longrightarrow> map_of (table s) aid = None \<Longrightarrow>
     prim reload env s (persist_record env (length (heap s))
       (alloc (new_approval env aid rid cid query risk tenant reason metadata) s))"
| p_load: "reload \<or> map_of (approvals s) aid = None \<Longrightarrow> map_of (table s) aid = Some r \<Longrightarrow>
     prim reload env s (alloc r s)"
| p_write: "x < length (heap s) \<Longrightarrow> legal_write env (heap s ! x) fs \<Longrightarrow> prim reload env s (set_items env x fs s)"
| p_note: "x < length (heap s) \<Longrightarrow>
     prim reload env s (append_approval_audit env x action actor comment mfa metadata s)"
| p_frame: "heap s' = heap s \<Longrightarrow> approvals s' = approvals s \<Longrightarrow> table s' = table s \<Longrightarrow> executions s' = executions s \<Longrightarrow>
     prim reload env s s'"
| p_execute: "x < length (heap s) \<Longrightarrow> execution_guard env (heap s ! x) approver counter \<Longrightarrow>
     aid = ap_id (heap s ! x) \<Longrightarrow>
     lock_execution env aid approver token binding counter s = Some s1 \<Longrightarrow> e_db_up env \<Longrightarrow>
     fin \<in> {executed_items env, status_items env Execution_failed} \<Longrightarrow>
     prim reload env s (set_items env x fin (record_execution x
       (append_approval_audit env x ''executing'' approver comment True metadata
         (set_items env x (executing_items env approver token binding counter) s1))))"

inductive prims :: "bool \<Rightarrow> approval_env \<Rightarrow> approval_state \<Rightarrow> approval_state \<Rightarrow> bool" where
  prims_refl: "prims reload env s s"
| prims_step: "prims reload env s t \<Longrightarrow> prim reload env t u \<Longrightarrow> prims reload env s u"

lemma prims_trans: "prims reload env t u \<Longrightarrow> prims reload env s t \<Longrightarrow> prims reload env s u"
  by (induction rule: prims.induct) (auto intro: prims_step)

lemma prims_prim: "prim reload env s t \<Longrightarrow> prims reload env s t"
  by (rule prims_step[OF prims_refl])

lemma prim_reload: "prim False env s t \<Longrightarrow> prim r env s t"
proof (induction "False" env s t rule: prim.induct)
  case (p_create s aid env rid cid query risk tenant reason metadata)
  then show ?case by (rule prim.p_create)
next
  case (p_execute x s env approver counter aid token binding s1 fin comment metadata)
  then show ?case by (intro prim.p_execute) simp_all
qed (auto intro: prim.p_load prim.p_write prim.p_note prim.p_frame)

lemma keeps_key_items [simp]:
  "list_all keeps_key (status_items env st)" "list_all keeps_key (approved_items env ap m b c)"
  "list_all keeps_key (rejected_items env ap)" "list_all keeps_key (executing_items env ap tk bh k)"
  "list_all keeps_key (executed_items env)" "list_all keeps_key (test_items env)"
  by (simp_all add: keeps_key_def status_items_def approved_items_def rejected_items_def executing_items_def
      executed_items_def test_items_def)

lemma nonempty_items [simp]:
  "status_items env st \<noteq> []" "approved_items env ap m b c \<noteq> []" "rejected_items env ap \<noteq> []"
  "executing_items env ap tk bh k \<noteq> []" "executed_items env \<noteq> []" "test_items env \<noteq> []"
  by (simp_all add: status_items_def approved_items_def rejected_items_def executing_items_def
      executed_items_def test_items_def)

lemma legal_write_keeps: "legal_write env r fs \<Longrightarrow> list_all keeps_key fs \<and> fs \<noteq> []"
  by (induction rule: legal_write.induct) simp_all

section \<open>Audit notes\<close>

lemma append_audit_heap:
  "x < length (heap s) \<Longrightarrow> \<exists>c. heap (append_approval_audit env x a b cm m md s)
     = (heap s)[x := (heap s ! x)\<lparr>ap_comments := c\<rparr>]"
proof -
  assume x: "x < length (heap s)"
  have "(heap s)[x := (heap s ! x)\<lparr>ap_comments := ap_comments (heap s ! x)\<rparr>] = heap s" using x by simp
  show ?thesis
  proof (cases "truthy_str cm")
    case True then show ?thesis by (auto simp: append_approval_audit_def Let_def)
  next
    case False
    then have "heap (append_approval_audit env x a b cm m md s) = heap s"
      by (simp add: append_approval_audit_def Let_def)
    then show ?thesis using \<open>(heap s)[x := _] = heap s\<close> by metis
  qed
qed

lemma append_audit_frame [simp]:
  "approvals (append_approval_audit env x a b cm m md s) = approvals s"
  "executions (append_approval_audit env x a b cm m md s) = executions s"
  "length (heap (append_approval_audit env x a b cm m md s)) = length (heap s)"
  by (simp_all add: append_approval_audit_def Let_def)

lemma append_audit_table:
  assumes "x < length (heap s)"
  shows "map_of (table (append_approval_audit env x a b cm m md s)) = map_of (table s)
    \<or> (\<exists>c. map_of (table (append_approval_audit env x a b cm m md s)) =
        (map_of (table s))(ap_id (heap s ! x) \<mapsto>
          merged ((heap s ! x)\<lparr>ap_comments := c\<rparr>) (map_of (table s) (ap_id (heap s ! x)))))"
proof (cases "truthy_str cm \<and> e_db_up env")
  case True
  then show ?thesis using assms
    by (auto simp: append_approval_audit_def Let_def table_set_item)
next
  case False
  then show ?thesis using assms
    by (auto simp: append_approval_audit_def Let_def table_set_item)
qed

lemma append_audit_nth:
  assumes "x < length (heap s)"
  shows "\<exists>c. heap (append_approval_audit env x a b cm m md s) ! x = (heap s ! x)\<lparr>ap_comments := c\<rparr>"
  using append_audit_heap[OF assms, of env a b cm m md] assms by auto

lemma append_audit_id:
  "x < length (heap s) \<Longrightarrow> ap_id (heap (append_approval_audit env x a b cm m md s) ! x) = ap_id (heap s ! x)"
  using append_audit_nth[of x s env a b cm m md] by auto

section \<open>Every section of a handler is a sequence of abstract steps\<close>

definition wf :: "approval_state \<Rightarrow> bool" where
  "wf s = ((\<forall>(a, x)\<in>set (approvals s). x < length (heap s) \<and> ap_id (heap s ! x) = a)
     \<and> (\<forall>(a, r)\<in>set (table s). ap_id r = a) \<and> distinct (map fst (table s)))"

lemma prims_note: "prims reload env s t \<Longrightarrow> x < length (heap t) \<Longrightarrow>
    prims reload env s (append_approval_audit env x a b cm m md t)"
  by (rule prims_step[OF _ p_note])

lemma prims_write: "prims reload env s t \<Longrightarrow> x < length (heap t) \<Longrightarrow> legal_write env (heap t ! x) fs \<Longrightarrow>
    prims reload env s (set_items env x fs t)"
  by (rule prims_step[OF _ p_write])

lemma prims_log: "prims reload env s t \<Longrightarrow> prims reload env s (log_event n r t)"
  by (rule prims_step[OF _ p_frame]) (simp_all add: log_event_def)

lemma prims_decision:
  assumes "prims reload env s t"
  shows "prims reload env s (snd (audit_decision env r a ok t))"
  by (rule prims_step[OF assms], rule p_frame) (simp_all add: audit_decision_def)

lemma log_event_frame [simp]:
  "heap (log_event n r s) = heap s" "approvals (log_event n r s) = approvals s"
  "table (log_event n r s) = table s" "executions (log_event n r s) = executions s"
  by (simp_all add: log_event_def)

lemma length_heap_check_expiry [simp]: "length (heap (check_expiry env x s)) = length (heap s)"
  by (simp add: check_expiry_def Let_def)

lemma prims_check_expiry:
  assumes "prims reload env s t" "x < length (heap t)"
  shows "prims reload env s (check_expiry env x t)"
proof (cases "ap_status (heap t ! x) = Pending \<and> overdue env (ap_expires_at (heap t ! x))")
  case True
  have i: "[\<lambda>r. r\<lparr>ap_status := Expired\<rparr>, \<lambda>r. r\<lparr>ap_last_action_at := e_now env\<rparr>] = status_items env Expired"
    by (simp add: status_items_def)
  show ?thesis using True assms
    by (simp only: check_expiry_def Let_def i persist_set_items nonempty_items if_True simp_thms)
      (intro prims_log prims_note prims_write; simp add: expire_pending)
next
  case False
  then have "check_expiry env x t = t" by (auto simp: check_expiry_def Let_def)
  then show ?thesis using assms(1) by simp
qed

lemma prims_get_approval:
  assumes "wf s" "get_approval env aid s = (res, t)"
  shows "prims reload env s t"
proof (cases "map_of (approvals s) aid")
  case None
  show ?thesis
  proof (cases "load_record env aid s")
    case None
    then have "t = s" using assms(2) \<open>map_of (approvals s) aid = None\<close> by (simp add: get_approval_def)
    then show ?thesis by (simp add: prims_refl)
  next
    case (Some r)
    then have t: "t = check_expiry env (length (heap s)) (alloc r s)"
      using assms(2) None by (simp add: get_approval_def)
    have "prim reload env s (alloc r s)"
      using Some None by (intro p_load) (auto simp: load_record_def split: if_splits)
    then show ?thesis unfolding t
      by (intro prims_check_expiry prims_prim) (simp_all add: alloc_def)
  qed
next
  case (Some x)
  then have "x < length (heap s)" using assms(1) by (auto simp: wf_def dest: map_of_SomeD)
  then show ?thesis using assms(2) Some by (auto simp: get_approval_def intro: prims_check_expiry prims_refl)
qed

lemma get_approval_wf:
  assumes "wf s" "get_approval env aid s = (Some x, t)"
  shows "x < length (heap t) \<and> ap_id (heap t ! x) = aid"
proof -
  have ce: "ap_id (heap (check_expiry env x s) ! x) = ap_id (heap s ! x)" if "x < length (heap s)" for s
    using that by (simp add: check_expiry_def Let_def heap_items append_audit_id)
  show ?thesis
  proof (cases "map_of (approvals s) aid")
    case None
    with assms(2) obtain r where "load_record env aid s = Some r" "x = length (heap s)"
      "t = check_expiry env (length (heap s)) (alloc r s)"
      by (auto simp: get_approval_def split: option.splits)
    moreover from this have "ap_id r = aid" using assms(1)
      by (auto simp: load_record_def wf_def split: if_splits dest: map_of_SomeD)
    ultimately show ?thesis using ce[of "alloc r s"] by (simp add: alloc_def)
  next
    case (Some y)
    then have "y < length (heap s) \<and> ap_id (heap s ! y) = aid"
      using assms(1) by (auto simp: wf_def dest: map_of_SomeD)
    then show ?thesis using Some assms(2) ce[of s] by (auto simp: get_approval_def)
  qed
qed

lemma mfa_ok_guard:
  assumes "verify_approval_stage_mfa env r u code stage e = Mfa_ok binding counter"
  shows "(stage = Approval_stage \<longrightarrow> Some counter \<noteq> ap_approval_mfa_counter r)
    \<and> (stage = Execution_stage \<longrightarrow> ap_execution_mfa_counter r \<noteq> Some counter \<and> ap_approval_mfa_counter r \<noteq> Some counter)"
  using assms
  by (cases stage) (auto simp: verify_approval_stage_mfa_def Let_def split: if_splits option.splits)

lemma prims_approve_record:
  assumes "prims reload env s t" "x < length (heap t)" "approval_factor env (heap t ! x) mfa binding counter"
  shows "prims reload env s (snd (approve_record env x approver comment mfa binding counter t))"
  unfolding approve_record_def Let_def using assms
  by (intro prims_decision prims_log prims_note prims_write approve) simp_all

lemma prims_approve_finish:
  assumes "x < length (heap s)"
  shows "prims reload env s (snd (approve_finish env x u b s))"
  using assms mfa_ok_guard[of env "heap s ! x" u "body_mfa_code b" Approval_stage]
  by (auto simp: approve_finish_def Let_def approval_factor_def split: mfa_result.split
      intro!: prims_refl prims_approve_record prims_note prims_log)

lemma prims_reject_finish:
  assumes "x < length (heap s)"
  shows "prims reload env s (snd (reject_finish env x u b s))"
proof (cases "b = Bad_json \<or> reject_refusal (ap_status (heap s ! x)) \<noteq> None")
  case True
  then have "snd (reject_finish env x u b s) = s" by (auto simp: reject_finish_def Let_def split: option.splits)
  then show ?thesis by (simp add: prims_refl)
next
  case False
  then have "ap_status (heap s ! x) \<notin> {Expired, Approved, Executed}"
    by (auto simp: reject_refusal_def split: approval_status.splits)
  then show ?thesis using False assms unfolding reject_finish_def Let_def
    by (simp only: if_False option.case simp_thms de_Morgan_disj not_not)
      (intro prims_decision prims_log prims_note prims_write prims_refl reject; simp)
qed

lemma lock_execution_frame:
  "lock_execution env aid actor token binding counter s = Some s1 \<Longrightarrow>
     heap s1 = heap s \<and> approvals s1 = approvals s \<and> executions s1 = executions s"
  by (auto simp: lock_execution_def split: option.splits if_splits)

lemma prims_execute_finish:
  assumes "x < length (heap s)" "ap_id (heap s ! x) = aid"
  shows "prims reload env s (snd (execute_finish env x u aid b token outcome s))"
proof -
  let ?r = "heap s ! x" and ?ap = "approval_actor_from_payload u"
  let ?mfa = "verify_approval_stage_mfa env ?r u (body_mfa_code b) Execution_stage
      (jiso env (if ap_execution_expires_at ?r = None then ap_expires_at ?r else ap_execution_expires_at ?r))"
  define go where "go = (b \<noteq> Bad_json \<and> ap_status ?r = Approved
      \<and> \<not> (truthy_str (ap_approved_by ?r) \<and> ap_approved_by ?r \<noteq> Some ?ap)
      \<and> \<not> approval_is_expired env ?r \<and> \<not> overdue env (ap_execution_expires_at ?r) \<and> b \<noteq> No_body)"
  show ?thesis
  proof (cases "go \<and> (\<exists>binding counter. ?mfa = Mfa_ok binding counter) \<and> e_db_up env")
    case False
    let ?bound = "truthy_str (ap_approved_by ?r) \<and> ap_approved_by ?r \<noteq> Some ?ap"
    let ?late = "overdue env (ap_expires_at ?r) \<or> overdue env (ap_execution_expires_at ?r)"
    consider (json) "b = Bad_json"
      | (status) "b \<noteq> Bad_json" "ap_status ?r \<noteq> Approved"
      | (bound) "b \<noteq> Bad_json" "ap_status ?r = Approved" ?bound
      | (late) "b \<noteq> Bad_json" "ap_status ?r = Approved" "\<not> ?bound" ?late
      | (nobody) "b = No_body" "ap_status ?r = Approved" "\<not> ?bound" "\<not> ?late"
      | (denied) d where go "?mfa = Mfa_denied d"
      | (dberr) go "?mfa = Mfa_db_error"
      | (unconf) go "?mfa = Mfa_not_configured"
      | (down) binding counter where go "?mfa = Mfa_ok binding counter" "\<not> e_db_up env"
      using False by (cases ?mfa) (auto simp: go_def approval_is_expired_def)
    then show ?thesis
    proof cases
      case json then show ?thesis by (simp add: execute_finish_def prims_refl)
    next
      case status then show ?thesis
        using assms by (simp add: execute_finish_def Let_def prims_refl prims_note)
    next
      case bound then show ?thesis
        using assms by (simp add: execute_finish_def Let_def prims_refl prims_note)
    next
      case late
      have w: "prims reload env s (append_approval_audit env x a g c m md (set_items env x (status_items env Expired) s))"
        for a g c m md
        using assms late by (intro prims_note prims_write prims_refl expire_approved) simp_all
      show ?thesis
      proof (cases "approval_is_expired env ?r")
        case True then show ?thesis using late w by (auto simp: execute_finish_def Let_def)
      next
        case False
        then have "overdue env (ap_execution_expires_at ?r)" using late by (simp add: approval_is_expired_def)
        then show ?thesis using False late w by (auto simp: execute_finish_def Let_def)
      qed
    next
      case nobody then show ?thesis
        by (auto simp: execute_finish_def Let_def approval_is_expired_def prims_refl)
    next
      case denied then show ?thesis
        using assms by (simp add: execute_finish_def Let_def go_def prims_refl prims_note prims_log)
    next
      case dberr then show ?thesis by (auto simp: execute_finish_def Let_def go_def prims_refl)
    next
      case unconf then show ?thesis
        using assms by (simp add: execute_finish_def Let_def go_def prims_refl prims_note)
    next
      case down then show ?thesis by (auto simp: execute_finish_def Let_def go_def prims_refl)
    qed
  next
    case True
    then obtain binding counter where mfa: "?mfa = Mfa_ok binding counter" by blast
    show ?thesis
    proof (cases "lock_execution env aid ?ap token binding counter s")
      case None
      then show ?thesis using True mfa assms
        by (auto simp: execute_finish_def Let_def go_def intro!: prims_refl prims_note)
    next
      case (Some s1)
      define s3 where "s3 = append_approval_audit env x ''executing'' ?ap (body_comment b) True
          [(''action_payload_hash'', JStr (approval_action_payload_hash (e_sha256 env)
              (heap (set_items env x (executing_items env ?ap token binding counter) s1) ! x))),
           (''mfa_binding_hash'', JStr binding)]
          (set_items env x (executing_items env ?ap token binding counter) s1)"
      have fin: "execute_finish env x u aid b token outcome s
          = run_execution env x ?ap (body_comment b) binding outcome s3"
        using True mfa Some by (auto simp: execute_finish_def Let_def go_def s3_def)
      have guard: "execution_guard env ?r ?ap counter"
        using True mfa_ok_guard[OF mfa] by (auto simp: execution_guard_def go_def approval_is_expired_def)
      have p: "prims reload env s (set_items env x its (record_execution x s3))"
        if "its \<in> {executed_items env, status_items env Execution_failed}" for its
        unfolding s3_def
        by (rule prims_prim, rule p_execute[OF assms(1) guard]) (use assms Some True that in simp_all)
      have x: "x < length (heap s3)"
        using assms(1) lock_execution_frame[OF Some] by (simp add: s3_def)
      have r: "s3\<lparr>executions := executions s3 @ [ap_id (heap s3 ! x)]\<rparr> = record_execution x s3"
        by (simp add: record_execution_def)
      have x': "x < length (heap (record_execution x s3))" using x by (simp add: record_execution_def)
      show ?thesis unfolding fin run_execution_def Let_def r
        using p x'
        by (cases outcome) (auto simp: execution_failed_def
            intro!: prims_decision prims_log prims_note)
    qed
  qed
qed

lemma prims_create:
  assumes "map_of (approvals s) aid = None" "map_of (table s) aid = None"
  shows "prims reload env s (snd (create_approval env aid rid cid query risk tenant reason metadata s))"
  using assms unfolding create_approval_def Let_def
  by (simp only: snd_conv) (intro prims_log prims_note prims_prim p_create; simp add: alloc_def)

lemma prims_test_expire:
  assumes "wf s"
  shows "prims reload env s (snd (test_expire_approval env aid s))"
proof (cases "get_approval env aid s")
  case (Pair res t)
  have p: "prims reload env s t" using prims_get_approval[OF assms Pair] .
  show ?thesis
  proof (cases res)
    case None then show ?thesis using p Pair by (simp add: test_expire_approval_def)
  next
    case (Some x)
    then have "x < length (heap t)" using get_approval_wf[OF assms, of env aid x t] Pair by simp
    then show ?thesis using p Pair Some
      by (simp add: test_expire_approval_def) (rule prims_write[OF p, where fs = "test_items env", unfolded test_items_def],
          simp_all add: test_expire[unfolded test_items_def])
  qed
qed

section \<open>The store stays well formed\<close>

definition ids :: "approval_state \<Rightarrow> string list" where
  "ids s = map ap_id (heap s)"

definition table_wf :: "(string \<times> approval) list \<Rightarrow> bool" where
  "table_wf t = ((\<forall>(a, r)\<in>set t. ap_id r = a) \<and> distinct (map fst t))"

lemma wf_ids: "wf s \<longleftrightarrow> (\<forall>(a, x)\<in>set (approvals s). x < length (ids s) \<and> ids s ! x = a) \<and> table_wf (table s)"
  by (auto simp: wf_def ids_def table_wf_def)

lemma in_dict_set: "p \<in> set (dict_set k v m) \<Longrightarrow> p = (k, v) \<or> p \<in> set m"
  by (induction m) (auto split: if_splits)

lemma table_wf_dict_set: "table_wf t \<Longrightarrow> ap_id r = a \<Longrightarrow> table_wf (dict_set a r t)"
  by (auto simp: table_wf_def distinct_dict_set dest: in_dict_set)

lemma table_wf_upsert: "table_wf t \<Longrightarrow> table_wf (upsert r t)"
  by (auto simp: upsert_def split: option.split intro!: table_wf_dict_set)
    (auto simp: table_wf_def map_of_eq_None_iff)

lemma table_wf_persist: "table_wf (table s) \<Longrightarrow> table_wf (table (persist_record env x s))"
  by (simp add: persist_record_def table_wf_upsert)

lemma table_wf_set_items: "table_wf (table s) \<Longrightarrow> table_wf (table (set_items env x fs s))"
  by (induction fs arbitrary: s) (simp_all add: set_items_def set_item_def table_wf_persist)

lemma table_wf_note: "table_wf (table s) \<Longrightarrow> table_wf (table (append_approval_audit env x a b cm m md s))"
  by (simp add: append_approval_audit_def Let_def set_item_def table_wf_persist)

lemma ids_set_items: "x < length (heap s) \<Longrightarrow> list_all keeps_key fs \<Longrightarrow> ids (set_items env x fs s) = ids s"
  using items_keep_key[of fs "heap s ! x"]
  by (simp add: ids_def heap_items map_update list_update_same_conv)

lemma ids_note: "x < length (heap s) \<Longrightarrow> ids (append_approval_audit env x a b cm m md s) = ids s"
  using append_audit_heap[of x s env a b cm m md]
  by (auto simp: ids_def map_update list_update_same_conv)

lemma ids_frame [simp]:
  "ids (persist_record env x s) = ids s" "ids (record_execution x s) = ids s"
  "ids (alloc r s) = ids s @ [ap_id r]"
  by (simp_all add: ids_def record_execution_def alloc_def)

lemma record_execution_frame [simp]:
  "heap (record_execution x s) = heap s" "approvals (record_execution x s) = approvals s"
  "table (record_execution x s) = table s"
  by (simp_all add: record_execution_def)

lemma lock_table:
  "lock_execution env aid actor token binding counter s = Some s1 \<Longrightarrow>
    \<exists>row. map_of (table s) aid = Some row \<and> ap_status row = Approved \<and> ap_execution_token_used_at row = None
      \<and> table s1 = dict_set aid (row\<lparr>ap_status := Executing, ap_execution_token_hash := Some token,
                      ap_execution_token_used_at := Some (e_now env), ap_execution_mfa_verified := True,
                      ap_execution_mfa_binding_hash := Some binding, ap_execution_mfa_counter := Some counter,
                      ap_executed_by := Some actor, ap_last_action_at := e_now env\<rparr>) (table s)"
  by (auto simp: lock_execution_def split: option.splits if_splits)

lemma lock_table_wf:
  "lock_execution env aid actor token binding counter s = Some s1 \<Longrightarrow> table_wf (table s) \<Longrightarrow> table_wf (table s1)"
proof -
  assume l: "lock_execution env aid actor token binding counter s = Some s1" and w: "table_wf (table s)"
  from lock_table[OF l] obtain row where r: "map_of (table s) aid = Some row"
    "table s1 = dict_set aid (row\<lparr>ap_status := Executing, ap_execution_token_hash := Some token,
        ap_execution_token_used_at := Some (e_now env), ap_execution_mfa_verified := True,
        ap_execution_mfa_binding_hash := Some binding, ap_execution_mfa_counter := Some counter,
        ap_executed_by := Some actor, ap_last_action_at := e_now env\<rparr>) (table s)" by blast
  have "ap_id row = aid" using w map_of_SomeD[OF r(1)] by (auto simp: table_wf_def)
  then show ?thesis using w by (simp add: r(2) table_wf_dict_set)
qed

lemma prim_shape:
  assumes "prim reload env s t"
  shows "(approvals t = approvals s \<and> ids t = ids s
      \<or> (\<exists>a. (table_wf (table s) \<longrightarrow> reload \<or> map_of (approvals s) a = None) \<and> ids t = ids s @ [a]
           \<and> approvals t = dict_set a (length (ids s)) (approvals s)))
    \<and> (table_wf (table s) \<longrightarrow> table_wf (table t))"
  using assms
proof (induction rule: prim.induct)
  case (p_create s aid reload env rid cid query risk tenant reason metadata)
  then show ?case by (auto simp: alloc_def new_approval_def ids_def intro: table_wf_persist)
next
  case (p_load reload s aid r env)
  have "table_wf (table s) \<Longrightarrow> ap_id r = aid"
    using map_of_SomeD[OF p_load(2)] by (auto simp: table_wf_def)
  then show ?case using p_load by (auto simp: alloc_def ids_def)
next
  case (p_write x s env fs reload)
  then show ?case using legal_write_keeps[of env "heap s ! x" fs] by (simp add: ids_set_items table_wf_set_items)
next
  case (p_note x s reload env action actor comment mfa metadata)
  then show ?case by (simp add: ids_note table_wf_note)
next
  case (p_frame s' s reload env)
  then show ?case by (simp add: ids_def)
next
  case (p_execute x s env approver counter aid token binding s1 fin reload comment metadata)
  then show ?case
    using lock_execution_frame[OF p_execute(4)] lock_table_wf[OF p_execute(4)]
    by (auto simp: ids_set_items ids_note table_wf_set_items table_wf_note ids_def[of s1] ids_def[of s])
qed

lemma prim_wf: "prim reload env s t \<Longrightarrow> wf s \<Longrightarrow> wf t"
  using prim_shape[of reload env s t] unfolding wf_ids
  by (fastforce dest: in_dict_set simp: nth_append)

lemma prims_wf: "prims reload env s t \<Longrightarrow> wf s \<Longrightarrow> wf t"
  by (induction rule: prims.induct) (auto intro: prim_wf)

lemma prims_ids: "prims reload env s t \<Longrightarrow> \<exists>l. ids t = ids s @ l"
proof (induction rule: prims.induct)
  case (prims_step reload env s t u)
  then show ?case using prim_shape[OF prims_step(2)] by auto
qed simp

lemma prims_object: "prims reload env s t \<Longrightarrow> x < length (heap s) \<Longrightarrow>
    x < length (heap t) \<and> ap_id (heap t ! x) = ap_id (heap s ! x)"
proof -
  assume p: "prims reload env s t" and x: "x < length (heap s)"
  obtain l where l: "ids t = ids s @ l" using prims_ids[OF p] by blast
  then have len: "length (heap t) = length (heap s) + length l" by (metis ids_def length_append length_map)
  have "ids t ! x = ids s ! x" using l x by (simp add: nth_append ids_def)
  then show ?thesis using x len by (simp add: ids_def)
qed

section \<open>Reachable systems\<close>

definition fresh_step :: "step \<Rightarrow> system \<Rightarrow> bool" where
  "fresh_step st c = (case st of
     Create env aid _ _ _ _ _ _ _ \<Rightarrow>
       map_of (approvals (store c)) aid = None \<and> map_of (table (store c)) aid = None
   | _ \<Rightarrow> True)"

fun step_env :: "step \<Rightarrow> approval_env" where
  "step_env (Create env _ _ _ _ _ _ _ _) = env"
| "step_env (Read env _) = env"
| "step_env (List_all env _) = env"
| "step_env (Start_approve env _ _) = env"
| "step_env (Start_reject env _ _) = env"
| "step_env (Start_execute env _ _) = env"
| "step_env (Finish env _ _ _ _) = env"
| "step_env (Test_expire env _) = env"

fun is_listing :: "step \<Rightarrow> bool" where
  "is_listing (List_all _ _) = True"
| "is_listing _ = False"

inductive reachable :: "(step \<Rightarrow> bool) \<Rightarrow> system \<Rightarrow> bool" for allowed where
  reach_init: "reachable allowed init_system"
| reach_step: "reachable allowed c \<Longrightarrow> allowed st \<Longrightarrow> fresh_step st c \<Longrightarrow> reachable allowed (apply_step st c)"

fun handler_ok :: "approval_state \<Rightarrow> handler \<Rightarrow> bool" where
  "handler_ok s (Approve_run x u) = (x < length (heap s))"
| "handler_ok s (Reject_run x u) = (x < length (heap s))"
| "handler_ok s (Execute_run x u aid) = (x < length (heap s) \<and> ap_id (heap s ! x) = aid)"

definition system_ok :: "system \<Rightarrow> bool" where
  "system_ok c = (wf (store c) \<and> (\<forall>h. Some h \<in> set (running c) \<longrightarrow> handler_ok (store c) h))"

lemma handler_ok_prims: "prims reload env s t \<Longrightarrow> handler_ok s h \<Longrightarrow> handler_ok t h"
  using prims_object[of reload env s t] by (cases h) auto

lemma prims_load_all:
  assumes "wf s"
  shows "prims True env s (load_all_records env tenant s)"
proof -
  have "prims True env s t \<Longrightarrow> table t = table s \<Longrightarrow> set rows \<subseteq> set (table s) \<Longrightarrow>
      prims True env s (fold (\<lambda>(aid, r) s. if tenant = None \<or> ap_tenant_id r = tenant then alloc r s else s) rows t)"
    for rows t
  proof (induction rows arbitrary: t)
    case (Cons p rows)
    obtain a r where p: "p = (a, r)" by (cases p)
    then have "map_of (table s) a = Some r" using Cons.prems(3) assms by (auto simp: wf_def)
    then have "prim True env t (alloc r t)" using Cons.prems(2) by (auto intro: p_load)
    then have "prims True env s (alloc r t)" using Cons.prems(1) prims_step by blast
    then show ?case using Cons.IH[of "alloc r t"] Cons.IH[of t] Cons.prems p by (simp add: alloc_def)
  qed simp
  from this[of s "table s"] show ?thesis by (simp add: load_all_records_def prims_refl)
qed

lemma prims_list:
  assumes "wf s"
  shows "prims True env s (snd (get_approvals_list env u s))"
proof -
  let ?tenant = "case u of None \<Rightarrow> None | Some p \<Rightarrow> up_tenant_id p"
  let ?s1 = "load_all_records env ?tenant s"
  have p: "prims True env s ?s1" by (rule prims_load_all[OF assms])
  have "wf ?s1" by (rule prims_wf[OF p assms])
  then have xs: "\<forall>x\<in>set (map snd (approvals ?s1)). x < length (heap ?s1)" by (auto simp: wf_def)
  have "prims True env s (fold (check_expiry env) xs t)"
    if "prims True env s t" "\<forall>x\<in>set xs. x < length (heap t)" for xs t
    using that
  proof (induction xs arbitrary: t)
    case (Cons x xs)
    then show ?case using prims_check_expiry[of True env s t x] by simp
  qed simp
  note f = this[OF p]
  have "prims True env s (fold (check_expiry env) (filter P (map snd (approvals ?s1))) ?s1)" for P
    by (rule f) (use xs in auto)
  then show ?thesis by (simp add: get_approvals_list_def get_all_approvals_def Let_def)
qed

lemma started_ok:
  assumes "system_ok c" "prims reload env (store c) (snd res)"
    and "\<And>h. fst res = Inr h \<Longrightarrow> handler_ok (snd res) h"
  shows "system_ok (started res c) \<and> store (started res c) = snd res"
  using assms handler_ok_prims[OF assms(2)] prims_wf[OF assms(2)]
  by (cases res; cases "fst res") (auto simp: started_def system_ok_def)

lemma finished_ok:
  assumes "system_ok c" "prims reload env (store c) (snd res)"
  shows "system_ok (finished k res c) \<and> store (finished k res c) = snd res"
  using assms handler_ok_prims[OF assms(2)] prims_wf[OF assms(2)] set_update_subset_insert[of "running c" k None]
  by (cases res) (auto simp: finished_def system_ok_def)

lemma replaced_ok:
  assumes "system_ok c" "prims reload env (store c) s"
  shows "system_ok (c\<lparr>store := s\<rparr>)" "system_ok (c\<lparr>store := s, replies := r\<rparr>)"
  using assms handler_ok_prims[OF assms(2)] prims_wf[OF assms(2)] by (auto simp: system_ok_def)

text \<open>Every \<open>start\<close> section looks the record up and then either replies or suspends.\<close>

lemma start_sections:
  assumes "wf s"
  shows "prims reload env s (snd (approve_start env aid u s))
      \<and> (\<forall>h. fst (approve_start env aid u s) = Inr h \<longrightarrow> handler_ok (snd (approve_start env aid u s)) h)"
    "prims reload env s (snd (reject_start env aid u s))
      \<and> (\<forall>h. fst (reject_start env aid u s) = Inr h \<longrightarrow> handler_ok (snd (reject_start env aid u s)) h)"
    "prims reload env s (snd (execute_start env aid u s))
      \<and> (\<forall>h. fst (execute_start env aid u s) = Inr h \<longrightarrow> handler_ok (snd (execute_start env aid u s)) h)"
proof -
  obtain res t where g: "get_approval env aid s = (res, t)" by force
  note p = prims_get_approval[OF assms g, of reload]
  have x: "res = Some x \<Longrightarrow> x < length (heap t) \<and> ap_id (heap t ! x) = aid" for x
    using get_approval_wf[OF assms, of env aid x t] g by simp
  show "prims reload env s (snd (approve_start env aid u s))
      \<and> (\<forall>h. fst (approve_start env aid u s) = Inr h \<longrightarrow> handler_ok (snd (approve_start env aid u s)) h)"
    using p x by (cases res) (auto simp: approve_start_def g split: option.split)
  show "prims reload env s (snd (reject_start env aid u s))
      \<and> (\<forall>h. fst (reject_start env aid u s) = Inr h \<longrightarrow> handler_ok (snd (reject_start env aid u s)) h)"
    using p x by (cases res) (auto simp: reject_start_def g)
  show "prims reload env s (snd (execute_start env aid u s))
      \<and> (\<forall>h. fst (execute_start env aid u s) = Inr h \<longrightarrow> handler_ok (snd (execute_start env aid u s)) h)"
    using p x by (cases res) (auto simp: execute_start_def g)
qed

lemma prims_finish:
  assumes "handler_ok s h"
  shows "prims reload env s (snd (finish env h b token outcome s))"
  using assms by (cases h) (simp_all add: finish_def prims_approve_finish prims_reject_finish prims_execute_finish)

text \<open>Refinement: a step of the system is a sequence of abstract steps on the store; only
  listing the approvals needs the one that reloads a record already in memory.\<close>

lemma step_refines:
  assumes "system_ok c" "fresh_step st c"
  shows "prims (is_listing st) (step_env st) (store c) (store (apply_step st c))
    \<and> system_ok (apply_step st c)"
proof -
  have w: "wf (store c)" using assms(1) by (simp add: system_ok_def)
  show ?thesis
  proof (cases st)
    case (Create env aid rid cid query risk tenant reason meta)
    then have p: "prims False env (store c) (snd (create_approval env aid rid cid query risk tenant reason meta (store c)))"
      using assms(2) by (intro prims_create) (simp_all add: fresh_step_def)
    then show ?thesis using replaced_ok(1)[OF assms(1) p] Create by simp
  next
    case (Read env aid)
    obtain res t where g: "get_approval env aid (store c) = (res, t)" by force
    note p = prims_get_approval[OF w g, of False]
    then show ?thesis using replaced_ok(1)[OF assms(1) p] Read g by simp
  next
    case (List_all env u)
    then show ?thesis using prims_list[OF w, of env u] replaced_ok(1)[OF assms(1) prims_list[OF w, of env u]] by simp
  next
    case (Start_approve env aid u)
    then show ?thesis
      using start_sections(1)[OF w, of False env aid u] started_ok[OF assms(1), of False env "approve_start env aid u (store c)"]
      by simp
  next
    case (Start_reject env aid u)
    then show ?thesis
      using start_sections(2)[OF w, of False env aid u] started_ok[OF assms(1), of False env "reject_start env aid u (store c)"]
      by simp
  next
    case (Start_execute env aid u)
    then show ?thesis
      using start_sections(3)[OF w, of False env aid u] started_ok[OF assms(1), of False env "execute_start env aid u (store c)"]
      by simp
  next
    case (Finish env k b token outcome)
    show ?thesis
    proof (cases "k < length (running c) \<and> running c ! k \<noteq> None")
      case False
      then show ?thesis using assms(1) Finish by (auto simp: prims_refl split: option.split)
    next
      case True
      then obtain h where h: "running c ! k = Some h" by auto
      then have "handler_ok (store c) h" using True assms(1) nth_mem[of k "running c"] by (auto simp: system_ok_def)
      note p = prims_finish[OF this, of False env b token outcome]
      show ?thesis using p finished_ok[OF assms(1) p, of k] True h Finish by simp
    qed
  next
    case (Test_expire env aid)
    note p = prims_test_expire[OF w, of False env aid]
    show ?thesis using p replaced_ok(2)[OF assms(1) p] Test_expire by (simp add: split_def)
  qed
qed

lemma system_ok_init: "system_ok init_system"
  by (simp add: system_ok_def init_system_def init_state_def wf_def)

lemma reachable_ok: "reachable allowed c \<Longrightarrow> system_ok c"
  by (induction rule: reachable.induct) (auto simp: system_ok_init step_refines)

end
