(* ===== verification/Approval_Props.thy ===== *)
theory Approval_Props
  imports Approval_Spec
begin

text \<open>
  Invariants of the approval workflow over all interleavings, and what its routes guarantee.
  \<open>record_contract\<close> is the interface of an invariant of single records: a predicate that
  every assignment of the code preserves holds of every record in memory and in the table,
  whatever the interleaving.
\<close>

section \<open>Single use of the execution token\<close>

definition used :: "approval_state \<Rightarrow> string \<Rightarrow> bool" where
  "used s a = (a \<in> set (ids s)
     \<and> (\<forall>x<length (heap s). ap_id (heap s ! x) = a \<longrightarrow> ap_execution_token_used_at (heap s ! x) \<noteq> None)
     \<and> (\<forall>row. map_of (table s) a = Some row \<longrightarrow> ap_execution_token_used_at row \<noteq> None))"

definition single :: "approval_state \<Rightarrow> bool" where
  "single s = (\<forall>x<length (ids s). map_of (approvals s) (ids s ! x) = Some x)"

lemma singleD: "single s \<Longrightarrow> z < length (heap s) \<Longrightarrow> map_of (approvals s) (ap_id (heap s ! z)) = Some z"
  unfolding single_def ids_def by (metis length_map nth_map)

lemma single_prim: "prim False env s t \<Longrightarrow> wf s \<Longrightarrow> single s \<Longrightarrow> single t"
  using prim_shape[of False env s t] unfolding wf_ids
  by (auto simp: single_def nth_append less_Suc_eq)

lemma used_set_items:
  assumes "used s a" "x < length (heap s)" "list_all keeps_key fs" "fs \<noteq> []"
    and "ap_execution_token_used_at (heap s ! x) \<noteq> None \<Longrightarrow>
      ap_execution_token_used_at (items fs (heap s ! x)) \<noteq> None"
  shows "used (set_items env x fs s) a"
  using assms items_keep_key[OF assms(3), of "heap s ! x"]
  by (auto simp: used_def ids_set_items heap_items nth_list_update table_set_items)

lemma used_note:
  assumes "used s a" "x < length (heap s)"
  shows "used (append_approval_audit env x ac b cm m md s) a"
proof -
  obtain c where h: "heap (append_approval_audit env x ac b cm m md s) = (heap s)[x := (heap s ! x)\<lparr>ap_comments := c\<rparr>]"
    using append_audit_heap[OF assms(2)] by blast
  show ?thesis
    using assms append_audit_table[OF assms(2), of env ac b cm m md]
    by (auto simp: used_def ids_note h nth_list_update split: if_splits)
qed

lemma legal_token: "legal_write env r fs \<Longrightarrow> ap_execution_token_used_at (items fs r) = ap_execution_token_used_at r"
  by (induction rule: legal_write.induct)
    (simp_all add: status_items_def approved_items_def rejected_items_def test_items_def)

definition once :: "approval_state \<Rightarrow> bool" where
  "once s = (distinct (executions s) \<and> (\<forall>a\<in>set (executions s). used s a))"

lemma used_executing:
  assumes s: "single s" "wf s" "x < length (heap s)" "aid = ap_id (heap s ! x)" "e_db_up env"
    and lock: "lock_execution env aid approver token binding counter s = Some s1"
  shows "used (set_items env x (executing_items env approver token binding counter) s1) aid"
    and "used s a \<Longrightarrow> used (set_items env x (executing_items env approver token binding counter) s1) a"
proof -
  let ?fs = "executing_items env approver token binding counter"
  let ?t = "set_items env x ?fs s1"
  have h: "heap s1 = heap s" using lock_execution_frame[OF lock] by simp
  have x: "x < length (heap s1)" using h s(3) by simp
  have tok: "ap_execution_token_used_at (items ?fs r) = Some (e_now env)" for r
    by (simp add: executing_items_def)
  have uniq: "y = x" if "y < length (heap s)" "ap_id (heap s ! y) = aid" for y
  proof -
    have "map_of (approvals s) aid = Some x" "map_of (approvals s) aid = Some y"
      using singleD[OF s(1) s(3)] singleD[OF s(1) that(1)] that(2) s(4) by simp_all
    then show ?thesis by simp
  qed
  have tab: "map_of (table ?t) = (map_of (table s1))(aid \<mapsto> merged (items ?fs (heap s ! x)) (map_of (table s1) aid))"
    using table_set_items[OF x, of ?fs env] s(4,5) h by simp
  have it: "ids ?t = ids s" using ids_set_items[OF x, of ?fs env] h by (simp add: ids_def)
  have ht: "heap ?t = (heap s)[x := items ?fs (heap s ! x)]" using heap_items[OF x, of env ?fs] h by simp
  show "used ?t aid"
    unfolding used_def
  proof (intro conjI allI impI)
    show "aid \<in> set (ids ?t)" using it s(3,4) by (simp add: ids_def)
    show "ap_execution_token_used_at row \<noteq> None" if "map_of (table ?t) aid = Some row" for row
      using that tok by (auto simp: tab)
    show "ap_execution_token_used_at (heap ?t ! y) \<noteq> None"
      if "y < length (heap ?t)" "ap_id (heap ?t ! y) = aid" for y
    proof (cases "y = x")
      case True then show ?thesis using ht s(3) tok by simp
    next
      case False
      then have "ap_id (heap s ! y) = aid" "y < length (heap s)" using that ht by simp_all
      then show ?thesis using uniq False by blast
    qed
  qed
  have "used s1 a" if "used s a"
  proof -
    from lock_table[OF lock] obtain row where "map_of (table s) aid = Some row" "ap_execution_token_used_at row = None"
      "map_of (table s1) = (map_of (table s))(aid \<mapsto> row\<lparr>ap_status := Executing, ap_execution_token_hash := Some token,
        ap_execution_token_used_at := Some (e_now env), ap_execution_mfa_verified := True,
        ap_execution_mfa_binding_hash := Some binding, ap_execution_mfa_counter := Some counter,
        ap_executed_by := Some approver, ap_last_action_at := e_now env\<rparr>)" by auto
    then show ?thesis using that h by (auto simp: used_def ids_def)
  qed
  then show "used s a \<Longrightarrow> used ?t a"
    by (intro used_set_items[OF _ x]) (simp_all add: tok)
qed

lemma once_prim:
  assumes "prim False env s t" "wf s" "single s" "once s"
  shows "once t"
  using assms
proof (induction "False" env s t rule: prim.induct)
  case (p_create s aid env rid cid query risk tenant reason metadata)
  let ?r = "new_approval env aid rid cid query risk tenant reason metadata"
  let ?t = "persist_record env (length (heap s)) (alloc ?r s)"
  have id: "ap_id ?r = aid" by (simp add: new_approval_def)
  have "used ?t a" if "used s a" for a
  proof -
    have "a \<noteq> aid" using that p_create(1,4) by (auto simp: used_def single_def in_set_conv_nth)
    moreover have "map_of (table ?t) = (if e_db_up env then (map_of (table s))(aid \<mapsto> merged ?r None) else map_of (table s))"
      using p_create(2) by (simp add: persist_record_def alloc_def map_of_upsert' id)
    ultimately show ?thesis using that id
      by (auto simp: used_def alloc_def ids_def nth_append less_Suc_eq)
  qed
  then show ?case using p_create by (auto simp: once_def alloc_def)
next
  case (p_load s aid r env)
  have id: "ap_id r = aid" using map_of_SomeD[OF p_load(2)] p_load(3) by (auto simp: wf_def)
  have "used (alloc r s) a" if "used s a" for a
    unfolding used_def
  proof (intro conjI allI impI)
    show "a \<in> set (ids (alloc r s))" using that by (simp add: used_def)
    show "ap_execution_token_used_at row \<noteq> None" if "map_of (table (alloc r s)) a = Some row" for row
      using that \<open>used s a\<close> by (simp add: used_def alloc_def)
    show "ap_execution_token_used_at (heap (alloc r s) ! y) \<noteq> None"
      if "y < length (heap (alloc r s))" "ap_id (heap (alloc r s) ! y) = a" for y
      using that \<open>used s a\<close> p_load(2) id
      by (cases "y < length (heap s)") (simp_all add: used_def alloc_def nth_append)
  qed
  then show ?case using p_load by (auto simp: once_def alloc_def)
next
  case (p_write x s env fs)
  then show ?case using legal_write_keeps[OF p_write(2)] legal_token[OF p_write(2)]
    by (auto simp: once_def intro!: used_set_items)
next
  case (p_note x s env action actor comment mfa metadata)
  then show ?case by (auto simp: once_def intro!: used_note)
next
  case (p_frame s' s env)
  then have "used s' = used s" by (simp add: used_def ids_def fun_eq_iff)
  then show ?case using p_frame by (simp add: once_def)
next
  case (p_execute x s env approver counter aid token binding s1 fin comment metadata)
  let ?t1 = "set_items env x (executing_items env approver token binding counter) s1"
  let ?t2 = "append_approval_audit env x ''executing'' approver comment True metadata ?t1"
  let ?t = "set_items env x fin (record_execution x ?t2)"
  have lf: "heap s1 = heap s" "executions s1 = executions s" using lock_execution_frame[OF p_execute(4)] by simp_all
  have x1: "x < length (heap ?t1)" and x2: "x < length (heap ?t2)" using p_execute(1) lf by simp_all
  have fin: "list_all keeps_key fin" "fin \<noteq> []"
    "ap_execution_token_used_at (items fin r) = ap_execution_token_used_at r" for r
    using p_execute(6) by (auto simp: executed_items_def status_items_def keeps_key_def)
  have u: "used ?t a" if "used ?t1 a" for a
  proof -
    have "used ?t2 a" by (rule used_note[OF that x1])
    then have "used (record_execution x ?t2) a" by (simp add: used_def)
    then show ?thesis using x2 fin by (intro used_set_items) simp_all
  qed
  have id: "ap_id (heap ?t2 ! x) = aid"
    using append_audit_id[OF x1] heap_items[of x s1 env] lf p_execute(1,3) items_keep_key[OF keeps_key_items(4)]
    by simp
  have "aid \<notin> set (executions s)"
    using lock_table[OF p_execute(4)] p_execute(9) by (auto simp: once_def used_def)
  moreover have "executions ?t = executions s @ [aid]" using lf id by (simp add: record_execution_def)
  ultimately show ?case
    using p_execute(9) u used_executing[OF p_execute(8,7,1,3,5,4)] by (auto simp: once_def)
qed

lemma once_prims:
  assumes "prims False env s t" "wf s" "single s" "once s"
  shows "single t \<and> once t"
  using assms
proof (induction "False" env s t rule: prims.induct)
  case (prims_step env s t u)
  then have "wf t" using prims_wf by blast
  then show ?case using prims_step single_prim once_prim by blast
qed simp

lemma reachable_once:
  "reachable (\<lambda>st. \<not> is_listing st) c \<Longrightarrow> single (store c) \<and> once (store c)"
proof (induction rule: reachable.induct)
  case reach_init
  then show ?case by (simp add: init_system_def init_state_def single_def once_def ids_def)
next
  case (reach_step c st)
  have "system_ok c" using reachable_ok[OF reach_step(1)] .
  then show ?case using once_prims[of "step_env st" "store c"] step_refines[of c st] reach_step
    by (auto simp: system_ok_def)
qed

text \<open>C1: Within one worker and as long as nobody lists the approvals, no approval is executed
  twice, whatever the interleaving of creations, reads, approvals, rejections, executions and
  expiry, with database failures in any section.\<close>

theorem approval_executed_at_most_once:
  assumes "reachable (\<lambda>st. \<not> is_listing st) c"
  shows "distinct (executions (store c))"
  using reachable_once[OF assms] by (simp add: once_def)

section \<open>The effect of the successful sections\<close>

lemma append_audit_silent:
  "append_approval_audit env x ac b None m md s = (if e_db_up env then
     s\<lparr>events := events (append_approval_audit env x ac b None m md s)\<rparr> else s)"
  by (simp add: append_approval_audit_def Let_def)

lemma silent_note [simp]:
  "heap (append_approval_audit env x ac b None m md s) = heap s"
  "table (append_approval_audit env x ac b None m md s) = table s"
  by (simp_all add: append_approval_audit_def Let_def)

lemma decision_frame [simp]:
  "heap (snd (audit_decision env r a ok s)) = heap s" "table (snd (audit_decision env r a ok s)) = table s"
  "approvals (snd (audit_decision env r a ok s)) = approvals s"
  "executions (snd (audit_decision env r a ok s)) = executions s"
  "e_db_up env \<Longrightarrow> fst (audit_decision env r a ok s) = ok"
  by (simp_all add: audit_decision_def)

lemma keys_dict_set_same: "map_of m k = Some v' \<Longrightarrow> map fst (dict_set k v m) = map fst m"
  by (induction m) (auto split: if_splits)

lemma keys_upsert: "map_of rows (ap_id r) = Some q \<Longrightarrow> map fst (upsert r rows) = map fst rows"
  by (simp add: upsert_def keys_dict_set_same)

lemma single_row: "map fst t = [a] \<Longrightarrow> map_of t a = Some r \<Longrightarrow> t = [(a, r)]"
  by (cases t) (auto split: if_splits)

lemma row_set_items:
  assumes "x < length (heap s)" "list_all keeps_key fs" "e_db_up env" "table s = [(a, q)]" "ap_id (heap s ! x) = a"
    "fs \<noteq> []"
  shows "table (set_items env x fs s) = [(a, merged (items fs (heap s ! x)) (Some q))]"
proof (rule single_row)
  show "map_of (table (set_items env x fs s)) a = Some (merged (items fs (heap s ! x)) (Some q))"
    using table_set_items[OF assms(1,2,6), of env] assms by simp
  show "map fst (table (set_items env x fs s)) = [a]"
    using assms
  proof (induction fs arbitrary: s q)
    case (Cons f fs)
    let ?s = "set_item env x f s"
    have f: "ap_id (f (heap s ! x)) = a" using Cons.prems by (simp add: keeps_key_def)
    have t: "table ?s = [(a, merged (f (heap s ! x)) (Some q))]"
      using Cons.prems f by (simp add: set_item_def persist_record_def upsert_def merged_def)
    show ?case
    proof (cases "fs = []")
      case True then show ?thesis using t by (simp add: set_items_def)
    next
      case False
      have "set_items env x (f # fs) s = set_items env x fs ?s" by (simp add: set_items_def)
      then show ?thesis using Cons.IH[OF _ _ _ t] Cons.prems False f by simp
    qed
  qed simp
qed

lemma approve_effect:
  assumes "x < length (heap s)" "e_db_up env" "e_require_mfa env"
    and "verify_approval_stage_mfa env (heap s ! x) u code Approval_stage (jiso env (ap_expires_at (heap s ! x))) = Mfa_ok h k"
  shows "fst (approve_finish env x u (Body code None) s) = Reply 200 ''Request Approved''
    \<and> heap (snd (approve_finish env x u (Body code None) s))
        = (heap s)[x := items (approved_items env (approval_actor_from_payload u) True (Some h) (Some k)) (heap s ! x)]
    \<and> approvals (snd (approve_finish env x u (Body code None) s)) = approvals s
    \<and> executions (snd (approve_finish env x u (Body code None) s)) = executions s
    \<and> table (snd (approve_finish env x u (Body code None) s))
        = table (set_items env x (approved_items env (approval_actor_from_payload u) True (Some h) (Some k)) s)"
  using assms
  by (simp add: approve_finish_def approve_record_def Let_def body_comment_def body_mfa_code_def strip_def
      lstrip_by_def rstrip_by_def heap_items)

lemma execute_effect:
  assumes "x < length (heap s)" "e_db_up env" "execution_guard env (heap s ! x) (approval_actor_from_payload u) k"
    and "verify_approval_stage_mfa env (heap s ! x) u code Execution_stage
       (jiso env (if ap_execution_expires_at (heap s ! x) = None then ap_expires_at (heap s ! x)
                  else ap_execution_expires_at (heap s ! x))) = Mfa_ok h k"
    and "lock_execution env aid (approval_actor_from_payload u) token h k s = Some s1"
  shows "fst (execute_finish env x u aid (Body code None) token (Exec_result res rid p m) s) = Reply 200 ''Executed Successfully''
    \<and> heap (snd (execute_finish env x u aid (Body code None) token (Exec_result res rid p m) s))
        = (heap s)[x := items (executing_items env (approval_actor_from_payload u) token h k @ executed_items env) (heap s ! x)]
    \<and> approvals (snd (execute_finish env x u aid (Body code None) token (Exec_result res rid p m) s)) = approvals s
    \<and> executions (snd (execute_finish env x u aid (Body code None) token (Exec_result res rid p m) s))
        = executions s @ [ap_id (heap s ! x)]
    \<and> table (snd (execute_finish env x u aid (Body code None) token (Exec_result res rid p m) s))
        = table (set_items env x (executing_items env (approval_actor_from_payload u) token h k @ executed_items env) s1)"
proof -
  let ?ap = "approval_actor_from_payload u"
  let ?its = "executing_items env ?ap token h k"
  note lf = lock_execution_frame[OF assms(5)]
  have x1: "x < length (heap s1)" using lf assms(1) by simp
  define md where "md = [(''action_payload_hash'', JStr (approval_action_payload_hash (e_sha256 env)
              (heap (set_items env x ?its s1) ! x))), (''mfa_binding_hash'', JStr h)]"
  have e: "execute_finish env x u aid (Body code None) token (Exec_result res rid p m) s
      = run_execution env x ?ap None h (Exec_result res rid p m)
          (append_approval_audit env x ''executing'' ?ap None True md (set_items env x ?its s1))"
    using assms
    by (auto simp: execute_finish_def execution_guard_def approval_is_expired_def Let_def body_comment_def
        body_mfa_code_def strip_def lstrip_by_def rstrip_by_def md_def)
  have two: "set_items env x fs (set_items env x gs s) = set_items env x (gs @ fs) s" for fs gs s
    by (simp add: set_items_def)
  have i: "set_item env x f (q\<lparr>events := ev, executions := ex\<rparr>)
      = (set_item env x f q)\<lparr>events := ev, executions := ex\<rparr>" for f q ev ex
    by (simp add: set_item_def persist_record_def)
  have t: "set_items env x fs (q\<lparr>events := ev, executions := ex\<rparr>)
      = (set_items env x fs q)\<lparr>events := ev, executions := ex\<rparr>" for fs q ev ex
    by (induction fs arbitrary: q) (simp_all add: set_items_def i)
  define q where "q = set_items env x ?its s1"
  have a: "\<exists>ev. append_approval_audit env x ''executing'' ?ap None True md q = q\<lparr>events := ev\<rparr>"
    using assms(2) by (subst append_audit_silent) auto
  then obtain ev where ev: "append_approval_audit env x ''executing'' ?ap None True md q = q\<lparr>events := ev\<rparr>" by blast
  have id: "ap_id (heap q ! x) = ap_id (heap s ! x)"
    using x1 lf items_keep_key[OF keeps_key_items(4)] by (simp add: q_def heap_items)
  have ex: "executions q = executions s" "approvals q = approvals s" using lf by (simp_all add: q_def)
  have qt: "table (set_items env x (executed_items env) q) = table (set_items env x (?its @ executed_items env) s1)"
    "heap (set_items env x (executed_items env) q) = heap (set_items env x (?its @ executed_items env) s1)"
    by (simp_all add: q_def two)
  show ?thesis
    unfolding e q_def[symmetric] ev using assms(2) lf x1
    by (simp add: run_execution_def Let_def t id ex qt heap_items)
qed

section \<open>Concrete runs\<close>

fun fresh_run :: "step list \<Rightarrow> system \<Rightarrow> bool" where
  "fresh_run [] c = True"
| "fresh_run (st # ss) c = (fresh_step st c \<and> fresh_run ss (apply_step st c))"

lemma reachable_run:
  "reachable allowed c \<Longrightarrow> list_all allowed ss \<Longrightarrow> fresh_run ss c \<Longrightarrow> reachable allowed (run_steps ss c)"
  by (induction ss arbitrary: c) (simp_all add: run_steps_def reach_step)

text \<open>A tenant with a TOTP secret, whose codes are here their own counters.\<close>

definition demo_env :: "int \<Rightarrow> approval_env" where
  "demo_env now = \<lparr>e_now = now, e_db_up = True, e_sha256 = const_digest, e_iso = show_int,
     e_require_mfa = True, e_expiry_minutes = 30, e_execution_expiry_minutes = 10,
     e_users = [], e_tenant_secrets = [(7, Some ''K'')],
     e_totp_counter = (\<lambda>secret code now. Some (of_char (hd code)))\<rparr>"

definition demo_user :: user_payload where
  "demo_user = \<lparr>up_tenant_id = Some 7, up_user_id = None, up_sub = Some ''ann'', up_email = None\<rparr>"

definition demo_create :: step where
  "demo_create = Create (demo_env 0) ''a'' ''r'' ''c'' ''q'' ''HIGH'' (Some 7) None []"

definition demo_finish :: "int \<Rightarrow> nat \<Rightarrow> char \<Rightarrow> step" where
  "demo_finish now k code = Finish (demo_env now) k (Body (Some [code]) None) ''t''
     (Exec_result (Some ''done'') None ''p'' ''m'')"

text \<open>What the runs below observe of a system.\<close>

definition snap :: "system \<Rightarrow> approval list \<Rightarrow> (string \<times> nat) list \<Rightarrow> (string \<times> approval) list
    \<Rightarrow> string list \<Rightarrow> handler option list \<Rightarrow> reply list \<Rightarrow> bool" where
  "snap c hp aps tb ex run rep =
     (heap (store c) = hp \<and> approvals (store c) = aps \<and> table (store c) = tb
      \<and> executions (store c) = ex \<and> running c = run \<and> replies c = rep)"

definition demo_pending :: approval where
  "demo_pending = (let r = new_approval (demo_env 0) ''a'' ''r'' ''c'' ''q'' ''HIGH'' (Some 7) None []
     in r\<lparr>ap_comments := [\<lparr>n_action = ''created'', n_actor = ''system'',
            n_comment = Some ''Approval created for reason: high_risk'', n_mfa_verified = False,
            n_reason = ''high_risk'', n_created_at = 0,
            n_metadata = [(''risk_level'', JStr ''HIGH''), (''expires_at'', jiso (demo_env 0) (Some (minutes 30)))]\<rparr>]\<rparr>)"

lemma demo_env_simps [simp]:
  "e_now (demo_env t) = t" "e_db_up (demo_env t)" "e_require_mfa (demo_env t)"
  "e_expiry_minutes (demo_env t) = 30" "e_execution_expiry_minutes (demo_env t) = 10"
  by (simp_all add: demo_env_def)

lemma demo_user_simps [simp]:
  "approval_actor_from_payload demo_user = ''ann''" "approval_authenticated demo_user"
  "up_tenant_id demo_user = Some 7"
  by (simp_all add: demo_user_def approval_actor_from_payload_def approval_authenticated_def)

lemma demo_verify:
  "ap_tenant_id r = Some 7 \<Longrightarrow>
     verify_approval_stage_mfa (demo_env t) r demo_user (Some [code]) Approval_stage e
     = (if ap_approval_mfa_counter r = Some (of_char code) then Mfa_denied ''Stale MFA code is not allowed''
        else Mfa_ok (approval_mfa_binding_hash const_digest r ''ann'' Approval_stage (of_char code) e) (of_char code))"
  "ap_tenant_id r = Some 7 \<Longrightarrow>
     ap_execution_mfa_counter r \<noteq> Some (of_char code) \<Longrightarrow> ap_approval_mfa_counter r \<noteq> Some (of_char code) \<Longrightarrow>
     verify_approval_stage_mfa (demo_env t) r demo_user (Some [code]) Execution_stage e
     = Mfa_ok (approval_mfa_binding_hash const_digest r ''ann'' Execution_stage (of_char code) e) (of_char code)"
  by (simp_all add: verify_approval_stage_mfa_def approval_totp_secret_def user_secret_where_def Let_def,
      simp_all add: demo_env_def demo_user_def approval_actor_from_payload_def)

lemma snap_create: "snap (apply_step demo_create init_system) [demo_pending] [(''a'', 0)] [(''a'', demo_pending)] [] [] []"
  by (simp add: snap_def demo_create_def init_system_def init_state_def create_approval_def new_approval_def
      alloc_def append_approval_audit_def set_item_def persist_record_def upsert_def log_event_def Let_def
      demo_pending_def)

lemma get_cached:
  "map_of (approvals s) a = Some x \<Longrightarrow> \<not> (ap_status (heap s ! x) = Pending \<and> overdue env (ap_expires_at (heap s ! x))) \<Longrightarrow>
     get_approval env a s = (Some x, s)"
  by (auto simp: get_approval_def check_expiry_def Let_def)

lemma snap_start:
  assumes "snap c hp aps tb ex run rep" "map_of aps a = Some x"
    and "\<not> (ap_status (hp ! x) = Pending \<and> overdue env (ap_expires_at (hp ! x)))" "approval_tenant_access (hp ! x) u"
  shows "approve_refusal (ap_status (hp ! x)) = None \<Longrightarrow> approval_authenticated u \<Longrightarrow>
      snap (apply_step (Start_approve env a u) c) hp aps tb ex (run @ [Some (Approve_run x u)]) rep"
    "snap (apply_step (Start_reject env a u) c) hp aps tb ex (run @ [Some (Reject_run x u)]) rep"
    "approval_authenticated u \<Longrightarrow>
      snap (apply_step (Start_execute env a u) c) hp aps tb ex (run @ [Some (Execute_run x u a)]) rep"
  using assms get_cached[of "store c" a x env]
  by (auto simp: snap_def approve_start_def reject_start_def execute_start_def started_def)

lemma snap_approve:
  assumes "snap c hp aps [(a, q)] ex run rep" "k < length run" "run ! k = Some (Approve_run x demo_user)"
    and "x < length hp" "ap_id (hp ! x) = a" "ap_tenant_id (hp ! x) = Some 7"
    and "ap_approval_mfa_counter (hp ! x) \<noteq> Some (of_char code)"
    and "fs = approved_items (demo_env t) ''ann'' True (Some (approval_mfa_binding_hash const_digest (hp ! x) ''ann''
           Approval_stage (of_char code) (jiso (demo_env t) (ap_expires_at (hp ! x))))) (Some (of_char code))"
  shows "snap (apply_step (demo_finish t k code) c) (hp[x := items fs (hp ! x)]) aps
      [(a, merged (items fs (hp ! x)) (Some q))] ex (run[k := None]) (rep @ [Reply 200 ''Request Approved''])"
proof -
  have s: "heap (store c) = hp" "table (store c) = [(a, q)]" "approvals (store c) = aps" "executions (store c) = ex"
    "running c = run" "replies c = rep" using assms(1) by (simp_all add: snap_def)
  have v: "verify_approval_stage_mfa (demo_env t) (hp ! x) demo_user (Some [code]) Approval_stage
      (jiso (demo_env t) (ap_expires_at (hp ! x)))
    = Mfa_ok (approval_mfa_binding_hash const_digest (hp ! x) ''ann'' Approval_stage (of_char code)
        (jiso (demo_env t) (ap_expires_at (hp ! x)))) (of_char code)"
    using demo_verify(1)[OF assms(6), of t code] assms(7) by simp
  note e = approve_effect[of x "store c" "demo_env t" demo_user "Some [code]", unfolded s, OF assms(4) _ _ v]
  have r: "table (set_items (demo_env t) x fs (store c)) = [(a, merged (items fs (hp ! x)) (Some q))]"
    using row_set_items[of x "store c" fs "demo_env t" a q] assms s by simp
  show ?thesis using e assms s r
    by (auto simp: demo_finish_def finished_def finish_def snap_def split_def)
qed

lemma snap_execute:
  assumes "snap c hp aps [(a, q)] ex run rep" "k < length run" "run ! k = Some (Execute_run x demo_user a)"
    and "x < length hp" "ap_id (hp ! x) = a" "ap_tenant_id (hp ! x) = Some 7" "ap_id q = a"
    and "execution_guard (demo_env t) (hp ! x) ''ann'' (of_char code)"
    and "ap_status q = Approved" "ap_execution_token_used_at q = None"
    and "fs = executing_items (demo_env t) ''ann'' ''t'' (approval_mfa_binding_hash const_digest (hp ! x) ''ann''
           Execution_stage (of_char code) (jiso (demo_env t) (if ap_execution_expires_at (hp ! x) = None
             then ap_expires_at (hp ! x) else ap_execution_expires_at (hp ! x)))) (of_char code) @ executed_items (demo_env t)"
  shows "\<exists>q'. ap_created_at q' = ap_created_at q \<and> snap (apply_step (demo_finish t k code) c) (hp[x := items fs (hp ! x)]) aps
      [(a, merged (items fs (hp ! x)) (Some q'))] (ex @ [a]) (run[k := None]) (rep @ [Reply 200 ''Executed Successfully''])"
proof -
  let ?h = "approval_mfa_binding_hash const_digest (hp ! x) ''ann''
           Execution_stage (of_char code) (jiso (demo_env t) (if ap_execution_expires_at (hp ! x) = None
             then ap_expires_at (hp ! x) else ap_execution_expires_at (hp ! x)))"
  have s: "heap (store c) = hp" "table (store c) = [(a, q)]" "approvals (store c) = aps" "executions (store c) = ex"
    "running c = run" "replies c = rep" using assms(1) by (simp_all add: snap_def)
  obtain s1 where l: "lock_execution (demo_env t) a ''ann'' ''t'' ?h (of_char code) (store c) = Some s1"
    using assms(9,10) s by (simp add: lock_execution_def)
  then obtain q' where q': "table s1 = [(a, q')]" "ap_created_at q' = ap_created_at q" "heap s1 = hp"
    using assms(9,10) s by (auto simp: lock_execution_def)
  have v: "verify_approval_stage_mfa (demo_env t) (hp ! x) demo_user (Some [code]) Execution_stage
      (jiso (demo_env t) (if ap_execution_expires_at (hp ! x) = None then ap_expires_at (hp ! x)
        else ap_execution_expires_at (hp ! x))) = Mfa_ok ?h (of_char code)"
    by (rule demo_verify(2)) (use assms(6,8) in \<open>simp_all add: execution_guard_def\<close>)
  note e = execute_effect[of x "store c" "demo_env t" demo_user, unfolded s demo_user_simps, OF assms(4) _ assms(8) v l,
      of "Some ''done''" None "''p''" "''m''"]
  have r: "table (set_items (demo_env t) x fs s1) = [(a, merged (items fs (hp ! x)) (Some q'))]"
    using row_set_items[of x s1 fs "demo_env t" a q'] assms q' by simp
  show ?thesis using e assms s r q'(2)
    by (intro exI[of _ q']) (auto simp: demo_finish_def finished_def finish_def snap_def split_def)
qed

lemma snap_list:
  assumes "snap c hp [(a, x)] [(a, q)] ex run rep" "ap_tenant_id q = Some 7" "ap_status q \<noteq> Pending" "ap_id q = a"
  shows "snap (apply_step (List_all (demo_env t) (Some demo_user)) c) (hp @ [q]) [(a, length hp)] [(a, q)] ex run rep"
  using assms
  by (simp add: snap_def get_approvals_list_def get_all_approvals_def load_all_records_def alloc_def check_expiry_def Let_def)

text \<open>The records of the runs: approved at time \<open>t\<close> and executed at time \<open>t\<close> with a code.\<close>

definition approved_rec :: "int \<Rightarrow> char \<Rightarrow> approval \<Rightarrow> approval" where
  "approved_rec t code r = items (approved_items (demo_env t) ''ann'' True
     (Some (approval_mfa_binding_hash const_digest r ''ann'' Approval_stage (of_char code)
        (jiso (demo_env t) (ap_expires_at r)))) (Some (of_char code))) r"

definition executed_rec :: "int \<Rightarrow> char \<Rightarrow> approval \<Rightarrow> approval" where
  "executed_rec t code r = items (executing_items (demo_env t) ''ann'' ''t''
     (approval_mfa_binding_hash const_digest r ''ann'' Execution_stage (of_char code)
        (jiso (demo_env t) (if ap_execution_expires_at r = None then ap_expires_at r else ap_execution_expires_at r)))
     (of_char code) @ executed_items (demo_env t)) r"

lemma approved_rec_simps [simp]:
  "ap_id (approved_rec t code r) = ap_id r" "ap_status (approved_rec t code r) = Approved"
  "ap_tenant_id (approved_rec t code r) = ap_tenant_id r" "ap_created_at (approved_rec t code r) = ap_created_at r"
  "ap_expires_at (approved_rec t code r) = ap_expires_at r"
  "ap_approved_by (approved_rec t code r) = Some ''ann''"
  "ap_approval_mfa_counter (approved_rec t code r) = Some (of_char code)"
  "ap_execution_mfa_counter (approved_rec t code r) = ap_execution_mfa_counter r"
  "ap_execution_token_used_at (approved_rec t code r) = ap_execution_token_used_at r"
  "ap_execution_expires_at (approved_rec t code r) = Some (t + 600000000)"
  by (simp_all add: approved_rec_def approved_items_def approval_execution_expiry_minutes_def minutes_def)

lemma executed_rec_simps [simp]:
  "ap_id (executed_rec t code r) = ap_id r" "ap_status (executed_rec t code r) = Executed"
  "ap_created_at (executed_rec t code r) = ap_created_at r" "ap_tenant_id (executed_rec t code r) = ap_tenant_id r"
  by (simp_all add: executed_rec_def executing_items_def executed_items_def)

lemma demo_pending_simps [simp]:
  "ap_id demo_pending = ''a''" "ap_status demo_pending = Pending" "ap_tenant_id demo_pending = Some 7"
  "ap_expires_at demo_pending = Some 1800000000" "ap_approval_mfa_counter demo_pending = None"
  "ap_execution_mfa_counter demo_pending = None" "ap_execution_token_used_at demo_pending = None"
  by (simp_all add: demo_pending_def new_approval_def Let_def minutes_def)

lemma merged_same: "ap_created_at q = ap_created_at r \<Longrightarrow> merged r (Some q) = r"
  by (cases r) (simp add: merged_def)

lemma snap_approved:
  assumes "snap c hp aps [(a, q)] ex run rep" "k < length run" "run ! k = Some (Approve_run x demo_user)"
    and "x < length hp" "ap_id (hp ! x) = a" "ap_tenant_id (hp ! x) = Some 7"
    and "ap_approval_mfa_counter (hp ! x) \<noteq> Some (of_char code)" "ap_created_at q = ap_created_at (hp ! x)"
  shows "snap (apply_step (demo_finish t k code) c) (hp[x := approved_rec t code (hp ! x)]) aps
      [(a, approved_rec t code (hp ! x))] ex (run[k := None]) (rep @ [Reply 200 ''Request Approved''])"
  using snap_approve[OF assms(1-7) refl, of t] merged_same[of q "approved_rec t code (hp ! x)"] assms(8)
  by (simp add: approved_rec_def[symmetric])

lemma snap_executed:
  assumes "snap c hp aps [(a, q)] ex run rep" "k < length run" "run ! k = Some (Execute_run x demo_user a)"
    and "x < length hp" "ap_id (hp ! x) = a" "ap_tenant_id (hp ! x) = Some 7" "ap_id q = a"
    and "execution_guard (demo_env t) (hp ! x) ''ann'' (of_char code)"
    and "ap_status q = Approved" "ap_execution_token_used_at q = None" "ap_created_at q = ap_created_at (hp ! x)"
  shows "snap (apply_step (demo_finish t k code) c) (hp[x := executed_rec t code (hp ! x)]) aps
      [(a, executed_rec t code (hp ! x))] (ex @ [a]) (run[k := None]) (rep @ [Reply 200 ''Executed Successfully''])"
  using snap_execute[OF assms(1-10) refl] merged_same[of _ "executed_rec t code (hp ! x)"] assms(11)
  by (auto simp: executed_rec_def[symmetric])

definition demo_run :: "step list" where
  "demo_run = [demo_create, Start_approve (demo_env 1) ''a'' demo_user, demo_finish 2 0 (CHR ''1''),
     Start_execute (demo_env 3) ''a'' demo_user, demo_finish 4 1 (CHR ''2'')]"

text \<open>After the first three steps the record is approved.\<close>

lemma snap_demo_approved:
  "snap (apply_step (demo_finish 2 0 (CHR ''1'')) (apply_step (Start_approve (demo_env 1) ''a'' demo_user)
      (apply_step demo_create init_system)))
    [approved_rec 2 (CHR ''1'') demo_pending] [(''a'', 0)] [(''a'', approved_rec 2 (CHR ''1'') demo_pending)] []
    [None] [Reply 200 ''Request Approved'']"
proof -
  have s: "snap (apply_step (Start_approve (demo_env 1) ''a'' demo_user) (apply_step demo_create init_system))
      [demo_pending] [(''a'', 0)] [(''a'', demo_pending)] [] [Some (Approve_run 0 demo_user)] []"
    using snap_start(1)[OF snap_create, of "''a''" 0 "demo_env 1" demo_user]
    by (simp add: overdue_def approval_tenant_access_def approve_refusal_def del: apply_step.simps)
  show ?thesis using snap_approved[OF s, of 0 0 "CHR ''1''" 2] by (simp del: apply_step.simps)
qed

lemma demo_guard:
  "ap_approval_mfa_counter r = Some (of_char code') \<Longrightarrow> ap_execution_mfa_counter r = None \<Longrightarrow> code' \<noteq> code \<Longrightarrow>
   ap_status r = Approved \<Longrightarrow> ap_approved_by r = Some ''ann'' \<Longrightarrow> \<not> overdue (demo_env t) (ap_expires_at r) \<Longrightarrow>
   \<not> overdue (demo_env t) (ap_execution_expires_at r) \<Longrightarrow> execution_guard (demo_env t) r ''ann'' (of_char code)"
  by (simp add: execution_guard_def)

lemma snap_demo_run: "snap (run_steps demo_run init_system) [executed_rec 4 (CHR ''2'') (approved_rec 2 (CHR ''1'') demo_pending)]
    [(''a'', 0)] [(''a'', executed_rec 4 (CHR ''2'') (approved_rec 2 (CHR ''1'') demo_pending))] [''a''] [None, None]
    [Reply 200 ''Request Approved'', Reply 200 ''Executed Successfully'']"
proof -
  note s = snap_start(3)[OF snap_demo_approved, of "''a''" 0 "demo_env 3" demo_user, simplified nth_Cons_0]
  have s': "snap (apply_step (Start_execute (demo_env 3) ''a'' demo_user) (apply_step (demo_finish 2 0 (CHR ''1''))
      (apply_step (Start_approve (demo_env 1) ''a'' demo_user) (apply_step demo_create init_system))))
      [approved_rec 2 (CHR ''1'') demo_pending] [(''a'', 0)] [(''a'', approved_rec 2 (CHR ''1'') demo_pending)] []
      [None, Some (Execute_run 0 demo_user ''a'')] [Reply 200 ''Request Approved'']"
    using s by (simp add: approval_tenant_access_def del: apply_step.simps)
  have g: "execution_guard (demo_env 4) (approved_rec 2 (CHR ''1'') demo_pending) ''ann'' (of_char (CHR ''2''))"
    by (rule demo_guard[where code' = "CHR ''1''"]) (simp_all add: overdue_def)
  show ?thesis using snap_executed[OF s', of 1 0 4 "CHR ''2''"] g
    by (simp add: demo_run_def run_steps_def del: apply_step.simps)
qed

lemma fresh_demo:
  "fresh_step demo_create init_system" "fresh_step (demo_finish t k code) c"
  "fresh_step (Start_approve env a u) c" "fresh_step (Start_reject env a u) c" "fresh_step (Start_execute env a u) c"
  "fresh_step (List_all env v) c" "fresh_step (Finish env k b tok out) c"
  by (simp_all add: fresh_step_def demo_create_def demo_finish_def init_system_def init_state_def)

theorem approval_executed_at_most_once_witness:
  "distinct (executions (store (run_steps demo_run init_system)))
     \<and> executions (store (run_steps demo_run init_system)) = [''a'']"
proof
  have "fresh_run demo_run init_system" by (simp add: demo_run_def fresh_demo del: apply_step.simps)
  moreover have "list_all (\<lambda>st. \<not> is_listing st) demo_run"
    by (simp add: demo_run_def demo_create_def demo_finish_def)
  ultimately have "reachable (\<lambda>st. \<not> is_listing st) (run_steps demo_run init_system)"
    by (intro reachable_run[OF reach_init])
  then show "distinct (executions (store (run_steps demo_run init_system)))"
    by (rule approval_executed_at_most_once)
  show "executions (store (run_steps demo_run init_system)) = [''a'']"
    using snap_demo_run by (simp add: snap_def)
qed

text \<open>One worker; the list route runs between the two sections of an execution and puts a
  fresh object for the record into the dictionary.\<close>

definition double_run :: "step list" where
  "double_run = [demo_create, Start_approve (demo_env 1) ''a'' demo_user, demo_finish 2 0 (CHR ''1''),
     Start_execute (demo_env 3) ''a'' demo_user, List_all (demo_env 4) (Some demo_user), demo_finish 5 1 (CHR ''2''),
     Start_approve (demo_env 6) ''a'' demo_user, demo_finish 7 2 (CHR ''3''),
     Start_execute (demo_env 8) ''a'' demo_user, demo_finish 9 3 (CHR ''4'')]"

text \<open>The single-use token does not survive a reload: if the list route runs while an
  execution is waiting for its body, the fresh object can be approved again after the
  execution, which writes its empty token over the used one, and the action is executed a
  second time.\<close>

theorem approval_double_execution:
  "executions (store (run_steps double_run init_system)) = [''a'', ''a'']
     \<and> fresh_run double_run init_system"
proof -
  let ?A = "approved_rec 2 (CHR ''1'') demo_pending"
  let ?E = "executed_rec 5 (CHR ''2'') ?A"
  let ?B = "approved_rec 7 (CHR ''3'') ?A"
  define c3 where "c3 = apply_step (demo_finish 2 0 (CHR ''1'')) (apply_step (Start_approve (demo_env 1) ''a'' demo_user)
      (apply_step demo_create init_system))"
  define c4 where "c4 = apply_step (Start_execute (demo_env 3) ''a'' demo_user) c3"
  define c5 where "c5 = apply_step (List_all (demo_env 4) (Some demo_user)) c4"
  define c6 where "c6 = apply_step (demo_finish 5 1 (CHR ''2'')) c5"
  define c7 where "c7 = apply_step (Start_approve (demo_env 6) ''a'' demo_user) c6"
  define c8 where "c8 = apply_step (demo_finish 7 2 (CHR ''3'')) c7"
  define c9 where "c9 = apply_step (Start_execute (demo_env 8) ''a'' demo_user) c8"
  note s3 = snap_demo_approved[folded c3_def]
  have s4: "snap c4 [?A] [(''a'', 0)] [(''a'', ?A)] [] [None, Some (Execute_run 0 demo_user ''a'')]
      [Reply 200 ''Request Approved'']"
    using snap_start(3)[OF s3, of "''a''" 0 "demo_env 3" demo_user]
    by (simp add: c4_def approval_tenant_access_def del: apply_step.simps)
  have s5: "snap c5 [?A, ?A] [(''a'', 1)] [(''a'', ?A)] [] [None, Some (Execute_run 0 demo_user ''a'')]
      [Reply 200 ''Request Approved'']"
    using snap_list[OF s4, of 4] by (simp add: c5_def del: apply_step.simps)
  have "execution_guard (demo_env 5) ?A ''ann'' (of_char (CHR ''2''))"
    by (rule demo_guard[where code' = "CHR ''1''"]) (simp_all add: overdue_def)
  then have s6: "snap c6 [?E, ?A] [(''a'', 1)] [(''a'', ?E)] [''a''] [None, None]
      [Reply 200 ''Request Approved'', Reply 200 ''Executed Successfully'']"
    using snap_executed[OF s5, of 1 0 5 "CHR ''2''"] by (simp add: c6_def del: apply_step.simps)
  have s7: "snap c7 [?E, ?A] [(''a'', 1)] [(''a'', ?E)] [''a''] [None, None, Some (Approve_run 1 demo_user)]
      [Reply 200 ''Request Approved'', Reply 200 ''Executed Successfully'']"
    using snap_start(1)[OF s6, of "''a''" 1 "demo_env 6" demo_user]
    by (simp add: c7_def approval_tenant_access_def approve_refusal_def del: apply_step.simps)
  have s8: "snap c8 [?E, ?B] [(''a'', 1)] [(''a'', ?B)] [''a''] [None, None, None]
      [Reply 200 ''Request Approved'', Reply 200 ''Executed Successfully'', Reply 200 ''Request Approved'']"
    using snap_approved[OF s7, of 2 1 "CHR ''3''" 7] by (simp add: c8_def numeral_2_eq_2 del: apply_step.simps)
  have s9: "snap c9 [?E, ?B] [(''a'', 1)] [(''a'', ?B)] [''a''] [None, None, None, Some (Execute_run 1 demo_user ''a'')]
      [Reply 200 ''Request Approved'', Reply 200 ''Executed Successfully'', Reply 200 ''Request Approved'']"
    using snap_start(3)[OF s8, of "''a''" 1 "demo_env 8" demo_user]
    by (simp add: c9_def approval_tenant_access_def del: apply_step.simps)
  have "execution_guard (demo_env 9) ?B ''ann'' (of_char (CHR ''4''))"
    by (rule demo_guard[where code' = "CHR ''3''"]) (simp_all add: overdue_def)
  then have "executions (store (apply_step (demo_finish 9 3 (CHR ''4'')) c9)) = [''a'', ''a'']"
    using snap_executed[OF s9, of 3 1 9 "CHR ''4''"] by (simp add: snap_def numeral_3_eq_3 del: apply_step.simps)
  moreover have "run_steps double_run init_system = apply_step (demo_finish 9 3 (CHR ''4'')) c9"
    by (simp add: run_steps_def double_run_def c3_def c4_def c5_def c6_def c7_def c8_def c9_def del: apply_step.simps)
  ultimately show ?thesis by (simp add: double_run_def fresh_demo del: apply_step.simps)
qed

lemma reject_effect:
  assumes "x < length (heap s)" "e_db_up env" "reject_refusal (ap_status (heap s ! x)) = None"
  shows "fst (reject_finish env x u No_body s) = Reply 200 ''Request Rejected''
    \<and> heap (snd (reject_finish env x u No_body s))
        = (heap s)[x := items (rejected_items env (approval_actor_from_payload u)) (heap s ! x)]
    \<and> approvals (snd (reject_finish env x u No_body s)) = approvals s
    \<and> executions (snd (reject_finish env x u No_body s)) = executions s
    \<and> table (snd (reject_finish env x u No_body s))
        = table (set_items env x (rejected_items env (approval_actor_from_payload u)) s)"
  using assms
  by (simp add: reject_finish_def Let_def body_comment_def heap_items)

definition rejected_rec :: "int \<Rightarrow> string \<Rightarrow> approval \<Rightarrow> approval" where
  "rejected_rec t actor r = items (rejected_items (demo_env t) actor) r"

lemma rejected_rec_simps [simp]:
  "ap_id (rejected_rec t ac r) = ap_id r" "ap_status (rejected_rec t ac r) = Rejected"
  "ap_tenant_id (rejected_rec t ac r) = ap_tenant_id r" "ap_created_at (rejected_rec t ac r) = ap_created_at r"
  "ap_expires_at (rejected_rec t ac r) = ap_expires_at r"
  "ap_approval_mfa_counter (rejected_rec t ac r) = ap_approval_mfa_counter r"
  "ap_execution_mfa_counter (rejected_rec t ac r) = ap_execution_mfa_counter r"
  "ap_execution_token_used_at (rejected_rec t ac r) = ap_execution_token_used_at r"
  by (simp_all add: rejected_rec_def rejected_items_def)

lemma snap_rejected:
  assumes "snap c hp aps [(a, q)] ex run rep" "k < length run" "run ! k = Some (Reject_run x u)"
    and "x < length hp" "ap_id (hp ! x) = a" "reject_refusal (ap_status (hp ! x)) = None"
    and "ap_created_at q = ap_created_at (hp ! x)"
  shows "snap (apply_step (Finish (demo_env t) k No_body tok out) c)
      (hp[x := rejected_rec t (approval_actor_from_payload u) (hp ! x)]) aps
      [(a, rejected_rec t (approval_actor_from_payload u) (hp ! x))] ex (run[k := None]) (rep @ [Reply 200 ''Request Rejected''])"
proof -
  have s: "heap (store c) = hp" "table (store c) = [(a, q)]" "approvals (store c) = aps" "executions (store c) = ex"
    "running c = run" "replies c = rep" using assms(1) by (simp_all add: snap_def)
  let ?fs = "rejected_items (demo_env t) (approval_actor_from_payload u)"
  have r: "table (set_items (demo_env t) x ?fs (store c)) = [(a, items ?fs (hp ! x))]"
    using row_set_items[of x "store c" ?fs "demo_env t" a q] assms s
      merged_same[of q "rejected_rec t (approval_actor_from_payload u) (hp ! x)"]
    by (simp add: rejected_rec_def[symmetric])
  show ?thesis using reject_effect[of x "store c" "demo_env t" u, unfolded s] assms s r
    by (auto simp: finished_def finish_def snap_def split_def rejected_rec_def)
qed

definition overtaken_run :: "step list" where
  "overtaken_run = [demo_create, Start_approve (demo_env 1) ''a'' demo_user,
     Start_reject (demo_env 2) ''a'' anonymous, Finish (demo_env 3) 1 No_body [] Exec_config_error,
     demo_finish 4 0 (CHR ''1''), Start_execute (demo_env 5) ''a'' demo_user, demo_finish 6 2 (CHR ''2'')]"

text \<open>The status is checked before the request body is awaited and not again: an approval
  whose body arrives after the request was rejected turns the rejected record into an approved
  one, and it is executed.\<close>

theorem rejected_then_executed:
  "replies (run_steps overtaken_run init_system)
     = [Reply 200 ''Request Rejected'', Reply 200 ''Request Approved'', Reply 200 ''Executed Successfully'']
   \<and> executions (store (run_steps overtaken_run init_system)) = [''a'']
   \<and> fresh_run overtaken_run init_system"
proof -
  let ?R = "rejected_rec 3 ''System Admin'' demo_pending"
  let ?A = "approved_rec 4 (CHR ''1'') ?R"
  define c2 where "c2 = apply_step (Start_approve (demo_env 1) ''a'' demo_user) (apply_step demo_create init_system)"
  define c3 where "c3 = apply_step (Start_reject (demo_env 2) ''a'' anonymous) c2"
  define c4 where "c4 = apply_step (Finish (demo_env 3) 1 No_body [] Exec_config_error) c3"
  define c5 where "c5 = apply_step (demo_finish 4 0 (CHR ''1'')) c4"
  define c6 where "c6 = apply_step (Start_execute (demo_env 5) ''a'' demo_user) c5"
  have actor: "approval_actor_from_payload anonymous = ''System Admin''"
    by (simp add: anonymous_def approval_actor_from_payload_def)
  have s2: "snap c2 [demo_pending] [(''a'', 0)] [(''a'', demo_pending)] [] [Some (Approve_run 0 demo_user)] []"
    using snap_start(1)[OF snap_create, of "''a''" 0 "demo_env 1" demo_user]
    by (simp add: c2_def overdue_def approval_tenant_access_def approve_refusal_def del: apply_step.simps)
  have s3: "snap c3 [demo_pending] [(''a'', 0)] [(''a'', demo_pending)] []
      [Some (Approve_run 0 demo_user), Some (Reject_run 0 anonymous)] []"
    using snap_start(2)[OF s2, of "''a''" 0 "demo_env 2" anonymous]
    by (simp add: c3_def overdue_def approval_tenant_access_def anonymous_def del: apply_step.simps)
  have s4: "snap c4 [?R] [(''a'', 0)] [(''a'', ?R)] [] [Some (Approve_run 0 demo_user), None]
      [Reply 200 ''Request Rejected'']"
    using snap_rejected[OF s3, of 1 0 anonymous 3 "[]" Exec_config_error]
    by (simp add: c4_def reject_refusal_def actor del: apply_step.simps)
  have s5: "snap c5 [?A] [(''a'', 0)] [(''a'', ?A)] [] [None, None]
      [Reply 200 ''Request Rejected'', Reply 200 ''Request Approved'']"
    using snap_approved[OF s4, of 0 0 "CHR ''1''" 4] by (simp add: c5_def del: apply_step.simps)
  have s6: "snap c6 [?A] [(''a'', 0)] [(''a'', ?A)] [] [None, None, Some (Execute_run 0 demo_user ''a'')]
      [Reply 200 ''Request Rejected'', Reply 200 ''Request Approved'']"
    using snap_start(3)[OF s5, of "''a''" 0 "demo_env 5" demo_user]
    by (simp add: c6_def approval_tenant_access_def del: apply_step.simps)
  have "execution_guard (demo_env 6) ?A ''ann'' (of_char (CHR ''2''))"
    by (rule demo_guard[where code' = "CHR ''1''"]) (simp_all add: overdue_def)
  note s7 = snap_executed[OF s6, of 2 0 6 "CHR ''2''"] this
  have "run_steps overtaken_run init_system = apply_step (demo_finish 6 2 (CHR ''2'')) c6"
    by (simp add: run_steps_def overtaken_run_def c2_def c3_def c4_def c5_def c6_def del: apply_step.simps)
  then show ?thesis using s7
    by (simp add: snap_def overtaken_run_def fresh_demo del: apply_step.simps)
qed

section \<open>Invariants of single records\<close>

text \<open>The interface of a record invariant \<open>Q\<close> for runs whose environments satisfy \<open>ok_env\<close>:
  it holds of a new record and is preserved by every group of assignments of the code and by
  the row update of the lock.  Comments and the creation time are of no importance to it.\<close>

locale record_contract =
  fixes Q :: "approval \<Rightarrow> bool" and ok_env :: "approval_env \<Rightarrow> bool"
  assumes Q_comments: "Q (r\<lparr>ap_comments := c\<rparr>) = Q r"
    and Q_created: "Q (r\<lparr>ap_created_at := t\<rparr>) = Q r"
    and Q_new: "ok_env env \<Longrightarrow> Q (new_approval env aid rid cid query risk tenant reason metadata)"
    and Q_write: "ok_env env \<Longrightarrow> Q r \<Longrightarrow> legal_write env r fs \<Longrightarrow> Q (items fs r)"
    and Q_lock: "ok_env env \<Longrightarrow> Q r \<Longrightarrow> ap_status r = Approved \<Longrightarrow>
      Q (r\<lparr>ap_status := Executing, ap_execution_token_hash := Some token,
           ap_execution_token_used_at := Some (e_now env), ap_execution_mfa_verified := True,
           ap_execution_mfa_binding_hash := Some binding, ap_execution_mfa_counter := Some counter,
           ap_executed_by := Some actor, ap_last_action_at := e_now env\<rparr>)"
    and Q_execute: "ok_env env \<Longrightarrow> Q r \<Longrightarrow> execution_guard env r approver counter \<Longrightarrow>
      fin \<in> {[], executed_items env, status_items env Execution_failed} \<Longrightarrow>
      Q (items (executing_items env approver token binding counter @ fin) r)"
begin

lemma Q_merged [simp]: "Q (merged r old) = Q r"
  by (simp add: merged_def Q_created split: option.split)

definition all_records :: "approval_state \<Rightarrow> bool" where
  "all_records s = ((\<forall>r\<in>set (heap s). Q r) \<and> (\<forall>a r. map_of (table s) a = Some r \<longrightarrow> Q r))"

lemma all_items:
  assumes "all_records s" "x < length (heap s)" "list_all keeps_key fs" "fs \<noteq> []" "Q (items fs (heap s ! x))"
  shows "all_records (set_items env x fs s)"
  using assms set_update_subset_insert[of "heap s" x "items fs (heap s ! x)"]
  by (auto simp: all_records_def heap_items table_set_items)

lemma all_note:
  assumes "all_records s" "x < length (heap s)"
  shows "all_records (append_approval_audit env x ac b cm m md s)"
proof -
  obtain c where h: "heap (append_approval_audit env x ac b cm m md s) = (heap s)[x := (heap s ! x)\<lparr>ap_comments := c\<rparr>]"
    using append_audit_heap[OF assms(2)] by blast
  have "Q (heap s ! x)" using assms by (simp add: all_records_def)
  then show ?thesis
    using assms append_audit_table[OF assms(2), of env ac b cm m md]
      set_update_subset_insert[of "heap s" x "(heap s ! x)\<lparr>ap_comments := c\<rparr>"]
    by (auto simp: all_records_def h Q_comments split: if_splits)
qed

lemma fin_comments:
  "fin \<in> {executed_items env, status_items env Execution_failed} \<Longrightarrow>
     items fin (r\<lparr>ap_comments := c\<rparr>) = (items fin r)\<lparr>ap_comments := c\<rparr>"
  by (auto simp: executed_items_def status_items_def)

lemma items_append: "items (fs @ gs) r = items gs (items fs r)"
  by (simp add: items_def)

lemma all_prim:
  assumes "prim reload env s t" "ok_env env" "all_records s"
  shows "all_records t"
  using assms
proof (induction rule: prim.induct)
  case (p_create s aid reload env rid cid query risk tenant reason metadata)
  then show ?case
    using Q_new[OF p_create(3)] by (auto simp: all_records_def alloc_def persist_record_def map_of_upsert' split: if_splits)
next
  case (p_load reload s aid r env)
  then show ?case by (auto simp: all_records_def alloc_def)
next
  case (p_write x s env fs reload)
  then show ?case using legal_write_keeps[OF p_write(2)]
    by (intro all_items) (auto simp: all_records_def intro: Q_write)
next
  case (p_note x s reload env action actor comment mfa metadata)
  then show ?case by (intro all_note) simp_all
next
  case (p_frame s' s reload env)
  then show ?case by (simp add: all_records_def)
next
  case (p_execute x s env approver counter aid token binding s1 fin reload comment metadata)
  let ?its = "executing_items env approver token binding counter"
  let ?t1 = "set_items env x ?its s1"
  let ?t2 = "append_approval_audit env x ''executing'' approver comment True metadata ?t1"
  have h: "heap s1 = heap s" using lock_execution_frame[OF p_execute(4)] by simp
  have Qx: "Q (heap s ! x)" using p_execute by (simp add: all_records_def)
  have s1: "all_records s1"
    using lock_table[OF p_execute(4)] p_execute(8) Q_lock[OF p_execute(7)] h
    by (auto simp: all_records_def split: if_splits)
  have t1: "all_records ?t1"
    using Q_execute[OF p_execute(7) Qx p_execute(2), of "[]"] h p_execute(1) s1
    by (intro all_items) simp_all
  have x1: "x < length (heap ?t1)" using h p_execute(1) by simp
  have t2: "all_records (record_execution x ?t2)"
    using all_note[OF t1 x1] by (simp add: all_records_def)
  obtain c where c: "heap ?t2 ! x = (items ?its (heap s ! x))\<lparr>ap_comments := c\<rparr>"
    using append_audit_nth[OF x1, of env "''executing''" approver comment True metadata] h p_execute(1)
    by (auto simp: heap_items)
  have "Q (items fin (heap (record_execution x ?t2) ! x))"
    using Q_execute[OF p_execute(7) Qx p_execute(2), of fin] p_execute(6)
    by (auto simp: c fin_comments[OF p_execute(6)] Q_comments items_append)
  moreover have "list_all keeps_key fin" "fin \<noteq> []" using p_execute(6) nonempty_items(1,5) by (force, metis empty_iff insert_iff)
  ultimately show ?case using t2 x1 by (intro all_items) simp_all
qed

lemma all_prims: "prims reload env s t \<Longrightarrow> ok_env env \<Longrightarrow> all_records s \<Longrightarrow> all_records t"
  by (induction rule: prims.induct) (auto intro: all_prim)

lemma all_reachable:
  "reachable (\<lambda>st. ok_env (step_env st)) c \<Longrightarrow> all_records (store c)"
proof (induction rule: reachable.induct)
  case reach_init
  then show ?case by (simp add: all_records_def init_system_def init_state_def)
next
  case (reach_step c st)
  then show ?case using step_refines[OF reachable_ok[OF reach_step(1)] reach_step(3)] all_prims by blast
qed

end

text \<open>What an approved and an executed record show when the second factor is required.\<close>

definition approved_ok :: "approval \<Rightarrow> bool" where
  "approved_ok r = (ap_approved_by r \<noteq> None \<and> ap_approval_mfa_verified r \<and> ap_approval_mfa_binding_hash r \<noteq> None
     \<and> ap_approval_mfa_counter r \<noteq> None)"

definition executed_ok :: "approval \<Rightarrow> bool" where
  "executed_ok r = (approved_ok r \<and> ap_execution_mfa_verified r \<and> ap_execution_mfa_counter r \<noteq> None
     \<and> ap_execution_mfa_counter r \<noteq> ap_approval_mfa_counter r \<and> ap_execution_token_used_at r \<noteq> None
     \<and> (truthy_str (ap_approved_by r) \<longrightarrow> ap_executed_by r = ap_approved_by r)
     \<and> (\<forall>t e. ap_executed_at r = Some t \<longrightarrow> ap_expires_at r = Some e \<longrightarrow> t < e)
     \<and> (\<forall>t e. ap_executed_at r = Some t \<longrightarrow> ap_execution_expires_at r = Some e \<longrightarrow> t < e))"

definition two_factor :: "approval \<Rightarrow> bool" where
  "two_factor r = ((ap_status r = Approved \<longrightarrow> approved_ok r) \<and> (ap_status r = Executed \<longrightarrow> executed_ok r))"

interpretation two_factor: record_contract two_factor e_require_mfa
proof
  fix env r fs assume "e_require_mfa env" "two_factor r" "legal_write env r fs"
  from this(3,1,2) show "two_factor (items fs r)"
    by (induction rule: legal_write.induct)
      (auto simp: two_factor_def approved_ok_def approval_factor_def status_items_def approved_items_def
        rejected_items_def test_items_def)
next
  fix env r approver counter fin token binding
  assume "e_require_mfa env" "two_factor r" "execution_guard env r approver counter"
    "fin \<in> {[], executed_items env, status_items env Execution_failed}"
  then show "two_factor (items (executing_items env approver token binding counter @ fin) r)"
    by (auto simp: two_factor_def executed_ok_def approved_ok_def execution_guard_def overdue_def executing_items_def
        executed_items_def status_items_def split: option.splits)
qed (simp_all add: two_factor_def executed_ok_def approved_ok_def new_approval_def)



end
