(* ===== verification/Provider_Router.thy ===== *)
theory Provider_Router
  imports Provider_Clients
begin

text \<open>
  \<open>services/provider_router.py\<close> and the payload functions of
  \<open>services/provider_connection_tester.py\<close>: which route, credential and client serve a tenant.

  The tables \<open>tenants\<close>, \<open>gateway_routes\<close> and \<open>tenant_credentials\<close> are lists; a credential is
  decrypted by the secret manager.  A provider payload is a JSON object; a JSON array of
  pairs, which \<open>dict\<close> would accept too, is treated as the exception of any other array.
\<close>

section \<open>Payloads\<close>

definition payload_aliases :: "string list" where
  "payload_aliases = [''api_key'', ''model'', ''api_base'', ''base_url'', ''endpoint'', ''azure_endpoint'', ''api_version'',
     ''azure_api_version'', ''deployment'', ''deployment_name'']"

text \<open>The keys the copying loop skips: \<open>model\<close> is not among them, so the \<open>model\<close> of the source is
  copied over the one computed for Azure.\<close>

definition skipped_keys :: "string list" where
  "skipped_keys = filter (\<lambda>k. k \<noteq> ''model'') payload_aliases"

definition first_of :: "(string \<times> jval) list \<Rightarrow> string list \<Rightarrow> jval" where
  "first_of m ks = foldl (\<lambda>acc k. jor acc (jget m k)) JNull ks"

definition normalized_model :: "string \<Rightarrow> (string \<times> jval) list \<Rightarrow> jval" where
  "normalized_model normalized source =
     (if normalized = ''azure_openai''
      then jor (jor (jget source ''deployment'') (jget source ''deployment_name'')) (jget source ''model'')
      else jget source ''model'')"

definition normalize_provider_payload :: "string option \<Rightarrow> (string \<times> jval) list \<Rightarrow> (string \<times> jval) list" where
  "normalize_provider_payload provider source =
     (let normalized = normalize_provider provider;
          model = normalized_model normalized source;
          base = [(''api_key'', jget source ''api_key''), (''model'', model),
            (''api_base'', jor (jor (jor (jget source ''api_base'') (jget source ''base_url'')) (jget source ''endpoint''))
               (jget source ''azure_endpoint'')),
            (''api_version'', jor (jget source ''api_version'') (jget source ''azure_api_version'')),
            (''deployment'', jor (jor (jget source ''deployment'') (jget source ''deployment_name'')) model)];
          all = fold (\<lambda>(k, v) acc. if k \<notin> set skipped_keys then dict_set k v acc else acc) source base
      in filter (\<lambda>(k, v). v \<noteq> JNull \<and> v \<noteq> JStr '''') all)"

definition normalize_payload_value :: "string option \<Rightarrow> jval \<Rightarrow> exn + (string \<times> jval) list" where
  "normalize_payload_value provider v =
     (case v of
        JObj m \<Rightarrow> Inr (normalize_provider_payload provider m)
      | _ \<Rightarrow> if truthy v then Inl (Exn ''TypeError'' '''') else Inr (normalize_provider_payload provider []))"

definition connection_error :: "string \<Rightarrow> exn" where "connection_error m = Exn ''ProviderConnectionTestError'' m"

definition key_warnings :: "string \<Rightarrow> string \<Rightarrow> string list" where
  "key_warnings normalized api_key =
     (if normalized = ''openai'' \<and> \<not> (starts_with ''sk-'' api_key \<or> starts_with ''sk-proj-'' api_key)
      then [''OpenAI keys usually start with sk- or sk-proj-.''] else []) @
     (if normalized = ''gemini'' \<and> length api_key < 20 then [''Gemini API key looks shorter than expected.''] else []) @
     (if normalized = ''anthropic'' \<and> \<not> starts_with ''sk-ant-'' api_key
      then [''Anthropic keys usually start with sk-ant-.''] else []) @
     (if normalized = ''cohere'' \<and> length api_key < 20 then [''Cohere API key looks shorter than expected.''] else [])"

text \<open>\<open>str(x or "").strip()\<close> of a key; a key that is not a string is rendered by a parameter.\<close>

definition str_key :: "(jval \<Rightarrow> string) \<Rightarrow> jval \<Rightarrow> string" where
  "str_key render v = strip (case jor v (JStr '''') of JStr s \<Rightarrow> s | w \<Rightarrow> render w)"

definition validate_provider_payload :: "(jval \<Rightarrow> string) \<Rightarrow> string option \<Rightarrow> (string \<times> jval) list
    \<Rightarrow> exn + string \<times> string list" where
  "validate_provider_payload render provider payload0 =
     (let normalized = normalize_provider provider;
          payload = normalize_provider_payload (Some normalized) payload0;
          api_key = str_key render (jget payload ''api_key'') in
      if api_key = [] then Inl (connection_error ''Provider API key is required.'')
      else if normalized = ''azure_openai'' \<and> \<not> truthy (jget payload ''api_base'')
      then Inl (connection_error ''Azure OpenAI requires api_base.'')
      else if normalized = ''azure_openai'' \<and> \<not> truthy (jget payload ''api_version'')
      then Inl (connection_error ''Azure OpenAI requires api_version.'')
      else if normalized = ''azure_openai'' \<and> \<not> truthy (jget payload ''deployment'') \<and> \<not> truthy (jget payload ''model'')
      then Inl (connection_error ''Azure OpenAI requires deployment or model.'')
      else Inr (normalized, key_warnings normalized api_key))"

text \<open>The live test sends one request; a status of at least 400 fails it.\<close>

definition probe_url :: "(jval \<Rightarrow> string) \<Rightarrow> string \<Rightarrow> (string \<times> jval) list \<Rightarrow> string option" where
  "probe_url render normalized payload =
     (let base = (\<lambda>d. rstrip_by (\<lambda>c. c = CHR ''/'')
            (case jor (jget payload ''api_base'') (JStr d) of JStr s \<Rightarrow> s | w \<Rightarrow> render w)) in
      if normalized = ''openai'' then Some (base ''https://api.openai.com/v1'' @ ''/models'')
      else if normalized = ''gemini'' then Some (base ''https://generativelanguage.googleapis.com'' @ ''/v1beta/models'')
      else if normalized = ''anthropic'' then Some (base ''https://api.anthropic.com'' @ ''/v1/messages'')
      else if normalized = ''cohere'' then Some (base ''https://api.cohere.com'' @ ''/v1/models'')
      else if normalized = ''azure_openai'' then Some (base '''' @ ''/openai/deployments'')
      else None)"

record connection_report =
  cr_provider :: string
  cr_status :: string
  cr_live :: bool
  cr_warnings :: "string list"
  cr_http_status :: "int option"

definition test_provider_connection ::
  "(jval \<Rightarrow> string) \<Rightarrow> (string \<Rightarrow> http_outcome) \<Rightarrow> string option \<Rightarrow> (string \<times> jval) list \<Rightarrow> bool \<Rightarrow> exn + connection_report" where
  "test_provider_connection render probe provider payload live =
     rbind (validate_provider_payload render provider payload) (\<lambda>(normalized, warnings).
       if \<not> live then Inr \<lparr>cr_provider = normalized, cr_status = ''validated'', cr_live = False, cr_warnings = warnings,
                           cr_http_status = None\<rparr>
       else case probe_url render normalized (normalize_provider_payload (Some normalized) payload) of
              None \<Rightarrow> Inl (connection_error (''Unsupported provider: '' @ or_empty provider))
            | Some url \<Rightarrow>
                (case probe url of
                   Http status body \<Rightarrow>
                     if 400 \<le> status then Inl (connection_error (''Provider returned HTTP '' @ show_int status))
                     else Inr \<lparr>cr_provider = normalized, cr_status = ''healthy'', cr_live = True, cr_warnings = warnings,
                               cr_http_status = Some status\<rparr>
                 | Timed_out \<Rightarrow> Inl (connection_error ''Provider connection failed: timeout'')
                 | Connection_failed m \<Rightarrow> Inl (connection_error (''Provider connection failed: '' @ m))
                 | Http_raised t m \<Rightarrow> Inl (Exn t m)))"

section \<open>Tables\<close>

record gateway_route =
  gt_id :: int
  gt_tenant_id :: "int option"
  gt_provider :: "string option"
  gt_endpoint :: "string option"
  gt_model :: "string option"
  gt_enabled :: "bool option"
  gt_assignment :: "string option"

record credential_row =
  tc_tenant_id :: int
  tc_provider :: "string option"
  tc_encrypted :: "string option"
  tc_secret_ref :: "string option"
  tc_revoked :: bool
  tc_updated_at :: int

record router_env =
  ro_services :: services
  ro_secrets :: sm_state
  ro_tenants :: "(int \<times> string option \<times> string option) list"
  ro_routes :: "gateway_route list"
  ro_credentials :: "credential_row list"

record credential =
  cd_provider :: "string option"
  cd_payload :: "(string \<times> jval) list"

record route_like =
  rl_id :: "int option"
  rl_provider :: "string option"
  rl_model :: jval
  rl_endpoint :: jval

record selection =
  sel_route_id :: "string option"
  sel_provider_name :: string
  sel_model :: jval
  sel_endpoint :: jval
  sel_client :: client
  sel_source :: string

definition default_model_for :: "string \<Rightarrow> string" where
  "default_model_for p = (if p = ''openai'' then ''gpt-4o'' else if p = ''anthropic'' then ''claude-3-5-sonnet-20241022''
     else if p = ''cohere'' then ''command-r-plus'' else if p = ''azure_openai'' then ''gpt-4o'' else ''gemini-2.5-flash-lite'')"

definition ro_backend :: "router_env \<Rightarrow> string" where
  "ro_backend e = select_secret_backend (environ (ro_secrets e)) None"

definition decrypt_payload :: "router_env \<Rightarrow> credential_row \<Rightarrow> (string \<times> jval) list option" where
  "decrypt_payload e r =
     (case rbind (lift_sm (resolve_provider_payload (ro_services e) (ro_backend e) (tc_secret_ref r) (tc_encrypted r) (ro_secrets e)))
            (normalize_payload_value (tc_provider r)) of
        Inl _ \<Rightarrow> None | Inr p \<Rightarrow> Some p)"

definition tenant_tokens :: "router_env \<Rightarrow> int \<Rightarrow> string set" where
  "tenant_tokens e tid =
     {show_int tid, ''tenant:'' @ show_int tid} \<union>
     (case map_of (ro_tenants e) tid of
        None \<Rightarrow> {}
      | Some (name, domain) \<Rightarrow> (if truthy_str name then {or_empty name} else {}) \<union>
          (if truthy_str domain then {or_empty domain} else {}))"

definition route_selected :: "router_env \<Rightarrow> int \<Rightarrow> gateway_route \<Rightarrow> bool" where
  "route_selected e tid r = (gt_tenant_id r = Some tid \<or> (case gt_assignment r of None \<Rightarrow> False | Some a \<Rightarrow> a \<in> tenant_tokens e tid))"

definition lookup_route :: "router_env \<Rightarrow> int \<Rightarrow> gateway_route option" where
  "lookup_route e tid =
     find (route_selected e tid)
       (sort_key gt_id (filter (\<lambda>r. gt_enabled r = Some True \<and> (gt_tenant_id r = Some tid \<or> gt_tenant_id r = None)) (ro_routes e)))"

text \<open>\<open>ORDER BY updated_at DESC\<close>; rows with the same time keep the order of the table.\<close>

fun first_payload :: "router_env \<Rightarrow> credential_row list \<Rightarrow> credential option" where
  "first_payload e [] = None"
| "first_payload e (r # rs) =
     (case decrypt_payload e r of
        Some (x # xs) \<Rightarrow> Some \<lparr>cd_provider = tc_provider r, cd_payload = x # xs\<rparr>
      | _ \<Rightarrow> first_payload e rs)"

definition lookup_credential :: "router_env \<Rightarrow> int \<Rightarrow> string option \<Rightarrow> credential option" where
  "lookup_credential e tid preferred =
     first_payload e (sort_key (\<lambda>r. - tc_updated_at r)
       (filter (\<lambda>r. tc_tenant_id r = tid \<and> \<not> tc_revoked r \<and>
          (truthy_str preferred \<longrightarrow> tc_provider r = Some (normalize_provider preferred))) (ro_credentials e)))"

text \<open>One pfx of the environment: \<open>None\<close> goes on to the next, as after a \<open>SecretManagerError\<close>.\<close>

definition swallow_sm :: "'a sm \<Rightarrow> 'a option sm" where
  "swallow_sm r = (case r of Inl (OtherError t) \<Rightarrow> Inl (OtherError t) | Inl _ \<Rightarrow> Inr None | Inr a \<Rightarrow> Inr (Some a))"

definition env_credential :: "router_env \<Rightarrow> string \<Rightarrow> string \<Rightarrow> credential option sm" where
  "env_credential e provider pfx =
     (let secret = (\<lambda>suffix. get_secret (ro_services e) (ro_backend e) (pfx @ suffix) (ro_secrets e));
          found = (\<lambda>m. Some \<lparr>cd_provider = Some provider, cd_payload = normalize_provider_payload (Some provider) m\<rparr>) in
      rbind (swallow_sm
        (rbind (get_json_secret (ro_services e) (ro_backend e) (pfx @ ''_SECRET_JSON'') (ro_secrets e)) (\<lambda>j.
         rbind (case j of
                  None \<Rightarrow> Inr None
                | Some v \<Rightarrow> if truthy v
                    then rbind (py_get v ''api_key'' JNull) (\<lambda>k. Inr (if truthy k then Some v else None))
                    else Inr None) (\<lambda>jp.
         case jp of
           Some v \<Rightarrow> Inr (Inl v)
         | None \<Rightarrow> map_sum id Inr (secret ''_API_KEY''))))) (\<lambda>r.
      case r of
        None \<Rightarrow> Inr None
      | Some (Inl v) \<Rightarrow> Inr (case v of JObj m \<Rightarrow> found m | _ \<Rightarrow> None)
      | Some (Inr api_key) \<Rightarrow>
          if truthy_str api_key
          then rbind (secret ''_MODEL'') (\<lambda>m. rbind (secret ''_API_BASE'') (\<lambda>b.
               rbind (secret ''_API_VERSION'') (\<lambda>v. rbind (secret ''_DEPLOYMENT'') (\<lambda>d.
               Inr (found [(''api_key'', jstr_opt api_key), (''model'', jstr_opt m), (''api_base'', jstr_opt b),
                           (''api_version'', jstr_opt v), (''deployment'', jstr_opt d)])))))
          else Inr None))"

definition env_prefixes :: "int \<Rightarrow> string \<Rightarrow> (string \<times> string) list" where
  "env_prefixes tid provider = (if provider = [] then [] else
     [(provider, ''AUTHCLAW_TENANT_'' @ show_int tid @ ''_'' @ upper provider), (provider, ''AUTHCLAW_PROVIDER_'' @ upper provider)])"

fun try_env :: "router_env \<Rightarrow> (string \<times> string) list \<Rightarrow> credential option sm" where
  "try_env e [] = Inr None"
| "try_env e ((provider, pfx) # ps) =
     rbind (env_credential e provider pfx) (\<lambda>r. case r of Some c \<Rightarrow> Inr (Some c) | None \<Rightarrow> try_env e ps)"

definition lookup_environment_credential :: "router_env \<Rightarrow> int \<Rightarrow> string option \<Rightarrow> credential option sm" where
  "lookup_environment_credential e tid preferred =
     try_env e (concat (map (env_prefixes tid)
       (if truthy_str preferred then [normalize_provider preferred]
        else [''openai'', ''anthropic'', ''cohere'', ''azure_openai'', ''gemini''])))"

definition local_provider_fallback_enabled :: "environ \<Rightarrow> bool" where
  "local_provider_fallback_enabled env =
     (if lower (strip (env_or env ''AUTHCLAW_ENV'' ''development'')) \<in> {''production'', ''prod''} then False
      else case env ''AUTHCLAW_ALLOW_LOCAL_PROVIDER_FALLBACK'' of None \<Rightarrow> True | Some v \<Rightarrow> is_truthy_flag (Some v))"

definition make_client :: "environ \<Rightarrow> string \<Rightarrow> jval \<Rightarrow> jval \<Rightarrow> jval \<Rightarrow> (string \<times> jval) list \<Rightarrow> string option \<Rightarrow> exn + client" where
  "make_client env name api_key model endpoint payload shown =
     (let url = jor endpoint JNull in
      if name = ''gemini'' then gemini_provider env api_key model url
      else if name = ''openai'' then openai_provider api_key model url
      else if name = ''anthropic'' then anthropic_provider api_key model url
      else if name = ''cohere'' then cohere_provider api_key model url
      else if name = ''azure_openai''
      then azure_openai_provider api_key (jor (jget payload ''deployment'') model) url (jget payload ''api_version'')
      else Inl (value_error (''Unsupported tenant provider configured: '' @ (case shown of None \<Rightarrow> ''None'' | Some p \<Rightarrow> p))))"

definition build_selection :: "router_env \<Rightarrow> route_like \<Rightarrow> credential \<Rightarrow> string \<Rightarrow> exn + selection" where
  "build_selection e route cred source =
     (let name = normalize_provider (rl_provider route);
          payload = normalize_provider_payload (Some name) (cd_payload cred);
          model = jor (jor (rl_model route) (jget payload ''model'')) (JStr (default_model_for name));
          endpoint = jor (rl_endpoint route) (jget payload ''api_base'') in
      rbind (make_client (environ (ro_secrets e)) name (jget payload ''api_key'') model endpoint payload (rl_provider route)) (\<lambda>c.
        Inr \<lparr>sel_route_id = map_option show_int (rl_id route), sel_provider_name = name, sel_model = model,
             sel_endpoint = endpoint, sel_client = c, sel_source = source\<rparr>))"

definition route_dict :: "gateway_route \<Rightarrow> route_like" where
  "route_dict r = \<lparr>rl_id = Some (gt_id r), rl_provider = gt_provider r, rl_model = jstr_opt (gt_model r), rl_endpoint = jstr_opt (gt_endpoint r)\<rparr>"

text \<open>\<open>_default_model_for\<close> is called with the provider as stored, before it is normalized.\<close>

definition credential_route :: "credential \<Rightarrow> route_like" where
  "credential_route c = \<lparr>rl_id = None, rl_provider = cd_provider c,
     rl_model = jor (jget (cd_payload c) ''model'') (JStr (default_model_for (or_empty (cd_provider c)))),
     rl_endpoint = jget (cd_payload c) ''api_base''\<rparr>"

definition environment_route :: "gateway_route option \<Rightarrow> credential \<Rightarrow> route_like" where
  "environment_route route c =
     \<lparr>rl_id = map_option gt_id route,
      rl_provider = (case route of None \<Rightarrow> cd_provider c | Some r \<Rightarrow> gt_provider r),
      rl_model = jor (jor (case route of None \<Rightarrow> JNull | Some r \<Rightarrow> jstr_opt (gt_model r)) (jget (cd_payload c) ''model''))
         (JStr (default_model_for (or_empty (cd_provider c)))),
      rl_endpoint = jor (case route of None \<Rightarrow> JNull | Some r \<Rightarrow> jstr_opt (gt_endpoint r)) (jget (cd_payload c) ''api_base'')\<rparr>"

definition fallback_selection :: "router_env \<Rightarrow> exn + selection" where
  "fallback_selection e =
     (if local_provider_fallback_enabled (environ (ro_secrets e))
      then Inr \<lparr>sel_route_id = None, sel_provider_name = ''local'', sel_model = cl_model local_provider,
                sel_endpoint = cl_url local_provider, sel_client = local_provider, sel_source = ''local_development_fallback''\<rparr>
      else rbind (get_provider (environ (ro_secrets e))) (\<lambda>c.
        Inr \<lparr>sel_route_id = None, sel_provider_name = class_name (cl_class c), sel_model = cl_model c,
             sel_endpoint = cl_url c, sel_client = c, sel_source = ''legacy_provider_fallback''\<rparr>))"

definition select :: "router_env \<Rightarrow> int \<Rightarrow> exn + selection" where
  "select e tid =
     (let route = lookup_route e tid;
          preferred = (case route of None \<Rightarrow> None | Some r \<Rightarrow> gt_provider r);
          cred0 = lookup_credential e tid preferred;
          cred = (if route \<noteq> None \<and> cred0 = None then lookup_credential e tid None else cred0) in
      case cred of
        Some c \<Rightarrow>
          (case route of
             Some r \<Rightarrow> build_selection e
               (if normalize_provider (gt_provider r) \<noteq> normalize_provider (cd_provider c) then credential_route c else route_dict r)
               c ''tenant_route''
           | None \<Rightarrow> build_selection e (credential_route c) c ''tenant_credential'')
      | None \<Rightarrow>
          rbind (lift_sm (lookup_environment_credential e tid preferred)) (\<lambda>ec.
            case ec of
              Some c \<Rightarrow> build_selection e (environment_route route c) c ''environment_secret''
            | None \<Rightarrow> fallback_selection e))"

section \<open>Facts\<close>

lemma first_payload_row:
  "first_payload e rs = Some c \<Longrightarrow>
     \<exists>r\<in>set rs. decrypt_payload e r = Some (cd_payload c) \<and> cd_provider c = tc_provider r \<and> cd_payload c \<noteq> []"
  by (induction e rs rule: first_payload.induct) (auto split: option.splits list.splits)

lemma lookup_credential_row:
  assumes "lookup_credential e tid preferred = Some c"
  shows "\<exists>r\<in>set (ro_credentials e). tc_tenant_id r = tid \<and> \<not> tc_revoked r \<and>
           decrypt_payload e r = Some (cd_payload c) \<and> cd_provider c = tc_provider r"
  using first_payload_row [OF assms [unfolded lookup_credential_def]] by auto

lemma find_in: "find P xs = Some x \<Longrightarrow> x \<in> set xs \<and> P x"
  by (auto simp: find_Some_iff)

lemma lookup_route_row:
  assumes "lookup_route e tid = Some r"
  shows "r \<in> set (ro_routes e) \<and> gt_enabled r = Some True \<and> route_selected e tid r \<and>
    (gt_tenant_id r = Some tid \<or> gt_tenant_id r = None)"
  using find_in [OF assms [unfolded lookup_route_def]] by auto

text \<open>What the client of each class keeps of the key it is given.\<close>

lemma make_client_key:
  assumes "make_client env name api_key model endpoint payload shown = Inr c"
  shows "(truthy api_key \<and> cl_api_key c = api_key \<or>
            name = ''gemini'' \<and> \<not> truthy api_key \<and> cl_api_key c = jstr_opt (env ''GOOGLE_API_KEY''))
       \<and> cl_class c \<noteq> LocalProvider"
proof -
  have simple: "\<And>cls n dm du u. simple_client cls n dm du api_key model u = Inr c \<Longrightarrow>
      truthy api_key \<and> cl_api_key c = api_key \<and> cl_class c = cls"
    by (auto simp: simple_client_def result_simps split: if_splits)
  have azure: "\<And>d u v. azure_openai_provider api_key d u v = Inr c \<Longrightarrow>
      truthy api_key \<and> cl_api_key c = api_key \<and> cl_class c = AzureOpenAIProvider"
    by (auto simp: azure_openai_provider_def result_simps split: if_splits)
  show ?thesis using assms
    by (auto simp: make_client_def Let_def gemini_provider_def jor_def openai_provider_def anthropic_provider_def
      cohere_provider_def split: if_splits dest!: simple azure)
qed

lemma build_selection_key:
  assumes "build_selection e route cred source = Inr sel"
  shows "sel_source sel = source \<and> sel_route_id sel = map_option show_int (rl_id route)
    \<and> sel_provider_name sel = normalize_provider (rl_provider route) \<and> cl_class (sel_client sel) \<noteq> LocalProvider
    \<and> (cl_api_key (sel_client sel) = jget (normalize_provider_payload (Some (sel_provider_name sel)) (cd_payload cred)) ''api_key''
       \<or> sel_provider_name sel = ''gemini'' \<and>
         \<not> truthy (jget (normalize_provider_payload (Some (sel_provider_name sel)) (cd_payload cred)) ''api_key'') \<and>
         cl_api_key (sel_client sel) = jstr_opt (environ (ro_secrets e) ''GOOGLE_API_KEY''))"
  using assms by (auto simp: build_selection_def Let_def result_simps dest!: make_client_key)

lemma fallback_not_production:
  assumes "fallback_selection e = Inr sel"
  shows "sel_route_id sel = None \<and> (cl_class (sel_client sel) = LocalProvider \<longrightarrow>
    local_provider_fallback_enabled (environ (ro_secrets e))) \<and> sel_source sel \<notin> {''tenant_route'', ''tenant_credential''}"
proof -
  have simple: "\<And>cls n dm du k m u c. simple_client cls n dm du k m u = Inr c \<Longrightarrow> cl_class c = cls"
    by (auto simp: simple_client_def result_simps split: if_splits)
  have azure: "\<And>k d u v c. azure_openai_provider k d u v = Inr c \<Longrightarrow> cl_class c = AzureOpenAIProvider"
    by (auto simp: azure_openai_provider_def result_simps split: if_splits)
  show ?thesis using assms
    by (auto simp: fallback_selection_def result_simps get_provider_def Let_def gemini_provider_def openai_provider_def
      anthropic_provider_def cohere_provider_def split: if_splits dest!: simple azure)
qed

definition own_credential :: "router_env \<Rightarrow> int \<Rightarrow> selection \<Rightarrow> bool" where
  "own_credential e tid sel = (\<exists>r\<in>set (ro_credentials e). \<exists>p. tc_tenant_id r = tid \<and> \<not> tc_revoked r \<and>
     decrypt_payload e r = Some p \<and> normalize_provider (tc_provider r) = sel_provider_name sel \<and>
     (cl_api_key (sel_client sel) = jget (normalize_provider_payload (Some (sel_provider_name sel)) p) ''api_key'' \<or>
      sel_provider_name sel = ''gemini'' \<and> cl_api_key (sel_client sel) = jstr_opt (environ (ro_secrets e) ''GOOGLE_API_KEY'')))"

definition own_route :: "router_env \<Rightarrow> int \<Rightarrow> string \<Rightarrow> bool" where
  "own_route e tid i = (\<exists>g\<in>set (ro_routes e). i = show_int (gt_id g) \<and> gt_enabled g = Some True \<and>
     (gt_tenant_id g = Some tid \<or> gt_tenant_id g = None \<and> (\<exists>a. gt_assignment g = Some a \<and> a \<in> tenant_tokens e tid)))"

lemma lookup_route_own: "lookup_route e tid = Some r \<Longrightarrow> own_route e tid (show_int (gt_id r))"
  using lookup_route_row [of e tid r] by (auto simp: own_route_def route_selected_def split: option.splits)

lemma build_own_credential:
  assumes "build_selection e route c source = Inr sel" and "lookup_credential e tid preferred = Some c"
    and "normalize_provider (rl_provider route) = normalize_provider (cd_provider c)"
  shows "own_credential e tid sel"
  using build_selection_key [OF assms(1)] lookup_credential_row [OF assms(2)] assms(3)
  by (auto simp: own_credential_def)

lemma select_cases:
  assumes "select e tid = Inr sel"
  obtains (credential) c route preferred source where "lookup_credential e tid preferred = Some c"
      "build_selection e route c source = Inr sel" "normalize_provider (rl_provider route) = normalize_provider (cd_provider c)"
      "rl_id route = None \<or> (\<exists>r. lookup_route e tid = Some r \<and> rl_id route = Some (gt_id r))"
  | (environment) c where "build_selection e (environment_route (lookup_route e tid) c) c ''environment_secret'' = Inr sel"
  | (fallback) "fallback_selection e = Inr sel"
proof -
  let ?pref = "case lookup_route e tid of None \<Rightarrow> None | Some r \<Rightarrow> gt_provider r"
  let ?cred = "if lookup_route e tid \<noteq> None \<and> lookup_credential e tid ?pref = None
    then lookup_credential e tid None else lookup_credential e tid ?pref"
  show ?thesis
  proof (cases ?cred)
    case None
    then have "rbind (lift_sm (lookup_environment_credential e tid ?pref)) (\<lambda>ec. case ec of
        Some c \<Rightarrow> build_selection e (environment_route (lookup_route e tid) c) c ''environment_secret''
      | None \<Rightarrow> fallback_selection e) = Inr sel"
      using assms by (simp only: select_def Let_def option.simps)
    then show ?thesis using environment fallback by (auto simp: rbind_eq_Inr split: option.splits)
  next
    case (Some c)
    then obtain preferred where c: "lookup_credential e tid preferred = Some c" by (auto split: if_splits)
    show ?thesis
    proof (cases "lookup_route e tid")
      case None
      then have "build_selection e (credential_route c) c ''tenant_credential'' = Inr sel"
        using assms Some by (simp add: select_def)
      then show ?thesis by (rule credential [OF c]) (simp_all add: credential_route_def)
    next
      case (Some r)
      let ?r = "if normalize_provider (gt_provider r) \<noteq> normalize_provider (cd_provider c) then credential_route c else route_dict r"
      have "build_selection e ?r c ''tenant_route'' = Inr sel"
        using assms \<open>?cred = Some c\<close> Some by (simp add: select_def Let_def split: if_splits)
      then show ?thesis by (rule credential [OF c]) (auto simp: credential_route_def route_dict_def Some)
    qed
  qed
qed


definition demo_route :: gateway_route where
  "demo_route = \<lparr>gt_id = 7, gt_tenant_id = None, gt_provider = Some ''OpenAI'', gt_endpoint = None, gt_model = Some ''gpt-x'',
     gt_enabled = Some True, gt_assignment = Some ''tenant:3''\<rparr>"

definition demo_credential :: credential_row where
  "demo_credential = \<lparr>tc_tenant_id = 3, tc_provider = Some ''openai'', tc_encrypted = None, tc_secret_ref = Some ''K'',
     tc_revoked = False, tc_updated_at = 1\<rparr>"

definition demo_json :: string where
  "demo_json = json_dumps (JObj [(''api_key'', JStr ''sk-1'')])"

definition demo_router :: router_env where
  "demo_router = \<lparr>ro_services = demo_services, ro_secrets = demo_state\<lparr>environ := [''K'' \<mapsto> demo_json]\<rparr>,
     ro_tenants = [], ro_routes = [demo_route], ro_credentials = [demo_credential]\<rparr>"

definition demo_client :: client where
  "demo_client = \<lparr>cl_class = OpenAIProvider, cl_api_key = JStr ''sk-1'', cl_model = JStr ''gpt-x'',
     cl_url = JStr ''https://api.openai.com/v1'', cl_version = JNull\<rparr>"

definition demo_selection :: selection where
  "demo_selection = \<lparr>sel_route_id = Some ''7'', sel_provider_name = ''openai'', sel_model = JStr ''gpt-x'', sel_endpoint = JNull,
     sel_client = demo_client, sel_source = ''tenant_route''\<rparr>"

lemma demo_select: "select demo_router 3 = Inr demo_selection"
  by code_simp


end
