(* ===== verification/Chat_Memory.thy ===== *)
theory Chat_Memory
  imports Policy_Engine
begin

text \<open>
  \<open>memory.py\<close>: the chat tables, the messages of a session as the prompt builder and the routes
  read them, the clean-up of provider errors, and the bounded scope of a worker; with
  \<open>rag_loader.py\<close> and \<open>retriever.py\<close>, the context of a question.

  A message that goes through \<open>str\<close> or into an f-string is a decoded JSON value.  A database
  failure is logged and swallowed by every function.
\<close>

section \<open>Tables\<close>

record chat_session =
  cs_id :: string
  cs_title :: string
  cs_user :: string
  cs_tenant :: "int option"
  cs_updated :: string

record chat_message =
  cm_session :: string
  cm_role :: string
  cm_content :: "string option"
  cm_trace :: "string option"
  cm_tenant :: "int option"

record chat_db =
  sessions :: "chat_session list"
  messages :: "chat_message list"

definition empty_chat :: chat_db where "empty_chat = \<lparr>sessions = [], messages = []\<rparr>"

definition ensure_session_exists :: "bool \<Rightarrow> string \<Rightarrow> string \<Rightarrow> int option \<Rightarrow> chat_db \<Rightarrow> chat_db" where
  "ensure_session_exists db_up now sid tenant db =
     (if db_up \<and> \<not> list_ex (\<lambda>s. cs_id s = sid) (sessions db)
      then db\<lparr>sessions := sessions db @ [\<lparr>cs_id = sid, cs_title = ''New Chat'', cs_user = ''admin_user'',
             cs_tenant = tenant, cs_updated = now\<rparr>]\<rparr>
      else db)"

text \<open>The tenant is that of the request context, whatever the session belongs to.\<close>

definition add_message :: "bool \<Rightarrow> string \<Rightarrow> int option \<Rightarrow> string \<Rightarrow> string \<Rightarrow> string option \<Rightarrow> string option \<Rightarrow> chat_db \<Rightarrow> chat_db" where
  "add_message db_up now tenant sid role content trace db =
     (let db1 = ensure_session_exists db_up now sid tenant db in
      if db_up
      then \<lparr>sessions = map (\<lambda>s. if cs_id s = sid then s\<lparr>cs_updated := now\<rparr> else s) (sessions db1),
            messages = messages db1 @ [\<lparr>cm_session = sid, cm_role = role, cm_content = content, cm_trace = trace, cm_tenant = tenant\<rparr>]\<rparr>
      else db1)"

section \<open>Provider errors\<close>

definition PROVIDER_UNAVAILABLE_COPY :: string where
  "PROVIDER_UNAVAILABLE_COPY = ''The configured model provider is currently unavailable. AuthClaw completed the security, policy, and audit checks, but the upstream model call could not be completed. Check the Providers page, API credentials, and outbound network access, then try again.''"

definition provider_error_markers :: "string list" where
  "provider_error_markers = [''[Offline Fallback]'', ''Provider unavailable:'', ''HTTPSConnectionPool'',
     ''generativelanguage.googleapis.com'', ''Max retries exceeded'', ''Failed to establish a new connection'', ''key='']"

definition has_error_marker :: "string \<Rightarrow> bool" where
  "has_error_marker s = list_ex (\<lambda>m. str_in m s) provider_error_markers"

definition sanitize_provider_message :: "jval \<Rightarrow> jval" where
  "sanitize_provider_message content =
     (if has_error_marker (py_str (jor content (JStr ''''))) then JStr PROVIDER_UNAVAILABLE_COPY else content)"

definition sanitize_trace_item :: "jval \<Rightarrow> jval" where
  "sanitize_trace_item item = (case item of
     JObj m \<Rightarrow> JObj (case map_of m ''details'' of None \<Rightarrow> m
        | Some d \<Rightarrow> dict_set ''details'' (sanitize_provider_message d) m)
   | _ \<Rightarrow> item)"

definition sanitize_trace :: "jval \<Rightarrow> jval" where
  "sanitize_trace trace = (case trace of JList l \<Rightarrow> JList (map sanitize_trace_item l) | _ \<Rightarrow> trace)"

section \<open>History\<close>

text \<open>\<open>msg.update(parsed)\<close> lets the stored object replace the role.\<close>

definition history_message :: "chat_message \<Rightarrow> (string \<times> jval) list" where
  "history_message m =
     (let base = [(''role'', JStr (cm_role m))];
          body = (if cm_role m \<in> {''blocked'', ''system''}
            then (case (case cm_content m of None \<Rightarrow> None | Some c \<Rightarrow> json_loads c) of
                    Some (JObj d) \<Rightarrow> fold (\<lambda>(k, v) acc. dict_set k v acc) d base
                  | _ \<Rightarrow> dict_set ''content'' (jopt (cm_content m)) base)
            else dict_set ''content'' (sanitize_provider_message (jopt (cm_content m))) base)
      in if truthy_str (cm_trace m)
         then dict_set ''trace''
                (case json_loads (or_empty (cm_trace m)) of
                   Some t \<Rightarrow> sanitize_trace t
                 | None \<Rightarrow> sanitize_provider_message (JStr (or_empty (cm_trace m)))) body
         else body)"

definition get_history :: "bool \<Rightarrow> string \<Rightarrow> chat_db \<Rightarrow> (string \<times> jval) list list" where
  "get_history db_up sid db =
     (if db_up then map history_message (filter (\<lambda>m. cm_session m = sid) (messages db)) else [])"

section \<open>Worker scopes\<close>

definition MAX_WORKER_SCOPE_TTL_SECONDS :: int where "MAX_WORKER_SCOPE_TTL_SECONDS = 30 * 60"

record worker_scope =
  ws_provider :: string
  ws_subject :: string
  ws_token_ref :: string
  ws_expires_at :: int
  ws_claims :: "(string \<times> string) list"

definition scope_active :: "int \<Rightarrow> worker_scope \<Rightarrow> bool" where
  "scope_active now sc = (now < ws_expires_at sc)"

text \<open>Instants are seconds.\<close>

definition create_worker_scope :: "int \<Rightarrow> string \<Rightarrow> string \<Rightarrow> string \<Rightarrow> int option \<Rightarrow> (string \<times> string) list \<Rightarrow> worker_scope" where
  "create_worker_scope now provider subject token_ref ttl_seconds claims =
     (let asked = (case ttl_seconds of None \<Rightarrow> MAX_WORKER_SCOPE_TTL_SECONDS
            | Some t \<Rightarrow> if t = 0 then MAX_WORKER_SCOPE_TTL_SECONDS else t);
          ttl = min (max 1 asked) MAX_WORKER_SCOPE_TTL_SECONDS
      in \<lparr>ws_provider = provider, ws_subject = subject, ws_token_ref = token_ref, ws_expires_at = now + ttl, ws_claims = claims\<rparr>)"

text \<open>The context variable; setting it returns the previous value as the token.\<close>

definition set_worker_scope :: "int \<Rightarrow> worker_scope \<Rightarrow> worker_scope option \<Rightarrow> (worker_scope option \<times> worker_scope option) sm" where
  "set_worker_scope now sc current =
     (if scope_active now sc then Inr (current, Some sc) else Inl (OtherError ''ValueError''))"

definition clear_worker_scope :: "worker_scope option option \<Rightarrow> worker_scope option \<Rightarrow> worker_scope option" where
  "clear_worker_scope token current = (case token of None \<Rightarrow> current | Some previous \<Rightarrow> previous)"

definition current_worker_scope :: "int \<Rightarrow> worker_scope option \<Rightarrow> worker_scope option" where
  "current_worker_scope now current =
     (case current of None \<Rightarrow> None | Some sc \<Rightarrow> if scope_active now sc then Some sc else None)"

definition require_worker_scope :: "int \<Rightarrow> string option \<Rightarrow> worker_scope option \<Rightarrow> worker_scope sm" where
  "require_worker_scope now provider current =
     (case current_worker_scope now current of
        None \<Rightarrow> Inl (OtherError ''PermissionError'')
      | Some sc \<Rightarrow> if truthy_str provider \<and> provider \<noteq> Some (ws_provider sc)
          then Inl (OtherError ''PermissionError'') else Inr sc)"

section \<open>Compliance context\<close>

text \<open>The text files of the data folder, in the order the directory lists them.\<close>

definition newline :: char where "newline = CHR 0x0A"

definition load_compliance_docs :: "string list \<Rightarrow> string" where
  "load_compliance_docs files = intercalate [newline, newline] files"

fun split_lines :: "string \<Rightarrow> string list" where
  "split_lines [] = [[]]"
| "split_lines (c # s) = (if c = newline then [] # split_lines s
     else case split_lines s of l # ls \<Rightarrow> (c # l) # ls | [] \<Rightarrow> [[c]])"

fun context_from :: "string \<Rightarrow> string list \<Rightarrow> string" where
  "context_from q [] = ''''"
| "context_from q (l # ls) = (if str_in q (lower l) then intercalate [newline] (take 5 (l # ls)) else context_from q ls)"

definition retrieve_context :: "string list \<Rightarrow> string \<Rightarrow> string" where
  "retrieve_context files query = context_from (lower query) (split_lines (load_compliance_docs files))"

section \<open>Facts\<close>

lemma add_message_messages [simp]:
  "messages (add_message True now t sid role c tr db) = messages db @
     [\<lparr>cm_session = sid, cm_role = role, cm_content = c, cm_trace = tr, cm_tenant = t\<rparr>]"
  by (simp add: add_message_def Let_def ensure_session_exists_def)

lemma get_history_add [simp]:
  "get_history True sid (add_message True now t sid' role c tr db) = get_history True sid db @
     (if sid' = sid then [history_message \<lparr>cm_session = sid', cm_role = role, cm_content = c, cm_trace = tr, cm_tenant = t\<rparr>] else [])"
  by (simp add: get_history_def)

lemma worker_scope_bounds:
  "let sc = create_worker_scope now p s r ttl c in
     now < ws_expires_at sc \<and> ws_expires_at sc \<le> now + MAX_WORKER_SCOPE_TTL_SECONDS"
  by (auto simp: create_worker_scope_def Let_def MAX_WORKER_SCOPE_TTL_SECONDS_def split: option.split)

lemma expired_scope_refused:
  "now + MAX_WORKER_SCOPE_TTL_SECONDS \<le> later \<Longrightarrow>
     \<not> is_ok (require_worker_scope later q (Some (create_worker_scope now p s r ttl c)))"
  using worker_scope_bounds [of now p s r ttl c]
  by (simp add: require_worker_scope_def current_worker_scope_def scope_active_def Let_def)

lemma copy_clean: "\<not> has_error_marker PROVIDER_UNAVAILABLE_COPY"
  by code_simp

lemma empty_clean: "\<not> has_error_marker ''''"
  by code_simp

lemma sanitized_clean: "\<not> has_error_marker (py_str (jor (sanitize_provider_message v) (JStr '''')))"
proof -
  have "truthy (JStr PROVIDER_UNAVAILABLE_COPY)" by (simp add: PROVIDER_UNAVAILABLE_COPY_def)
  then show ?thesis by (simp add: sanitize_provider_message_def jor_def py_str_def copy_clean)
qed

end
