(* ===== verification/Gateway_Graph.thy ===== *)
theory Gateway_Graph
  imports Approval_Store Audit_Export Redaction Policy_Opa Provider_Router Chat_Memory
begin

text \<open>
  The gateway pipeline: \<open>graph.py\<close>, \<open>nodes/\<close>, \<open>state.py\<close>, \<open>risk.py\<close> and the agents of
  \<open>services/\<close> they call.

  The state of a run is the dictionary the nodes pass on; a field is \<open>None\<close> where the key is
  absent.  The first group of fields are the channels that \<open>AuthState\<close> declares, the second the
  keys the nodes use beyond them.  What the executor of the graph library hands from one node to
  the next is the parameter \<open>commit\<close>: it keeps the declared channels; LangGraph drops the other
  keys, which is the instance \<open>declared_only\<close>.

  The tables, logs and provider calls are the world.  A node returns the new state or raises;
  what it wrote before raising stays.
\<close>

section \<open>The state\<close>

datatype trigger =
    Detected policy_trigger
  | Injection string string
  | Violated finding_dict

primrec tr_name :: "trigger \<Rightarrow> string" where
  "tr_name (Detected t) = pt_policy_name t"
| "tr_name (Injection term user) = ''Security Agent''"
| "tr_name (Violated f) = pf_policy_name (fd_finding f)"

primrec tr_type :: "trigger \<Rightarrow> string" where
  "tr_type (Detected t) = pt_policy_type t"
| "tr_type (Injection term user) = ''prompt_injection''"
| "tr_type (Violated f) = pf_policy_type (fd_finding f)"

primrec tr_matched :: "trigger \<Rightarrow> string" where
  "tr_matched (Detected t) = pt_matched_pattern t"
| "tr_matched (Injection term user) = term"
| "tr_matched (Violated f) = pf_matched_pattern (fd_finding f)"

primrec tr_redacted :: "trigger \<Rightarrow> string" where
  "tr_redacted (Detected t) = pt_redacted_value t"
| "tr_redacted (Injection term user) = ''N/A''"
| "tr_redacted (Violated f) = pf_redacted_value (fd_finding f)"

primrec tr_action :: "trigger \<Rightarrow> string option" where
  "tr_action (Detected t) = pt_action t"
| "tr_action (Injection term user) = Some ''block''"
| "tr_action (Violated f) = Some (fd_action f)"

record auth_state =
  as_message :: string
  as_session_id :: "string option"
  as_request_id :: "string option"
  as_route_id :: "string option"
  as_provider :: "string option"
  as_client :: "client option"
  as_route_source :: "string option"
  as_model :: "jval option"
  as_decision :: "string option"
  as_decision_reason :: "string option"
  as_allowed :: "bool option"
  as_block_reason :: "string option"
  as_block_category :: "string option"
  as_response :: "jval option"
  as_context :: "string option"
  as_task_type :: "string option"
  as_risk_level :: "string option"
  as_approval_status :: "string option"
  as_approval_id :: "string option"
  as_triggers :: "trigger list option"
  as_original_query :: "string option"
  as_tenant_id :: "int option"
  as_username :: "string option"
  as_security_approved :: "bool option"
  as_security_findings :: "trigger list option"
  as_security_action :: "string option"
  as_policy_decision :: "string option"
  as_policy_versions :: "(int option \<times> string \<times> int \<times> string) list option"
  as_approval_reason :: "string option"
  as_unknown_provider_risk :: "bool option"
  as_provider_status :: "string option"
  as_provider_error :: "string option"
  as_audit_record_id :: "int option"

definition declared_only :: "auth_state \<Rightarrow> auth_state" where
  "declared_only s = s\<lparr>as_username := None, as_security_approved := None, as_security_findings := None,
     as_security_action := None, as_policy_decision := None, as_policy_versions := None, as_approval_reason := None,
     as_unknown_provider_risk := None, as_provider_status := None, as_provider_error := None, as_audit_record_id := None\<rparr>"

definition empty_state :: "string \<Rightarrow> auth_state" where
  "empty_state m = \<lparr>as_message = m, as_session_id = None, as_request_id = None, as_route_id = None, as_provider = None,
     as_client = None, as_route_source = None, as_model = None, as_decision = None, as_decision_reason = None,
     as_allowed = None, as_block_reason = None, as_block_category = None, as_response = None, as_context = None,
     as_task_type = None, as_risk_level = None, as_approval_status = None, as_approval_id = None, as_triggers = None,
     as_original_query = None, as_tenant_id = None, as_username = None, as_security_approved = None,
     as_security_findings = None, as_security_action = None, as_policy_decision = None, as_policy_versions = None,
     as_approval_reason = None, as_unknown_provider_risk = None, as_provider_status = None, as_provider_error = None,
     as_audit_record_id = None\<rparr>"

text \<open>\<open>state.get(k, d)\<close>.\<close>

definition or_default :: "'a \<Rightarrow> 'a option \<Rightarrow> 'a" where
  "or_default d x = (case x of None \<Rightarrow> d | Some v \<Rightarrow> v)"

lemma or_default_simps [simp]: "or_default d None = d" "or_default d (Some v) = v"
  by (simp_all add: or_default_def)

section \<open>The world\<close>

record gateway_world =
  w_ctx :: agent_ctx
  w_events :: "agent_event list"
  w_approvals :: approval_state
  w_chat :: chat_db
  w_log :: gateway_log
  w_calls :: "(client \<times> string) list"
  w_audit_file :: "string list"

text \<open>The database, the clock and the libraries of one run.  \<open>ge_set_list\<close> is the order in which
  Python lists a set of strings.  \<open>ge_policies\<close> and \<open>ge_tenant_policies\<close> are the guardrail rows
  and the policies of a tenant.\<close>

record gateway_env =
  ge_sd :: sd_env
  ge_policies :: "int option \<Rightarrow> db_policy list"
  ge_redaction_rules :: "(string \<times> string) list"
  ge_yaml :: "yaml_policy sm"
  ge_tenant_policies :: "int option \<Rightarrow> tenant_policy list"
  ge_router :: router_env
  ge_wire :: wire
  ge_docs :: "string list"
  ge_approval :: approval_env
  ge_now :: string
  ge_fresh :: string
  ge_set_list :: "string list \<Rightarrow> string list"
  ge_current_tenant :: "int option"
  ge_risk_late :: bool
  ge_approval_late :: bool
  ge_llm_late :: bool

type_synonym 'a gw = "gateway_world \<Rightarrow> (exn + 'a) \<times> gateway_world"

definition gw_return :: "'a \<Rightarrow> 'a gw" where "gw_return x = (\<lambda>w. (Inr x, w))"

definition gw_raise :: "exn \<Rightarrow> 'a gw" where "gw_raise e = (\<lambda>w. (Inl e, w))"

definition gw_bind :: "'a gw \<Rightarrow> ('a \<Rightarrow> 'b gw) \<Rightarrow> 'b gw" where
  "gw_bind m f = (\<lambda>w. case m w of (Inl e, w') \<Rightarrow> (Inl e, w') | (Inr x, w') \<Rightarrow> f x w')"

definition gw_lift :: "exn + 'a \<Rightarrow> 'a gw" where
  "gw_lift r = (case r of Inl e \<Rightarrow> gw_raise e | Inr x \<Rightarrow> gw_return x)"

definition gw_do :: "(gateway_world \<Rightarrow> gateway_world) \<Rightarrow> unit gw" where
  "gw_do f = (\<lambda>w. (Inr (), f w))"

definition db_up :: "gateway_env \<Rightarrow> bool" where "db_up e = e_db_up (ge_approval e)"

definition sid_of :: "auth_state \<Rightarrow> string" where "sid_of s = or_default ''default'' (as_session_id s)"

definition tenant_of :: "auth_state \<Rightarrow> int" where "tenant_of s = or_default 1 (as_tenant_id s)"

definition user_of :: "auth_state \<Rightarrow> string" where "user_of s = or_default ''admin_user'' (as_username s)"

definition log_event_for :: "gateway_env \<Rightarrow> int \<Rightarrow> string \<Rightarrow> string \<Rightarrow> string \<Rightarrow> string \<Rightarrow> string option \<Rightarrow> int option
    \<Rightarrow> gateway_world \<Rightarrow> gateway_world" where
  "log_event_for e tenant sid agent event details rid sqn w =
     (case log_agent_event (db_up e) (Some tenant) sid agent event details rid sqn (w_ctx w, w_events w) of
        (c, es) \<Rightarrow> w\<lparr>w_ctx := c, w_events := es\<rparr>)"

definition log_note :: "gateway_env \<Rightarrow> auth_state \<Rightarrow> string \<Rightarrow> string \<Rightarrow> string \<Rightarrow> gateway_world \<Rightarrow> gateway_world" where
  "log_note e s agent event details = log_event_for e (tenant_of s) (sid_of s) agent event details None None"

definition save_message :: "gateway_env \<Rightarrow> string \<Rightarrow> string \<Rightarrow> string \<Rightarrow> gateway_world \<Rightarrow> gateway_world" where
  "save_message e sid role content w =
     w\<lparr>w_chat := add_message (db_up e) (ge_now e) (ge_current_tenant e) sid role (Some content) None (w_chat w)\<rparr>"

definition unique_join :: "gateway_env \<Rightarrow> string list \<Rightarrow> string" where
  "unique_join e xs = intercalate '', '' (ge_set_list e (remdups xs))"

section \<open>Agents\<close>

fun first_keyword :: "string \<Rightarrow> jval list \<Rightarrow> bool sm" where
  "first_keyword q [] = Inr False"
| "first_keyword q (JStr k # ks) = (if str_in k q then Inr True else first_keyword q ks)"
| "first_keyword q (_ # ks) = Inl (OtherError ''TypeError'')"

text \<open>The keywords are compared as the policy file spells them, the query in lower case.\<close>

definition calculate_risk :: "yaml_policy sm \<Rightarrow> string \<Rightarrow> string sm" where
  "calculate_risk yaml query =
     rbind yaml (\<lambda>p. rbind (first_keyword (lower query) (yp_high_risk p)) (\<lambda>high.
       if high then Inr ''HIGH''
       else rbind (first_keyword (lower query) (yp_medium_risk p)) (\<lambda>medium.
         Inr (if medium then ''MEDIUM'' else ''LOW''))))"

definition prompt_injection_terms :: "string list" where
  "prompt_injection_terms = [''ignore previous instructions'', ''ignore all instructions'', ''reveal system prompt'',
     ''show internal system prompts'', ''disable audit'', ''disable logging'', ''bypass policies'']"

definition rich :: "gateway_env \<Rightarrow> string \<Rightarrow> string \<Rightarrow> int \<Rightarrow> (string \<times> trigger list) sm" where
  "rich e text username tenant =
     map_sum id (map_prod id (map Detected))
       (redact_sensitive_data_rich (ge_sd e) (ge_policies e (Some tenant)) (ge_redaction_rules e) text username True (ge_now e))"

definition finding_actions :: "string \<Rightarrow> trigger list \<Rightarrow> string list" where
  "finding_actions dflt ts = map (\<lambda>t. lower (or_default dflt (tr_action t))) ts"

record security_result =
  sr_approved :: bool
  sr_risk_level :: string
  sr_findings :: "trigger list"
  sr_sanitized :: string

definition inspect_input :: "gateway_env \<Rightarrow> string \<Rightarrow> string \<Rightarrow> int \<Rightarrow> security_result sm" where
  "inspect_input e text username tenant =
     rbind (calculate_risk (ge_yaml e) text) (\<lambda>risk.
     rbind (rich e text username tenant) (\<lambda>(sanitized, triggered).
       (let findings = triggered @ map (\<lambda>t. Injection t username) (filter (\<lambda>t. str_in t (lower text)) prompt_injection_terms);
            actions = finding_actions '''' findings
        in Inr \<lparr>sr_approved = (''block'' \<notin> set actions),
                sr_risk_level = (if ''block'' \<in> set actions \<or> ''require_approval'' \<in> set actions then ''HIGH''
                   else if findings \<noteq> [] \<and> risk = ''LOW'' then ''MEDIUM'' else risk),
                sr_findings = findings, sr_sanitized = sanitized\<rparr>)))"

definition sanitize_output :: "gateway_env \<Rightarrow> jval \<Rightarrow> string \<Rightarrow> int \<Rightarrow> (string \<times> trigger list) sm" where
  "sanitize_output e response username tenant =
     (case response of JStr s \<Rightarrow> rich e s username tenant | _ \<Rightarrow> Inl (OtherError ''TypeError''))"

record agent_result =
  pa_approved :: bool
  pa_decision :: string
  pa_violated :: "trigger list"
  pa_reason :: string
  pa_category :: string
  pa_redacted :: string
  pa_risk_level :: string
  pa_versions :: "(int option \<times> string \<times> int \<times> string) list"

definition policy_agent :: "gateway_env \<Rightarrow> string \<Rightarrow> string \<Rightarrow> int \<Rightarrow> agent_result sm" where
  "policy_agent e text username tenant =
     rbind (evaluate (ge_sd e) text (Some tenant) username (ge_tenant_policies e (Some tenant)) (ge_now e)) (\<lambda>r.
       Inr \<lparr>pa_approved = (ev_action r \<in> {ACTION_ALLOW, ACTION_REDACT}), pa_decision = action_name (ev_action r),
            pa_violated = map Violated (ev_findings r), pa_reason = ev_reason r,
            pa_category = (case ev_triggered_categories r of [] \<Rightarrow> '''' | c # _ \<Rightarrow> lower c),
            pa_redacted = ev_redacted_text r, pa_risk_level = ev_risk_level r, pa_versions = ev_policy_versions r\<rparr>)"

section \<open>Nodes\<close>

definition task_type :: "string \<Rightarrow> string" where
  "task_type message = (let m = lower message in
     if str_in ''gdpr'' m then ''gdpr'' else if str_in ''hipaa'' m then ''hipaa''
     else if str_in ''soc2'' m then ''soc2'' else ''general'')"

definition orchestrator_node :: "gateway_env \<Rightarrow> auth_state \<Rightarrow> auth_state gw" where
  "orchestrator_node e s = gw_bind (gw_do (\<lambda>w.
      log_note e s ''Gateway Agent'' ''RATE_LIMIT_CHECKED'' ''Access quotas and rate limits validated. Status: Cleared.''
      (log_note e s ''Gateway Agent'' ''API_KEY_VALIDATED''
         (''Cleared security key authorization for Tenant ID '' @ show_int (tenant_of s) @ ''.'') w))) (\<lambda>_.
     gw_return (s\<lparr>as_task_type := Some (task_type (as_message s))\<rparr>))"

definition blocked_reason :: string where
  "blocked_reason = ''Sensitive data policy blocked the request before provider execution.''"

definition with_security :: "security_result \<Rightarrow> auth_state \<Rightarrow> auth_state" where
  "with_security r s =
     (let s1 = s\<lparr>as_security_approved := Some (sr_approved r), as_security_findings := Some (sr_findings r),
                 as_security_action := Some ''allow''\<rparr>;
          actions = set (finding_actions ''redact'' (sr_findings r))
      in if ''block'' \<in> actions
         then s1\<lparr>as_allowed := Some False, as_block_reason := Some blocked_reason, as_block_category := Some ''sensitive_data'',
                 as_policy_decision := Some ''block'', as_security_action := Some ''block''\<rparr>
         else if ''require_approval'' \<in> actions
         then s1\<lparr>as_security_action := Some ''require_approval'', as_risk_level := Some ''HIGH''\<rparr>
         else s1)"

definition redact_notes :: "gateway_env \<Rightarrow> auth_state \<Rightarrow> trigger list \<Rightarrow> gateway_world \<Rightarrow> gateway_world" where
  "redact_notes e s ts w =
     (if ts \<noteq> []
      then log_note e s ''Security Agent'' ''SYNTHETIC_REPLACEMENT_APPLIED''
             ''Context-preserving synthetic replacements and masks applied to prompts.''
           (log_note e s ''Security Agent'' ''PII_DETECTED''
             (''Sensitive items matching '' @ unique_join e (map tr_name ts) @ '' identified in user query. Actions: '' @
              intercalate '', '' (sort (remdups (finding_actions ''redact'' ts))) @ ''.'') w)
      else log_note e s ''Security Agent'' ''PII_SCAN_CLEAN'' ''Sensitive data scan completed. No PII or PHI detected.'' w)"

definition redact_node :: "gateway_env \<Rightarrow> auth_state \<Rightarrow> auth_state gw" where
  "redact_node e s =
     gw_bind (gw_lift (lift_sm (inspect_input e (as_message s) (user_of s) (tenant_of s)))) (\<lambda>r.
     gw_bind (gw_do (\<lambda>w. save_message e (sid_of s) ''user'' (sr_sanitized r) (redact_notes e s (sr_findings r) w))) (\<lambda>_.
       gw_return ((with_security r s)\<lparr>as_triggers := Some (or_default [] (as_triggers s) @ sr_findings r),
                                      as_message := sr_sanitized r\<rparr>)))"

definition policy_setup :: "auth_state \<Rightarrow> auth_state" where
  "policy_setup s =
     s\<lparr>as_original_query := (if truthy_str (as_original_query s) then as_original_query s else Some (as_message s)),
       as_triggers := Some (or_default [] (as_triggers s))\<rparr>"

definition preserved_block :: "auth_state \<Rightarrow> auth_state" where
  "preserved_block s = s\<lparr>as_allowed := Some False,
     as_policy_decision := Some (or_default ''block'' (as_policy_decision s)),
     as_block_reason := Some (or_default blocked_reason (as_block_reason s)),
     as_block_category := Some (or_default ''sensitive_data'' (as_block_category s))\<rparr>"

definition with_policy :: "agent_result \<Rightarrow> auth_state \<Rightarrow> auth_state" where
  "with_policy r s =
     (let s1 = s\<lparr>as_triggers := Some (or_default [] (as_triggers s) @ pa_violated r)\<rparr> in
      if \<not> pa_approved r \<and> pa_category r \<noteq> []
      then (if pa_decision r = ''REQUIRE_APPROVAL''
            then s1\<lparr>as_allowed := Some True, as_risk_level := Some ''HIGH'', as_approval_status := Some ''PENDING_APPROVAL''\<rparr>
            else s1\<lparr>as_allowed := Some False\<rparr>)
           \<lparr>as_block_reason := Some (pa_reason r), as_block_category := Some (pa_category r),
            as_policy_decision := Some (pa_decision r)\<rparr>
      else (let s2 = (if pa_decision r = ''REDACT'' \<and> pa_redacted r \<noteq> []
                      then s1\<lparr>as_message := pa_redacted r, as_risk_level := Some (pa_risk_level r)\<rparr> else s1);
                s3 = (if pa_versions r \<noteq> [] then s2\<lparr>as_policy_versions := Some (pa_versions r)\<rparr> else s2)
            in s3\<lparr>as_allowed := Some (pa_approved r), as_policy_decision := Some (pa_decision r)\<rparr>))"

definition policy_details :: "agent_result \<Rightarrow> string" where
  "policy_details r =
     (if \<not> pa_approved r \<and> pa_category r \<noteq> []
      then ''Policy decision '' @ pa_decision r @ '': '' @ pa_category r @ '' (Reason: '' @ pa_reason r @ '').''
      else ''Compliance check completed. Policy Action: '' @ (if pa_approved r then ''Allowed'' else ''Blocked'') @ ''.'')"

definition policy_node :: "gateway_env \<Rightarrow> auth_state \<Rightarrow> auth_state gw" where
  "policy_node e s0 =
     (let s = policy_setup s0 in
      if as_security_approved s = Some False
      then (let s' = preserved_block s in
            gw_bind (gw_do (log_note e s ''Policy Agent'' ''POLICY_EVALUATED''
              (''Security Agent decision preserved. Policy Action: Blocked ('' @ or_empty (as_block_category s') @ '').'')))
              (\<lambda>_. gw_return s'))
      else gw_bind (gw_lift (lift_sm (policy_agent e (as_message s) (user_of s) (tenant_of s)))) (\<lambda>r.
           gw_bind (gw_do (\<lambda>w. log_note e s ''Policy Agent'' ''POLICY_EVALUATED'' (policy_details r)
              (log_note e s ''Policy Agent'' ''JAILBREAK_DETECTION_CHECK''
                 ''Jailbreak and prompt injection patterns evaluated. Status: Pass.'' w)))
              (\<lambda>_. gw_return (with_policy r s))))"

definition adjusted_risk :: "trigger list \<Rightarrow> string \<Rightarrow> string" where
  "adjusted_risk findings risk =
     (let actions = set (finding_actions '''' findings) in
      if ''block'' \<in> actions \<or> ''require_approval'' \<in> actions then ''HIGH''
      else if findings \<noteq> [] \<and> risk = ''LOW'' then ''MEDIUM'' else risk)"

definition timeout_error :: "string \<Rightarrow> exn" where "timeout_error m = Exn ''TimeoutError'' m"

definition risk_node :: "gateway_env \<Rightarrow> auth_state \<Rightarrow> auth_state gw" where
  "risk_node e s =
     (if ge_risk_late e then gw_raise (timeout_error ''Risk Analysis timed out after 5 seconds'')
      else gw_bind (gw_lift (lift_sm (calculate_risk (ge_yaml e) (as_message s)))) (\<lambda>risk0.
        (let risk = adjusted_risk (or_default [] (as_security_findings s)) risk0;
             details = ''Request classified as '' @ risk @ '' risk.''
         in gw_bind (gw_do (\<lambda>w. log_note e s ''Risk Agent'' ''RISK_CLASSIFIED'' details
                (log_note e s ''Security Agent'' ''RISK_CLASSIFIED'' details w)))
              (\<lambda>_. gw_return (s\<lparr>as_risk_level := Some risk\<rparr>)))))"

datatype gateway_decision = DECISION_ALLOW | DECISION_BLOCK | DECISION_REQUIRE_APPROVAL

primrec decision_name :: "gateway_decision \<Rightarrow> string" where
  "decision_name DECISION_ALLOW = ''ALLOW''"
| "decision_name DECISION_BLOCK = ''BLOCK''"
| "decision_name DECISION_REQUIRE_APPROVAL = ''REQUIRE_APPROVAL''"

definition decide :: "auth_state \<Rightarrow> gateway_decision \<times> string" where
  "decide s =
     (if \<not> or_default True (as_allowed s) then (DECISION_BLOCK, or_default ''policy_violation'' (as_block_reason s))
      else if as_approval_status s = Some ''APPROVED'' then (DECISION_ALLOW, ''approval_already_granted'')
      else if as_approval_status s = Some ''PENDING_APPROVAL'' \<or> or_default ''LOW'' (as_risk_level s) = ''HIGH''
      then (DECISION_REQUIRE_APPROVAL, ''high_risk_request'')
      else (DECISION_ALLOW, ''policy_and_risk_checks_passed''))"

definition apply_decision :: "auth_state \<Rightarrow> auth_state" where
  "apply_decision s = s\<lparr>as_decision := Some (decision_name (fst (decide s))), as_decision_reason := Some (snd (decide s))\<rparr>"

definition decision_node :: "gateway_env \<Rightarrow> auth_state \<Rightarrow> auth_state gw" where
  "decision_node e s =
     (let s' = apply_decision s in
      gw_bind (gw_do (log_note e s' ''Decision Engine'' ''DECISION_EVALUATED''
        (''Decision: '' @ or_empty (as_decision s') @ '' ('' @ or_empty (as_decision_reason s') @ '').'')))
        (\<lambda>_. gw_return s'))"

definition approval_reason :: "auth_state \<Rightarrow> string" where
  "approval_reason s =
     (if as_unknown_provider_risk s = Some True then ''unknown_provider_risk''
      else if as_security_action s = Some ''require_approval'' \<or>
        (case as_block_category s of None \<Rightarrow> False | Some c \<Rightarrow> c \<in> {''pii'', ''secrets'', ''sensitive_data''}) then ''sensitive_data''
      else if (case as_policy_decision s of None \<Rightarrow> False | Some d \<Rightarrow> d \<in> {''REQUIRE_APPROVAL'', ''BLOCK''}) \<or>
        as_block_reason s = Some ''policy_violation'' then ''policy_violation''
      else ''high_risk'')"

definition request_approval :: "gateway_env \<Rightarrow> auth_state \<Rightarrow> string \<Rightarrow> gateway_world \<Rightarrow> gateway_world" where
  "request_approval e s level w =
     w\<lparr>w_approvals := snd (create_approval (ge_approval e) (ge_fresh e) (str_or (as_request_id s) (ge_fresh e))
         (str_or (Some (or_default '''' (as_session_id s))) (ge_fresh e)) (as_message s) level (as_tenant_id s)
         (Some (approval_reason s))
         [(''policy_decision'', jopt (as_policy_decision s)), (''security_policy_action'', jopt (as_security_action s)),
          (''block_category'', jopt (as_block_category s)), (''block_reason'', jopt (as_block_reason s))] (w_approvals w))\<rparr>"

text \<open>A call that times out is not cancelled: its thread still creates the approval.\<close>

definition approval_node :: "gateway_env \<Rightarrow> auth_state \<Rightarrow> auth_state gw" where
  "approval_node e s =
     (if as_approval_status s = Some ''APPROVED'' then gw_return s
      else case as_risk_level s of
        None \<Rightarrow> gw_raise (Exn ''KeyError'' ''risk_level'')
      | Some level \<Rightarrow>
          if level = ''HIGH''
          then gw_bind (gw_do (request_approval e s level)) (\<lambda>_.
               if ge_approval_late e then gw_raise (timeout_error ''Approval creation timed out after 5 seconds'')
               else gw_return (s\<lparr>as_approval_id := Some (ge_fresh e), as_approval_status := Some ''PENDING_APPROVAL'',
                                 as_approval_reason := Some (approval_reason s)\<rparr>))
          else gw_return (s\<lparr>as_approval_status := Some ''APPROVED''\<rparr>))"

definition skips_provider :: "auth_state \<Rightarrow> bool" where
  "skips_provider s = (\<not> or_default True (as_allowed s) \<or> as_approval_status s = Some ''PENDING_APPROVAL'')"

definition provider_router_node :: "gateway_env \<Rightarrow> auth_state \<Rightarrow> auth_state gw" where
  "provider_router_node e s =
     (if skips_provider s then gw_return s
      else gw_bind (gw_lift (select (ge_router e) (tenant_of s))) (\<lambda>sel.
           gw_bind (gw_do (log_note e s ''Provider Router'' ''PROVIDER_ROUTE_SELECTED''
             (''Selected '' @ sel_provider_name sel @ '' model '' @ py_str (sel_model sel) @ '' from '' @ sel_source sel @ ''.'')))
             (\<lambda>_. gw_return (s\<lparr>as_client := Some (sel_client sel), as_provider := Some (sel_provider_name sel),
                 as_model := Some (sel_model sel), as_route_id := sel_route_id sel, as_route_source := Some (sel_source sel)\<rparr>))))"

definition rag_node :: "gateway_env \<Rightarrow> auth_state \<Rightarrow> auth_state gw" where
  "rag_node e s = gw_return (s\<lparr>as_context := Some (retrieve_context (ge_docs e) (as_message s))\<rparr>)"


section \<open>The provider call\<close>

definition fallback_text :: string where
  "fallback_text = ''[Offline Fallback] The configured model provider is currently unavailable. AuthClaw completed the gateway security, policy, and audit checks, but the upstream LLM call could not be completed. Check the Providers page, API credentials, and outbound network access, then try again.''"

definition history_line :: "(string \<times> jval) list \<Rightarrow> string" where
  "history_line msg =
     (let role = (case map_of msg ''role'' of None \<Rightarrow> JStr ''user'' | Some r \<Rightarrow> r);
          content = (if jget msg ''content'' \<noteq> JNull then py_str (jget msg ''content'')
            else if role = JStr ''blocked''
            then ''[Blocked: '' @ (case map_of msg ''category'' of None \<Rightarrow> ''policy_violation'' | Some c \<Rightarrow> py_str c) @ '']''
            else if role = JStr ''system'' \<and> map_of msg ''approvalId'' \<noteq> None
            then ''[Pending Approval: '' @ py_str (jget msg ''approvalId'') @ '']'' else '''')
      in py_str role @ '': '' @ content @ [newline])"

definition prompt_text :: "string \<Rightarrow> string \<Rightarrow> string \<Rightarrow> string" where
  "prompt_text history context message =
     [newline] @ ''You are a compliance assistant.'' @ [newline, newline] @ ''Conversation History:'' @ [newline] @ history @
     [newline, newline] @ ''Compliance Context:'' @ [newline] @ context @ [newline, newline] @ ''User Question:'' @ [newline] @
     message @ [newline]"

definition build_prompt :: "gateway_env \<Rightarrow> auth_state \<Rightarrow> gateway_world \<Rightarrow> string" where
  "build_prompt e s w =
     prompt_text (concat (map history_line (get_history (db_up e) (sid_of s) (w_chat w)))) (or_default '''' (as_context s)) (as_message s)"

text \<open>\<open>_resolve_provider\<close> records the provider it falls back to.\<close>

definition resolve_provider :: "gateway_env \<Rightarrow> auth_state \<Rightarrow> exn + client \<times> auth_state" where
  "resolve_provider e s =
     (case as_client s of
        Some c \<Rightarrow> Inr (c, s)
      | None \<Rightarrow> map_sum id (\<lambda>c. (c, s\<lparr>as_provider := Some (class_name (cl_class c)), as_model := Some (cl_model c),
                  as_route_source := Some ''legacy_provider_fallback''\<rparr>))
                (get_provider (environ (ro_secrets (ge_router e)))))"

definition none_or :: "string option \<Rightarrow> string" where "none_or x = or_default ''None'' x"

definition route_details :: "string \<Rightarrow> auth_state \<Rightarrow> string" where
  "route_details what s = ''Selected '' @ what @ '' route: '' @ none_or (as_provider s) @ '' ('' @
     (case as_model s of None \<Rightarrow> ''None'' | Some m \<Rightarrow> py_str m) @ '') via '' @ none_or (as_route_source s) @ ''.''"

definition failed_over :: "gateway_env \<Rightarrow> exn \<Rightarrow> auth_state \<Rightarrow> gateway_world \<Rightarrow> auth_state \<times> gateway_world" where
  "failed_over e x s w =
     (s\<lparr>as_response := Some (JStr fallback_text), as_provider_status := Some ''offline_fallback'', as_provider_error := Some (exn_text x)\<rparr>,
      log_note e s ''LLM Provider'' ''PROVIDER_FAILOVER''
        (''Primary model connection failed: '' @ exn_text x @ ''. Falling back to offline provider response.'') w)"

definition call_provider :: "gateway_env \<Rightarrow> string \<Rightarrow> auth_state \<Rightarrow> gateway_world \<Rightarrow> auth_state \<times> gateway_world" where
  "call_provider e prompt s w =
     (case resolve_provider e s of
        Inl x \<Rightarrow> failed_over e x s w
      | Inr (c, s1) \<Rightarrow>
          (let w1 = log_note e s1 ''LLM Provider'' ''ROUTE_SELECTED'' (route_details ''model'' s1) w;
               w2 = w1\<lparr>w_calls := w_calls w1 @ [(c, prompt)]\<rparr>
           in case (if ge_llm_late e then Inl (timeout_error ''Model provider generate call timed out after 30 seconds'')
                    else fst (generate (ge_wire e) c prompt)) of
                Inl x \<Rightarrow> failed_over e x s1 w2
              | Inr txt \<Rightarrow> (s1\<lparr>as_response := Some txt\<rparr>,
                  log_note e s1 ''LLM Provider'' ''PROVIDER_RESPONSE_RECEIVED''
                    ''Received response successfully from upstream provider.'' w2)))"

definition llm_node :: "gateway_env \<Rightarrow> auth_state \<Rightarrow> auth_state gw" where
  "llm_node e s =
     (if as_approval_status s = Some ''PENDING_APPROVAL'' then gw_return s
      else case as_allowed s of
        None \<Rightarrow> gw_raise (Exn ''KeyError'' ''allowed'')
      | Some allowed \<Rightarrow>
          if \<not> allowed then gw_return (s\<lparr>as_response := Some (JStr ''Policy Violation'')\<rparr>)
          else (\<lambda>w. case call_provider e (build_prompt e s w) s w of (s', w') \<Rightarrow> (Inr s', w')))"

definition check_notes :: "gateway_env \<Rightarrow> auth_state \<Rightarrow> gateway_world \<Rightarrow> gateway_world" where
  "check_notes e s w =
     log_note e s ''AuthClaw Checks'' ''OUTPUT_PII_SCAN_START'' ''Scanning upstream provider response for sensitive data leakage.''
      (log_note e s ''Security Agent'' ''OUTPUT_PII_SCAN_START'' ''Scanning upstream provider response for sensitive data leakage.'' w)"

definition output_note :: "gateway_env \<Rightarrow> auth_state \<Rightarrow> trigger list \<Rightarrow> gateway_world \<Rightarrow> gateway_world" where
  "output_note e s ts =
     (if ts \<noteq> []
      then log_note e s ''Security Agent'' ''OUTPUT_PII_REDACTED''
        (''Redacted sensitive data matching '' @ unique_join e (map tr_name ts) @ '' before returning to the client.'')
      else log_note e s ''Security Agent'' ''OUTPUT_PII_SCAN_CLEAN'' ''Response checks passed. No sensitive data leaks detected.'')"

definition response_checks_node :: "gateway_env \<Rightarrow> auth_state \<Rightarrow> auth_state gw" where
  "response_checks_node e s =
     gw_bind (gw_do (check_notes e s)) (\<lambda>_.
     gw_bind (gw_lift (lift_sm (sanitize_output e (or_default (JStr '''') (as_response s)) (user_of s) (tenant_of s)))) (\<lambda>(checked, ts).
     gw_bind (gw_do (\<lambda>w. save_message e (sid_of s) ''assistant'' checked (output_note e s ts w))) (\<lambda>_.
       gw_return (s\<lparr>as_triggers := Some (or_default [] (as_triggers s) @ ts), as_response := Some (JStr checked)\<rparr>))))"

section \<open>The audit record\<close>

definition response_column :: "jval \<Rightarrow> string option" where
  "response_column v = (case v of JNull \<Rightarrow> None | _ \<Rightarrow> Some (py_str v))"

definition logged_status :: "auth_state \<Rightarrow> string" where
  "logged_status s =
     (if as_approval_status s = Some ''PENDING_APPROVAL'' then ''pending''
      else if \<not> or_default True (as_allowed s) then ''blocked''
      else if or_default ''N/A'' (as_approval_status s) \<noteq> ''N/A'' then or_default ''N/A'' (as_approval_status s) else ''completed'')"

definition joined_column :: "gateway_env \<Rightarrow> (trigger \<Rightarrow> string) \<Rightarrow> trigger list \<Rightarrow> string option" where
  "joined_column e f ts = (if ts = [] then None else Some (unique_join e (map f ts)))"

definition audit_block_of :: "gateway_env \<Rightarrow> auth_state \<Rightarrow> audit_block" where
  "audit_block_of e s =
     (let ts = or_default [] (as_triggers s); query = or_default (as_message s) (as_original_query s) in
      \<lparr>al_query = Some query, al_response = response_column (or_default (JStr ''BLOCKED BY POLICY'') (as_response s)),
       al_allowed = or_default True (as_allowed s), al_risk_level = Some (or_default ''LOW'' (as_risk_level s)),
       al_approval_status = Some (logged_status s), al_approval_id = as_approval_id s,
       al_approver = Some (if as_approval_status s = Some ''PENDING_APPROVAL'' then ''System'' else user_of s),
       al_original_request = Some query, al_approval_timestamp = None, al_execution_timestamp = None,
       al_execution_status = Some (logged_status s), al_policy_name = joined_column e tr_name ts,
       al_policy_type = joined_column e tr_type ts, al_matched_pattern = joined_column e tr_matched ts,
       al_redacted_value = joined_column e tr_redacted ts, al_username = Some (user_of s), al_tenant_id = Some (tenant_of s)\<rparr>)"

definition file_entry :: "gateway_env \<Rightarrow> auth_state \<Rightarrow> string" where
  "file_entry e s = intercalate [newline]
     ['''', ''Time: '' @ ge_now e, ''User: '' @ as_message s,
      ''Allowed: '' @ (if or_default True (as_allowed s) then ''True'' else ''False''),
      ''AI: '' @ py_str (or_default (JStr ''BLOCKED BY POLICY'') (as_response s)), replicate 50 (CHR ''-''), '''']"

definition stored_hashes :: "audit_db \<Rightarrow> int \<Rightarrow> (string \<times> string) option" where
  "stored_hashes db rid = (case find (\<lambda>r. al_id r = rid) (logs db) of
     None \<Rightarrow> None | Some r \<Rightarrow> Some (or_empty (al_integrity_hash r), or_empty (al_previous_hash r)))"

definition audit_notes :: "gateway_env \<Rightarrow> auth_state \<Rightarrow> int \<Rightarrow> gateway_world \<Rightarrow> gateway_world" where
  "audit_notes e s rid w =
     (case stored_hashes (chain (w_approvals w)) rid of
        None \<Rightarrow> w
      | Some (cur, prev) \<Rightarrow>
          log_note e s ''Audit Agent'' ''CHAIN_VERIFICATION_COMPLETE'' ''Cryptographic blockchain link verified. Status: Valid & Unbroken.''
          (log_note e s ''Audit Agent'' ''LEDGER_HASH_GENERATED''
             (''SHA-256 Block integrity hash generated. Current: '' @ take 16 cur @ ''... Previous: '' @ take 16 prev @ ''...'')
          (log_note e s ''Audit Agent'' ''AUDIT_RECORD_STORED''
             (''Committed block #'' @ show_int rid @ '' to the cryptographic compliance ledger.'') w)))"

definition store_block :: "gateway_env \<Rightarrow> auth_state \<Rightarrow> int gw" where
  "store_block e s = (\<lambda>w.
     if \<not> db_up e then (Inl (Exn ''OperationalError'' ''''), w)
     else case create_audit_block (e_sha256 (ge_approval e)) (audit_block_of e s) (sid_of s) (ge_now e) (chain (w_approvals w)) of
            (rid, db) \<Rightarrow> (Inr rid, w\<lparr>w_approvals := (w_approvals w)\<lparr>chain := db\<rparr>\<rparr>))"

definition audit_node :: "gateway_env \<Rightarrow> auth_state \<Rightarrow> auth_state gw" where
  "audit_node e s =
     gw_bind (gw_do (\<lambda>w. w\<lparr>w_audit_file := w_audit_file w @ [file_entry e s]\<rparr>)) (\<lambda>_.
     gw_bind (store_block e s) (\<lambda>rid.
     gw_bind (gw_do (audit_notes e s rid)) (\<lambda>_.
       gw_return (s\<lparr>as_audit_record_id := Some rid\<rparr>))))"

section \<open>The graph\<close>

datatype graph_node =
    Orchestrator | Redact | Policy | Risk | Decision | Approval | Provider_Route | Rag | Llm | Response_Checks | Audit

definition route_after_policy :: "auth_state \<Rightarrow> graph_node" where
  "route_after_policy s = (if or_default True (as_allowed s) then Risk else Audit)"

definition route_after_approval :: "auth_state \<Rightarrow> graph_node" where
  "route_after_approval s = (if as_approval_status s = Some ''APPROVED'' then Provider_Route else Audit)"

primrec next_node :: "graph_node \<Rightarrow> auth_state \<Rightarrow> graph_node option" where
  "next_node Orchestrator s = Some Redact"
| "next_node Redact s = Some Policy"
| "next_node Policy s = Some (route_after_policy s)"
| "next_node Risk s = Some Decision"
| "next_node Decision s = Some Approval"
| "next_node Approval s = Some (route_after_approval s)"
| "next_node Provider_Route s = Some Rag"
| "next_node Rag s = Some Llm"
| "next_node Llm s = Some Response_Checks"
| "next_node Response_Checks s = Some Audit"
| "next_node Audit s = None"

primrec run_node :: "gateway_env \<Rightarrow> graph_node \<Rightarrow> auth_state \<Rightarrow> auth_state gw" where
  "run_node e Orchestrator = orchestrator_node e"
| "run_node e Redact = redact_node e"
| "run_node e Policy = policy_node e"
| "run_node e Risk = risk_node e"
| "run_node e Decision = decision_node e"
| "run_node e Approval = approval_node e"
| "run_node e Provider_Route = provider_router_node e"
| "run_node e Rag = rag_node e"
| "run_node e Llm = llm_node e"
| "run_node e Response_Checks = response_checks_node e"
| "run_node e Audit = audit_node e"

text \<open>The edges go forward: the rank of a node drops along every edge, so a run ends without the
  recursion limit of the library.\<close>

primrec node_rank :: "graph_node \<Rightarrow> nat" where
  "node_rank Orchestrator = 10"
| "node_rank Redact = 9"
| "node_rank Policy = 8"
| "node_rank Risk = 7"
| "node_rank Decision = 6"
| "node_rank Approval = 5"
| "node_rank Provider_Route = 4"
| "node_rank Rag = 3"
| "node_rank Llm = 2"
| "node_rank Response_Checks = 1"
| "node_rank Audit = 0"

lemma next_node_rank: "next_node n s = Some m \<Longrightarrow> node_rank m < node_rank n"
  by (cases n) (auto simp: route_after_policy_def route_after_approval_def split: if_splits)

function invoke_from :: "(auth_state \<Rightarrow> auth_state) \<Rightarrow> gateway_env \<Rightarrow> graph_node \<Rightarrow> auth_state \<Rightarrow> auth_state gw" where
  "invoke_from commit e n s w =
     (case run_node e n s w of
        (Inl x, w') \<Rightarrow> (Inl x, w')
      | (Inr s', w') \<Rightarrow>
          (case next_node n (commit s') of
             None \<Rightarrow> (Inr (commit s'), w')
           | Some m \<Rightarrow> invoke_from commit e m (commit s') w'))"
  by pat_completeness auto

termination
  by (relation "measure (\<lambda>(commit, e, n, s, w). node_rank n)") (auto dest: next_node_rank)

declare invoke_from.simps [simp del]

definition invoke :: "(auth_state \<Rightarrow> auth_state) \<Rightarrow> gateway_env \<Rightarrow> auth_state \<Rightarrow> auth_state gw" where
  "invoke commit e s = invoke_from commit e Orchestrator (commit s)"

end
