(* ===== verification/Gateway_Runs.thy ===== *)
theory Gateway_Runs
  imports Gateway_Graph
begin

text \<open>
  What a run of the gateway pipeline guarantees, whatever the executor of the graph library does
  with the keys that the state class does not declare: which prompts reach a provider, that the
  raw message goes no further than the redactor, and what a run adds to the audit chain; and two
  ways in which a demand for approval or a block is lost.
\<close>

section \<open>Frames\<close>

lemma log_note_simps [simp]:
  "w_calls (log_note e s a t d w) = w_calls w" "w_approvals (log_note e s a t d w) = w_approvals w"
  "w_chat (log_note e s a t d w) = w_chat w" "w_log (log_note e s a t d w) = w_log w"
  "w_audit_file (log_note e s a t d w) = w_audit_file w"
  by (simp_all add: log_note_def log_event_for_def split: prod.split)

lemma save_message_simps [simp]:
  "w_calls (save_message e sid r c w) = w_calls w" "w_approvals (save_message e sid r c w) = w_approvals w"
  by (simp_all add: save_message_def)

lemma notes_simps [simp]:
  "w_calls (redact_notes e s ts w) = w_calls w" "w_approvals (redact_notes e s ts w) = w_approvals w"
  "w_calls (check_notes e s w) = w_calls w" "w_approvals (check_notes e s w) = w_approvals w"
  "w_calls (output_note e s ts w) = w_calls w" "w_approvals (output_note e s ts w) = w_approvals w"
  "w_calls (audit_notes e s rid w) = w_calls w" "w_approvals (audit_notes e s rid w) = w_approvals w"
  "w_calls (request_approval e s l w) = w_calls w"
  by (simp_all add: redact_notes_def check_notes_def output_note_def audit_notes_def request_approval_def split: option.split)

lemma chain_append_approval_audit [simp]: "chain (append_approval_audit e x a b c m d s) = chain s"
  by (simp add: append_approval_audit_def Let_def set_item_def persist_record_def)

lemma chain_request_approval [simp]: "chain (w_approvals (request_approval e s l w)) = chain (w_approvals w)"
  by (simp add: request_approval_def create_approval_def Let_def persist_record_def alloc_def log_event_def)

lemmas gw_simps = gw_bind_def gw_do_def gw_lift_def gw_raise_def gw_return_def

lemma failed_over_simps [simp]:
  "w_calls (snd (failed_over e x s w)) = w_calls w" "w_approvals (snd (failed_over e x s w)) = w_approvals w"
  "fst (failed_over e x s w) = s\<lparr>as_response := Some (JStr fallback_text), as_provider_status := Some ''offline_fallback'',
     as_provider_error := Some (exn_text x)\<rparr>"
  by (simp_all add: failed_over_def)

text \<open>A node other than \<open>Llm\<close> calls no provider.\<close>

lemma run_node_calls: "n \<noteq> Llm \<Longrightarrow> w_calls (snd (run_node e n s w)) = w_calls w"
  by (cases n)
    (auto simp: gw_simps orchestrator_node_def redact_node_def policy_node_def risk_node_def decision_node_def
      approval_node_def provider_router_node_def rag_node_def response_checks_node_def audit_node_def store_block_def
      Let_def split: sum.splits option.splits prod.splits)

text \<open>A node other than \<open>Audit\<close> leaves the audit chain alone.\<close>

lemma call_provider_approvals [simp]: "w_approvals (snd (call_provider e p s w)) = w_approvals w"
  by (auto simp: call_provider_def Let_def split: sum.splits prod.splits)

lemma run_node_chain: "n \<noteq> Audit \<Longrightarrow> chain (w_approvals (snd (run_node e n s w))) = chain (w_approvals w)"
proof (cases n)
  case Llm
  then show ?thesis using call_provider_approvals [of e "build_prompt e s w" s w]
    by (auto simp: gw_simps llm_node_def simp del: call_provider_approvals split: option.splits prod.splits)
qed (auto simp: gw_simps orchestrator_node_def redact_node_def policy_node_def risk_node_def decision_node_def
      approval_node_def provider_router_node_def rag_node_def response_checks_node_def
      Let_def split: sum.splits option.splits prod.splits)

text \<open>The message after the policy node.\<close>

definition policy_message :: "agent_result \<Rightarrow> string \<Rightarrow> string" where
  "policy_message r m = (if \<not> (\<not> pa_approved r \<and> pa_category r \<noteq> []) \<and> pa_decision r = ''REDACT'' \<and> pa_redacted r \<noteq> []
     then pa_redacted r else m)"

lemma with_policy_message: "as_message (with_policy r s) = policy_message r (as_message s)"
  by (simp add: with_policy_def policy_message_def Let_def)

lemma declared_only_task: "declared_only (s\<lparr>as_task_type := t\<rparr>) = (declared_only s)\<lparr>as_task_type := t\<rparr>"
  by (simp add: declared_only_def)

lemma declared_task [simp]: "as_task_type (declared_only s) = as_task_type s"
  by (simp add: declared_only_def)

lemma adjusted_risk_high [simp]: "adjusted_risk fs ''HIGH'' = ''HIGH''"
  by (auto simp: adjusted_risk_def Let_def)

section \<open>Any executor\<close>

locale graph_executor =
  fixes commit :: "auth_state \<Rightarrow> auth_state"
  assumes keeps_declared: "declared_only (commit s) = declared_only s"
begin

lemma commit_fields [simp]:
  "as_message (commit s) = as_message s" "as_allowed (commit s) = as_allowed s"
  "as_approval_status (commit s) = as_approval_status s" "as_risk_level (commit s) = as_risk_level s"
  "as_tenant_id (commit s) = as_tenant_id s" "as_session_id (commit s) = as_session_id s"
  using arg_cong [OF keeps_declared, of as_message s] arg_cong [OF keeps_declared, of as_allowed s]
    arg_cong [OF keeps_declared, of as_approval_status s] arg_cong [OF keeps_declared, of as_risk_level s]
    arg_cong [OF keeps_declared, of as_tenant_id s] arg_cong [OF keeps_declared, of as_session_id s]
  by (simp_all add: declared_only_def)

lemma step_raise: "run_node e n s w = (Inl x, w') \<Longrightarrow> invoke_from commit e n s w = (Inl x, w')"
  by (simp add: invoke_from.simps)

lemma step_next: "run_node e n s w = (Inr s', w') \<Longrightarrow> next_node n (commit s') = Some m \<Longrightarrow>
    invoke_from commit e n s w = invoke_from commit e m (commit s') w'"
  by (simp add: invoke_from.simps [of commit e n])

lemma step_last: "run_node e n s w = (Inr s', w') \<Longrightarrow> next_node n (commit s') = None \<Longrightarrow>
    invoke_from commit e n s w = (Inr (commit s'), w')"
  by (simp add: invoke_from.simps)

text \<open>A provider call further down needs a node that succeeds and hands over.\<close>

definition calls_from :: "gateway_env \<Rightarrow> graph_node \<Rightarrow> auth_state \<Rightarrow> gateway_world \<Rightarrow> bool" where
  "calls_from e n s w = (w_calls (snd (invoke_from commit e n s w)) \<noteq> w_calls w)"

lemma calls_step:
  assumes "calls_from e n s w" and "n \<noteq> Llm"
  obtains s' w' m where "run_node e n s w = (Inr s', w')" "next_node n (commit s') = Some m" "calls_from e m (commit s') w'"
    "w_calls w' = w_calls w" "invoke_from commit e n s w = invoke_from commit e m (commit s') w'"
proof -
  obtain r w' where r: "run_node e n s w = (r, w')" by fastforce
  then have c: "w_calls w' = w_calls w" using run_node_calls [OF assms(2), of e s w] by simp
  show thesis
  proof (cases r)
    case (Inl x)
    then show thesis using assms(1) c r by (simp add: calls_from_def step_raise)
  next
    case (Inr s')
    show thesis
    proof (cases "next_node n (commit s')")
      case None
      then show thesis using assms(1) c r Inr by (simp add: calls_from_def step_last)
    next
      case (Some m)
      note go = step_next [OF r [unfolded Inr] Some]
      show thesis by (rule that [OF r [unfolded Inr] Some _ c go])
        (use assms(1) c in \<open>simp add: calls_from_def go\<close>)
    qed
  qed
qed

lemma no_call_audit: "\<not> calls_from e Audit s w"
  by (auto elim: calls_step)

lemma call_approval:
  assumes "calls_from e Approval s w"
  shows "as_approval_status s = Some ''APPROVED'' \<or> (\<exists>l. as_risk_level s = Some l \<and> l \<noteq> ''HIGH'')"
  using assms
proof (rule calls_step)
  fix s' w' m
  assume "run_node e Approval s w = (Inr s', w')" "next_node Approval (commit s') = Some m" "calls_from e m (commit s') w'"
  then show ?thesis
    by (auto simp: gw_simps approval_node_def route_after_approval_def no_call_audit split: if_splits option.splits)
qed simp

lemma call_decision:
  assumes "calls_from e Decision s w"
  shows "as_approval_status s = Some ''APPROVED'' \<or> (\<exists>l. as_risk_level s = Some l \<and> l \<noteq> ''HIGH'')"
  using assms
proof (rule calls_step)
  fix s' w' m
  assume "run_node e Decision s w = (Inr s', w')" "next_node Decision (commit s') = Some m" "calls_from e m (commit s') w'"
  then show ?thesis using call_approval [of e "commit s'" w']
    by (auto simp: gw_simps decision_node_def Let_def apply_decision_def)
qed simp

lemma call_risk:
  assumes "calls_from e Risk s w"
  obtains r where "calculate_risk (ge_yaml e) (as_message s) = Inr r"
    "as_approval_status s = Some ''APPROVED'' \<or> adjusted_risk (or_default [] (as_security_findings s)) r \<noteq> ''HIGH''"
  using assms
proof (rule calls_step)
  fix s' w' m
  assume "run_node e Risk s w = (Inr s', w')" "next_node Risk (commit s') = Some m" "calls_from e m (commit s') w'"
  then show ?thesis using call_decision [of e "commit s'" w'] that
    by (cases "calculate_risk (ge_yaml e) (as_message s)")
      (auto simp: gw_simps risk_node_def Let_def split: if_splits)
qed simp

end

section \<open>What nodes keep\<close>

lemma resolve_provider_keeps:
  "resolve_provider e s = Inr (c, s1) \<Longrightarrow> as_message s1 = as_message s \<and> as_tenant_id s1 = as_tenant_id s"
  by (cases "get_provider (environ (ro_secrets (ge_router e)))") (auto simp: resolve_provider_def split: option.splits)

lemma call_provider_fields:
  "as_message (fst (call_provider e p s w)) = as_message s \<and> as_tenant_id (fst (call_provider e p s w)) = as_tenant_id s"
proof (cases "resolve_provider e s")
  case (Inr cs)
  then show ?thesis using resolve_provider_keeps [of e s "fst cs" "snd cs"]
    by (cases cs) (simp add: call_provider_def Let_def split: sum.split)
qed (simp add: call_provider_def)

lemma call_provider_calls:
  "w_calls (snd (call_provider e p s w)) = w_calls w \<or> (\<exists>c. w_calls (snd (call_provider e p s w)) = w_calls w @ [(c, p)])"
  by (auto simp: call_provider_def Let_def split: sum.splits prod.splits)

lemma state_steps_tenant [simp]:
  "as_tenant_id (with_security sec s) = as_tenant_id s" "as_tenant_id (policy_setup s) = as_tenant_id s"
  "as_tenant_id (preserved_block s) = as_tenant_id s" "as_tenant_id (with_policy r s) = as_tenant_id s"
  "as_tenant_id (apply_decision s) = as_tenant_id s"
  by (simp_all add: with_security_def policy_setup_def preserved_block_def with_policy_def apply_decision_def Let_def)

lemma run_node_tenant: "run_node e n s w = (Inr s', w') \<Longrightarrow> as_tenant_id s' = as_tenant_id s"
proof (cases n)
  case Llm
  assume "run_node e n s w = (Inr s', w')"
  then show ?thesis using call_provider_fields [of e "build_prompt e s w" s w] Llm
    by (auto simp: gw_simps llm_node_def split: option.splits prod.splits if_splits)
qed (auto simp: gw_simps orchestrator_node_def redact_node_def policy_node_def risk_node_def decision_node_def
      approval_node_def provider_router_node_def rag_node_def response_checks_node_def audit_node_def store_block_def
      Let_def split: sum.splits option.splits prod.splits if_splits)

definition settled :: "graph_node set" where "settled = {Risk, Decision, Approval, Provider_Route, Rag}"

lemma run_node_message: "n \<in> settled \<Longrightarrow> run_node e n s w = (Inr s', w') \<Longrightarrow> as_message s' = as_message s"
  by (auto simp: settled_def gw_simps risk_node_def decision_node_def approval_node_def provider_router_node_def rag_node_def
      apply_decision_def Let_def split: sum.splits option.splits prod.splits if_splits)

lemma settled_next: "n \<in> settled \<Longrightarrow> next_node n s = Some m \<Longrightarrow> m \<in> settled \<or> m \<in> {Llm, Audit}"
  by (auto simp: settled_def route_after_approval_def split: if_splits)

definition sent_for :: "string \<Rightarrow> gateway_world \<Rightarrow> gateway_world \<Rightarrow> bool" where
  "sent_for m w w' = (w_calls w' = w_calls w \<or> (\<exists>c h ctx. w_calls w' = w_calls w @ [(c, prompt_text h ctx m)]))"

lemma audit_node_chain:
  assumes "run_node e Audit s w = (r, w')"
  shows "case r of Inl x \<Rightarrow> chain (w_approvals w') = chain (w_approvals w)
     | Inr s' \<Rightarrow> chain (w_approvals w') = snd (create_audit_block (e_sha256 (ge_approval e)) (audit_block_of e s) (sid_of s)
          (ge_now e) (chain (w_approvals w)))"
  using assms by (auto simp: gw_simps audit_node_def store_block_def split: prod.splits if_splits)

lemma audit_block_tenant [simp]: "al_tenant_id (audit_block_of e s) = Some (tenant_of s)"
  by (simp add: audit_block_of_def Let_def)

context graph_executor
begin

lemma sent_after_llm:
  assumes "run_node e Llm s w = (r, w')"
  shows "w_calls (snd (invoke_from commit e Llm s w)) = w_calls w'"
proof (cases r)
  case (Inr s')
  have "\<not> calls_from e Response_Checks (commit s') w'"
  proof
    assume "calls_from e Response_Checks (commit s') w'"
    then show False by (rule calls_step) (auto simp: no_call_audit)
  qed
  then show ?thesis using assms Inr by (simp add: step_next [of e Llm s w s' w'] calls_from_def)
qed (use assms in \<open>simp add: step_raise\<close>)

lemma llm_sends: "sent_for (as_message s) w (snd (run_node e Llm s w))"
  using call_provider_calls [of e "build_prompt e s w" s w]
  by (auto simp: gw_simps llm_node_def sent_for_def build_prompt_def split: option.splits prod.splits)

lemma sends_one_prompt: "n \<in> settled \<Longrightarrow> sent_for (as_message s) w (snd (invoke_from commit e n s w))"
proof (induction "node_rank n" arbitrary: n s w rule: less_induct)
  case less
  obtain r w1 where run: "run_node e n s w = (r, w1)" by fastforce
  have w1: "w_calls w1 = w_calls w"
    using run_node_calls [of n e s w] run less.prems by (auto simp: settled_def)
  show ?case
  proof (cases r)
    case (Inl x)
    then show ?thesis using run w1 by (simp add: step_raise sent_for_def)
  next
    case (Inr s')
    then have s': "as_message s' = as_message s" using run run_node_message less.prems by blast
    obtain m where m: "next_node n (commit s') = Some m" using less.prems by (auto simp: settled_def)
    note go = step_next [OF run [unfolded Inr] m]
    consider "m \<in> settled" | "m = Audit" | "m = Llm" using settled_next [OF less.prems m] by blast
    then have "sent_for (as_message s) w1 (snd (invoke_from commit e m (commit s') w1))"
    proof cases
      case 1
      then show ?thesis using less.hyps [OF next_node_rank [OF m], of "commit s'" w1] s' by simp
    next
      case 2
      then show ?thesis using no_call_audit [of e "commit s'" w1] by (simp add: sent_for_def calls_from_def)
    next
      case 3
      obtain r2 w2 where r2: "run_node e Llm (commit s') w1 = (r2, w2)" by fastforce
      then have "sent_for (as_message s) w1 w2" using llm_sends [of "commit s'" w1 e] s' by simp
      then show ?thesis using sent_after_llm [OF r2] by (simp add: 3 sent_for_def)
    qed
    then show ?thesis using w1 by (simp add: go sent_for_def)
  qed
qed

lemma invoke_chain:
  "case invoke_from commit e n s w of
     (Inl x, w') \<Rightarrow> chain (w_approvals w') = chain (w_approvals w)
   | (Inr s', w') \<Rightarrow> \<exists>a sid. al_tenant_id a = Some (tenant_of s) \<and>
       chain (w_approvals w') = snd (create_audit_block (e_sha256 (ge_approval e)) a sid (ge_now e) (chain (w_approvals w)))"
proof (induction "node_rank n" arbitrary: n s w rule: less_induct)
  case less
  obtain r w1 where run: "run_node e n s w = (r, w1)" by fastforce
  show ?case
  proof (cases "n = Audit")
    case True
    have a: "case r of Inl x \<Rightarrow> chain (w_approvals w1) = chain (w_approvals w)
       | Inr s' \<Rightarrow> chain (w_approvals w1) = snd (create_audit_block (e_sha256 (ge_approval e)) (audit_block_of e s) (sid_of s)
          (ge_now e) (chain (w_approvals w)))"
      using run True by (intro audit_node_chain) simp
    show ?thesis
    proof (cases r)
      case (Inr s')
      then have "invoke_from commit e n s w = (Inr (commit s'), w1)" using run True by (simp add: step_last)
      then show ?thesis using a Inr by (auto intro!: exI [of _ "audit_block_of e s"])
    qed (use run a in \<open>simp add: step_raise\<close>)
  next
    case False
    then have w1: "chain (w_approvals w1) = chain (w_approvals w)" using run_node_chain [of n e s w] run by simp
    show ?thesis
    proof (cases r)
      case (Inr s')
      obtain m where m: "next_node n (commit s') = Some m" using False by (cases n) auto
      have t: "tenant_of (commit s') = tenant_of s" using run_node_tenant [OF run [unfolded Inr]] by (simp add: tenant_of_def)
      show ?thesis using less [OF next_node_rank [OF m], of w1 "commit s'"]
        unfolding step_next [OF run [unfolded Inr] m] w1 t .
    qed (use run w1 in \<open>simp add: step_raise\<close>)
  qed
qed

lemma call_policy:
  assumes "calls_from e Policy s w"
  obtains r risk u where "as_security_approved s \<noteq> Some False"
    "policy_agent e (as_message s) u (tenant_of s) = Inr r" "pa_approved r \<or> pa_decision r = ''REQUIRE_APPROVAL''"
    "calculate_risk (ge_yaml e) (policy_message r (as_message s)) = Inr risk"
    "as_approval_status s = Some ''APPROVED'' \<or> risk \<noteq> ''HIGH''"
    "sent_for (policy_message r (as_message s)) w (snd (invoke_from commit e Policy s w))"
  using assms
proof (rule calls_step)
  fix s' w' m
  assume run: "run_node e Policy s w = (Inr s', w')" and "next_node Policy (commit s') = Some m"
    and m: "calls_from e m (commit s') w'" and calls: "w_calls w' = w_calls w"
    and go: "invoke_from commit e Policy s w = invoke_from commit e m (commit s') w'"
  then have risk: "m = Risk" "or_default True (as_allowed s')"
    using no_call_audit by (auto simp: route_after_policy_def split: if_splits)
  have same: "as_message (policy_setup s) = as_message s" "tenant_of (policy_setup s) = tenant_of s"
      "as_security_approved (policy_setup s) = as_security_approved s" "as_message (policy_setup s) = as_message s"
    by (simp_all add: policy_setup_def tenant_of_def)
  from run risk(2) have sec: "as_security_approved s \<noteq> Some False"
    by (auto simp: gw_simps policy_node_def Let_def same preserved_block_def)
  with run obtain r where r: "policy_agent e (as_message s) (user_of (policy_setup s)) (tenant_of s) = Inr r"
      and s': "s' = with_policy r (policy_setup s)"
    by (cases "policy_agent e (as_message s) (user_of (policy_setup s)) (tenant_of s)")
      (auto simp: gw_simps policy_node_def Let_def same)
  from risk(2) s' have app: "pa_approved r \<or> pa_decision r = ''REQUIRE_APPROVAL''"
    by (auto simp: with_policy_def Let_def split: if_splits)
  obtain q where q: "calculate_risk (ge_yaml e) (as_message s') = Inr q"
      "as_approval_status s' = Some ''APPROVED'' \<or> adjusted_risk (or_default [] (as_security_findings (commit s'))) q \<noteq> ''HIGH''"
    using m by (auto simp: risk(1) elim: call_risk)
  have "as_approval_status s' = Some ''APPROVED'' \<Longrightarrow> as_approval_status s = Some ''APPROVED''"
    by (auto simp: s' with_policy_def policy_setup_def Let_def split: if_splits)
  moreover have "adjusted_risk (or_default [] (as_security_findings (commit s'))) q \<noteq> ''HIGH'' \<Longrightarrow> q \<noteq> ''HIGH''"
    by auto
  moreover have msg: "as_message s' = policy_message r (as_message s)" by (simp add: s' with_policy_message same)
  moreover have "sent_for (as_message s') w (snd (invoke_from commit e Policy s w))"
    using sends_one_prompt [of Risk "commit s'" w' e] by (simp add: go risk(1) settled_def sent_for_def calls)
  ultimately show thesis using that [OF sec r app] q by auto
qed simp

lemma call_redact:
  assumes "calls_from e Redact s w"
  obtains sec r risk u where "inspect_input e (as_message s) (user_of s) (tenant_of s) = Inr sec"
    "policy_agent e (sr_sanitized sec) u (tenant_of s) = Inr r" "pa_approved r \<or> pa_decision r = ''REQUIRE_APPROVAL''"
    "calculate_risk (ge_yaml e) (policy_message r (sr_sanitized sec)) = Inr risk"
    "as_approval_status s = Some ''APPROVED'' \<or> risk \<noteq> ''HIGH''"
    "sent_for (policy_message r (sr_sanitized sec)) w (snd (invoke_from commit e Redact s w))"
  using assms
proof (rule calls_step)
  fix s' w' m
  assume run: "run_node e Redact s w = (Inr s', w')" and "next_node Redact (commit s') = Some m"
    and m: "calls_from e m (commit s') w'" and calls: "w_calls w' = w_calls w"
    and go: "invoke_from commit e Redact s w = invoke_from commit e m (commit s') w'"
  then have "m = Policy" by simp
  from run obtain sec where sec: "inspect_input e (as_message s) (user_of s) (tenant_of s) = Inr sec"
      and s': "s' = (with_security sec s)\<lparr>as_triggers := Some (or_default [] (as_triggers s) @ sr_findings sec),
                                      as_message := sr_sanitized sec\<rparr>"
    by (cases "inspect_input e (as_message s) (user_of s) (tenant_of s)") (auto simp: gw_simps redact_node_def)
  then have same: "as_message s' = sr_sanitized sec" "tenant_of (commit s') = tenant_of s"
      "as_approval_status s' = as_approval_status s"
    by (simp_all add: tenant_of_def with_security_def Let_def)
  from m [unfolded \<open>m = Policy\<close>] show thesis
    by (rule call_policy) (use that [OF sec] in \<open>simp add: same go \<open>m = Policy\<close> sent_for_def calls\<close>)
qed simp

text \<open>The first node hands the message on.\<close>

lemma invoke_redact:
  "\<exists>w1 s1. invoke commit e s w = invoke_from commit e Redact s1 w1 \<and> w_calls w1 = w_calls w \<and>
     declared_only s1 = declared_only (s\<lparr>as_task_type := as_task_type s1\<rparr>)"
proof -
  obtain s' w1 where run: "run_node e Orchestrator (commit s) w = (Inr s', w1)"
    by (simp add: gw_simps orchestrator_node_def Let_def)
  have w1: "w_calls w1 = w_calls w" using run_node_calls [of Orchestrator e "commit s" w] run by simp
  obtain t where s': "s' = (commit s)\<lparr>as_task_type := t\<rparr>"
    using run by (auto simp: gw_simps orchestrator_node_def Let_def)
  have d: "declared_only (commit s') = (declared_only s)\<lparr>as_task_type := t\<rparr>"
    by (simp only: keeps_declared s' declared_only_task)
  have "as_task_type (commit s') = as_task_type (declared_only (commit s'))" by (rule declared_task [symmetric])
  also have "\<dots> = t" by (subst d) simp
  finally have "as_task_type (commit s') = t" .
  then have "declared_only (commit s') = declared_only (s\<lparr>as_task_type := as_task_type (commit s')\<rparr>)"
    by (simp only: d declared_only_task)
  moreover have "invoke commit e s w = invoke_from commit e Redact (commit s') w1"
    by (simp add: invoke_def step_next [OF run])
  ultimately show ?thesis using w1 by blast
qed

text \<open>Redaction replaces the message: nothing after the second node depends on the raw text.\<close>

lemma redacted_alike:
  assumes "inspect_input e m1 (user_of s) (tenant_of s) = inspect_input e m2 (user_of s) (tenant_of s)"
  shows "redact_node e (s\<lparr>as_message := m1\<rparr>) w = redact_node e (s\<lparr>as_message := m2\<rparr>) w"
proof -
  have u: "user_of (s\<lparr>as_message := m\<rparr>) = user_of s" "tenant_of (s\<lparr>as_message := m\<rparr>) = tenant_of s"
    "sid_of (s\<lparr>as_message := m\<rparr>) = sid_of s" "redact_notes e (s\<lparr>as_message := m\<rparr>) = redact_notes e s" for m
    by (simp_all add: user_of_def tenant_of_def sid_of_def redact_notes_def log_note_def fun_eq_iff)
  have x: "(with_security r (s\<lparr>as_message := m1\<rparr>))\<lparr>as_triggers := t, as_message := z\<rparr>
      = (with_security r (s\<lparr>as_message := m2\<rparr>))\<lparr>as_triggers := t, as_message := z\<rparr>" for r t z
    by (simp add: with_security_def Let_def)
  show ?thesis using assms by (simp add: redact_node_def u x)
qed

end

section \<open>The two executors\<close>

text \<open>An executor that hands on the dictionary as it is.\<close>

definition keep_all :: "auth_state \<Rightarrow> auth_state" where "keep_all s = s"

interpretation in_place: graph_executor keep_all
  by unfold_locales (simp add: keep_all_def)

interpretation langgraph: graph_executor declared_only
  by unfold_locales (simp add: declared_only_def)

lemma declared_fields:
  "as_message (declared_only s) = as_message s" "as_tenant_id (declared_only s) = as_tenant_id s"
  "as_approval_status (declared_only s) = as_approval_status s"
  by (simp_all add: declared_only_def)

lemma declared_agree:
  assumes "declared_only a = declared_only b"
  shows "as_message a = as_message b" "as_tenant_id a = as_tenant_id b" "as_approval_status a = as_approval_status b"
  by (metis assms declared_fields)+


lemma commit_update:
  assumes "commit \<in> {keep_all, declared_only}"
  shows "commit (s\<lparr>as_message := m\<rparr>) = (commit s)\<lparr>as_message := m\<rparr>"
  using assms by (auto simp: declared_only_def keep_all_def)

lemma orchestrator_message:
  "orchestrator_node e (s\<lparr>as_message := m\<rparr>) w =
     (Inr (s\<lparr>as_message := m, as_task_type := Some (task_type m)\<rparr>), snd (orchestrator_node e s w))"
  by (simp add: gw_simps orchestrator_node_def log_note_def tenant_of_def sid_of_def)


section \<open>The audit chain over many requests\<close>

primrec runs :: "(auth_state \<Rightarrow> auth_state) \<Rightarrow> (gateway_env \<times> auth_state) list \<Rightarrow> gateway_world \<Rightarrow> int list \<times> gateway_world" where
  "runs commit [] w = ([], w)"
| "runs commit (q # qs) w =
     (let (r, w1) = invoke commit (fst q) (snd q) w; (ts, w2) = runs commit qs w1
      in ((if is_ok r then [tenant_of (snd q)] else []) @ ts, w2))"

lemma invoke_chain_inv:
  assumes ex: "graph_executor commit" and inv: "chain_inv sha (chain (w_approvals w))"
    and sha: "e_sha256 (ge_approval e) = sha" and run: "invoke commit e s w = (r, w')"
  shows "chain_inv sha (chain (w_approvals w')) \<and>
    length (active (tenant_rows (chain (w_approvals w')) (Some t))) =
      length (active (tenant_rows (chain (w_approvals w)) (Some t))) + (if is_ok r \<and> tenant_of s = t then 1 else 0)"
proof (cases r)
  case (Inl x)
  then show ?thesis using graph_executor.invoke_chain [OF ex, where e = e and n = Orchestrator and s = "commit s" and w = w] run inv
    by (simp add: invoke_def)
next
  case (Inr s')
  have t: "tenant_of (commit s) = tenant_of s" by (simp add: tenant_of_def graph_executor.commit_fields [OF ex])
  obtain a sid where a: "al_tenant_id a = Some (tenant_of s)"
      "chain (w_approvals w') = snd (create_audit_block sha a sid (ge_now e) (chain (w_approvals w)))"
    using graph_executor.invoke_chain [OF ex, where e = e and n = Orchestrator and s = "commit s" and w = w] run Inr
    by (auto simp: invoke_def sha t)
  have ok: "table_ok (chain (w_approvals w))" and ch: "\<And>u. chained sha GENESIS_HASH (active (tenant_rows (chain (w_approvals w)) u))"
    using inv by (simp_all add: chain_inv_def)
  show ?thesis using chain_inv_create [OF inv, of a sid "ge_now e"]
    by (simp add: a tenant_rows_create [OF ok ch] Inr)
qed

lemma runs_chain_inv:
  assumes ex: "graph_executor commit"
  shows "chain_inv sha (chain (w_approvals w)) \<Longrightarrow> \<forall>(e, s)\<in>set reqs. e_sha256 (ge_approval e) = sha \<Longrightarrow>
    runs commit reqs w = (ts, w') \<Longrightarrow> chain_inv sha (chain (w_approvals w')) \<and>
    length (active (tenant_rows (chain (w_approvals w')) (Some t))) =
      length (active (tenant_rows (chain (w_approvals w)) (Some t))) + count_list ts t"
proof (induction reqs arbitrary: w ts w')
  case (Cons q reqs)
  obtain r w1 where r: "invoke commit (fst q) (snd q) w = (r, w1)" by fastforce
  obtain ts2 w2 where r2: "runs commit reqs w1 = (ts2, w2)" by fastforce
  have "e_sha256 (ge_approval (fst q)) = sha" using Cons.prems(2) by (auto split: prod.splits)
  note one = invoke_chain_inv [OF ex Cons.prems(1) this r, of t]
  have "chain_inv sha (chain (w_approvals w2)) \<and>
      length (active (tenant_rows (chain (w_approvals w2)) (Some t))) =
      length (active (tenant_rows (chain (w_approvals w1)) (Some t))) + count_list ts2 t"
    by (rule Cons.IH) (use one Cons.prems(2) r2 in auto)
  then show ?case using one Cons.prems(3) r r2 by (auto split: if_splits)
qed simp

lemma records_of_inv:
  assumes "chain_inv sha db"
  shows "verdict_valid (verify_audit_chain sha (Some t) db)
    \<and> records_checked (verify_audit_chain sha (Some t) db) = length (active (tenant_rows db (Some t)))"
proof -
  have ch: "chained sha GENESIS_HASH (active (tenant_rows db (Some t)))" using assms by (simp add: chain_inv_def)
  then show ?thesis using verify_tenant_chained [OF ch] verify_tenant_iff [of sha t db] by (simp add: records_checked_def)
qed

text \<open>C6: Any sequence of gateway requests, blocked, paused, answered or failed, leaves the audit chain
  of every tenant valid, with one record for each run of that tenant that did not raise.\<close>

theorem gateway_runs_keep_chain:
  assumes "graph_executor commit" and "\<forall>(e, s)\<in>set reqs. e_sha256 (ge_approval e) = sha"
    and "chain (w_approvals w) = empty_audit_db" and "runs commit reqs w = (ts, w')"
  shows "verdict_valid (verify_audit_chain sha (Some t) (chain (w_approvals w')))
    \<and> records_checked (verify_audit_chain sha (Some t) (chain (w_approvals w'))) = count_list ts t"
proof -
  have "length (active (tenant_rows empty_audit_db (Some t))) = 0"
    by (simp add: tenant_rows_def active_def empty_audit_db_def)
  then show ?thesis
    using runs_chain_inv [OF assms(1), of sha w reqs ts w' t] records_of_inv [of sha "chain (w_approvals w')" t]
      chain_inv_empty [of sha] assms(2,3,4)
    by simp
qed

section \<open>Demands that are lost\<close>

lemma run_node_heap: "n \<noteq> Approval \<Longrightarrow> heap (w_approvals (snd (run_node e n s w))) = heap (w_approvals w)"
proof (cases n)
  case Llm
  then show ?thesis using call_provider_approvals [of e "build_prompt e s w" s w]
    by (auto simp: gw_simps llm_node_def simp del: call_provider_approvals split: option.splits prod.splits)
qed (auto simp: gw_simps orchestrator_node_def redact_node_def policy_node_def risk_node_def decision_node_def
      provider_router_node_def rag_node_def response_checks_node_def audit_node_def store_block_def
      Let_def split: sum.splits option.splits prod.splits)

lemma client_called:
  "as_client s = Some c \<Longrightarrow> w_calls (snd (call_provider e p s w)) = w_calls w @ [(c, p)]"
  by (simp add: call_provider_def resolve_provider_def Let_def split: sum.split)

context graph_executor
begin

lemma heap_after:
  "node_rank n < node_rank Approval \<Longrightarrow>
     heap (w_approvals (snd (invoke_from commit e n s w))) = heap (w_approvals w)"
proof (induction "node_rank n" arbitrary: n s w rule: less_induct)
  case less
  obtain r w1 where run: "run_node e n s w = (r, w1)" by fastforce
  have w1: "heap (w_approvals w1) = heap (w_approvals w)"
  proof -
    have "n \<noteq> Approval" using less.prems by auto
    then show ?thesis using run_node_heap [of n e s w] run by simp
  qed
  show ?case
  proof (cases r)
    case (Inr s')
    show ?thesis
    proof (cases "next_node n (commit s')")
      case (Some m)
      then show ?thesis using less.hyps [OF next_node_rank [OF Some], where w = w1 and s = "commit s'"] next_node_rank [OF Some] less.prems
        by (simp add: step_next [OF run [unfolded Inr] Some] w1)
    qed (use run w1 Inr in \<open>simp add: step_last\<close>)
  qed (use run w1 in \<open>simp add: step_raise\<close>)
qed

text \<open>What a run does from the router on when a provider is found.\<close>

definition answers :: "gateway_env \<Rightarrow> graph_node \<Rightarrow> auth_state \<Rightarrow> gateway_world \<Rightarrow> bool" where
  "answers e n s w = (\<exists>c h ctx. w_calls (snd (invoke_from commit e n s w)) = w_calls w @ [(c, prompt_text h ctx (as_message s))]
     \<and> heap (w_approvals (snd (invoke_from commit e n s w))) = heap (w_approvals w))"

lemma answers_llm:
  assumes "as_client s = Some c" "as_allowed s = Some True" "as_approval_status s = Some ''APPROVED''"
  shows "answers e Llm s w"
proof -
  obtain r w' where run: "run_node e Llm s w = (r, w')" by fastforce
  have "w_calls w' = w_calls w @ [(c, build_prompt e s w)]"
    using run assms client_called [OF assms(1), of e "build_prompt e s w" w]
    by (auto simp: llm_node_def split: prod.splits)
  then have "w_calls (snd (invoke_from commit e Llm s w)) = w_calls w @ [(c, build_prompt e s w)]"
    by (simp add: sent_after_llm [OF run])
  moreover have "heap (w_approvals (snd (invoke_from commit e Llm s w))) = heap (w_approvals w)"
    by (rule heap_after) simp
  ultimately show ?thesis unfolding answers_def build_prompt_def by blast
qed

lemma answers_step:
  assumes "run_node e n s w = (Inr s', w')" and "next_node n (commit s') = Some m" and "as_message s' = as_message s"
    and "w_calls w' = w_calls w" and "heap (w_approvals w') = heap (w_approvals w)" and "answers e m (commit s') w'"
  shows "answers e n s w"
  using assms by (simp add: answers_def step_next)

lemma answers_rag:
  assumes "as_client s = Some c" "as_allowed s = Some True" "as_approval_status s = Some ''APPROVED''"
    and "\<And>x. as_client (commit x) = as_client x"
  shows "answers e Rag s w"
  by (rule answers_step [of e Rag s w "s\<lparr>as_context := Some (retrieve_context (ge_docs e) (as_message s))\<rparr>" w Llm])
    (use assms in \<open>auto simp: rag_node_def gw_simps intro!: answers_llm\<close>)

lemma answers_router:
  assumes "select (ge_router e) (tenant_of s) = Inr sel" "as_allowed s = Some True" "as_approval_status s = Some ''APPROVED''"
    and "\<And>x. as_client (commit x) = as_client x"
  shows "answers e Provider_Route s w"
proof -
  obtain s' w' where run: "run_node e Provider_Route s w = (Inr s', w')"
      and s': "as_client s' = Some (sel_client sel)" "as_allowed s' = Some True" "as_approval_status s' = Some ''APPROVED''"
        "as_message s' = as_message s" and w': "w_calls w' = w_calls w" "heap (w_approvals w') = heap (w_approvals w)"
    using assms by (simp add: provider_router_node_def skips_provider_def gw_simps)
  show ?thesis by (rule answers_step [OF run _ s'(4) w', where m = Rag]) (auto simp: assms(4) s' intro!: answers_rag)
qed

lemma answers_approval:
  assumes "as_risk_level s = Some l" "l \<noteq> ''HIGH''" "select (ge_router e) (tenant_of s) = Inr sel" "as_allowed s = Some True"
    and "\<And>x. as_client (commit x) = as_client x"
  shows "answers e Approval s w"
proof -
  let ?s = "s\<lparr>as_approval_status := Some ''APPROVED''\<rparr>"
  have run: "run_node e Approval s w = (Inr ?s, w)" using assms by (auto simp: approval_node_def gw_simps)
  have "answers e Provider_Route (commit ?s) w"
    by (rule answers_router) (use assms in \<open>auto simp: tenant_of_def\<close>)
  then show ?thesis by (intro answers_step [OF run, where m = Provider_Route]) (auto simp: route_after_approval_def)
qed

lemma answers_risk:
  assumes "calculate_risk (ge_yaml e) (as_message s) = Inr l" "adjusted_risk (or_default [] (as_security_findings s)) l \<noteq> ''HIGH''"
    and "\<not> ge_risk_late e" "select (ge_router e) (tenant_of s) = Inr sel" "as_allowed s = Some True"
    and "\<And>x. as_client (commit x) = as_client x"
  shows "answers e Risk s w"
proof -
  let ?r = "adjusted_risk (or_default [] (as_security_findings s)) l"
  obtain w1 where run: "run_node e Risk s w = (Inr (s\<lparr>as_risk_level := Some ?r\<rparr>), w1)"
      and w1: "w_calls w1 = w_calls w" "heap (w_approvals w1) = heap (w_approvals w)"
    using assms(1,3) by (simp add: risk_node_def gw_simps Let_def)
  let ?s = "commit (s\<lparr>as_risk_level := Some ?r\<rparr>)"
  obtain w2 where run2: "run_node e Decision ?s w1 = (Inr (apply_decision ?s), w2)"
      and w2: "w_calls w2 = w_calls w1" "heap (w_approvals w2) = heap (w_approvals w1)"
    by (simp add: decision_node_def gw_simps Let_def)
  have "answers e Approval (commit (apply_decision ?s)) w2"
    by (rule answers_approval [where l = ?r]) (use assms in \<open>auto simp: apply_decision_def tenant_of_def\<close>)
  then have "answers e Decision ?s w1"
    by (intro answers_step [OF run2, where m = Approval]) (auto simp: apply_decision_def w2)
  then show ?thesis by (intro answers_step [OF run, where m = Decision]) (auto simp: w1)
qed

end

lemma declared_more [simp]:
  "as_client (declared_only s) = as_client s" "as_security_approved (declared_only s) = None"
  "as_security_findings (declared_only s) = None" "as_username (declared_only s) = None"
  "as_allowed (declared_only s) = as_allowed s" "as_message (declared_only s) = as_message s"
  "as_tenant_id (declared_only s) = as_tenant_id s" "as_approval_status (declared_only s) = as_approval_status s"
  "as_response (declared_only s) = as_response s"
  by (simp_all add: declared_only_def)

lemma user_declared [simp]: "user_of (declared_only s) = ''admin_user''" "tenant_of (declared_only s) = tenant_of s"
  by (simp_all add: user_of_def tenant_of_def)

definition lets_through :: "agent_result \<Rightarrow> bool" where
  "lets_through res = (pa_approved res \<or> pa_category res \<noteq> [] \<and> pa_decision res = ''REQUIRE_APPROVAL'')"

lemma with_policy_allowed: "lets_through res \<Longrightarrow> as_allowed (with_policy res s) = Some True"
  by (auto simp: with_policy_def lets_through_def Let_def)

text \<open>A request that the policy engine does not block gets to the risk node.\<close>

lemma reaches_risk:
  assumes "inspect_input e (as_message s) ''admin_user'' (tenant_of s) = Inr sec"
    and "policy_agent e (sr_sanitized sec) ''admin_user'' (tenant_of s) = Inr res" and "lets_through res"
  obtains s' w' where "invoke declared_only e s w = invoke_from declared_only e Risk (declared_only s') w'"
    and "as_message s' = policy_message res (sr_sanitized sec)" and "tenant_of s' = tenant_of s" and "as_allowed s' = Some True"
    and "as_approval_status s' = (if pa_approved res then as_approval_status s else Some ''PENDING_APPROVAL'')"
    and "as_response s' = as_response s" and "w_calls w' = w_calls w" and "w_approvals w' = w_approvals w"
proof -
  let ?s0 = "declared_only s"
  obtain s1 w1 where run1: "run_node e Orchestrator ?s0 w = (Inr s1, w1)"
      and s1: "as_message s1 = as_message s" "tenant_of s1 = tenant_of s" "as_approval_status s1 = as_approval_status s"
        "as_response s1 = as_response s" and w1: "w_calls w1 = w_calls w" "w_approvals w1 = w_approvals w"
    by (simp add: gw_simps orchestrator_node_def tenant_of_def)
  obtain s2 w2 where run2: "run_node e Redact (declared_only s1) w1 = (Inr s2, w2)"
      and s2: "as_message s2 = sr_sanitized sec" "tenant_of s2 = tenant_of s" "as_approval_status s2 = as_approval_status s"
        "as_response s2 = as_response s" and w2: "w_calls w2 = w_calls w1" "w_approvals w2 = w_approvals w1"
    using assms(1) s1 by (simp add: gw_simps redact_node_def) (simp add: tenant_of_def with_security_def Let_def)
  let ?s3 = "with_policy res (policy_setup (declared_only s2))"
  have same: "as_message (policy_setup x) = as_message x" "tenant_of (policy_setup x) = tenant_of x"
      "user_of (policy_setup x) = user_of x" "as_security_approved (policy_setup x) = as_security_approved x"
      "as_approval_status (policy_setup x) = as_approval_status x" "as_response (policy_setup x) = as_response x" for x
    by (simp_all add: policy_setup_def tenant_of_def user_of_def)
  obtain w3 where run3: "run_node e Policy (declared_only s2) w2 = (Inr ?s3, w3)"
      and w3: "w_calls w3 = w_calls w2" "w_approvals w3 = w_approvals w2"
    using assms(2) s2 by (simp add: gw_simps policy_node_def Let_def same)
  note ok = with_policy_allowed [OF assms(3)]
  show thesis
  proof
    show "invoke declared_only e s w = invoke_from declared_only e Risk (declared_only ?s3) w3"
      using ok by (simp add: invoke_def langgraph.step_next [OF run1] langgraph.step_next [OF run2] langgraph.step_next [OF run3]
        route_after_policy_def)
    show "as_approval_status ?s3 = (if pa_approved res then as_approval_status s else Some ''PENDING_APPROVAL'')"
      using assms(3) by (auto simp: with_policy_def lets_through_def Let_def same s2)
    show "as_response ?s3 = as_response s" by (simp add: with_policy_def Let_def same s2)
    show "tenant_of ?s3 = tenant_of s" using s2 by (simp add: tenant_of_def)
  qed (simp_all add: with_policy_message same s2 ok w1 w2 w3)
qed

lemma cleared_answers:
  assumes "inspect_input e (as_message s) ''admin_user'' (tenant_of s) = Inr sec"
    and "policy_agent e (sr_sanitized sec) ''admin_user'' (tenant_of s) = Inr res" and "lets_through res"
    and "calculate_risk (ge_yaml e) (policy_message res (sr_sanitized sec)) = Inr l" and "l \<noteq> ''HIGH''"
    and "\<not> ge_risk_late e" and "select (ge_router e) (tenant_of s) = Inr sel"
  shows "\<exists>c h ctx. w_calls (snd (invoke declared_only e s w)) =
      w_calls w @ [(c, prompt_text h ctx (policy_message res (sr_sanitized sec)))]
    \<and> heap (w_approvals (snd (invoke declared_only e s w))) = heap (w_approvals w)"
proof -
  obtain s' w' where r: "invoke declared_only e s w = invoke_from declared_only e Risk (declared_only s') w'"
      "as_message s' = policy_message res (sr_sanitized sec)" "tenant_of s' = tenant_of s" "as_allowed s' = Some True"
      "w_calls w' = w_calls w" "w_approvals w' = w_approvals w"
    using reaches_risk [OF assms(1-3), of w] by metis
  have "langgraph.answers e Risk (declared_only s') w'"
    by (rule langgraph.answers_risk [where l = l and sel = sel])
      (use assms(4-7) r in \<open>simp_all add: adjusted_risk_def Let_def finding_actions_def\<close>)
  then show ?thesis by (simp add: langgraph.answers_def r)
qed

text \<open>C32: Under LangGraph, which drops the keys that \<open>AuthState\<close> does not declare, two demands are
  lost: whatever actions the security findings ask for, \<open>block\<close> included, and even where the
  policy engine decides that an approval is required, a message without high-risk keywords is
  sent to the provider and no approval is created.\<close>

theorem security_demands_lost:
  assumes "inspect_input e (as_message s) ''admin_user'' (tenant_of s) = Inr sec"
    and "policy_agent e (sr_sanitized sec) ''admin_user'' (tenant_of s) = Inr res" and "lets_through res"
    and "calculate_risk (ge_yaml e) (policy_message res (sr_sanitized sec)) = Inr l" and "l \<noteq> ''HIGH''"
    and "\<not> ge_risk_late e" and "select (ge_router e) (tenant_of s) = Inr sel"
  shows "\<exists>c h ctx. w_calls (snd (invoke declared_only e s w)) =
      w_calls w @ [(c, prompt_text h ctx (policy_message res (sr_sanitized sec)))]
    \<and> heap (w_approvals (snd (invoke declared_only e s w))) = heap (w_approvals w)"
  using assms by (rule cleared_answers)

text \<open>Without the loss the block of the security agent is final.\<close>

lemma in_place_block_kept:
  assumes "as_security_approved s = Some False"
  shows "\<not> in_place.calls_from e Policy s w"
  using assms by (auto elim: in_place.call_policy)

end
