(* ===== verification/Gateway_Service.thy ===== *)
theory Gateway_Service
  imports Gateway_Runs
begin

text \<open>
  \<open>services/gateway_service.py\<close> and \<open>services/registrar_service.py\<close>: one chat or one approved
  request through the graph, with the request context of the agent events, the row of the
  request log, the trace of the run and the reply; and the three chat routes of \<open>main.py\<close>.

  The service is constructed with the graph, \<open>resolve_tenant\<close> and \<open>decode_jwt\<close>; these, the two
  random identifiers and the measured time are fields of its environment.  Timestamps and log
  lines are left out.
\<close>

section \<open>The service\<close>

record service_env =
  sv_gateway :: gateway_env
  sv_commit :: "auth_state \<Rightarrow> auth_state"
  sv_resolve :: "string option \<Rightarrow> string option \<Rightarrow> exn + int"
  sv_decode :: "string \<Rightarrow> exn + (string \<times> jval) list option"
  sv_request_id :: string
  sv_session_id :: string
  sv_elapsed_ms :: int

datatype gateway_error =
    GatewayProviderConfigurationError string
  | GatewayProviderUnavailableError string string "jval list"
  | Other_exception exn

record gateway_execution =
  gx_request_id :: string
  gx_tenant_id :: int
  gx_session_id :: string
  gx_result :: auth_state
  gx_trace :: "jval list"
  gx_provider :: string
  gx_model :: jval
  gx_route_id :: "string option"
  gx_decision :: "string option"

definition bearer_token :: "string \<Rightarrow> string" where
  "bearer_token a = (if starts_with ''Bearer '' a then drop 7 a else a)"

text \<open>A subject that is not a string is used by its text.\<close>

definition username_from_authorization :: "service_env \<Rightarrow> string option \<Rightarrow> string" where
  "username_from_authorization v authorization =
     (if \<not> truthy_str authorization then ''admin_user''
      else case sv_decode v (bearer_token (or_empty authorization)) of
             Inr (Some payload) \<Rightarrow> (case map_of payload ''sub'' of Some sub \<Rightarrow> py_str sub | None \<Rightarrow> ''admin_user'')
           | _ \<Rightarrow> ''admin_user'')"

section \<open>The request log and the trace\<close>

definition register_gateway_request :: "gateway_env \<Rightarrow> string \<Rightarrow> string \<Rightarrow> int \<Rightarrow> string \<Rightarrow> bool \<Rightarrow> string \<Rightarrow> string option
    \<Rightarrow> string \<Rightarrow> jval \<Rightarrow> int \<Rightarrow> string option \<Rightarrow> gateway_world \<Rightarrow> gateway_world" where
  "register_gateway_request e rid sid tenant risk allowed status route provider model took decision w =
     log_event_for e tenant sid ''Registrar Agent'' ''GATEWAY_REQUEST_RECORDED''
       (''Recorded gateway request lifecycle metadata. Status: '' @ status @ ''; decision: '' @ none_or decision @
        ''; provider: '' @ provider @ ''; model: '' @ py_str model @ ''.'') (Some rid) (Some 10000)
       (w\<lparr>w_log := record_gateway_request (db_up e) (ge_now e) '''' risk allowed status (Some rid) (show_int tenant) route
            provider (py_str model) took 0 0 decision (Some took) (w_log w)\<rparr>)"

definition trace_entry :: "agent_event \<Rightarrow> jval" where
  "trace_entry ev = JObj [(''agent'', JStr (ae_agent_name ev)), (''event'', JStr (ae_event_type ev)),
     (''details'', JStr (ae_details ev)), (''request_id'', jopt (ae_request_id ev)), (''sequence'', jint_opt (ae_sequence ev))]"

definition get_trace :: "gateway_env \<Rightarrow> string \<Rightarrow> string \<Rightarrow> int \<Rightarrow> gateway_world \<Rightarrow> jval list" where
  "get_trace e rid sid tenant w =
     (if db_up e
      then map trace_entry (filter (\<lambda>ev. ae_request_id ev = Some rid \<or>
             ae_request_id ev = None \<and> ae_session_id ev = sid \<and> ae_tenant_id ev = Some tenant) (w_events w))
      else [])"

text \<open>The message with the greatest id of the session gets the trace.\<close>

fun set_last_trace :: "string \<Rightarrow> string \<Rightarrow> chat_message list \<Rightarrow> chat_message list" where
  "set_last_trace sid t [] = []"
| "set_last_trace sid t (m # rest) =
     (if cm_session m = sid \<and> \<not> list_ex (\<lambda>m. cm_session m = sid) rest then m\<lparr>cm_trace := Some t\<rparr> # rest
      else m # set_last_trace sid t rest)"

definition persist_latest_message_trace :: "gateway_env \<Rightarrow> string \<Rightarrow> jval list \<Rightarrow> gateway_world \<Rightarrow> gateway_world" where
  "persist_latest_message_trace e sid trace w =
     (if db_up e then w\<lparr>w_chat := (w_chat w)\<lparr>messages := set_last_trace sid (json_dumps (JList trace)) (messages (w_chat w))\<rparr>\<rparr> else w)"

section \<open>Execution\<close>

definition enter_request :: "string \<Rightarrow> gateway_world \<Rightarrow> (string option \<times> int) \<times> gateway_world" where
  "enter_request rid w = (case set_agent_event_context (Some rid) (w_ctx w) of (token, c) \<Rightarrow> (token, w\<lparr>w_ctx := c\<rparr>))"

definition leave_request :: "string option \<times> int \<Rightarrow> gateway_world \<Rightarrow> gateway_world" where
  "leave_request token w = w\<lparr>w_ctx := clear_agent_event_context (Some token) (w_ctx w)\<rparr>"

text \<open>\<open>ValueError\<close> becomes a configuration error and leaves no row in the request log; any other
  exception is recorded as an unavailable provider.\<close>

definition run_failed :: "service_env \<Rightarrow> string \<Rightarrow> int \<Rightarrow> string \<Rightarrow> string option \<Rightarrow> string \<Rightarrow> jval \<Rightarrow> exn
    \<Rightarrow> gateway_world \<Rightarrow> (gateway_error + 'a) \<times> gateway_world" where
  "run_failed v sid tenant risk route provider model x w =
     (if is_value_error x then (Inl (GatewayProviderConfigurationError (exn_text x)), w)
      else
        let e = sv_gateway v; rid = sv_request_id v;
            w1 = register_gateway_request e rid sid tenant risk False ''provider_unavailable'' route provider model
                   (sv_elapsed_ms v) (Some ''PROVIDER_UNAVAILABLE'') w;
            trace = get_trace e rid sid tenant w1
        in (Inl (GatewayProviderUnavailableError (exn_text x) rid trace), persist_latest_message_trace e sid trace w1))"

definition run_finished :: "service_env \<Rightarrow> string \<Rightarrow> int \<Rightarrow> string \<Rightarrow> string \<Rightarrow> string option \<Rightarrow> string \<Rightarrow> jval \<Rightarrow> auth_state
    \<Rightarrow> gateway_world \<Rightarrow> (gateway_error + gateway_execution) \<times> gateway_world" where
  "run_finished v sid tenant risk status route provider model result w =
     (let e = sv_gateway v; rid = sv_request_id v;
          provider' = str_or (as_provider result) provider;
          model' = (case as_model result of Some m \<Rightarrow> jor m model | None \<Rightarrow> model);
          w1 = register_gateway_request e rid sid tenant risk (or_default True (as_allowed result)) status route provider'
                 model' (sv_elapsed_ms v) (as_decision result) w;
          trace = get_trace e rid sid tenant w1
      in (Inr \<lparr>gx_request_id = rid, gx_tenant_id = tenant, gx_session_id = sid, gx_result = result, gx_trace = trace,
               gx_provider = provider', gx_model = model', gx_route_id = route, gx_decision = as_decision result\<rparr>,
          persist_latest_message_trace e sid trace w1))"

definition chat_status :: "auth_state \<Rightarrow> string" where
  "chat_status r = (if as_approval_status r = Some ''PENDING_APPROVAL'' then ''pending_approval''
     else if or_default True (as_allowed r) then ''allowed'' else ''blocked'')"

definition chat_state :: "string \<Rightarrow> string \<Rightarrow> string \<Rightarrow> int \<Rightarrow> string \<Rightarrow> string option \<Rightarrow> string \<Rightarrow> jval \<Rightarrow> auth_state" where
  "chat_state message sid username tenant rid route provider model =
     (empty_state message)\<lparr>as_session_id := Some sid, as_username := Some username, as_tenant_id := Some tenant,
        as_request_id := Some rid, as_route_id := route, as_provider := Some provider, as_model := Some model\<rparr>"

record chat_call =
  cc_message :: string
  cc_session_id :: "string option"
  cc_api_key :: "string option"
  cc_authorization :: "string option"
  cc_username :: "string option"
  cc_route_id :: "string option"
  cc_provider :: string
  cc_model :: string

definition execute_chat :: "service_env \<Rightarrow> chat_call \<Rightarrow> gateway_world \<Rightarrow> (gateway_error + gateway_execution) \<times> gateway_world" where
  "execute_chat v c w0 =
     (case sv_resolve v (cc_api_key c) (cc_authorization c) of
        Inl x \<Rightarrow> (Inl (Other_exception x), w0)
      | Inr tenant \<Rightarrow>
          (let rid = sv_request_id v; sid = str_or (cc_session_id c) (sv_session_id v);
               user = str_or (cc_username c) (username_from_authorization v (cc_authorization c));
               (token, w1) = enter_request rid w0
           in case invoke (sv_commit v) (sv_gateway v)
                     (chat_state (cc_message c) sid user tenant rid (cc_route_id c) (cc_provider c) (JStr (cc_model c))) w1 of
                (Inl x, w2) \<Rightarrow>
                  (case run_failed v sid tenant ''UNKNOWN'' (cc_route_id c) (cc_provider c) (JStr (cc_model c)) x w2 of
                     (r, w3) \<Rightarrow> (r, leave_request token w3))
              | (Inr result, w2) \<Rightarrow>
                  run_finished v sid tenant (or_default ''LOW'' (as_risk_level result)) (chat_status result)
                    (if truthy_str (as_route_id result) then as_route_id result else cc_route_id c)
                    (cc_provider c) (JStr (cc_model c)) result (leave_request token w2)))"

text \<open>The approved request.  The key \<open>original_request_id\<close> is written and never read.\<close>

definition approval_sid :: "approval \<Rightarrow> string" where
  "approval_sid ap = (if ap_correlation_id ap \<noteq> [] then ap_correlation_id ap else ''approval-'' @ ap_id ap)"

definition approved_state :: "approval \<Rightarrow> string \<Rightarrow> int \<Rightarrow> string \<Rightarrow> string \<Rightarrow> jval \<Rightarrow> auth_state" where
  "approved_state ap username tenant rid provider model =
     (chat_state (ap_query ap) (approval_sid ap) username tenant rid None provider model)
       \<lparr>as_approval_id := Some (ap_id ap), as_approval_status := Some ''APPROVED''\<rparr>"

definition started_event :: "gateway_env \<Rightarrow> approval \<Rightarrow> int \<Rightarrow> string \<Rightarrow> gateway_world \<Rightarrow> gateway_world" where
  "started_event e ap tenant rid = log_event_for e tenant (approval_sid ap) ''Approval Execute'' ''APPROVAL_EXECUTION_STARTED''
     (''Executing approved request '' @ ap_id ap @ '' from original request '' @ ap_request_id ap @ ''.'') (Some rid) None"

definition execute_approval :: "service_env \<Rightarrow> approval \<Rightarrow> string option \<Rightarrow> string option \<Rightarrow> string option \<Rightarrow> string \<Rightarrow> string
    \<Rightarrow> gateway_world \<Rightarrow> (gateway_error + gateway_execution) \<times> gateway_world" where
  "execute_approval v ap authorization x_api_key username provider model w0 =
     (case (case ap_tenant_id ap of Some t \<Rightarrow> Inr t | None \<Rightarrow> sv_resolve v x_api_key authorization) of
        Inl x \<Rightarrow> (Inl (Other_exception x), w0)
      | Inr tenant \<Rightarrow>
          (let rid = sv_request_id v; sid = approval_sid ap;
               user = str_or username (username_from_authorization v authorization);
               (token, w1) = enter_request rid w0
           in case invoke (sv_commit v) (sv_gateway v) (approved_state ap user tenant rid provider (JStr model))
                     (started_event (sv_gateway v) ap tenant rid w1) of
                (Inl x, w2) \<Rightarrow>
                  (case run_failed v sid tenant (ap_risk_level ap) None provider (JStr model) x w2 of
                     (r, w3) \<Rightarrow> (r, leave_request token w3))
              | (Inr result, w2) \<Rightarrow>
                  run_finished v sid tenant (or_default (ap_risk_level ap) (as_risk_level result))
                    (if or_default True (as_allowed result) then ''allowed'' else ''blocked'')
                    (as_route_id result) provider (JStr model) result (leave_request token w2)))"

section \<open>The reply\<close>

definition json_message :: "service_env \<Rightarrow> string \<Rightarrow> string \<Rightarrow> (string \<times> jval) list \<Rightarrow> gateway_world \<Rightarrow> gateway_world" where
  "json_message v sid role obj = save_message (sv_gateway v) sid role (json_dumps (JObj obj))"

definition result_text :: "auth_state \<Rightarrow> jval" where
  "result_text r = or_default (JStr ''No response generated'') (as_response r)"

definition format_chat_response :: "service_env \<Rightarrow> gateway_execution \<Rightarrow> gateway_world \<Rightarrow> jval \<times> gateway_world" where
  "format_chat_response v x w =
     (let r = gx_result x; risk = or_default ''LOW'' (as_risk_level r) in
      if \<not> or_default True (as_allowed r)
      then (let category = or_default ''prompt_injection'' (as_block_category r) in
            (JObj [(''request_id'', JStr (gx_request_id x)), (''status'', JStr ''blocked''), (''reason'', JStr ''policy_violation''),
                   (''category'', JStr category), (''decision'', jopt (gx_decision x)), (''trace'', JList (gx_trace x))],
             json_message v (gx_session_id x) ''blocked''
               [(''category'', JStr category), (''reason'', JStr ''policy_violation''), (''requestId'', JStr (gx_request_id x))] w))
      else if as_approval_status r = Some ''PENDING_APPROVAL''
      then (let reason = str_or (as_approval_reason r) ''high_risk'' in
            (JObj [(''request_id'', JStr (gx_request_id x)), (''status'', JStr ''approval_required''),
                   (''approval_status'', JStr ''PENDING_APPROVAL''), (''approval_id'', jopt (as_approval_id r)),
                   (''approval_reason'', JStr reason), (''risk_level'', JStr risk), (''decision'', jopt (gx_decision x)),
                   (''trace'', JList (gx_trace x))],
             json_message v (gx_session_id x) ''system''
               [(''content'', JStr (''Action paused: '' @ replace_char (CHR ''_'') (CHR '' '') reason @ '' requires human approval.'')),
                (''approvalId'', jopt (as_approval_id r)), (''approvalReason'', JStr reason), (''riskLevel'', JStr risk),
                (''requestId'', JStr (gx_request_id x))] w))
      else (JObj [(''request_id'', JStr (gx_request_id x)), (''response'', result_text r), (''risk_level'', JStr risk),
                  (''provider'', JStr (gx_provider x)), (''model'', gx_model x), (''route_id'', jopt (gx_route_id x)),
                  (''decision'', jopt (gx_decision x)), (''trace'', JList (gx_trace x))], w))"

section \<open>The chat routes\<close>

text \<open>A reply is a status and a body; an exception that no handler catches leaves the route.\<close>

definition PROVIDER_UNAVAILABLE_MESSAGE :: string where
  "PROVIDER_UNAVAILABLE_MESSAGE = ''The configured model provider is currently unavailable. Check provider credentials and outbound network access, then try again.''"

definition chat_route :: "service_env \<Rightarrow> string \<Rightarrow> string option \<Rightarrow> string option \<Rightarrow> string option \<Rightarrow> gateway_world
    \<Rightarrow> (exn + nat \<times> jval) \<times> gateway_world" where
  "chat_route v message session_id x_api_key authorization w =
     (case execute_chat v \<lparr>cc_message = message, cc_session_id = session_id, cc_api_key = x_api_key,
              cc_authorization = authorization, cc_username = None, cc_route_id = None,
              cc_provider = ''AuthClaw Gateway'', cc_model = ''authclaw-gateway''\<rparr> w of
        (Inr x, w1) \<Rightarrow> (case format_chat_response v x w1 of (body, w2) \<Rightarrow> (Inr (200, body), w2))
      | (Inl (GatewayProviderConfigurationError m), w1) \<Rightarrow> (Inr (500, JObj [(''error'', JStr ''provider_not_configured'')]), w1)
      | (Inl (GatewayProviderUnavailableError m rid trace), w1) \<Rightarrow>
          (Inr (503, JObj [(''status'', JStr ''provider_unavailable''), (''error'', JStr ''provider_unavailable''),
             (''message'', JStr PROVIDER_UNAVAILABLE_MESSAGE), (''request_id'', JStr rid), (''trace'', JList trace)]), w1)
      | (Inl (Other_exception x), w1) \<Rightarrow> (Inl x, w1))"

text \<open>The route in the format of the OpenAI interface.  \<open>x_session_id\<close> is the header; the
  streamed form of the reply is that of \<open>_openai_completion_stream\<close> and is left out.\<close>

definition completions_key :: "string option \<Rightarrow> string option \<Rightarrow> string option" where
  "completions_key x_api_key authorization =
     (if truthy_str authorization then Some (bearer_token (or_empty authorization))
      else if truthy_str x_api_key then x_api_key else None)"

definition import_history :: "gateway_env \<Rightarrow> string \<Rightarrow> (string \<times> string) list \<Rightarrow> gateway_world \<Rightarrow> gateway_world" where
  "import_history e sid earlier w =
     (if get_history (db_up e) sid (w_chat w) = []
      then fold (\<lambda>(role, content). save_message e sid role content) earlier w else w)"

definition completion_body :: "string \<Rightarrow> int \<Rightarrow> jval \<Rightarrow> gateway_execution \<Rightarrow> jval" where
  "completion_body cid created model x =
     JObj [(''id'', JStr (''chatcmpl-'' @ cid)), (''object'', JStr ''chat.completion''), (''created'', JInt created),
       (''model'', model), (''request_id'', JStr (gx_request_id x)),
       (''choices'', JList [JObj [(''index'', JInt 0),
          (''message'', JObj [(''role'', JStr ''assistant''), (''content'', result_text (gx_result x))]),
          (''finish_reason'', JStr ''stop'')]])]"

definition completions_reply :: "service_env \<Rightarrow> string option \<Rightarrow> string \<Rightarrow> int \<Rightarrow> gateway_execution \<Rightarrow> gateway_world
    \<Rightarrow> (nat \<times> jval) \<times> gateway_world" where
  "completions_reply v asked_model cid created x w =
     (let r = gx_result x in
      if \<not> or_default True (as_allowed r)
      then ((403, JObj [(''request_id'', JStr (gx_request_id x)),
               (''error'', JObj [(''message'', JStr ''Request blocked by policy engine''), (''type'', JStr ''policy_violation''),
                  (''category'', JStr (or_default ''data_exfiltration'' (as_block_category r)))])]), snd (format_chat_response v x w))
      else if as_approval_status r = Some ''PENDING_APPROVAL''
      then ((202, JObj [(''request_id'', JStr (gx_request_id x)), (''approval_id'', jopt (as_approval_id r)),
               (''status'', JStr ''pending_approval''), (''message'', JStr ''High-risk request requires approval.'')]),
            snd (format_chat_response v x w))
      else ((200, completion_body cid created (jor (gx_model x) (JStr (str_or asked_model ''authclaw-gateway''))) x), w))"

definition chat_completions :: "service_env \<Rightarrow> string \<Rightarrow> int \<Rightarrow> (string \<times> string) list \<Rightarrow> string option \<Rightarrow> string option
    \<Rightarrow> string option \<Rightarrow> string option \<Rightarrow> gateway_world \<Rightarrow> (exn + nat \<times> jval) \<times> gateway_world" where
  "chat_completions v cid created msgs asked_model x_api_key authorization x_session_id w =
     (let key = completions_key x_api_key authorization; bad = (\<lambda>m. (Inl (Exn ''HTTPException'' m), w)) in
      case sv_resolve v key authorization of
        Inl x \<Rightarrow> (Inl x, w)
      | Inr tenant \<Rightarrow>
          if msgs = [] then bad ''Messages list cannot be empty''
          else if fst (List.last msgs) \<noteq> ''user'' then bad ''Last message must be from user''
          else (let sid = str_or x_session_id (sv_session_id v);
                    w1 = import_history (sv_gateway v) sid (butlast msgs) w
                in case execute_chat v \<lparr>cc_message = snd (List.last msgs), cc_session_id = Some sid, cc_api_key = key,
                          cc_authorization = authorization, cc_username = None, cc_route_id = None,
                          cc_provider = ''AuthClaw Gateway'', cc_model = str_or asked_model ''authclaw-gateway''\<rparr> w1 of
                     (Inl (GatewayProviderConfigurationError m), w2) \<Rightarrow>
                       (Inr (500, JObj [(''error'', JObj [(''type'', JStr ''provider_not_configured''),
                          (''message'', JStr ''Model provider is not configured.'')])]), w2)
                   | (Inl (GatewayProviderUnavailableError m rid trace), w2) \<Rightarrow>
                       (Inr (503, JObj [(''error'', JObj [(''type'', JStr ''provider_unavailable''),
                          (''message'', JStr PROVIDER_UNAVAILABLE_MESSAGE), (''request_id'', JStr rid), (''trace'', JList trace)])]), w2)
                   | (Inl (Other_exception x), w2) \<Rightarrow> (Inl x, w2)
                   | (Inr x, w2) \<Rightarrow> (case completions_reply v asked_model cid created x w2 of (r, w3) \<Rightarrow> (Inr r, w3))))"

end
