(* ===== verification/Gateway_Demo.thy ===== *)
theory Gateway_Demo
  imports Gateway_Runs
begin

text \<open>
  A concrete gateway: a detector that asks to block a tax number, a tenant policy that asks for
  approval, the local provider.  The general statements on runs are applied to it.
\<close>

section \<open>A concrete gateway\<close>

definition demo_approval_env :: approval_env where
  "demo_approval_env = \<lparr>e_now = 0, e_db_up = True, e_sha256 = const_digest, e_iso = (\<lambda>_. ''t''), e_require_mfa = True,
     e_expiry_minutes = 30, e_execution_expiry_minutes = 15, e_users = [], e_tenant_secrets = [], e_totp_counter = (\<lambda>_ _ _. None)\<rparr>"

definition review_policy :: tenant_policy where
  "review_policy = demo_policy\<lparr>tp_rules := [(''blocked_keywords'', JList [JStr ''blocked'']), (''action'', JStr ''require_approval'')]\<rparr>"

definition demo_yaml :: yaml_policy where
  "demo_yaml = \<lparr>yp_blocked = [], yp_high_risk = [JStr ''delete''], yp_medium_risk = [], yp_opa = [], yp_version = JStr ''1''\<rparr>"

definition demo_gateway :: gateway_env where
  "demo_gateway = \<lparr>ge_sd = sd_demo\<lparr>sd_policy := Some (empty_sensitive_policy\<lparr>sp_actions := Some [(''pan'', ''block'')]\<rparr>)\<rparr>,
     ge_policies = (\<lambda>_. []), ge_redaction_rules = [], ge_yaml = Inr demo_yaml, ge_tenant_policies = (\<lambda>_. [review_policy]),
     ge_router = demo_router\<lparr>ro_routes := [], ro_credentials := []\<rparr>,
     ge_wire = \<lparr>w_timeout = 30, w_post = (\<lambda>c p n r. (1, Timed_out))\<rparr>, ge_docs = [], ge_approval = demo_approval_env,
     ge_now = ''now'', ge_fresh = ''f'', ge_set_list = (\<lambda>x. x), ge_current_tenant = Some 3, ge_risk_late = False,
     ge_approval_late = False, ge_llm_late = False\<rparr>"

definition empty_world :: gateway_world where
  "empty_world = \<lparr>w_ctx = initial_agent_ctx, w_events = [], w_approvals = init_state, w_chat = empty_chat,
     w_log = \<lparr>gw_rows = [], gw_mirrored = []\<rparr>, w_calls = [], w_audit_file = []\<rparr>"

definition pan_message :: string where "pan_message = ''ABCDE1234F''"

definition demo_request :: "string \<Rightarrow> auth_state" where
  "demo_request m = (empty_state m)\<lparr>as_tenant_id := Some 3, as_session_id := Some ''s''\<rparr>"

lemma demo_select_local: "\<exists>sel. select (ge_router demo_gateway) 3 = Inr sel"
proof -
  have "is_ok (select (ge_router demo_gateway) 3)" by code_simp
  then show ?thesis by (simp add: is_ok_iff)
qed

text \<open>The pieces of the run: the detector on the message and on what is left of it.\<close>

definition pan_finding :: sensitive_finding where
  "pan_finding = \<lparr>entity_type = ''pan'', f_start = 0, f_end = 10, f_value = pan_message, confidence = 98/100, f_source = ''custom''\<rparr>"

definition pan_left :: string where "pan_left = ''[BLOCKED_PAN]''"

definition pan_trigger :: policy_trigger where
  "pan_trigger = \<lparr>pt_policy_name = ''Sensitive Data Detection'', pt_policy_type = ''PII'', pt_matched_pattern = ''pan'',
     pt_redacted_value = ''tok_pan_bbbbbbbbbbbbbbbbbbbb'', pt_username = ''admin_user'', pt_timestamp = ''now'',
     pt_token_id = Some ''tok_pan_bbbbbbbbbbbbbbbbbbbb'', pt_value_hash = Some ''bbbbbbbbbbbbbbbbbbbb'',
     pt_confidence = Some (98/100), pt_action = Some ''block'', pt_detector = Some ''custom''\<rparr>"

lemma pan_found: "custom_findings pan_message = [pan_finding]"
  by code_simp

lemma pan_left_clean: "custom_findings pan_left = []"
  by code_simp

lemma demo_sd_simps: "enterprise_patterns (ge_sd demo_gateway) = []" "sd_analyzer (ge_sd demo_gateway) = None"
  by (simp_all add: demo_gateway_def sd_demo_def enterprise_patterns_def policy_config_def empty_sensitive_policy_def)

lemma demo_inspected:
  "inspect (ge_sd demo_gateway) en t up = dedupe (custom_findings t)"
  by (simp add: inspect_def enterprise_findings_def demo_sd_simps presidio_findings_def)

lemma pan_redacted: "redact (ge_sd demo_gateway) en pan_message ''admin_user'' up ''now'' = Inr (pan_left, [pan_trigger])"
proof -
  have "dedupe [pan_finding] = [pan_finding]" by (simp add: dedupe_def dedupe_step_def)
  moreover have "redact_findings (ge_sd demo_gateway) x pan_message ''admin_user'' ''now'' [pan_finding] = Inr (pan_left, [pan_trigger])"
    if "x \<in> {True, False}" for x
    using that by (elim insertE emptyE; hypsubst; code_simp)
  ultimately show ?thesis by (simp add: redact_def demo_inspected pan_found)
qed

lemma pan_left_redacted: "redact (ge_sd demo_gateway) en pan_left u up n = Inr (pan_left, [])"
  by (simp add: redact_def demo_inspected pan_left_clean dedupe_def redact_findings_def sorted_desc_def)


lemma demo_policies: "ge_policies demo_gateway t = []" "ge_redaction_rules demo_gateway = []" "ge_yaml demo_gateway = Inr demo_yaml"
    "ge_tenant_policies demo_gateway t = [review_policy]" "ge_now demo_gateway = ''now''" "\<not> ge_risk_late demo_gateway"
    "e_sha256 (ge_approval demo_gateway) = const_digest"
  by (simp_all add: demo_gateway_def demo_approval_env_def)

lemma demo_baseline:
  "fold (baseline_pass (sd_services (ge_sd demo_gateway)) (environ (sd_secrets (ge_sd demo_gateway))) [] ''admin_user'' ''now'')
     baseline_fields (pan_left, [pan_trigger]) = (pan_left, [pan_trigger])"
  by code_simp

lemma demo_sanitized: "sanitize_finding_metadata (ge_sd demo_gateway) [pan_trigger] = Inr [pan_trigger]"
  by code_simp

lemma demo_rich: "rich demo_gateway pan_message ''admin_user'' 3 = Inr (pan_left, [Detected pan_trigger])"
  by (simp add: rich_def redact_sensitive_data_rich_def demo_policies pan_redacted compliance_block_def active_type_def
    demo_baseline demo_sanitized Let_def)

definition pan_result :: security_result where
  "pan_result = \<lparr>sr_approved = False, sr_risk_level = ''HIGH'', sr_findings = [Detected pan_trigger], sr_sanitized = pan_left\<rparr>"

lemma demo_inspect: "inspect_input demo_gateway pan_message ''admin_user'' 3 = Inr pan_result"
proof -
  have "calculate_risk (Inr demo_yaml) pan_message = Inr ''LOW''" by code_simp
  moreover have "filter (\<lambda>t. str_in t (lower pan_message)) prompt_injection_terms = []" by code_simp
  moreover have "finding_actions '''' [Detected pan_trigger] = [''block'']" by code_simp
  ultimately show ?thesis by (simp add: inspect_input_def demo_policies demo_rich pan_result_def)
qed

definition review_findings :: "policy_finding list" where
  "review_findings = keyword_findings pan_left [review_policy]"

lemma demo_findings: "all_findings pan_left [] [review_policy] = Inr review_findings"
  by code_simp

lemma demo_policy_result:
  "\<exists>res. policy_agent demo_gateway pan_left ''admin_user'' 3 = Inr res \<and> lets_through res \<and> policy_message res pan_left = pan_left
     \<and> pa_decision res = ''REQUIRE_APPROVAL''"
proof -
  have "final_action (map pf_action review_findings) = ACTION_REQUIRE_APPROVAL"
    and "map lower (triggered_categories review_findings) = [''customer_defined_topics'']" by code_simp+
  moreover from this(2) obtain c where "triggered_categories review_findings = [c]" "lower c = ''customer_defined_topics''"
    by (auto simp: map_eq_Cons_conv)
  ultimately show ?thesis
    by (simp add: policy_agent_def evaluate_def demo_policies pan_left_redacted demo_findings Let_def lets_through_def policy_message_def)
qed

lemma demo_request_simps [simp]:
  "as_message (demo_request m) = m" "tenant_of (demo_request m) = 3" "as_approval_status (demo_request m) = None"
  by (simp_all add: demo_request_def empty_state_def tenant_of_def)

lemma demo_low: "calculate_risk (Inr demo_yaml) pan_left = Inr ''LOW''"
  by code_simp

lemma demo_left: "sr_sanitized pan_result = pan_left" "w_calls empty_world = []" "chain (w_approvals empty_world) = empty_audit_db"
  by (simp_all add: pan_result_def empty_world_def init_state_def)

theorem security_demands_lost_witness:
  "inspect_input demo_gateway pan_message ''admin_user'' 3 = Inr pan_result \<and> \<not> sr_approved pan_result \<and>
   (\<exists>c h ctx. w_calls (snd (invoke declared_only demo_gateway (demo_request pan_message) empty_world)) = [(c, prompt_text h ctx pan_left)])"
proof -
  obtain res where res: "policy_agent demo_gateway pan_left ''admin_user'' 3 = Inr res" "lets_through res" "policy_message res pan_left = pan_left"
    using demo_policy_result by blast
  obtain sel where sel: "select (ge_router demo_gateway) 3 = Inr sel" using demo_select_local by blast
  have "\<exists>c h ctx. w_calls (snd (invoke declared_only demo_gateway (demo_request pan_message) empty_world)) =
      w_calls empty_world @ [(c, prompt_text h ctx (policy_message res (sr_sanitized pan_result)))]
    \<and> heap (w_approvals (snd (invoke declared_only demo_gateway (demo_request pan_message) empty_world))) = heap (w_approvals empty_world)"
    by (rule security_demands_lost [where l = "''LOW''" and sel = sel])
      (simp_all add: demo_inspect demo_left res demo_low demo_policies sel)
  then show ?thesis by (auto simp: demo_inspect demo_left res) (simp add: pan_result_def)
qed

lemma demo_sent:
  "\<exists>c h ctx. w_calls (snd (invoke declared_only demo_gateway (demo_request pan_message) empty_world)) = [(c, prompt_text h ctx pan_left)]"
proof -
  obtain res where res: "policy_agent demo_gateway pan_left ''admin_user'' 3 = Inr res" "lets_through res" "policy_message res pan_left = pan_left"
    using demo_policy_result by blast
  obtain sel where sel: "select (ge_router demo_gateway) 3 = Inr sel" using demo_select_local by blast
  have "\<exists>c h ctx. w_calls (snd (invoke declared_only demo_gateway (demo_request pan_message) empty_world)) =
      w_calls empty_world @ [(c, prompt_text h ctx (policy_message res (sr_sanitized pan_result)))]
    \<and> heap (w_approvals (snd (invoke declared_only demo_gateway (demo_request pan_message) empty_world))) = heap (w_approvals empty_world)"
    by (rule cleared_answers [where l = "''LOW''" and sel = sel])
      (simp_all add: demo_inspect demo_left res demo_low demo_policies sel)
  then show ?thesis by (auto simp: demo_left res)
qed


text \<open>Two tax numbers that the redactor leaves alike.\<close>

definition other_message :: string where "other_message = ''FGHIJ5678K''"

lemma other_found: "custom_findings other_message = [pan_finding\<lparr>f_value := other_message\<rparr>]"
  by code_simp

lemma other_redacted: "redact (ge_sd demo_gateway) en other_message ''admin_user'' up ''now'' = Inr (pan_left, [pan_trigger])"
proof -
  have "dedupe [pan_finding\<lparr>f_value := other_message\<rparr>] = [pan_finding\<lparr>f_value := other_message\<rparr>]"
    by (simp add: dedupe_def dedupe_step_def)
  moreover have "redact_findings (ge_sd demo_gateway) x other_message ''admin_user'' ''now'' [pan_finding\<lparr>f_value := other_message\<rparr>]
      = Inr (pan_left, [pan_trigger])" if "x \<in> {True, False}" for x
    using that by (elim insertE emptyE; hypsubst; code_simp)
  ultimately show ?thesis by (simp add: redact_def demo_inspected other_found)
qed

lemma other_inspect: "inspect_input demo_gateway other_message ''admin_user'' 3 = Inr pan_result"
proof -
  have "calculate_risk (Inr demo_yaml) other_message = Inr ''LOW''" by code_simp
  moreover have "filter (\<lambda>t. str_in t (lower other_message)) prompt_injection_terms = []" by code_simp
  moreover have "finding_actions '''' [Detected pan_trigger] = [''block'']" by code_simp
  moreover have "rich demo_gateway other_message ''admin_user'' 3 = Inr (pan_left, [Detected pan_trigger])"
    by (simp add: rich_def redact_sensitive_data_rich_def demo_policies other_redacted compliance_block_def active_type_def
      demo_baseline demo_sanitized Let_def)
  ultimately show ?thesis by (simp add: inspect_input_def demo_policies pan_result_def)
qed


theorem gateway_runs_keep_chain_witness:
  "\<exists>ts w'. runs declared_only [(demo_gateway, demo_request pan_message)] empty_world = (ts, w') \<and>
     records_checked (verify_audit_chain const_digest (Some 3) (chain (w_approvals w'))) = count_list ts 3"
proof -
  obtain ts w' where r: "runs declared_only [(demo_gateway, demo_request pan_message)] empty_world = (ts, w')" by fastforce
  show ?thesis
    using gateway_runs_keep_chain [OF langgraph.graph_executor_axioms _ demo_left(3) r, of const_digest 3] r
    by (simp add: demo_policies)
qed

end
