(* ===== verification/Gateway_Service_Runs.thy ===== *)
theory Gateway_Service_Runs
  imports Gateway_Service Gateway_Demo
begin

text \<open>
  What the gateway service guarantees for one request: its row in the request log and the agent
  event context it leaves behind; what happens to the earlier messages that a client sends
  along; and an approved request that asks for approval again.
\<close>

section \<open>What a run leaves alone\<close>

lemma log_frames [simp]:
  "w_log (redact_notes e s ts w) = w_log w" "w_log (check_notes e s w) = w_log w" "w_log (output_note e s ts w) = w_log w"
  "w_log (audit_notes e s rid w) = w_log w" "w_log (request_approval e s l w) = w_log w" "w_log (save_message e sid r c w) = w_log w"
  "w_log (snd (failed_over e x s w)) = w_log w"
  "w_chat (redact_notes e s ts w) = w_chat w" "w_chat (check_notes e s w) = w_chat w" "w_chat (output_note e s ts w) = w_chat w"
  "w_chat (audit_notes e s rid w) = w_chat w" "w_chat (request_approval e s l w) = w_chat w"
  "w_chat (snd (failed_over e x s w)) = w_chat w"
  by (simp_all add: redact_notes_def check_notes_def output_note_def audit_notes_def request_approval_def save_message_def
    failed_over_def split: option.split)

lemma call_provider_frames [simp]:
  "w_log (snd (call_provider e p s w)) = w_log w" "w_chat (snd (call_provider e p s w)) = w_chat w"
  by (auto simp: call_provider_def Let_def split: sum.splits prod.splits)

lemma run_node_log: "w_log (snd (run_node e n s w)) = w_log w"
proof (cases n)
  case Llm
  then show ?thesis using call_provider_frames [of e "build_prompt e s w" s w]
    by (auto simp: gw_simps llm_node_def simp del: call_provider_frames split: option.splits prod.splits)
qed (auto simp: gw_simps orchestrator_node_def redact_node_def policy_node_def risk_node_def decision_node_def approval_node_def
      provider_router_node_def rag_node_def response_checks_node_def audit_node_def store_block_def
      Let_def split: sum.splits option.splits prod.splits)

definition chat_grows :: "gateway_world \<Rightarrow> gateway_world \<Rightarrow> bool" where
  "chat_grows w w' = (\<exists>more. messages (w_chat w') = messages (w_chat w) @ more)"

lemma chat_grows_refl [simp]: "w_chat w' = w_chat w \<Longrightarrow> chat_grows w w'"
  by (simp add: chat_grows_def)

lemma chat_grows_trans: "chat_grows a b \<Longrightarrow> chat_grows b c \<Longrightarrow> chat_grows a c"
  by (auto simp: chat_grows_def)

lemma save_message_messages:
  "messages (w_chat (save_message e sid r c w)) = messages (w_chat w) @
     (if db_up e then [\<lparr>cm_session = sid, cm_role = r, cm_content = Some c, cm_trace = None, cm_tenant = ge_current_tenant e\<rparr>] else [])"
  by (cases "db_up e") (simp_all add: save_message_def, simp add: add_message_def ensure_session_exists_def Let_def)

lemma run_node_chat: "chat_grows w (snd (run_node e n s w))"
proof (cases n)
  case Llm
  then show ?thesis using call_provider_frames [of e "build_prompt e s w" s w]
    by (auto simp: gw_simps llm_node_def simp del: call_provider_frames split: option.splits prod.splits)
next
  case Redact
  then show ?thesis
    by (cases "inspect_input e (as_message s) (user_of s) (tenant_of s)")
      (simp_all add: gw_simps redact_node_def chat_grows_def save_message_messages)
next
  case Response_Checks
  then show ?thesis
    by (cases "sanitize_output e (or_default (JStr '''') (as_response s)) (user_of s) (tenant_of s)")
      (simp_all add: gw_simps response_checks_node_def chat_grows_def save_message_messages split: prod.split)
qed (auto simp: gw_simps orchestrator_node_def policy_node_def risk_node_def decision_node_def approval_node_def
      provider_router_node_def rag_node_def audit_node_def store_block_def
      Let_def split: sum.splits option.splits prod.splits)

context graph_executor
begin

lemma invoke_frame:
  assumes step: "\<And>n s w. R w (snd (run_node e n s w))" and trans: "\<And>a b c. R a b \<Longrightarrow> R b c \<Longrightarrow> R a c"
  shows "R w (snd (invoke_from commit e n s w))"
proof (induction "node_rank n" arbitrary: n s w rule: less_induct)
  case less
  obtain r w1 where run: "run_node e n s w = (r, w1)" by fastforce
  have w1: "R w w1" using step [of w n s] run by simp
  show ?case
  proof (cases r)
    case (Inr s')
    show ?thesis
    proof (cases "next_node n (commit s')")
      case (Some m)
      show ?thesis using trans [OF w1 less.hyps [OF next_node_rank [OF Some], where w = w1 and s = "commit s'"]]
        by (simp add: step_next [OF run [unfolded Inr] Some])
    qed (use run w1 Inr in \<open>simp add: step_last\<close>)
  qed (use run w1 in \<open>simp add: step_raise\<close>)
qed

lemma invoke_log: "w_log (snd (invoke commit e s w)) = w_log w"
  unfolding invoke_def by (rule invoke_frame [of "\<lambda>w w'. w_log w' = w_log w"]) (simp_all add: run_node_log)

lemma invoke_chat: "chat_grows w (snd (invoke_from commit e n s w))"
  by (rule invoke_frame [of chat_grows]) (blast intro: run_node_chat chat_grows_trans)+

end

section \<open>The request log\<close>

lemma register_simps [simp]:
  "w_ctx (register_gateway_request e rid sid tenant risk ok st route p m took d w) = w_ctx w"
  "w_log (register_gateway_request e rid sid tenant risk ok st route p m took d w) =
     record_gateway_request (db_up e) (ge_now e) '''' risk ok st (Some rid) (show_int tenant) route p (py_str m) took 0 0 d (Some took) (w_log w)"
  "w_calls (register_gateway_request e rid sid tenant risk ok st route p m took d w) = w_calls w"
  "w_approvals (register_gateway_request e rid sid tenant risk ok st route p m took d w) = w_approvals w"
  by (simp_all add: register_gateway_request_def log_event_for_def log_agent_event_def Let_def split: prod.split)

lemma persist_trace_simps [simp]:
  "w_ctx (persist_latest_message_trace e sid t w) = w_ctx w" "w_log (persist_latest_message_trace e sid t w) = w_log w"
  "w_calls (persist_latest_message_trace e sid t w) = w_calls w"
  "w_approvals (persist_latest_message_trace e sid t w) = w_approvals w"
  by (simp_all add: persist_latest_message_trace_def)

lemma leave_simps [simp]:
  "w_log (leave_request t w) = w_log w" "w_calls (leave_request t w) = w_calls w" "w_chat (leave_request t w) = w_chat w"
  "w_approvals (leave_request t w) = w_approvals w"
  by (simp_all add: leave_request_def)

lemma enter_simps [simp]:
  "w_log (snd (enter_request rid w)) = w_log w" "w_calls (snd (enter_request rid w)) = w_calls w"
  "w_chat (snd (enter_request rid w)) = w_chat w" "w_approvals (snd (enter_request rid w)) = w_approvals w"
  by (simp_all add: enter_request_def split: prod.split)

lemma leave_enter: "enter_request rid w = (token, w1) \<Longrightarrow> w_ctx (leave_request token w') = w_ctx w"
  by (auto simp: enter_request_def leave_request_def set_agent_event_context_def clear_agent_event_context_def)

text \<open>The outcome of a request as its row reports it.\<close>

definition outcome_status :: "gateway_error + gateway_execution \<Rightarrow> string" where
  "outcome_status r = (case r of Inr x \<Rightarrow> chat_status (gx_result x) | Inl _ \<Rightarrow> ''provider_unavailable'')"

definition outcome_allowed :: "gateway_error + gateway_execution \<Rightarrow> bool" where
  "outcome_allowed r = (case r of Inr x \<Rightarrow> or_default True (as_allowed (gx_result x)) | Inl _ \<Rightarrow> False)"

definition accounted :: "service_env \<Rightarrow> int \<Rightarrow> gateway_error + gateway_execution \<Rightarrow> gateway_world \<Rightarrow> gateway_world \<Rightarrow> bool" where
  "accounted v tenant r w w' =
     (\<exists>row. gw_rows (w_log w') = gw_rows (w_log w) @ [row] \<and> gr_tenant_id row = show_int tenant \<and>
        gr_request_id row = sv_request_id v \<and> gr_status row = outcome_status r \<and> gr_allowed row = outcome_allowed r)"

lemma run_failed_accounted:
  assumes "run_failed v sid tenant risk route p m x w = (r, w')" and "\<not> is_value_error x" and "db_up (sv_gateway v)"
    and "sv_request_id v \<noteq> []"
  shows "accounted v tenant r w w' \<and> r = Inl (GatewayProviderUnavailableError (exn_text x) (sv_request_id v)
     (get_trace (sv_gateway v) (sv_request_id v) sid tenant (register_gateway_request (sv_gateway v) (sv_request_id v) sid tenant risk
        False ''provider_unavailable'' route p m (sv_elapsed_ms v) (Some ''PROVIDER_UNAVAILABLE'') w)))"
  using assms by (auto simp: run_failed_def Let_def accounted_def outcome_status_def outcome_allowed_def record_gateway_request_def str_or_def)

lemma run_finished_accounted:
  assumes "run_finished v sid tenant risk (chat_status result) route p m result w = (r, w')" and "db_up (sv_gateway v)"
    and "sv_request_id v \<noteq> []"
  shows "accounted v tenant r w w' \<and> is_ok r"
  using assms by (auto simp: run_finished_def Let_def accounted_def outcome_status_def outcome_allowed_def record_gateway_request_def str_or_def)


section \<open>Earlier messages of a conversation\<close>

text \<open>A prompt that was built from a conversation that extends the given one.\<close>

definition built_on :: "gateway_env \<Rightarrow> string \<Rightarrow> chat_message list \<Rightarrow> string \<Rightarrow> bool" where
  "built_on e sid ms0 p = (\<exists>before more after. p = before @
     concat (map history_line (map history_message (filter (\<lambda>m. cm_session m = sid) (ms0 @ more)))) @ after)"

lemma built_on_extend: "built_on e sid (a @ b) p \<Longrightarrow> built_on e sid a p"
  unfolding built_on_def by (metis append.assoc)

lemma build_prompt_built:
  assumes "db_up e" shows "built_on e (sid_of s) (messages (w_chat w)) (build_prompt e s w)"
proof -
  let ?lines = "concat (map history_line (map history_message (filter (\<lambda>m. cm_session m = sid_of s) (messages (w_chat w) @ []))))"
  have "build_prompt e s w =
      ([newline] @ ''You are a compliance assistant.'' @ [newline, newline] @ ''Conversation History:'' @ [newline]) @ ?lines @
      ([newline, newline] @ ''Compliance Context:'' @ [newline] @ or_default [] (as_context s) @ [newline, newline] @
       ''User Question:'' @ [newline] @ as_message s @ [newline])"
    by (simp add: build_prompt_def prompt_text_def get_history_def assms)
  then show ?thesis unfolding built_on_def by blast
qed

lemma state_steps_session [simp]:
  "as_session_id (with_security sec s) = as_session_id s" "as_session_id (policy_setup s) = as_session_id s"
  "as_session_id (preserved_block s) = as_session_id s" "as_session_id (with_policy r s) = as_session_id s"
  "as_session_id (apply_decision s) = as_session_id s"
  by (simp_all add: with_security_def policy_setup_def preserved_block_def with_policy_def apply_decision_def Let_def)

lemma call_provider_session: "as_session_id (fst (call_provider e p s w)) = as_session_id s"
proof (cases "resolve_provider e s")
  case (Inr cs)
  then have "as_session_id (snd cs) = as_session_id s"
    by (cases "get_provider (environ (ro_secrets (ge_router e)))") (auto simp: resolve_provider_def split: option.splits)
  then show ?thesis using Inr by (cases cs) (simp add: call_provider_def Let_def split: sum.split)
qed (simp add: call_provider_def)

lemma run_node_session: "run_node e n s w = (Inr s', w') \<Longrightarrow> as_session_id s' = as_session_id s"
proof (cases n)
  case Llm
  assume "run_node e n s w = (Inr s', w')"
  then show ?thesis using call_provider_session [of e "build_prompt e s w" s w] Llm
    by (auto simp: gw_simps llm_node_def split: option.splits prod.splits if_splits)
qed (auto simp: gw_simps orchestrator_node_def redact_node_def policy_node_def risk_node_def decision_node_def
      approval_node_def provider_router_node_def rag_node_def response_checks_node_def audit_node_def store_block_def
      Let_def split: sum.splits option.splits prod.splits if_splits)

lemma llm_calls:
  "\<exists>cs. w_calls (snd (run_node e Llm s w)) = w_calls w @ cs \<and> (\<forall>cp\<in>set cs. snd cp = build_prompt e s w)"
  using call_provider_calls [of e "build_prompt e s w" s w]
  by (auto simp: gw_simps llm_node_def split: option.splits prod.splits)

context graph_executor
begin

lemma prompts_built:
  assumes "db_up e"
  shows "\<exists>cs. w_calls (snd (invoke_from commit e n s w)) = w_calls w @ cs \<and>
     (\<forall>cp\<in>set cs. built_on e (sid_of s) (messages (w_chat w)) (snd cp))"
proof (induction "node_rank n" arbitrary: n s w rule: less_induct)
  case less
  obtain r w1 where run: "run_node e n s w = (r, w1)" by fastforce
  obtain cs where cs: "w_calls w1 = w_calls w @ cs" "\<forall>cp\<in>set cs. snd cp = build_prompt e s w"
  proof (cases "n = Llm")
    case True
    then show thesis using llm_calls [of e s w] run that by auto
  next
    case False
    then show thesis using run_node_calls [of n e s w] run that [of "[]"] by simp
  qed
  have first: "\<forall>cp\<in>set cs. built_on e (sid_of s) (messages (w_chat w)) (snd cp)"
    using cs(2) build_prompt_built [OF assms, of s w] by simp
  obtain more where more: "messages (w_chat w1) = messages (w_chat w) @ more"
    using run_node_chat [of w e n s] run by (auto simp: chat_grows_def)
  show ?case
  proof (cases r)
    case (Inr s')
    show ?thesis
    proof (cases "next_node n (commit s')")
      case (Some m)
      have "sid_of (commit s') = sid_of s" using run_node_session [OF run [unfolded Inr]] by (simp add: sid_of_def)
      then obtain cs' where cs': "w_calls (snd (invoke_from commit e m (commit s') w1)) = w_calls w1 @ cs'"
          "\<forall>cp\<in>set cs'. built_on e (sid_of s) (messages (w_chat w1)) (snd cp)"
        using less.hyps [OF next_node_rank [OF Some], of "commit s'" w1] by auto
      have "\<forall>cp\<in>set (cs @ cs'). built_on e (sid_of s) (messages (w_chat w)) (snd cp)"
        using first cs'(2) built_on_extend unfolding more by (metis Un_iff set_append)
      then show ?thesis unfolding step_next [OF run [unfolded Inr] Some] cs'(1) cs(1) by (metis append.assoc)
    qed (use run cs first Inr in \<open>simp add: step_last\<close>)
  qed (use run cs first in \<open>simp add: step_raise\<close>)
qed

end

definition initial_state :: "service_env \<Rightarrow> chat_call \<Rightarrow> int \<Rightarrow> auth_state" where
  "initial_state v c tenant = chat_state (cc_message c) (str_or (cc_session_id c) (sv_session_id v))
     (str_or (cc_username c) (username_from_authorization v (cc_authorization c)))
     tenant (sv_request_id v) (cc_route_id c) (cc_provider c) (JStr (cc_model c))"

lemma execute_chat_calls:
  assumes "sv_resolve v (cc_api_key c) (cc_authorization c) = Inr tenant" and "enter_request (sv_request_id v) w = (token, w1)"
  shows "w_calls (snd (execute_chat v c w)) = w_calls (snd (invoke (sv_commit v) (sv_gateway v) (initial_state v c tenant) w1))"
  using assms by (auto simp: execute_chat_def initial_state_def run_failed_def run_finished_def Let_def split: sum.splits prod.splits)

lemma execute_chat_prompts:
  assumes "graph_executor (sv_commit v)" and "db_up (sv_gateway v)" and "cc_session_id c = Some sid" and "sid \<noteq> []"
    and "execute_chat v c w = (r, w')"
  shows "\<exists>cs. w_calls w' = w_calls w @ cs \<and> (\<forall>cp\<in>set cs. built_on (sv_gateway v) sid (messages (w_chat w)) (snd cp))"
proof (cases "sv_resolve v (cc_api_key c) (cc_authorization c)")
  case (Inl x)
  then show ?thesis using assms(5) by (simp add: execute_chat_def)
next
  case (Inr tenant)
  obtain token w1 where ent: "enter_request (sv_request_id v) w = (token, w1)" by fastforce
  have w1: "w_calls w1 = w_calls w" "w_chat w1 = w_chat w" using enter_simps [of "sv_request_id v" w] by (simp_all add: ent)
  have "sid_of (sv_commit v (initial_state v c tenant)) = sid"
    using assms(3,4) by (simp add: sid_of_def graph_executor.commit_fields [OF assms(1)] initial_state_def chat_state_def str_or_def)
  then show ?thesis
    using graph_executor.prompts_built [OF assms(1,2), of Orchestrator "sv_commit v (initial_state v c tenant)" w1]
      execute_chat_calls [OF Inr ent] assms(5) w1
    by (simp add: invoke_def)
qed

lemma import_history_messages:
  assumes "db_up e"
  shows "messages (w_chat (fold (\<lambda>(role, content). save_message e sid role content) earlier w)) = messages (w_chat w) @
    map (\<lambda>(role, content). \<lparr>cm_session = sid, cm_role = role, cm_content = Some content, cm_trace = None, cm_tenant = ge_current_tenant e\<rparr>) earlier"
  by (induction earlier arbitrary: w) (auto simp: save_message_messages assms)

lemma import_history_calls [simp]: "w_calls (fold (\<lambda>(role, content). save_message e sid role content) earlier w) = w_calls w"
  by (induction earlier arbitrary: w) auto

lemma plain_history_line:
  assumes "role \<notin> {''blocked'', ''system''}" and "\<not> has_error_marker content"
  shows "history_line (history_message \<lparr>cm_session = sid, cm_role = role, cm_content = Some content, cm_trace = None, cm_tenant = t\<rparr>)
    = role @ '': '' @ content @ [newline]"
proof (cases "content = []")
  case True
  then show ?thesis using assms
    by (simp add: history_line_def history_message_def sanitize_provider_message_def jopt_def jor_def py_str_def jget_def
      empty_clean Let_def)
next
  case False
  then show ?thesis using assms
    by (simp add: history_line_def history_message_def sanitize_provider_message_def jopt_def jor_def py_str_def jget_def
      Let_def)
qed


lemma concat_member: "x \<in> set xs \<Longrightarrow> \<exists>a b. concat (map f xs) = a @ f x @ b"
  by (induction xs) (auto, metis append.assoc)

lemma format_calls [simp]: "w_calls (snd (format_chat_response v x w)) = w_calls w"
  by (simp add: format_chat_response_def json_message_def Let_def)

lemma completions_reply_calls [simp]: "w_calls (snd (completions_reply v m cid t x w)) = w_calls w"
  by (simp add: completions_reply_def Let_def)

definition completions_call :: "(string \<times> string) list \<Rightarrow> string \<Rightarrow> string option \<Rightarrow> string option \<Rightarrow> string option \<Rightarrow> chat_call" where
  "completions_call msgs sid model key auth = \<lparr>cc_message = snd (List.last msgs), cc_session_id = Some sid,
     cc_api_key = completions_key key auth, cc_authorization = auth, cc_username = None, cc_route_id = None,
     cc_provider = ''AuthClaw Gateway'', cc_model = str_or model ''authclaw-gateway''\<rparr>"

lemma completions_run:
  assumes "chat_completions v cid created msgs model key auth xsid w = (r, w')" and "sid = str_or xsid (sv_session_id v)"
    and "execute_chat v (completions_call msgs sid model key auth) (import_history (sv_gateway v) sid (butlast msgs) w) = (q, w2)"
    and "sv_resolve v (completions_key key auth) auth = Inr tenant" and "msgs \<noteq> []" and "fst (List.last msgs) = ''user''"
  shows "w_calls w' = w_calls w2"
proof -
  note ex = assms(1) [unfolded chat_completions_def Let_def, folded assms(2), folded completions_call_def, unfolded assms(3)]
  show ?thesis
  proof (cases q)
    case (Inl x)
    then show ?thesis using ex assms(4-6) by (cases x) auto
  next
    case (Inr x)
    then show ?thesis using ex assms(4-6) completions_reply_calls [of v model cid created x w2]
      by (auto simp del: completions_reply_calls split: prod.splits)
  qed
qed

lemma completions_cases:
  assumes "chat_completions v cid created msgs model key auth xsid w = (r, w')" and "sid = str_or xsid (sv_session_id v)"
    and "execute_chat v (completions_call msgs sid model key auth) (import_history (sv_gateway v) sid (butlast msgs) w) = (q, w2)"
  shows "w' = w \<or> w_calls w' = w_calls w2"
proof (cases "is_ok (sv_resolve v (completions_key key auth) auth) \<and> msgs \<noteq> [] \<and> fst (List.last msgs) = ''user''")
  case False
  then show ?thesis using assms(1) by (auto simp: chat_completions_def Let_def is_ok_iff split: sum.splits if_splits)
next
  case True
  then show ?thesis using completions_run [OF assms] by (auto simp: is_ok_iff)
qed


section \<open>An approved request\<close>

lemma audit_node_ok:
  assumes "db_up e"
  obtains rid w' where "run_node e Audit s w = (Inr (s\<lparr>as_audit_record_id := rid\<rparr>), w')" "w_calls w' = w_calls w"
    "heap (w_approvals w') = heap (w_approvals w)"
proof -
  obtain rid db where "create_audit_block (e_sha256 (ge_approval e)) (audit_block_of e s) (sid_of s) (ge_now e) (chain (w_approvals w)) = (rid, db)"
    by fastforce
  then have "run_node e Audit s w = (Inr (s\<lparr>as_audit_record_id := Some rid\<rparr>), audit_notes e s rid
      (w\<lparr>w_audit_file := w_audit_file w @ [file_entry e s], w_approvals := (w_approvals w)\<lparr>chain := db\<rparr>\<rparr>))"
    using assms by (simp add: audit_node_def store_block_def gw_simps)
  then show thesis by (rule that) simp_all
qed

lemma length_append_audit: "length (heap (append_approval_audit e x a b c m d s)) = length (heap s)"
  by (simp add: append_approval_audit_def Let_def)

lemma alloc_heap [simp]: "length (heap (w_approvals (request_approval e s l w))) = Suc (length (heap (w_approvals w)))"
  by (simp add: request_approval_def create_approval_def alloc_def persist_record_def Let_def log_event_def
    length_append_audit split: prod.split)

context graph_executor
begin

definition pends :: "gateway_env \<Rightarrow> graph_node \<Rightarrow> auth_state \<Rightarrow> gateway_world \<Rightarrow> bool" where
  "pends e n s w = (\<exists>r w'. invoke_from commit e n s w = (Inr r, w') \<and> as_approval_status r = Some ''PENDING_APPROVAL'' \<and>
     as_allowed r = Some True \<and> as_response r = as_response s \<and> w_calls w' = w_calls w \<and>
     length (heap (w_approvals w')) = Suc (length (heap (w_approvals w))))"

lemma pends_approval:
  assumes "as_risk_level s = Some ''HIGH''" "as_approval_status s = Some ''PENDING_APPROVAL''" "as_allowed s = Some True"
    and "\<not> ge_approval_late e" "db_up e" and resp: "\<And>x. as_response (commit x) = as_response x"
  shows "pends e Approval s w"
proof -
  let ?s = "s\<lparr>as_approval_id := Some (ge_fresh e), as_approval_status := Some ''PENDING_APPROVAL'', as_approval_reason := Some (approval_reason s)\<rparr>"
  let ?w = "request_approval e s ''HIGH'' w"
  have run: "run_node e Approval s w = (Inr ?s, ?w)"
    using assms by (simp add: approval_node_def gw_simps)
  obtain id w2 where audit: "run_node e Audit (commit ?s) ?w = (Inr ((commit ?s)\<lparr>as_audit_record_id := id\<rparr>), w2)"
      and w2: "w_calls w2 = w_calls ?w" "heap (w_approvals w2) = heap (w_approvals ?w)"
    by (rule audit_node_ok [OF assms(5)])
  have "invoke_from commit e Approval s w = (Inr (commit ((commit ?s)\<lparr>as_audit_record_id := id\<rparr>)), w2)"
    by (simp add: step_next [OF run, where m = Audit] step_last [OF audit] route_after_approval_def)
  then show ?thesis using w2 assms(3) by (simp add: pends_def resp)
qed

lemma pends_risk:
  assumes "calculate_risk (ge_yaml e) (as_message s) = Inr ''HIGH''" "as_approval_status s = Some ''PENDING_APPROVAL''"
    and "as_allowed s = Some True" "\<not> ge_risk_late e" "\<not> ge_approval_late e" "db_up e"
    and resp: "\<And>x. as_response (commit x) = as_response x"
  shows "pends e Risk s w"
proof -
  obtain w1 where run: "run_node e Risk s w = (Inr (s\<lparr>as_risk_level := Some ''HIGH''\<rparr>), w1)"
      and w1: "w_calls w1 = w_calls w" "w_approvals w1 = w_approvals w"
    using assms(1,4) by (simp add: risk_node_def gw_simps Let_def)
  let ?s = "commit (s\<lparr>as_risk_level := Some ''HIGH''\<rparr>)"
  obtain w2 where run2: "run_node e Decision ?s w1 = (Inr (apply_decision ?s), w2)"
      and w2: "w_calls w2 = w_calls w1" "w_approvals w2 = w_approvals w1"
    by (simp add: decision_node_def gw_simps Let_def)
  have "pends e Approval (commit (apply_decision ?s)) w2"
    by (rule pends_approval) (use assms in \<open>auto simp: apply_decision_def\<close>)
  then show ?thesis
    by (simp add: pends_def step_next [OF run] step_next [OF run2] w1 w2 resp apply_decision_def)
qed

end

text \<open>C15: An approved request that the policy engine wants approved and that has a high-risk keyword is
  never executed: the policy node puts it back to pending, a second approval is created, no
  provider is called, and the service still reports success, with no response.\<close>

theorem approved_request_pends_again:
  assumes "sv_commit v = declared_only" and "ap_tenant_id ap = Some tenant" and "db_up (sv_gateway v)" and "sv_request_id v \<noteq> []"
    and "inspect_input (sv_gateway v) (ap_query ap) ''admin_user'' tenant = Inr sec"
    and "policy_agent (sv_gateway v) (sr_sanitized sec) ''admin_user'' tenant = Inr res"
    and "\<not> pa_approved res" and "pa_category res \<noteq> []" and "pa_decision res = ''REQUIRE_APPROVAL''"
    and "calculate_risk (ge_yaml (sv_gateway v)) (sr_sanitized sec) = Inr ''HIGH''"
    and "\<not> ge_risk_late (sv_gateway v)" and "\<not> ge_approval_late (sv_gateway v)"
  shows "\<exists>x w' row. execute_approval v ap authorization key user provider model w = (Inr x, w') \<and>
    as_approval_status (gx_result x) = Some ''PENDING_APPROVAL'' \<and> as_response (gx_result x) = None \<and> w_calls w' = w_calls w \<and>
    length (heap (w_approvals w')) = Suc (length (heap (w_approvals w))) \<and>
    gw_rows (w_log w') = gw_rows (w_log w) @ [row] \<and> gr_status row = ''allowed''"
proof -
  let ?e = "sv_gateway v"
  define s where "s = approved_state ap (str_or user (username_from_authorization v authorization)) tenant (sv_request_id v) provider (JStr model)"
  have s: "as_message s = ap_query ap" "tenant_of s = tenant" "as_response s = None"
    by (simp_all add: s_def approved_state_def chat_state_def empty_state_def tenant_of_def)
  have lets: "lets_through res" using assms(8,9) by (simp add: lets_through_def)
  obtain token w1 where ent: "enter_request (sv_request_id v) w = (token, w1)" by fastforce
  define w2 where "w2 = started_event ?e ap tenant (sv_request_id v) w1"
  have w2: "w_calls w2 = w_calls w" "w_approvals w2 = w_approvals w" "w_log w2 = w_log w"
    using enter_simps [of "sv_request_id v" w]
    by (simp_all add: ent w2_def started_event_def log_event_for_def split: prod.split)
  obtain s' w3 where go: "invoke declared_only ?e s w2 = invoke_from declared_only ?e Risk (declared_only s') w3"
      and s': "as_message s' = policy_message res (sr_sanitized sec)" "as_allowed s' = Some True"
        "as_approval_status s' = Some ''PENDING_APPROVAL''" "as_response s' = None"
      and w3: "w_calls w3 = w_calls w" "w_approvals w3 = w_approvals w"
    using reaches_risk [of ?e s sec res w2] assms(5-7) lets s w2 by metis
  have "policy_message res (sr_sanitized sec) = sr_sanitized sec" using assms(7,8) by (simp add: policy_message_def)
  then have "langgraph.pends ?e Risk (declared_only s') w3"
    by (intro langgraph.pends_risk) (use assms s' in simp_all)
  then obtain r w4 where run: "invoke declared_only ?e s w2 = (Inr r, w4)" and r: "as_approval_status r = Some ''PENDING_APPROVAL''"
      "as_allowed r = Some True" "as_response r = None" and w4: "w_calls w4 = w_calls w"
      "length (heap (w_approvals w4)) = Suc (length (heap (w_approvals w)))"
    unfolding langgraph.pends_def go using s' w3 by auto
  have log: "w_log w4 = w_log w" using langgraph.invoke_log [of ?e s w2] run w2 by simp
  show ?thesis
    using ent run r w4 log assms(1-4)
    by (simp add: execute_approval_def Let_def s_def [symmetric] w2_def [symmetric] run_finished_def record_gateway_request_def)
qed


section \<open>The statements on a concrete service\<close>

definition demo_service :: service_env where
  "demo_service = \<lparr>sv_gateway = demo_gateway, sv_commit = declared_only, sv_resolve = (\<lambda>_ _. Inr 3), sv_decode = (\<lambda>_. Inr None),
     sv_request_id = ''req-1'', sv_session_id = ''s1'', sv_elapsed_ms = 5\<rparr>"

definition demo_call :: chat_call where
  "demo_call = \<lparr>cc_message = pan_left, cc_session_id = None, cc_api_key = Some ''k'', cc_authorization = None, cc_username = None,
     cc_route_id = None, cc_provider = ''AuthClaw Gateway'', cc_model = ''authclaw-gateway''\<rparr>"

lemma demo_service_simps [simp]:
  "sv_gateway demo_service = demo_gateway" "sv_commit demo_service = declared_only" "sv_resolve demo_service k a = Inr 3"
  "sv_request_id demo_service = ''req-1''" "db_up demo_gateway"
  by (simp_all add: demo_service_def db_up_def demo_gateway_def demo_approval_env_def)


definition left_result :: security_result where
  "left_result = \<lparr>sr_approved = True, sr_risk_level = ''LOW'', sr_findings = [], sr_sanitized = pan_left\<rparr>"

lemma left_baseline:
  "fold (baseline_pass (sd_services (ge_sd demo_gateway)) (environ (sd_secrets (ge_sd demo_gateway))) [] ''admin_user'' ''now'')
     baseline_fields (pan_left, []) = (pan_left, [])"
  by code_simp

lemma left_rich: "rich demo_gateway pan_left ''admin_user'' 3 = Inr (pan_left, [])"
proof -
  have "sanitize_finding_metadata (ge_sd demo_gateway) [] = Inr []" by code_simp
  then show ?thesis
    by (simp add: rich_def redact_sensitive_data_rich_def demo_policies pan_left_redacted compliance_block_def active_type_def
      left_baseline Let_def)
qed

lemma left_inspect: "inspect_input demo_gateway pan_left ''admin_user'' 3 = Inr left_result"
proof -
  have "filter (\<lambda>t. str_in t (lower pan_left)) prompt_injection_terms = []" by code_simp
  then show ?thesis by (simp add: inspect_input_def demo_policies demo_low left_rich left_result_def finding_actions_def)
qed

lemma pan_clean: "\<not> has_error_marker pan_message"
  by code_simp

definition demo_messages :: "(string \<times> string) list" where
  "demo_messages = [(''user'', pan_message), (''user'', pan_left)]"



text \<open>The same gateway where a word of the request is a high-risk keyword.\<close>

definition strict_gateway :: gateway_env where
  "strict_gateway = demo_gateway\<lparr>ge_yaml := Inr (demo_yaml\<lparr>yp_high_risk := [JStr ''pan'']\<rparr>)\<rparr>"

lemma strict_simps [simp]:
  "ge_sd strict_gateway = ge_sd demo_gateway" "ge_policies strict_gateway = ge_policies demo_gateway"
  "ge_redaction_rules strict_gateway = ge_redaction_rules demo_gateway" "ge_tenant_policies strict_gateway = ge_tenant_policies demo_gateway"
  "ge_now strict_gateway = ge_now demo_gateway" "\<not> ge_risk_late strict_gateway" "\<not> ge_approval_late strict_gateway" "db_up strict_gateway"
  by (simp_all add: strict_gateway_def demo_gateway_def db_up_def demo_approval_env_def)

lemma strict_high: "calculate_risk (ge_yaml strict_gateway) pan_left = Inr ''HIGH''"
proof -
  have "calculate_risk (Inr (demo_yaml\<lparr>yp_high_risk := [JStr ''pan'']\<rparr>)) pan_left = Inr ''HIGH''" by code_simp
  then show ?thesis by (simp add: strict_gateway_def)
qed

lemma strict_inspect:
  "inspect_input strict_gateway pan_left ''admin_user'' 3 = Inr (left_result\<lparr>sr_risk_level := ''HIGH''\<rparr>)"
proof -
  have "rich strict_gateway = rich demo_gateway" by (simp add: rich_def fun_eq_iff)
  moreover have "filter (\<lambda>t. str_in t (lower pan_left)) prompt_injection_terms = []" by code_simp
  ultimately show ?thesis by (simp add: inspect_input_def strict_high left_rich left_result_def finding_actions_def)
qed

lemma strict_policy: "policy_agent strict_gateway = policy_agent demo_gateway"
  by (simp add: policy_agent_def fun_eq_iff)

lemma demo_review:
  "\<exists>res. policy_agent demo_gateway pan_left ''admin_user'' 3 = Inr res \<and> \<not> pa_approved res \<and> pa_category res \<noteq> []
     \<and> pa_decision res = ''REQUIRE_APPROVAL''"
proof -
  obtain res where res: "policy_agent demo_gateway pan_left ''admin_user'' 3 = Inr res" "lets_through res" "pa_decision res = ''REQUIRE_APPROVAL''"
    using demo_policy_result by blast
  then have "\<not> pa_approved res" by (auto simp: policy_agent_def rbind_eq_Inr action_name_def split: action.splits)
  then show ?thesis using res by (auto simp: lets_through_def)
qed

definition demo_approved :: approval where
  "demo_approved = new_approval demo_approval_env ''a'' ''r'' ''c'' pan_left ''HIGH'' (Some 3) None []"

theorem approved_request_pends_again_witness:
  "\<exists>x w' row. execute_approval (demo_service\<lparr>sv_gateway := strict_gateway\<rparr>) demo_approved None None None ''p'' ''m'' empty_world = (Inr x, w') \<and>
    as_approval_status (gx_result x) = Some ''PENDING_APPROVAL'' \<and> as_response (gx_result x) = None \<and> w_calls w' = w_calls empty_world \<and>
    length (heap (w_approvals w')) = Suc (length (heap (w_approvals empty_world))) \<and>
    gw_rows (w_log w') = gw_rows (w_log empty_world) @ [row] \<and> gr_status row = ''allowed''"
proof -
  obtain res where "policy_agent demo_gateway pan_left ''admin_user'' 3 = Inr res" "\<not> pa_approved res" "pa_category res \<noteq> []"
      "pa_decision res = ''REQUIRE_APPROVAL''"
    using demo_review by blast
  then show ?thesis
    by (intro approved_request_pends_again [where tenant = 3 and sec = "left_result\<lparr>sr_risk_level := ''HIGH''\<rparr>" and res = res])
      (simp_all add: demo_approved_def new_approval_def strict_inspect strict_policy strict_high left_result_def)
qed

end
