(* ===== verification/Rbac_Props.thy ===== *)
theory Rbac_Props
  imports Rbac
begin

text \<open>
  What the access rules of \<open>services/rbac_matrix.py\<close> allow: whatever the path, only the rules whose
  pattern agrees with its beginning can decide, so that the decision for a whole family of paths is
  read off the table.
\<close>

section \<open>Patterns and beginnings of paths\<close>

lemma fnmatch_literal: "CHR ''*'' \<notin> set p \<Longrightarrow> fnmatch p s = (s = p)"
  by (induction p arbitrary: s) (auto split: list.splits)

lemma fnmatch_prefix: "fnmatch p s \<Longrightarrow> starts_with (takeWhile (\<lambda>c. c \<noteq> CHR ''*'') p) s"
  by (induction p arbitrary: s) (auto split: list.splits if_splits)

lemma fnmatch_star: "CHR ''*'' \<notin> set p \<Longrightarrow> fnmatch (p @ ''*'') s = starts_with p s"
proof (induction p arbitrary: s)
  case Nil
  have "list_ex (fnmatch []) (map (\<lambda>i. drop i s) [0..<length s + 1])" by (auto simp: list_ex_iff intro!: bexI [of _ "length s"])
  then show ?case by simp
qed (auto split: list.splits)

text \<open>Can a path with this beginning match the pattern?\<close>

definition may_match :: "string \<Rightarrow> string \<Rightarrow> bool" where
  "may_match pat d = (if CHR ''*'' \<in> set pat
     then (let l = takeWhile (\<lambda>c. c \<noteq> CHR ''*'') pat in starts_with l d \<or> starts_with d l) else starts_with d pat)"

lemma starts_with_both: "starts_with a s \<Longrightarrow> starts_with b s \<Longrightarrow> starts_with a b \<or> starts_with b a"
  by (metis append_eq_append_conv2 starts_with_iff)

lemma fnmatch_may_match: "fnmatch pat s \<Longrightarrow> starts_with d s \<Longrightarrow> may_match pat d"
  using fnmatch_prefix [of pat s] starts_with_both [of _ s d] by (auto simp: may_match_def Let_def fnmatch_literal)

section \<open>Normalised paths\<close>

lemma template_starts: "match_at template_re s i = Some st \<Longrightarrow> i < length s \<and> s ! i = CHR 0x7B"
  by (auto simp: match_at_def template_re_def chr_def split: list.splits if_splits)

lemma templates_after:
  assumes "CHR 0x7B \<notin> set d" and "m \<in> set (finditer template_re (d @ r))"
  shows "length d \<le> m_start m"
proof (rule ccontr)
  assume "\<not> length d \<le> m_start m"
  then have "(d @ r) ! m_start m \<in> set d" by (simp add: nth_append)
  moreover obtain st where "match_at template_re (d @ r) (m_start m) = Some st"
    using finditer_from_match assms(2) unfolding finditer_def by blast
  ultimately show False using template_starts assms(1) by metis
qed

lemma sub_keeps_prefix:
  assumes "CHR 0x7B \<notin> set d" and "starts_with d p" shows "starts_with d (sub_with template_re f p)"
proof -
  obtain r where p: "p = d @ r" using assms(2) by (auto simp: starts_with_iff)
  show ?thesis
  proof (cases "finditer template_re p")
    case (Cons m ms)
    then have "length d \<le> m_start m" using templates_after [OF assms(1), of m r] by (simp add: p)
    then have "starts_with d (take (m_start m) p)" by (simp add: p starts_with_iff)
    then show ?thesis by (auto simp: sub_with_def Cons slice_def starts_with_iff)
  qed (simp add: sub_with_def p)
qed

lemma normalize_keeps_prefix:
  assumes "CHR 0x7B \<notin> set d" and "starts_with d path" and "d \<noteq> []" and "List.last d \<noteq> CHR ''/''"
  shows "starts_with d (normalize_path_template path)"
proof -
  have "path \<noteq> []" using assms(2,3) by (cases d) auto
  define p where "p = sub_with template_re (\<lambda>_. ''*'') path"
  have p: "starts_with d p" unfolding p_def by (rule sub_keeps_prefix [OF assms(1,2)])
  have "starts_with d (butlast p)" if "ends_with ''/'' p"
  proof -
    obtain r where r: "p = d @ r" using p by (auto simp: starts_with_iff)
    have "List.last p = CHR ''/''" using that by (cases p rule: rev_cases) (auto simp: ends_with_def)
    then have "r \<noteq> []" using assms(4) r by auto
    then show ?thesis by (simp add: r butlast_append)
  qed
  then show ?thesis using p \<open>path \<noteq> []\<close> by (simp add: normalize_path_template_def p_def [symmetric] Let_def)
qed

section \<open>The table\<close>

lemma patterns_normal: "list_all (\<lambda>r. normalize_path_template (er_pattern r) = er_pattern r) ENDPOINT_RULES"
  by code_simp

lemma public_literal: "list_all (\<lambda>q. CHR ''*'' \<notin> set q) PUBLIC_PATHS"
  by code_simp

lemma upper_char_idem [simp]: "upper_char (upper_char c) = upper_char c"
proof -
  have b: "of_char c < (256::nat)" by (metis of_char_mod_256 mod_less_divisor zero_less_numeral)
  have m: "(of_char c - 32) mod 256 = of_char c - (32::nat)" by (rule mod_less, rule le_less_trans [OF diff_le_self b])
  show ?thesis
    using b by (auto simp: upper_char_def Let_def m split: if_splits)
qed

lemma upper_upper [simp]: "upper (upper m) = upper m"
  by (simp add: upper_def)

lemma rule_matches_iff:
  "r \<in> set ENDPOINT_RULES \<Longrightarrow> rule_matches r (upper m) path \<longleftrightarrow>
     (er_method r = ''*'' \<or> upper m = er_method r) \<and> fnmatch (er_pattern r) (normalize_path_template path)"
  using patterns_normal by (simp add: rule_matches_def list_all_iff)

lemma resolved:
  assumes "resolve_rule m path = Some r"
  shows "r \<in> set ENDPOINT_RULES" "er_method r = ''*'' \<or> upper m = er_method r" "fnmatch (er_pattern r) (normalize_path_template path)"
proof -
  obtain i where i: "i < length ENDPOINT_RULES" "r = ENDPOINT_RULES ! i" "rule_matches r (upper m) path"
    using assms by (auto simp: resolve_rule_def find_Some_iff)
  then show "r \<in> set ENDPOINT_RULES" by simp
  then show "er_method r = ''*'' \<or> upper m = er_method r" "fnmatch (er_pattern r) (normalize_path_template path)"
    using i(3) rule_matches_iff by auto
qed

lemma public_prefix:
  assumes "is_public_endpoint m path" and "starts_with d (normalize_path_template path)"
  shows "\<exists>q\<in>set PUBLIC_PATHS. str_in ('' '' @ d) q"
proof -
  obtain q where q: "q \<in> set PUBLIC_PATHS" "fnmatch q (upper m @ '' '' @ normalize_path_template path)"
    using assms(1) by (auto simp: is_public_endpoint_def list_ex_iff)
  then have "upper m @ '' '' @ normalize_path_template path = q" using public_literal by (simp add: list_all_iff fnmatch_literal)
  then show ?thesis using assms(2) q(1) by (auto simp: str_in_iff starts_with_iff intro!: bexI [OF _ q(1)])
qed

lemma decided_by:
  assumes "role_allowed role m path" and "starts_with d (normalize_path_template path)"
    and "list_all (\<lambda>q. \<not> str_in ('' '' @ d) q) PUBLIC_PATHS"
  obtains r where "r \<in> set ENDPOINT_RULES" "may_match (er_pattern r) d" "er_method r = ''*'' \<or> upper m = er_method r"
    "role = Some ROLE_PLATFORM_ADMIN \<or> or_empty role \<in> set (er_roles r)"
proof -
  have "\<not> is_public_endpoint m path" using public_prefix [OF _ assms(2), of m] assms(3) by (auto simp: list_all_iff)
  then obtain r where r: "resolve_rule m path = Some r" "role = Some ROLE_PLATFORM_ADMIN \<or> or_empty role \<in> set (er_roles r)"
    using assms(1) by (auto simp: role_allowed_def split: option.splits)
  show thesis by (rule that [OF resolved(1) [OF r(1)] fnmatch_may_match [OF resolved(3) [OF r(1)] assms(2)] resolved(2) [OF r(1)] r(2)])
qed

definition decision_paths :: "string list" where "decision_paths = [''/approve'', ''/reject'', ''/execute'']"

lemma decision_rules:
  "list_all (\<lambda>d. list_all (\<lambda>r. may_match (er_pattern r) d \<longrightarrow> er_method r = ''POST'' \<and> er_roles r = TENANT_ADMIN_ROLES) ENDPOINT_RULES)
     decision_paths"
  by code_simp

lemma decision_not_public: "list_all (\<lambda>d. list_all (\<lambda>q. \<not> str_in ('' '' @ d) q) PUBLIC_PATHS) decision_paths"
  by code_simp

text \<open>C7: Only an administrator can decide on or execute an approval: on every path below \<open>/approve\<close>,
  \<open>/reject\<close> and \<open>/execute\<close>, the rules admit nothing but a POST by a Super Admin, a Security Admin
  or the Platform Admin.\<close>

theorem approvals_for_admins:
  assumes "d \<in> set decision_paths" and "starts_with d path" and "role_allowed role m path"
  shows "upper m = ''POST'' \<and> role \<in> {Some ''Super Admin'', Some ''Security Admin'', Some ''Platform Admin''}"
proof -
  have d: "CHR 0x7B \<notin> set d \<and> d \<noteq> [] \<and> List.last d \<noteq> CHR ''/''" using assms(1) by (auto simp: decision_paths_def)
  then have n: "starts_with d (normalize_path_template path)" using normalize_keeps_prefix assms(2) by blast
  obtain r where r: "r \<in> set ENDPOINT_RULES" "may_match (er_pattern r) d" "er_method r = ''*'' \<or> upper m = er_method r"
      "role = Some ROLE_PLATFORM_ADMIN \<or> or_empty role \<in> set (er_roles r)"
    by (rule decided_by [OF assms(3) n]) (use decision_not_public assms(1) in \<open>auto simp: list_all_iff\<close>)
  have "er_method r = ''POST''" "er_roles r = TENANT_ADMIN_ROLES"
    using decision_rules assms(1) r(1,2) by (simp_all add: list_all_iff)
  then show ?thesis using r(3,4)
    by (cases role) (auto simp: TENANT_ADMIN_ROLES_def ROLE_PLATFORM_ADMIN_def ROLE_SUPER_ADMIN_def ROLE_SECURITY_ADMIN_def)
qed


theorem approvals_for_admins_witness:
  "starts_with ''/approve'' ''/approve/42'' \<and> role_allowed (Some ''Super Admin'') ''post'' ''/approve/42'' \<and>
   upper ''post'' = ''POST'' \<and> Some ''Super Admin'' \<in> {Some ''Super Admin'', Some ''Security Admin'', Some ''Platform Admin''}"
proof -
  have "role_allowed (Some ''Super Admin'') ''post'' ''/approve/42''" by code_simp
  then show ?thesis
    using approvals_for_admins [of "''/approve''" "''/approve/42''" "Some ''Super Admin''" "''post''"]
    by (simp add: decision_paths_def)
qed

section \<open>Tenant scope\<close>

definition unscoped_paths :: "string list" where "unscoped_paths = [''/platform/'', ''/health'', ''/auth/'']"

text \<open>A rule without a tenant is one of these families, or decides public endpoints alone.\<close>

lemma unscoped_rules:
  "list_all (\<lambda>r. er_tenant_required r \<or> list_ex (\<lambda>d. starts_with d (takeWhile (\<lambda>c. c \<noteq> CHR ''*'') (er_pattern r))) unscoped_paths \<or>
     CHR ''*'' \<notin> set (er_pattern r) \<and> er_method r \<noteq> ''*'' \<and> list_ex (\<lambda>q. q = er_method r @ '' '' @ er_pattern r) PUBLIC_PATHS) ENDPOINT_RULES"
  by code_simp

lemma rule_roles_known: "list_all (\<lambda>r. list_all (\<lambda>x. x \<in> set ALL_ROLES) (er_roles r)) ENDPOINT_RULES"
  by code_simp

text \<open>C12: A request that passes the enforcement is public, or its token names a known role and either
  carries a tenant or asks for one of the platform, health and authentication endpoints.\<close>

theorem enforced_requests_scoped:
  assumes "enforce_request_access m path payload = Inr ()"
  shows "is_public_endpoint m path \<or>
    (\<exists>role\<in>set ALL_ROLES. role_claim payload = Some role) \<and>
    (truthy (jget payload ''tenant_id'') \<or> (\<exists>d\<in>set unscoped_paths. starts_with d (normalize_path_template path)))"
proof (cases "is_public_endpoint m path")
  case False
  then obtain r where r: "resolve_rule m path = Some r"
      "role_claim payload = Some ROLE_PLATFORM_ADMIN \<or> or_empty (role_claim payload) \<in> set (er_roles r)"
      "er_tenant_required r \<Longrightarrow> truthy (jget payload ''tenant_id'')"
    using assms by (auto simp: enforce_request_access_def role_allowed_def split: if_splits option.splits)
  have known: "x \<in> set ALL_ROLES" if "x \<in> set (er_roles r)" for x
    using rule_roles_known resolved(1) [OF r(1)] that by (auto simp: list_all_iff)
  have "[] \<notin> set ALL_ROLES" by (simp add: ALL_ROLES_def ROLE_PLATFORM_ADMIN_def ROLE_SUPER_ADMIN_def ROLE_SECURITY_ADMIN_def
      ROLE_COMPLIANCE_OFFICER_def ROLE_AUDITOR_def ROLE_DEVELOPER_def ROLE_VIEWER_def)
  then have role: "\<exists>role\<in>set ALL_ROLES. role_claim payload = Some role"
    using r(2) known by (cases "role_claim payload") (auto simp: ALL_ROLES_def)
  consider "er_tenant_required r" | d where "d \<in> set unscoped_paths" "starts_with d (takeWhile (\<lambda>c. c \<noteq> CHR ''*'') (er_pattern r))"
    | "CHR ''*'' \<notin> set (er_pattern r)" "er_method r \<noteq> ''*''" "er_method r @ '' '' @ er_pattern r \<in> set PUBLIC_PATHS"
    using unscoped_rules resolved(1) [OF r(1)] by (auto simp: list_all_iff list_ex_iff)
  then show ?thesis
  proof cases
    case 2
    then have "starts_with d (normalize_path_template path)"
      using fnmatch_prefix [OF resolved(3) [OF r(1)]] by (auto simp: starts_with_iff)
    then show ?thesis using role 2(1) by blast
  next
    case 3
    then have "upper m @ '' '' @ normalize_path_template path \<in> set PUBLIC_PATHS"
      using resolved(2,3) [OF r(1)] by (simp add: fnmatch_literal)
    then have "is_public_endpoint m path"
      using public_literal by (auto simp: is_public_endpoint_def list_ex_iff list_all_iff fnmatch_literal)
    then show ?thesis using False by simp
  qed (use r(3) role in simp)
qed simp

theorem enforced_requests_scoped_witness:
  "enforce_request_access ''GET'' ''/audit/logs'' [(''role'', JStr ''Auditor''), (''tenant_id'', JInt 3)] = Inr () \<and>
   (is_public_endpoint ''GET'' ''/audit/logs'' \<or>
    (\<exists>role\<in>set ALL_ROLES. role_claim [(''role'', JStr ''Auditor''), (''tenant_id'', JInt 3)] = Some role) \<and>
    (truthy (jget [(''role'', JStr ''Auditor''), (''tenant_id'', JInt 3)] ''tenant_id'') \<or>
     (\<exists>d\<in>set unscoped_paths. starts_with d (normalize_path_template ''/audit/logs''))))"
proof -
  have "enforce_request_access ''GET'' ''/audit/logs'' [(''role'', JStr ''Auditor''), (''tenant_id'', JInt 3)] = Inr ()" by code_simp
  then show ?thesis
    using enforced_requests_scoped [of "''GET''" "''/audit/logs''" "[(''role'', JStr ''Auditor''), (''tenant_id'', JInt 3)]"] by blast
qed

section \<open>Read permissions\<close>

lemma evidence_rules:
  "list_all (\<lambda>r. may_match (er_pattern r) ''/evidence'' \<longrightarrow>
     er_permission r = ''evidence:read'' \<and> ''Auditor'' \<in> set (er_roles r)) ENDPOINT_RULES"
  by code_simp

lemma evidence_rule: "list_ex (\<lambda>r. er_pattern r = ''/evidence'' @ ''*'' \<and> er_method r = ''*'') ENDPOINT_RULES"
  by code_simp

text \<open>C39: The permission \<open>evidence:read\<close> is given for every method: an Auditor, who is meant to read,
  may delete and change any evidence.\<close>

theorem auditor_may_delete_evidence:
  assumes "starts_with ''/evidence'' path"
  shows "role_allowed (Some ''Auditor'') m path \<and> (\<exists>r. resolve_rule m path = Some r \<and> er_permission r = ''evidence:read'')"
proof -
  have n: "starts_with ''/evidence'' (normalize_path_template path)" by (rule normalize_keeps_prefix) (use assms in auto)
  obtain r where r: "r \<in> set ENDPOINT_RULES" "er_pattern r = ''/evidence'' @ ''*''" "er_method r = ''*''"
    using evidence_rule by (auto simp: list_ex_iff)
  have "rule_matches r (upper m) path"
    unfolding rule_matches_iff [OF r(1)] r(2,3) using n fnmatch_star [of "''/evidence''"] by simp
  then obtain r' where r': "resolve_rule m path = Some r'"
    using r(1) by (cases "resolve_rule m path") (auto simp: resolve_rule_def find_None_iff)
  have "er_permission r' = ''evidence:read'' \<and> ''Auditor'' \<in> set (er_roles r')"
    using evidence_rules resolved(1) [OF r'] fnmatch_may_match [OF resolved(3) [OF r'] n] by (auto simp: list_all_iff)
  then show ?thesis using r' by (simp add: role_allowed_def)
qed

theorem auditor_may_delete_evidence_witness:
  "starts_with ''/evidence'' ''/evidence/7'' \<and> role_allowed (Some ''Auditor'') ''DELETE'' ''/evidence/7'' \<and>
   (\<exists>r. resolve_rule ''DELETE'' ''/evidence/7'' = Some r \<and> er_permission r = ''evidence:read'')"
  using auditor_may_delete_evidence [of "''/evidence/7''" "''DELETE''"] by simp

section \<open>Clients without a session\<close>

lemma no_empty_role: "list_all (\<lambda>r. [] \<notin> set (er_roles r)) ENDPOINT_RULES"
  by code_simp

text \<open>The enforcement reads the session token alone: with it enabled, a request without one, that
  of a client with an API key included, is refused on every endpoint that is not public.\<close>

theorem api_key_clients_refused:
  assumes "rbac_enforcement_enabled env" and "\<not> is_public_endpoint m path"
    and "\<And>a. authorization = Some a \<Longrightarrow> decode (if starts_with ''Bearer '' a then drop 7 a else a) = None"
  shows "rbac_middleware env decode m path authorization call_next = Inl (403, ''Role is not authorized for this endpoint.'')"
proof -
  have "optional_user_from_request decode authorization = []"
    using assms(3) by (cases authorization) (auto simp: optional_user_from_request_def Let_def)
  moreover have "\<not> is_public_endpoint (upper m) path" using assms(2) by (simp add: is_public_endpoint_def)
  moreover have "\<not> role_allowed None (upper m) path"
    using calculation(2) no_empty_role resolved(1) [of "upper m" path]
    by (auto simp: role_allowed_def ROLE_PLATFORM_ADMIN_def list_all_iff split: option.splits)
  ultimately show ?thesis
    using assms(1) by (simp add: rbac_middleware_def enforce_request_access_def role_claim_def jget_def)
qed

theorem api_key_clients_refused_witness:
  "rbac_middleware (\<lambda>n. if n = ''AUTHCLAW_ENV'' then Some ''production'' else None) (\<lambda>_. None) ''POST'' ''/v1/chat/completions''
     (Some ''Bearer ac_key'') (\<lambda>_. Inr ()) = Inl (403, ''Role is not authorized for this endpoint.'')"
proof (rule api_key_clients_refused)
  show "rbac_enforcement_enabled (\<lambda>n. if n = ''AUTHCLAW_ENV'' then Some ''production'' else None)" by code_simp
  show "\<not> is_public_endpoint ''POST'' ''/v1/chat/completions''" by code_simp
qed simp

section \<open>The routes of the program\<close>

lemma normalize_plain:
  assumes "CHR 0x7B \<notin> set path" and "path \<noteq> []" and "path = ''/'' \<or> List.last path \<noteq> CHR ''/''"
  shows "normalize_path_template path = path"
proof -
  have "finditer template_re path = []"
  proof (rule ccontr)
    assume "finditer template_re path \<noteq> []"
    then obtain m ms where "finditer template_re path = m # ms" by (cases "finditer template_re path") auto
    then have "m \<in> set (finditer template_re path)" by simp
    then obtain st where "match_at template_re path (m_start m) = Some st"
      using finditer_from_match unfolding finditer_def by blast
    then show False using template_starts assms(1) nth_mem by metis
  qed
  moreover have "\<not> ends_with ''/'' path" if "List.last path \<noteq> CHR ''/''"
    using that assms(2) by (cases path rule: rev_cases) (auto simp: ends_with_def)
  ultimately show ?thesis using assms(2,3) by (auto simp: normalize_path_template_def sub_with_def Let_def)
qed

lemma normalize_below:
  assumes "CHR 0x7B \<notin> set d" and "starts_with d path" and "path \<noteq> d" and "d \<noteq> []"
  shows "starts_with d (normalize_path_template path)"
proof -
  obtain r where r: "path = d @ r" "r \<noteq> []" using assms(2,3) by (auto simp: starts_with_iff)
  define p where "p = sub_with template_re (\<lambda>_. ''*'') path"
  have "starts_with d p \<and> p \<noteq> d"
  proof (cases "finditer template_re path")
    case Nil
    then show ?thesis using r by (simp add: p_def sub_with_def)
  next
    case (Cons m ms)
    then have "length d \<le> m_start m" using templates_after [OF assms(1), of m r] by (simp add: r)
    then have "starts_with d (take (m_start m) path)" by (simp add: r starts_with_iff)
    then show ?thesis by (auto simp: p_def sub_with_def Cons slice_def starts_with_iff)
  qed
  then obtain q where q: "p = d @ q" "q \<noteq> []" by (auto simp: starts_with_iff)
  then have "starts_with d (butlast p)" by (simp add: butlast_append)
  moreover have "path \<noteq> []" using r by simp
  ultimately show ?thesis using q by (simp add: normalize_path_template_def p_def [symmetric] Let_def)
qed

text \<open>A check that suffices: a literal pattern for a path without a template, or a pattern that is a
  beginning of the path followed by a star.\<close>

definition is_plain :: "string \<Rightarrow> bool" where
  "is_plain path = (CHR 0x7B \<notin> set path \<and> path \<noteq> [] \<and> (path = ''/'' \<or> List.last path \<noteq> CHR ''/''))"

definition decides :: "string \<Rightarrow> string \<Rightarrow> bool" where
  "decides pat path =
     (let d = takeWhile (\<lambda>c. c \<noteq> CHR ''*'') pat in
      if pat = d @ ''*'' then d \<noteq> [] \<and> CHR 0x7B \<notin> set d \<and> starts_with d path \<and> (path \<noteq> d \<or> List.last d \<noteq> CHR ''/'')
      else is_plain path \<and> pat = path \<and> CHR ''*'' \<notin> set path)"

lemma decides_matches: "decides pat path \<Longrightarrow> fnmatch pat (normalize_path_template path)"
proof -
  assume a: "decides pat path"
  let ?d = "takeWhile (\<lambda>c. c \<noteq> CHR ''*'') pat"
  have star: "CHR ''*'' \<notin> set ?d" by (auto dest: set_takeWhileD)
  show ?thesis
  proof (cases "pat = ?d @ ''*''")
    case True
    then have "starts_with ?d (normalize_path_template path)"
      using a normalize_below [of ?d path] normalize_keeps_prefix [of ?d path] by (auto simp: decides_def Let_def)
    then show ?thesis using fnmatch_star [OF star] True by metis
  next
    case False
    then show ?thesis using a by (auto simp: decides_def Let_def is_plain_def normalize_plain fnmatch_literal)
  qed
qed

text \<open>The same check in a form that stops at the first difference.\<close>

fun fits :: "string \<Rightarrow> string \<Rightarrow> bool" where
  "fits [] s = (s = [])"
| "fits (c # p) s = (if c = CHR ''*'' then True else case s of [] \<Rightarrow> False | d # t \<Rightarrow> if c = d then fits p t else False)"

fun first_ex :: "('a \<Rightarrow> bool) \<Rightarrow> 'a list \<Rightarrow> bool" where
  "first_ex P [] = False"
| "first_ex P (x # xs) = (if P x then True else first_ex P xs)"

lemma first_ex_eq: "first_ex P xs = list_ex P xs"
  by (induction xs) auto

text \<open>The methods and patterns of the table, as one constant.\<close>

definition rule_keys :: "(string \<times> string) list" where
  "rule_keys = [
     (''*'', ''/platform/*''),
     (''*'', ''/identity/*''),
     (''GET'', ''/security/posture''),
     (''GET'', ''/security/*''),
     (''*'', ''/providers*''),
     (''*'', ''/routes*''),
     (''GET'', ''/gateway/requests*''),
     (''GET'', ''/gateway/approvals*''),
     (''*'', ''/gateway/documents/*''),
     (''*'', ''/gateway/chat''),
     (''*'', ''/chat*''),
     (''*'', ''/sessions*''),
     (''*'', ''/v1/chat/completions''),
     (''GET'', ''/approvals*''),
     (''POST'', ''/approve/*''),
     (''POST'', ''/reject/*''),
     (''POST'', ''/execute/*''),
     (''POST'', ''/test/*''),
     (''GET'', ''/audit*''),
     (''POST'', ''/audit/export/verify''),
     (''*'', ''/policies*''),
     (''*'', ''/policy/bundles*''),
     (''POST'', ''/internal/policy/evaluate''),
     (''*'', ''/rag*''),
     (''*'', ''/documents*''),
     (''*'', ''/compliance*''),
     (''*'', ''/evidence*''),
     (''*'', ''/auditor/*''),
     (''*'', ''/access-control/*''),
     (''*'', ''/tenants*''),
     (''*'', ''/tenant/plan*''),
     (''*'', ''/keys*''),
     (''*'', ''/reports/*''),
     (''*'', ''/cloud/connectors/*''),
     (''*'', ''/analytics/*''),
     (''*'', ''/remediation/*''),
     (''*'', ''/redteam/*''),
     (''GET'', ''/metrics''),
     (''POST'', ''/observability/*''),
     (''GET'', ''/trust/public''),
     (''GET'', ''/health*''),
     (''GET'', ''/''),
     (''*'', ''/auth/*'')]"

lemma rule_keys: "map (\<lambda>r. (er_method r, er_pattern r)) ENDPOINT_RULES = rule_keys"
  by (simp add: ENDPOINT_RULES_def endpoint_rule_def rule_keys_def)

definition rule_found :: "string \<Rightarrow> string \<Rightarrow> string \<times> string \<Rightarrow> bool" where
  "rule_found m path key = (if fits (snd key) path then if fst key = ''*'' \<or> m = fst key then decides (snd key) path else False else False)"

lemma routes_found:
  "list_all (\<lambda>(m, path). if first_ex (rule_found m path) rule_keys then True
     else if is_plain path then first_ex (\<lambda>q. if fits q (m @ '' '' @ path) then q = m @ '' '' @ path else False) PUBLIC_PATHS else False) app_routes"
  by code_simp

lemma routes_decided:
  "list_all (\<lambda>(m, path). list_ex (\<lambda>r. (er_method r = ''*'' \<or> m = er_method r) \<and> decides (er_pattern r) path) ENDPOINT_RULES \<or>
     is_plain path \<and> list_ex (\<lambda>q. q = m @ '' '' @ path) PUBLIC_PATHS) app_routes"
proof -
  have key: "\<exists>r\<in>set ENDPOINT_RULES. (er_method r = ''*'' \<or> m = er_method r) \<and> decides (er_pattern r) path"
    if "first_ex (rule_found m path) rule_keys" for m path
    using that unfolding first_ex_eq list_ex_iff rule_keys [symmetric] by (auto simp: rule_found_def split: if_splits)
  show ?thesis
    using routes_found key by (fastforce simp: list_all_iff list_ex_iff first_ex_eq split: if_splits)
qed

lemma route_methods: "list_all (\<lambda>(m, path). upper m = m) app_routes"
  by code_simp

text \<open>The table is complete: every route that the program registers is public or has a rule.\<close>

theorem app_routes_covered:
  "list_all (\<lambda>(m, path). ei_covered (endpoint_item m path) \<and> role_allowed (Some ''Platform Admin'') m path) app_routes"
  unfolding list_all_iff
proof (intro ballI, clarify)
  fix m path assume route: "(m, path) \<in> set app_routes"
  then have m: "upper m = m" using route_methods by (auto simp: list_all_iff)
  consider r where "r \<in> set ENDPOINT_RULES" "er_method r = ''*'' \<or> m = er_method r" "decides (er_pattern r) path"
    | "is_plain path" "m @ '' '' @ path \<in> set PUBLIC_PATHS"
    using routes_decided route by (force simp: list_all_iff list_ex_iff)
  then have "resolve_rule m path \<noteq> None \<or> is_public_endpoint m path"
  proof cases
    case 1
    then have "rule_matches r (upper m) path" using decides_matches m unfolding rule_matches_iff [OF 1(1)] by simp
    then show ?thesis using 1(1) by (auto simp: resolve_rule_def find_None_iff)
  next
    case 2
    then show ?thesis
      using public_literal by (auto simp: is_public_endpoint_def list_ex_iff list_all_iff fnmatch_literal m is_plain_def normalize_plain)
  qed
  then show "ei_covered (endpoint_item m path) \<and> role_allowed (Some ''Platform Admin'') m path"
    by (auto simp: endpoint_item_def role_allowed_def ROLE_PLATFORM_ADMIN_def Let_def)
qed

end
