(* ===== verification/Credentials.thy ===== *)
theory Credentials
  imports Redaction "HOL-Library.Word"
begin

text \<open>
  The credential helpers of \<open>main.py\<close>: password hashes, the one-time codes of RFC 4226 and 6238,
  base32, and the random secrets of an account.

  The key derivation and the two HMAC functions are parameters.  Random bytes and the clock are
  arguments.
\<close>

unbundle bit_operations_syntax

section \<open>Positional notation\<close>

primrec base_digits :: "nat \<Rightarrow> nat \<Rightarrow> nat \<Rightarrow> nat list" where
  "base_digits B 0 v = []"
| "base_digits B (Suc k) v = base_digits B k (v div B) @ [v mod B]"

definition base_value :: "nat \<Rightarrow> nat list \<Rightarrow> nat" where
  "base_value B ds = foldl (\<lambda>a d. a * B + d) 0 ds"

definition to_bytes :: "nat \<Rightarrow> nat \<Rightarrow> string" where
  "to_bytes k v = map char_of (base_digits 256 k v)"

definition from_bytes :: "string \<Rightarrow> nat" where
  "from_bytes s = base_value 256 (map of_char s)"

lemma length_base_digits [simp]: "length (base_digits B k v) = k"
  by (induction k arbitrary: v) simp_all

lemma length_to_bytes [simp]: "length (to_bytes k v) = k"
  by (simp add: to_bytes_def)

lemma base_digits_bound: "0 < B \<Longrightarrow> d \<in> set (base_digits B k v) \<Longrightarrow> d < B"
  by (induction k arbitrary: v) auto

lemma base_value_snoc [simp]: "base_value B (ds @ [d]) = base_value B ds * B + d"
  by (simp add: base_value_def)

lemma base_value_digits: "base_value B (base_digits B k v) = v mod B ^ k"
proof (induction k arbitrary: v)
  case (Suc k)
  then show ?case using mod_mult2_eq [of v B "B ^ k"] by (simp add: mult.commute)
qed (simp add: base_value_def)

lemma base_digits_value:
  "list_all (\<lambda>d. d < B) ds \<Longrightarrow> base_digits B (length ds) (base_value B ds) = ds"
proof (induction ds rule: rev_induct)
  case (snoc d ds)
  then show ?case by (cases "B = 0") simp_all
qed simp

lemma base_value_bound: "list_all (\<lambda>d. d < B) ds \<Longrightarrow> base_value B ds < B ^ length ds"
proof (induction ds rule: rev_induct)
  case (snoc d ds)
  then have "Suc (base_value B ds) * B \<le> B ^ length ds * B" by (intro mult_le_mono1) simp
  moreover have "d < B" using snoc.prems by simp
  ultimately show ?case by (simp add: mult.commute)
qed (simp add: base_value_def)

lemma to_bytes_from_bytes [simp]: "to_bytes (length s) (from_bytes s) = s"
proof -
  have "list_all (\<lambda>d. d < 256) (map (of_char :: char \<Rightarrow> nat) s)"
    by (simp add: list_all_iff of_char_lt_256)
  from base_digits_value [OF this] show ?thesis by (simp add: to_bytes_def from_bytes_def comp_def)
qed

lemma from_bytes_bound: "from_bytes s < 256 ^ length s"
  using base_value_bound [of 256 "map of_char s"]
  by (simp add: from_bytes_def list_all_iff of_char_lt_256)

section \<open>Separators\<close>

fun split_on :: "char \<Rightarrow> string \<Rightarrow> string list" where
  "split_on c [] = [[]]"
| "split_on c (d # s) = (if d = c then [] # split_on c s
     else case split_on c s of t # r \<Rightarrow> (d # t) # r | [] \<Rightarrow> [[d]])"

lemma split_on_nonempty [simp]: "split_on c s \<noteq> []"
  by (cases s) (auto split: list.splits)

lemma split_on_word [simp]: "c \<notin> set a \<Longrightarrow> split_on c a = [a]"
  by (induction a) auto

lemma split_on_piece [simp]: "c \<notin> set a \<Longrightarrow> split_on c (a @ c # b) = a # split_on c b"
  by (induction a) auto

lemma intercalate_split_on: "intercalate [c] (split_on c s) = s"
proof (induction s)
  case (Cons d s)
  then show ?case by (cases "split_on c s" rule: list.exhaust; cases "tl (split_on c s)") auto
qed simp

section \<open>Base64 with the standard alphabet\<close>

definition std_char :: "char \<Rightarrow> char" where
  "std_char c = (if c = CHR ''-'' then CHR ''+'' else if c = CHR ''_'' then CHR ''/'' else c)"

definition b64encode :: "string \<Rightarrow> string" where
  "b64encode s = map std_char (urlsafe_b64encode s)"

lemma std_char_facts [simp]:
  "b64_val (std_char c) = b64_val c" "std_char c = CHR ''='' \<longleftrightarrow> c = CHR ''=''"
  "std_char c \<noteq> CHR ''-''" "std_char c \<noteq> CHR ''_''" "std_char c = CHR ''$'' \<longleftrightarrow> c = CHR ''$''"
  by (auto simp: std_char_def b64_val_def Let_def)

lemma a2b_std [simp]: "a2b_base64 q l p (map std_char s) = a2b_base64 q l p s"
  by (induction s arbitrary: q l p) (auto split: option.splits)

lemma ascii_std: "is_ascii s \<Longrightarrow> is_ascii (map std_char s)"
  by (auto simp: is_ascii_def list_all_iff std_char_def)

lemma b64_std_roundtrip [simp]: "b64decode (b64encode s) = Some s"
proof -
  have "a2b_base64 0 0 0 (urlsafe_b64encode s) = Some s"
    using urlsafe_b64_roundtrip [of s] urlsafe_b64encode_ascii [of s] by (simp add: urlsafe_b64decode_def)
  then show ?thesis
    by (simp add: b64decode_def b64encode_def ascii_std urlsafe_b64encode_ascii filter_map comp_def)
qed

interpretation standard_b64: transport b64encode b64decode
  by unfold_locales simp

lemma b64_core_val: "c \<in> set (b64_core s) \<Longrightarrow> b64_val c \<noteq> None"
  by (induction s rule: b64_core.induct) (auto simp: Let_def b64_val_char)

lemma b64_core_alphabet: "b64_val c = None \<Longrightarrow> c \<notin> set (b64_core s)"
  using b64_core_val by blast

lemma b64url_alphabet: "b64_val c = None \<Longrightarrow> c \<notin> set (b64url s)"
  by (simp add: b64url_core b64_core_alphabet)

lemma separators_outside: "b64_val (CHR ''$'') = None" "b64_val (CHR ''.'') = None"
  by (simp_all add: b64_val_def)

lemma b64encode_no_dollar: "CHR ''$'' \<notin> set (b64encode s)"
proof -
  obtain k where "urlsafe_b64encode s = b64_core s @ replicate k (CHR ''='')" using encode_core by blast
  then show ?thesis using b64_core_alphabet [OF separators_outside(1)]
    by (auto simp: b64encode_def dest!: std_char_facts(5) [THEN iffD1, OF sym])
qed

section \<open>Passwords\<close>

text \<open>\<open>kdf password salt rounds\<close> is \<open>hashlib.pbkdf2_hmac\<close> with SHA-256, which refuses a count
  that is not positive or does not fit a C \<open>int\<close>.\<close>

type_synonym kdf = "string \<Rightarrow> string \<Rightarrow> int \<Rightarrow> string"

definition pbkdf2_hmac :: "kdf \<Rightarrow> string \<Rightarrow> string \<Rightarrow> int \<Rightarrow> string option" where
  "pbkdf2_hmac kdf password salt rounds =
     (if 1 \<le> rounds \<and> rounds < 2 ^ 31 then Some (kdf password salt rounds) else None)"

definition hash_password :: "kdf \<Rightarrow> int \<Rightarrow> string \<Rightarrow> string \<Rightarrow> string option" where
  "hash_password kdf rounds salt password =
     map_option (\<lambda>key. ''pbkdf2_sha256$'' @ show_int rounds @ ''$'' @ b64encode salt @ ''$'' @ b64encode key)
       (pbkdf2_hmac kdf (utf8 password) salt rounds)"

definition verify_password :: "kdf \<Rightarrow> string \<Rightarrow> string \<Rightarrow> bool" where
  "verify_password kdf password hashed =
     (hashed \<noteq> [] \<and> starts_with ''pbkdf2_sha256$'' hashed \<and>
      (case split_on (CHR ''$'') hashed of
         [scheme, rounds_text, salt_text, key_text] \<Rightarrow>
           (case (py_int rounds_text, b64decode salt_text, b64decode key_text) of
              (Some rounds, Some salt, Some expected) \<Rightarrow>
                pbkdf2_hmac kdf (utf8 password) salt rounds = Some expected
            | _ \<Rightarrow> False)
       | _ \<Rightarrow> False))"

section \<open>Base32\<close>

definition b32_char :: "nat \<Rightarrow> char" where
  "b32_char v = (if v < 26 then char_of (65 + v) else char_of (24 + v))"

definition b32_val :: "char \<Rightarrow> nat option" where
  "b32_val c = (let n = of_char c in
     if 65 \<le> n \<and> n \<le> 90 then Some (n - 65) else if 50 \<le> n \<and> n \<le> 55 then Some (n - 24) else None)"

fun b32_groups :: "string \<Rightarrow> string" where
  "b32_groups (a # b # c # d # e # r) = map b32_char (base_digits 32 8 (from_bytes [a, b, c, d, e])) @ b32_groups r"
| "b32_groups _ = []"

definition b32encode :: "string \<Rightarrow> string" where
  "b32encode s =
     (let left = length s mod 5; e = b32_groups (s @ replicate ((5 - left) mod 5) (char_of (0::nat)));
          pad = (if left = 1 then 6 else if left = 2 then 4 else if left = 3 then 3 else if left = 4 then 1 else 0)
      in take (length e - pad) e @ replicate pad (CHR ''=''))"

fun b32_acc :: "nat \<Rightarrow> string \<Rightarrow> nat option" where
  "b32_acc a [] = Some a"
| "b32_acc a (c # s) = (case b32_val c of None \<Rightarrow> None | Some v \<Rightarrow> b32_acc (a * 32 + v) s)"

text \<open>The loop over blocks of eight characters, with the value of the last block.\<close>

fun b32_quanta :: "nat \<Rightarrow> string \<Rightarrow> (string \<times> nat) option" where
  "b32_quanta l [] = Some ([], l)"
| "b32_quanta l (c # s) = (case b32_acc 0 (c # take 7 s) of None \<Rightarrow> None
     | Some a \<Rightarrow> map_option (\<lambda>(d, m). (to_bytes 5 a @ d, m)) (b32_quanta a (drop 7 s)))"

definition b32decode :: "string \<Rightarrow> string option" where
  "b32decode s =
     (if \<not> is_ascii s \<or> length s mod 8 \<noteq> 0 then None
      else let u = upper s; t = rstrip_by (\<lambda>c. c = CHR ''='') u; pads = length u - length t in
        case b32_quanta 0 t of None \<Rightarrow> None
        | Some (d, acc) \<Rightarrow>
            if pads \<notin> {0, 1, 3, 4, 6} then None
            else if pads \<noteq> 0 \<and> d \<noteq> []
            then Some (take (length d - 5) d @ take ((43 - 5 * pads) div 8) (to_bytes 5 (acc * 32 ^ pads)))
            else Some d)"

section \<open>One-time codes\<close>

type_synonym hmac_fun = "string \<Rightarrow> string \<Rightarrow> string"

text \<open>\<open>struct.pack(">Q", n)\<close>.\<close>

definition pack_u64 :: "int \<Rightarrow> string option" where
  "pack_u64 n = (if 0 \<le> n \<and> n < 2 ^ 64 then Some (to_bytes 8 (nat n)) else None)"

definition totp_key :: "string \<Rightarrow> string option" where
  "totp_key secret =
     (let s = filter (\<lambda>c. c \<noteq> CHR '' '') (strip secret); missing = length s mod 8
      in b32decode (if missing \<noteq> 0 then s @ replicate (8 - missing) (CHR ''='') else s))"

text \<open>The offset is the low nibble of byte 19; the four bytes there, as a big-endian word without
  its sign bit.  A digest that is too short raises.\<close>

definition dynamic_truncation :: "string \<Rightarrow> 32 word option" where
  "dynamic_truncation digest =
     (if length digest < 20 then None
      else let off = unat ((word_of_nat (of_char (digest ! 19)) :: 8 word) AND 15); q = take 4 (drop off digest)
           in if length q = 4 then Some (word_of_nat (from_bytes q) AND 0x7fffffff) else None)"

definition zero_padded :: "nat \<Rightarrow> string \<Rightarrow> string" where
  "zero_padded k s = replicate (k - length s) (CHR ''0'') @ s"

definition get_hotp_token :: "hmac_fun \<Rightarrow> string \<Rightarrow> int \<Rightarrow> string option" where
  "get_hotp_token sha1 secret n =
     (case (totp_key secret, pack_u64 n) of
        (Some key, Some msg) \<Rightarrow>
          map_option (\<lambda>w. zero_padded 6 (show_nat (unat w mod 1000000))) (dynamic_truncation (sha1 key msg))
      | _ \<Rightarrow> None)"

text \<open>\<open>str.isdigit\<close> also holds of the superscripts two, three and one.\<close>

definition py_isdigit :: "string \<Rightarrow> bool" where
  "py_isdigit s = (s \<noteq> [] \<and> list_all (\<lambda>c. is_digit c \<or> (of_char c :: nat) \<in> {178, 179, 185}) s)"

definition code_shaped :: "string \<Rightarrow> bool" where
  "code_shaped t = (py_isdigit t \<and> length t = 6)"

definition verify_totp_token :: "hmac_fun \<Rightarrow> int \<Rightarrow> string \<Rightarrow> string \<Rightarrow> int \<Rightarrow> bool" where
  "verify_totp_token sha1 now secret token window =
     (secret \<noteq> [] \<and> token \<noteq> [] \<and> code_shaped (strip token) \<and>
      list_ex (\<lambda>i. get_hotp_token sha1 secret (now div 30 + i) = Some (strip token)) [- window..window])"

definition verify_totp_token_with_counter :: "hmac_fun \<Rightarrow> int \<Rightarrow> string \<Rightarrow> string \<Rightarrow> int \<Rightarrow> int option" where
  "verify_totp_token_with_counter sha1 now secret token window =
     (if secret = [] \<or> token = [] \<or> \<not> code_shaped (strip token) then None
      else find (\<lambda>counter. get_hotp_token sha1 secret counter = Some (strip token))
             (map (\<lambda>i. now div 30 + i) [- window..window]))"

definition generate_totp_secret :: "string \<Rightarrow> string" where
  "generate_totp_secret random10 = b32encode random10"

text \<open>\<open>urllib.parse.quote\<close> with its default safe character.\<close>

definition unreserved :: "char \<Rightarrow> bool" where
  "unreserved c = (let n = of_char c :: nat in
     (48 \<le> n \<and> n \<le> 57) \<or> (65 \<le> n \<and> n \<le> 90) \<or> (97 \<le> n \<and> n \<le> 122) \<or> n \<in> {45, 46, 47, 95, 126})"

definition url_quote :: "string \<Rightarrow> string" where
  "url_quote s = concat (map (\<lambda>c. if unreserved c then [c]
     else let n = of_char c :: nat in CHR ''%'' # upper [hex_digit (n div 16), hex_digit (n mod 16)]) (utf8 s))"

definition build_otpauth_uri :: "string \<Rightarrow> string \<Rightarrow> string" where
  "build_otpauth_uri email secret =
     ''otpauth://totp/AuthClaw:'' @ url_quote email @ ''?secret='' @ secret @ ''&issuer='' @ url_quote ''AuthClaw''"

definition generate_reset_token :: "string \<Rightarrow> string" where
  "generate_reset_token random32 = b64url random32"

definition hash_reset_token :: "(string \<Rightarrow> string) \<Rightarrow> string \<Rightarrow> string" where
  "hash_reset_token sha token = sha (utf8 token)"

section \<open>Passwords are verified by their key\<close>

lemma digit_not_char: "is_digit c \<Longrightarrow> c \<noteq> CHR ''$'' \<and> c \<noteq> CHR ''-'' \<and> c \<noteq> CHR ''+'' \<and> c \<noteq> CHR ''_'' \<and> c \<noteq> CHR ''=''"
  by (auto simp: is_digit_def)

lemma digit_not_space: "is_digit c \<Longrightarrow> \<not> is_space c"
  by (auto simp: is_digit_def is_space_def Let_def)

lemma strip_no_space: "list_all (\<lambda>c. \<not> is_space c) s \<Longrightarrow> strip s = s"
proof -
  have "dropWhile is_space t = t" if "list_all (\<lambda>c. \<not> is_space c) t" for t
    using that by (cases t) auto
  then show "list_all (\<lambda>c. \<not> is_space c) s \<Longrightarrow> strip s = s"
    by (simp add: strip_def lstrip_by_def rstrip_by_def)
qed

lemma digits_ok_digits: "s \<noteq> [] \<Longrightarrow> list_all is_digit s \<Longrightarrow> digits_ok s"
  by (induction s rule: digits_ok.induct) (auto dest: digit_not_char)

lemma py_int_show_nat [simp]: "py_int (show_nat n) = Some (int n)"
proof -
  obtain c s where cs: "show_nat n = c # s" using show_nat_hd by blast
  have d: "list_all is_digit (show_nat n)" by (rule show_nat_digits)
  then have "strip (show_nat n) = show_nat n"
    by (intro strip_no_space) (auto simp: list_all_iff dest: digit_not_space)
  moreover have "filter (\<lambda>c. c \<noteq> CHR ''_'') (show_nat n) = show_nat n"
    using d by (auto simp: filter_id_conv list_all_iff dest: digit_not_char)
  moreover have "c \<noteq> CHR ''-'' \<and> c \<noteq> CHR ''+''" using d cs digit_not_char [of c] by simp
  ultimately show ?thesis
    using digits_ok_digits [OF _ d] cs read_show_nat [of n] by (simp add: py_int_def Let_def)
qed

lemma split_hash:
  assumes "0 \<le> rounds"
  shows "split_on (CHR ''$'') (''pbkdf2_sha256$'' @ show_int rounds @ ''$'' @ b64encode salt @ ''$'' @ b64encode key)
    = [''pbkdf2_sha256'', show_int rounds, b64encode salt, b64encode key]"
proof -
  have "CHR ''$'' \<notin> set (show_int rounds)"
    using show_nat_digits [of "nat rounds"] assms by (auto simp: show_int_def list_all_iff dest: digit_not_char)
  moreover have "CHR ''$'' \<notin> set ''pbkdf2_sha256''" by simp
  ultimately show ?thesis
    using split_on_piece [of "CHR ''$''" "''pbkdf2_sha256''" "show_int rounds @ ''$'' @ b64encode salt @ ''$'' @ b64encode key"]
    by (simp add: b64encode_no_dollar)
qed

lemma verify_hashed:
  assumes "hash_password kdf rounds salt p = Some h"
  shows "verify_password kdf q h \<longleftrightarrow> kdf (utf8 q) salt rounds = kdf (utf8 p) salt rounds"
proof -
  have r: "1 \<le> rounds" "rounds < 2 ^ 31"
    and h: "h = ''pbkdf2_sha256$'' @ show_int rounds @ ''$'' @ b64encode salt @ ''$'' @ b64encode (kdf (utf8 p) salt rounds)"
    using assms by (auto simp: hash_password_def pbkdf2_hmac_def split: if_splits)
  have "py_int (show_int rounds) = Some rounds" using r by (simp add: show_int_def)
  moreover have "split_on (CHR ''$'') h = [''pbkdf2_sha256'', show_int rounds, b64encode salt, b64encode (kdf (utf8 p) salt rounds)]"
    unfolding h by (rule split_hash) (use r in simp)
  moreover have "h \<noteq> []" "starts_with ''pbkdf2_sha256$'' h" unfolding h by simp_all
  ultimately show ?thesis using r by (simp add: verify_password_def pbkdf2_hmac_def)
qed

text \<open>The stored form of a password accepts exactly the passwords that have the same derived key
  under the stored salt and count; in particular it accepts the password it was made from.\<close>

theorem password_roundtrip:
  assumes "hash_password kdf rounds salt p = Some h"
  shows "verify_password kdf q h \<longleftrightarrow> kdf (utf8 q) salt rounds = kdf (utf8 p) salt rounds"
  by (rule verify_hashed [OF assms])

theorem password_roundtrip_witness:
  "verify_password (\<lambda>p s n. p @ s) ''secret'' (the (hash_password (\<lambda>p s n. p @ s) 600000 ''salt'' ''secret''))"
proof -
  obtain h where h: "hash_password (\<lambda>p s n. p @ s) 600000 ''salt'' ''secret'' = Some h"
    by (simp add: hash_password_def pbkdf2_hmac_def)
  show ?thesis using password_roundtrip [OF h, of "''secret''"] by (simp add: h)
qed

section \<open>Generated secrets decode\<close>

lemma b32_val_char [simp]: "v < 32 \<Longrightarrow> b32_val (b32_char v) = Some v"
  by (auto simp: b32_val_def b32_char_def Let_def)

lemma b32_acc_chars: "list_all (\<lambda>d. d < 32) ds \<Longrightarrow> b32_acc a (map b32_char ds) = Some (foldl (\<lambda>a d. a * 32 + d) a ds)"
  by (induction ds arbitrary: a) auto

lemma b32_quanta_groups: "length s mod 5 = 0 \<Longrightarrow> \<exists>m. b32_quanta l (b32_groups s) = Some (s, m)"
proof (induction s arbitrary: l rule: b32_groups.induct)
  case (1 a b c d e r)
  let ?x = "[a, b, c, d, e]" and ?ds = "base_digits 32 8 (from_bytes [a, b, c, d, e])"
  have len: "length ?ds = 8" by simp
  have bound: "list_all (\<lambda>d. d < 32) ?ds" using base_digits_bound [of 32] by (auto simp: list_all_iff)
  then have "b32_acc 0 (map b32_char ?ds) = Some (base_value 32 ?ds)" by (simp add: b32_acc_chars base_value_def)
  moreover have "base_value 32 ?ds = from_bytes ?x" using from_bytes_bound [of ?x] by (simp add: base_value_digits)
  ultimately have acc: "b32_acc 0 (map b32_char ?ds) = Some (from_bytes ?x)" by simp
  obtain d0 t where ds: "?ds = d0 # t" and "length t = 7" using len by (cases ?ds) auto
  moreover obtain m where "b32_quanta (from_bytes ?x) (b32_groups r) = Some (r, m)"
    using 1 by (auto simp: mod_Suc split: if_splits)
  moreover have "to_bytes 5 (from_bytes ?x) = ?x" using to_bytes_from_bytes [of ?x] by (simp add: eval_nat_numeral)
  ultimately show ?case using acc by (auto simp: ds)
qed auto

lemma b32_groups_val: "c \<in> set (b32_groups s) \<Longrightarrow> b32_val c \<noteq> None"
  by (induction s rule: b32_groups.induct) (auto dest: base_digits_bound [rotated])

lemma length_b32_groups: "length (b32_groups s) = 8 * (length s div 5)"
  by (induction s rule: b32_groups.induct) auto

lemma b32_char_plain:
  "b32_val c \<noteq> None \<Longrightarrow> upper_char c = c \<and> c \<noteq> CHR ''='' \<and> c \<noteq> CHR '' '' \<and> \<not> is_space c \<and> of_char c < (128::nat)"
  by (auto simp: b32_val_def upper_char_def is_space_def Let_def split: if_splits)

lemma b32_roundtrip:
  assumes "length s mod 5 = 0"
  shows "b32encode s = b32_groups s" "b32decode (b32encode s) = Some s"
proof -
  let ?e = "b32_groups s"
  have plain: "upper_char c = c \<and> c \<noteq> CHR ''='' \<and> of_char c < (128::nat)" if "c \<in> set ?e" for c
    using b32_char_plain [OF b32_groups_val [OF that]] by simp
  show e: "b32encode s = ?e" using assms by (simp add: b32encode_def Let_def)
  have "upper ?e = ?e" using plain by (simp add: upper_def map_idI)
  moreover have "dropWhile (\<lambda>c. c = CHR ''='') (rev ?e) = rev ?e"
    using plain hd_in_set [of "rev ?e"] by (auto simp: dropWhile_eq_self_iff)
  then have "rstrip_by (\<lambda>c. c = CHR ''='') ?e = ?e" by (simp add: rstrip_by_def)
  moreover have "is_ascii ?e" using plain by (simp add: is_ascii_def list_all_iff)
  moreover obtain m where "b32_quanta 0 ?e = Some (s, m)" using b32_quanta_groups [OF assms] by blast
  ultimately show "b32decode (b32encode s) = Some s" by (simp add: e b32decode_def length_b32_groups)
qed

lemma totp_key_generated:
  assumes "length raw = 10"
  shows "totp_key (generate_totp_secret raw) = Some raw" "generate_totp_secret raw \<noteq> []"
proof -
  have m: "length raw mod 5 = 0" using assms by simp
  let ?e = "b32_groups raw"
  have plain: "c \<noteq> CHR '' '' \<and> \<not> is_space c" if "c \<in> set ?e" for c
    using b32_char_plain [OF b32_groups_val [OF that]] by simp
  have "strip ?e = ?e" using plain by (intro strip_no_space) (simp add: list_all_iff)
  moreover have "filter (\<lambda>c. c \<noteq> CHR '' '') ?e = ?e" using plain by (simp add: filter_id_conv)
  ultimately show "totp_key (generate_totp_secret raw) = Some raw"
    using b32_roundtrip [OF m] by (simp add: totp_key_def generate_totp_secret_def length_b32_groups Let_def)
  have "length ?e = 16" using assms by (simp add: length_b32_groups)
  then show "generate_totp_secret raw \<noteq> []" using b32_roundtrip(1) [OF m] by (auto simp: generate_totp_secret_def)
qed

section \<open>The accepted codes\<close>

lemma length_show_nat: "n < 10 ^ Suc k \<Longrightarrow> length (show_nat n) \<le> Suc k"
proof (induction k arbitrary: n)
  case (Suc k)
  then have "n div 10 < 10 ^ Suc k" by (simp add: less_mult_imp_div_less mult.commute)
  then show ?case using Suc.IH [of "n div 10"] by (subst show_nat.simps) auto
qed (subst show_nat.simps, simp)

lemma hotp_shape: "get_hotp_token sha1 secret n = Some t \<Longrightarrow> code_shaped t \<and> strip t = t"
proof -
  assume "get_hotp_token sha1 secret n = Some t"
  then obtain w :: "32 word" where t: "t = zero_padded 6 (show_nat (unat w mod 1000000))"
    by (auto simp: get_hotp_token_def split: option.splits)
  let ?d = "show_nat (unat w mod 1000000)"
  have "length ?d \<le> 6" using length_show_nat [of "unat w mod 1000000" 5] by simp
  then have len: "length t = 6" by (simp add: t zero_padded_def)
  have digits: "list_all is_digit t"
    using show_nat_digits [of "unat w mod 1000000"] by (auto simp: t zero_padded_def list_all_iff is_digit_def)
  then have "strip t = t" by (intro strip_no_space) (auto simp: list_all_iff dest: digit_not_space)
  moreover have "t \<noteq> []" using len by auto
  ultimately show ?thesis using len digits by (auto simp: code_shaped_def py_isdigit_def list_all_iff)
qed

definition hmac_sha1_law :: "hmac_fun \<Rightarrow> bool" where
  "hmac_sha1_law sha1 = (\<forall>k m. length (sha1 k m) = 20)"

lemma truncation_defined:
  assumes "length d = 20"
  shows "\<exists>w. dynamic_truncation d = Some w"
proof -
  have "unat ((word_of_nat (of_char (d ! 19)) :: 8 word) AND 15) \<le> unat (15 :: 8 word)"
    by (rule word_le_nat_alt [THEN iffD1]) (rule word_and_le1)
  then show ?thesis using assms by (auto simp: dynamic_truncation_def Let_def)
qed

lemma generated_code:
  assumes "hmac_sha1_law sha1" and "length raw = 10" and "0 \<le> n" and "n < 2 ^ 64"
  shows "\<exists>t. get_hotp_token sha1 (generate_totp_secret raw) n = Some t"
proof -
  obtain w where "dynamic_truncation (sha1 raw (to_bytes 8 (nat n))) = Some w"
    using truncation_defined assms(1) unfolding hmac_sha1_law_def by blast
  then show ?thesis using assms totp_key_generated [OF assms(2)] by (simp add: get_hotp_token_def pack_u64_def)
qed

text \<open>The two verifiers run the same search.\<close>

lemma verifiers_agree:
  "verify_totp_token sha1 now secret token window = (verify_totp_token_with_counter sha1 now secret token window \<noteq> None)"
proof -
  let ?P = "\<lambda>counter. get_hotp_token sha1 secret counter = Some (strip token)"
  have "(find ?P (map (\<lambda>i. now div 30 + i) [- window..window]) \<noteq> None) = list_ex (\<lambda>i. ?P (now div 30 + i)) [- window..window]"
    by (simp only: find_None_iff list_ex_iff set_map) blast
  then show ?thesis by (auto simp: verify_totp_token_def verify_totp_token_with_counter_def)
qed

lemma verify_iff:
  "verify_totp_token sha1 now secret token window \<longleftrightarrow>
     secret \<noteq> [] \<and> token \<noteq> [] \<and> (\<exists>i. \<bar>i\<bar> \<le> window \<and> get_hotp_token sha1 secret (now div 30 + i) = Some (strip token))"
  using hotp_shape [of sha1 secret _ "strip token"]
  by (auto simp: verify_totp_token_def list_ex_iff abs_le_iff)

lemma generated_code_accepted:
  assumes "hmac_sha1_law sha1" and "length raw = 10" and "0 \<le> t" and "t < 2 ^ 64"
    and "\<bar>now div 30 - t div 30\<bar> \<le> 1"
  shows "\<exists>code. get_hotp_token sha1 (generate_totp_secret raw) (t div 30) = Some code \<and> length code = 6
    \<and> verify_totp_token sha1 now (generate_totp_secret raw) code 1
    \<and> verify_totp_token_with_counter sha1 now (generate_totp_secret raw) code 1 \<noteq> None"
proof -
  let ?s = "generate_totp_secret raw"
  have period: "t div 30 \<le> t" "0 \<le> t div 30" using assms(3) by linarith+
  obtain code where code: "get_hotp_token sha1 ?s (t div 30) = Some code"
    using generated_code [OF assms(1,2), of "t div 30"] assms(3,4) period by auto
  have shape: "code_shaped code" "strip code = code" using hotp_shape [OF code] by auto
  then have ne: "code \<noteq> []" "length code = 6" by (auto simp: code_shaped_def)
  have "verify_totp_token sha1 now ?s code 1"
  proof -
    have "\<bar>t div 30 - now div 30\<bar> \<le> 1" using assms(5) by linarith
    moreover have "now div 30 + (t div 30 - now div 30) = t div 30" by simp
    ultimately show ?thesis
      unfolding verify_iff using code shape(2) ne(1) totp_key_generated(2) [OF assms(2)] by metis
  qed
  then show ?thesis using code ne(2) verifiers_agree by blast
qed

text \<open>C40: Every secret the service hands out yields a code of six digits at every instant, and the
  service accepts that code for one period before and after its own, by both verifiers.\<close>

theorem generated_secret_verifies:
  assumes "hmac_sha1_law sha1" and "length raw = 10" and "0 \<le> t" and "t < 2 ^ 64"
    and "\<bar>now div 30 - t div 30\<bar> \<le> 1"
  shows "\<exists>code. get_hotp_token sha1 (generate_totp_secret raw) (t div 30) = Some code \<and> length code = 6
    \<and> verify_totp_token sha1 now (generate_totp_secret raw) code 1
    \<and> verify_totp_token_with_counter sha1 now (generate_totp_secret raw) code 1 \<noteq> None"
  by (rule generated_code_accepted [OF assms])

lemma nearest: "(\<exists>i. \<bar>i\<bar> \<le> 1 \<and> P (n + i)) \<longleftrightarrow> P (n - 1) \<or> P n \<or> P (n + 1)"
  for n :: int
proof -
  have "\<bar>i\<bar> \<le> 1 \<longleftrightarrow> i = - 1 \<or> i = 0 \<or> i = 1" for i :: int by linarith
  then have "(\<exists>i. \<bar>i\<bar> \<le> 1 \<and> P (n + i)) \<longleftrightarrow> (\<exists>i. (i = - 1 \<or> i = 0 \<or> i = 1) \<and> P (n + i))" by simp
  also have "\<dots> \<longleftrightarrow> P (n + - 1) \<or> P (n + 0) \<or> P (n + 1)" by blast
  finally show ?thesis by simp
qed

text \<open>A code is accepted exactly when it is the code of one of the three periods around the
  clock, and the verifier that names the period accepts the same codes.\<close>

theorem accepted_codes:
  "(verify_totp_token sha1 now secret token 1 \<longleftrightarrow>
     secret \<noteq> [] \<and> token \<noteq> [] \<and>
     Some (strip token) \<in> get_hotp_token sha1 secret ` {now div 30 - 1, now div 30, now div 30 + 1}) \<and>
   (verify_totp_token_with_counter sha1 now secret token 1 \<noteq> None \<longleftrightarrow> verify_totp_token sha1 now secret token 1)"
  unfolding verifiers_agree [symmetric] verify_iff
    nearest [where P = "\<lambda>c. get_hotp_token sha1 secret c = Some (strip token)" and n = "now div 30"]
  by (simp add: eq_commute)

definition toy_sha1 :: hmac_fun where
  "toy_sha1 k m = take 20 (m @ k @ replicate 20 (CHR ''a''))"

lemma toy_sha1_law: "hmac_sha1_law toy_sha1"
  by (auto simp: hmac_sha1_law_def toy_sha1_def min_def)

theorem generated_secret_verifies_witness:
  "\<exists>code. get_hotp_token toy_sha1 (generate_totp_secret (replicate 10 (CHR ''k''))) 33333333 = Some code
    \<and> verify_totp_token toy_sha1 1000000020 (generate_totp_secret (replicate 10 (CHR ''k''))) code 1"
  using generated_secret_verifies [of toy_sha1 "replicate 10 (CHR ''k'')" 1000000000 1000000020] by (auto simp: toy_sha1_law)

end
