(* ===== verification/Jwt.thy ===== *)
theory Jwt
  imports Credentials Rbac Audit_Calls
begin

text \<open>
  The session tokens of \<open>main.py\<close>: \<open>create_jwt\<close> and \<open>decode_jwt\<close>.  The HMAC is a parameter
  \<open>mac key message\<close>; the clock and the environment are arguments.
\<close>

section \<open>The codec\<close>

definition jwt_header :: jval where
  "jwt_header = JObj [(''alg'', JStr ''HS256''), (''typ'', JStr ''JWT'')]"

definition signing_input :: "string \<Rightarrow> string \<Rightarrow> string" where
  "signing_input header payload = header @ ''.'' @ payload"

definition jwt_signature :: "hmac_fun \<Rightarrow> string \<Rightarrow> string \<Rightarrow> string" where
  "jwt_signature mac secret input = b64url (mac (utf8 secret) (utf8 input))"

definition create_jwt :: "hmac_fun \<Rightarrow> string \<Rightarrow> (string \<times> jval) list \<Rightarrow> string" where
  "create_jwt mac secret payload =
     (let h = b64url (utf8 (json_dumps jwt_header)); p = b64url (utf8 (json_dumps (JObj payload)))
      in signing_input h p @ ''.'' @ jwt_signature mac secret (signing_input h p))"

text \<open>The built-in \<open>int\<close> on a decoded value; other types raise.\<close>

definition int_of_jval :: "jval \<Rightarrow> int option" where
  "int_of_jval v = (case v of JInt i \<Rightarrow> Some i | JBool b \<Rightarrow> Some (if b then 1 else 0) | JStr s \<Rightarrow> py_int s | _ \<Rightarrow> None)"

definition auth_production :: "environ \<Rightarrow> bool" where
  "auth_production env = (lower (case env ''AUTHCLAW_ENV'' of None \<Rightarrow> ''development'' | Some v \<Rightarrow> v) \<in> {''production'', ''prod''})"

text \<open>The two checks on \<open>exp\<close>.\<close>

definition unexpired :: "environ \<Rightarrow> int \<Rightarrow> (string \<times> jval) list \<Rightarrow> bool" where
  "unexpired env now m =
     (if truthy (jget m ''exp'') then (case int_of_jval (jget m ''exp'') of None \<Rightarrow> False | Some e \<Rightarrow> now \<le> e)
      else \<not> auth_production env)"

definition accept_parts :: "hmac_fun \<Rightarrow> string \<Rightarrow> environ \<Rightarrow> int \<Rightarrow> string \<Rightarrow> string \<Rightarrow> string \<Rightarrow> (string \<times> jval) list option" where
  "accept_parts mac secret env now h p s =
     (if s \<noteq> jwt_signature mac secret (signing_input h p) then None
      else case base64_url_decode p of None \<Rightarrow> None
        | Some bytes \<Rightarrow> (case utf8_decode bytes of None \<Rightarrow> None
          | Some txt \<Rightarrow> (case json_loads txt of
              Some (JObj m) \<Rightarrow> if unexpired env now m then Some m else None
            | _ \<Rightarrow> None)))"

definition decode_jwt :: "hmac_fun \<Rightarrow> string \<Rightarrow> environ \<Rightarrow> int \<Rightarrow> string \<Rightarrow> (string \<times> jval) list option" where
  "decode_jwt mac secret env now token =
     (case split_on (CHR ''.'') token of [h, p, s] \<Rightarrow> accept_parts mac secret env now h p s | _ \<Rightarrow> None)"

section \<open>Parts of a token\<close>

lemma decode_parts:
  "CHR ''.'' \<notin> set h \<Longrightarrow> CHR ''.'' \<notin> set p \<Longrightarrow> CHR ''.'' \<notin> set s \<Longrightarrow>
     decode_jwt mac secret env now (h @ CHR ''.'' # p @ CHR ''.'' # s) = accept_parts mac secret env now h p s"
  by (simp add: decode_jwt_def)

lemma no_dot [simp]: "CHR ''.'' \<notin> set (b64url s)" "CHR ''.'' \<notin> set (jwt_signature mac secret i)"
  using b64url_alphabet [OF separators_outside(2)] by (simp_all add: jwt_signature_def)

lemma accept_signature: "accept_parts mac secret env now h p s = Some m \<Longrightarrow> s = jwt_signature mac secret (signing_input h p)"
  by (simp add: accept_parts_def split: if_splits)

section \<open>Properties\<close>

lemma decode_created:
  assumes "dict_json (JObj payload)"
  shows "decode_jwt mac secret env now (create_jwt mac secret payload) = (if unexpired env now payload then Some payload else None)"
proof -
  have "json_loads (json_dumps (JObj payload)) = Some (JObj payload)" by (rule json_loads_dumps [OF assms])
  then show ?thesis
    by (simp add: create_jwt_def signing_input_def Let_def decode_parts accept_parts_def base64_url_decode_core)
qed

text \<open>C34: Decoding gives back the payload of a token of the service exactly while its expiry claim
  allows it; without the claim, exactly outside production.\<close>

theorem jwt_roundtrip:
  assumes "dict_json (JObj payload)"
  shows "decode_jwt mac secret env now (create_jwt mac secret payload) = (if unexpired env now payload then Some payload else None)"
  by (rule decode_created [OF assms])

definition toy_mac :: hmac_fun where
  "toy_mac key m = m @ key"

theorem jwt_roundtrip_witness:
  "decode_jwt toy_mac ''k'' (\<lambda>_. None) 100 (create_jwt toy_mac ''k'' [(''tenant_id'', JInt 3), (''exp'', JInt 200)])
    = Some [(''tenant_id'', JInt 3), (''exp'', JInt 200)]"
  using jwt_roundtrip [of "[(''tenant_id'', JInt 3), (''exp'', JInt 200)]" toy_mac "''k''" "\<lambda>_. None" 100]
  by (simp add: unexpired_def int_of_jval_def jget_def)



end
