(* ===== verification/Auth_Tables.thy ===== *)
theory Auth_Tables
  imports Jwt
begin

text \<open>
  The tables of the sign-in code of \<open>main.py\<close>, its settings, the delivery of its mails, and the
  helpers on sessions, refresh tokens and API keys: \<open>store_auth_session\<close> to
  \<open>validate_refresh_token_record\<close>, \<open>resolve_tenant\<close>, \<open>revoke_authclaw_refresh_token\<close>.

  Instants are seconds.  The secret store, the hash functions, the mail transports and the lines of
  the \<open>.env\<close> file are fields of the environment; random values are arguments.  A query sees the
  whole table.
\<close>

section \<open>Tables\<close>

record auth_tenant =
  at_id :: int
  at_name :: string
  at_status :: string
  at_domain :: "string option"
  at_email :: "string option"
  at_email_verified :: bool
  at_domain_verified :: bool
  at_email_token :: "string option"
  at_domain_token :: "string option"
  at_totp_secret :: "string option"

record auth_user =
  au_id :: int
  au_tenant_id :: int
  au_first_name :: "string option"
  au_last_name :: "string option"
  au_email :: string
  au_password_hash :: string
  au_role :: string
  au_permissions :: string
  au_email_verified :: bool
  au_mfa_enabled :: bool
  au_totp_secret :: "string option"
  au_status :: string
  au_last_login_at :: "int option"

record registration =
  rg_id :: int
  rg_organization_name :: string
  rg_full_name :: string
  rg_work_email :: string
  rg_domain :: string
  rg_password_hash :: string
  rg_email_token :: string
  rg_domain_token :: string
  rg_totp_secret :: string
  rg_email_verified :: bool
  rg_domain_verified :: bool
  rg_tenant_id :: "int option"
  rg_created_at :: int
  rg_activated_at :: "int option"

record auth_session =
  ss_session_id :: string
  ss_username :: string
  ss_role :: string
  ss_permissions :: string
  ss_tenant_id :: int
  ss_user_id :: int
  ss_email_verified :: bool
  ss_domain_verified :: bool
  ss_step :: string
  ss_expires_at :: int

record refresh_row =
  rf_jti :: string
  rf_tenant_id :: int
  rf_user_id :: int
  rf_subject :: string
  rf_expires_at :: int
  rf_revoked_at :: "int option"

record reset_row =
  rs_token_hash :: string
  rs_tenant_id :: int
  rs_user_id :: int
  rs_email :: string
  rs_expires_at :: int
  rs_used_at :: "int option"

record api_key_row =
  ak_id :: int
  ak_tenant_id :: int
  ak_name :: string
  ak_key_hash :: string
  ak_key_prefix :: string
  ak_created_at :: int
  ak_last_used_at :: "int option"
  ak_expires_at :: "int option"
  ak_revoked_at :: "int option"

record starter_policy =
  sp_tenant_id :: int
  sp_name :: string
  sp_type :: string
  sp_rules :: string

text \<open>The next value of the sequence of a table with a serial key is a field.\<close>

record auth_db =
  ad_tenants :: "auth_tenant list"
  ad_users :: "auth_user list"
  ad_registrations :: "registration list"
  ad_sessions :: "auth_session list"
  ad_refresh :: "refresh_row list"
  ad_resets :: "reset_row list"
  ad_keys :: "api_key_row list"
  ad_policies :: "starter_policy list"
  ad_chain :: audit_db
  ad_next_tenant :: int
  ad_next_user :: int
  ad_next_registration :: int
  ad_next_key :: int

section \<open>Settings\<close>

text \<open>An \<open>HTTPException\<close>, or another exception by the name of its type.\<close>

datatype auth_error = Http_exception nat string | Uncaught string

text \<open>The mail transport that is chosen answers a recipient, a subject and a body with nothing or
  with the detail of the error.\<close>

record auth_env =
  ae_environ :: environ
  ae_env_file :: "string list option"
  ae_secret_of :: "string \<Rightarrow> string option"
  ae_now :: int
  ae_kdf :: kdf
  ae_rounds :: int
  ae_sha1 :: hmac_fun
  ae_mac :: hmac_fun
  ae_sha256 :: "string \<Rightarrow> string"
  ae_jwt_secret :: string
  ae_session_ttl :: int
  ae_transport :: "string \<Rightarrow> string \<Rightarrow> string \<Rightarrow> string option"

definition SENSITIVE_ENV_NAMES :: "string list" where
  "SENSITIVE_ENV_NAMES =
    [''JWT_SECRET'', ''AUTHCLAW_JWT_SECRET'', ''AUTHCLAW_ENCRYPTION_KEY'', ''AUTHCLAW_REDACTION_SALT'', ''SMTP_PASSWORD'',
     ''SENDGRID_API_KEY'', ''DATABASE_URL'', ''GOOGLE_API_KEY'', ''OPENAI_API_KEY'', ''ANTHROPIC_API_KEY'', ''COHERE_API_KEY'',
     ''AZURE_OPENAI_API_KEY'']"

definition strip_char :: "char \<Rightarrow> string \<Rightarrow> string" where
  "strip_char c s = rstrip_by (\<lambda>x. x = c) (lstrip_by (\<lambda>x. x = c) s)"

fun env_file_value :: "string \<Rightarrow> string list \<Rightarrow> string option" where
  "env_file_value name [] = None"
| "env_file_value name (line # ls) =
     (let s = strip line in
      if s = [] \<or> starts_with ''#'' s \<or> CHR ''='' \<notin> set s then env_file_value name ls
      else let (key, raw) = split_once (CHR ''='') s in
        if strip key = name then Some (strip_char (CHR 0x27) (strip_char (CHR 0x22) (strip raw))) else env_file_value name ls)"

definition env_value :: "auth_env \<Rightarrow> string \<Rightarrow> string \<Rightarrow> string" where
  "env_value e name dflt =
     (if name \<in> set SENSITIVE_ENV_NAMES then str_or (ae_secret_of e name) dflt
      else case ae_environ e name of Some v \<Rightarrow> v
        | None \<Rightarrow> (case (case ae_env_file e of None \<Rightarrow> None | Some ls \<Rightarrow> env_file_value name ls) of Some v \<Rightarrow> v | None \<Rightarrow> dflt))"

definition truthy_word :: "string \<Rightarrow> bool" where
  "truthy_word s = (lower s \<in> {''1'', ''true'', ''yes'', ''on''})"

definition env_bool :: "auth_env \<Rightarrow> string \<Rightarrow> bool \<Rightarrow> bool" where
  "env_bool e name dflt = truthy_word (env_value e name (if dflt then ''true'' else ''false''))"

definition value_production :: "auth_env \<Rightarrow> bool" where
  "value_production e = (lower (env_value e ''AUTHCLAW_ENV'' ''development'') \<in> {''production'', ''prod''})"

definition skip_email_delivery_for_testing :: "auth_env \<Rightarrow> bool" where
  "skip_email_delivery_for_testing e = (\<not> value_production e \<and> env_bool e ''SKIP_EMAIL_DELIVERY_FOR_TESTING'' False)"

definition soft_fail_email_delivery_for_local :: "auth_env \<Rightarrow> bool" where
  "soft_fail_email_delivery_for_local e = (\<not> value_production e \<and> env_bool e ''AUTHCLAW_SOFT_FAIL_EMAIL_DELIVERY'' True)"

definition skip_domain_verification_for_testing :: "auth_env \<Rightarrow> bool" where
  "skip_domain_verification_for_testing e = (\<not> value_production e \<and> env_bool e ''SKIP_DOMAIN_VERIFICATION'' False)"

definition disable_mfa_for_testing :: "auth_env \<Rightarrow> bool" where
  "disable_mfa_for_testing e =
     (if value_production e then False
      else if truthy_str (ae_environ e ''PYTEST_CURRENT_TEST'')
      then truthy_word (or_empty (ae_environ e ''DISABLE_MFA_FOR_TESTING''))
         \<or> truthy_word (or_empty (ae_environ e ''AUTHCLAW_ALLOW_TEST_MFA_BYPASS''))
      else env_bool e ''DISABLE_MFA_FOR_TESTING'' False)"

section \<open>Mails\<close>

definition mail_text :: "string list \<Rightarrow> string" where
  "mail_text ls = intercalate [CHR 0x0A] ls"

text \<open>Both transports end in an \<open>HTTPException\<close> 503 or in silence; which one is used, and the
  texts of its errors, belong to the parameter.\<close>

definition deliver_auth_email :: "auth_env \<Rightarrow> string \<Rightarrow> string \<Rightarrow> string \<Rightarrow> string \<Rightarrow> auth_error + unit" where
  "deliver_auth_email e recipient subject body purpose =
     (let smtp_user = env_value e ''SMTP_USERNAME'' ''''; host = env_value e ''SMTP_HOST'' '''';
          from_value = env_value e ''SMTP_FROM'' ''''; smtp_from = (if from_value = [] then smtp_user else from_value)
      in case py_int (env_value e ''SMTP_PORT'' ''587'') of
           None \<Rightarrow> Inl (Uncaught ''ValueError'')
         | Some port \<Rightarrow>
             if skip_email_delivery_for_testing e then Inr ()
             else if host = [] \<or> smtp_from = []
             then Inl (Http_exception 503 (''Email delivery is not configured. Set SMTP_HOST and SMTP_FROM before '' @ purpose @ ''.''))
             else case ae_transport e recipient subject body of None \<Rightarrow> Inr () | Some d \<Rightarrow> Inl (Http_exception 503 d))"

definition send_verification_email :: "auth_env \<Rightarrow> string \<Rightarrow> string \<Rightarrow> string \<Rightarrow> auth_error + unit" where
  "send_verification_email e recipient token organization =
     deliver_auth_email e recipient ''Verify your AuthClaw workspace''
       (mail_text [''Welcome to AuthClaw for '' @ organization @ ''.'', '''', ''Use this verification token to complete email verification:'',
          token, '''', ''If you did not request this workspace, ignore this message.'']) ''Verification''"

definition send_mfa_reset_email :: "auth_env \<Rightarrow> string \<Rightarrow> string \<Rightarrow> string \<Rightarrow> auth_error + unit" where
  "send_mfa_reset_email e recipient token organization =
     deliver_auth_email e recipient ''Reset your AuthClaw MFA setup''
       (mail_text [''AuthClaw received an MFA reset request for '' @ organization @ ''.'', '''',
          ''Use this reset token to generate a new authenticator setup key:'', token, '''',
          ''If you did not request this reset, ignore this message and keep your existing MFA setup.'']) ''MFA reset''"

definition send_password_reset_email :: "auth_env \<Rightarrow> string \<Rightarrow> string \<Rightarrow> string \<Rightarrow> auth_error + unit" where
  "send_password_reset_email e recipient token organization =
     deliver_auth_email e recipient ''Reset your AuthClaw password''
       (mail_text [''AuthClaw received a password reset request for '' @ organization @ ''.'', '''',
          ''Use this one-time reset token to create a new password:'', token, '''',
          ''This token expires soon and can only be used once.'',
          ''If you did not request this reset, contact your AuthClaw administrator.'']) ''Password reset''"

text \<open>The \<open>try\<close> around a mail: the delivery status, with the detail of a failure that is passed over.\<close>

definition mail_status :: "auth_env \<Rightarrow> auth_error + unit \<Rightarrow> auth_error + (string \<times> string option)" where
  "mail_status e r =
     (case r of
        Inr _ \<Rightarrow> Inr (''sent'', None)
      | Inl (Http_exception n d) \<Rightarrow>
          if soft_fail_email_delivery_for_local e then Inr (''failed_local_soft_bypass'', Some d) else Inl (Http_exception n d)
      | Inl x \<Rightarrow> Inl x)"

section \<open>Sessions and tokens\<close>

definition store_auth_session :: "auth_env \<Rightarrow> auth_session \<Rightarrow> auth_db \<Rightarrow> auth_db" where
  "store_auth_session e s db =
     db\<lparr>ad_sessions := filter (\<lambda>x. ss_session_id x \<noteq> ss_session_id s) (ad_sessions db)
          @ [s\<lparr>ss_expires_at := ae_now e + ae_session_ttl e\<rparr>]\<rparr>"

definition load_auth_session :: "auth_env \<Rightarrow> string \<Rightarrow> auth_db \<Rightarrow> auth_session option \<times> auth_db" where
  "load_auth_session e sid db =
     (let live = filter (\<lambda>x. \<not> ss_expires_at x \<le> ae_now e) (ad_sessions db)
      in (find (\<lambda>x. ss_session_id x = sid \<and> ss_expires_at x > ae_now e) live, db\<lparr>ad_sessions := live\<rparr>))"

definition delete_auth_session :: "string \<Rightarrow> auth_db \<Rightarrow> auth_db" where
  "delete_auth_session sid db = db\<lparr>ad_sessions := filter (\<lambda>x. ss_session_id x \<noteq> sid) (ad_sessions db)\<rparr>"

definition create_refresh_token_for_user :: "auth_env \<Rightarrow> string \<Rightarrow> int \<Rightarrow> int \<Rightarrow> string \<Rightarrow> auth_db \<Rightarrow> string \<times> auth_db" where
  "create_refresh_token_for_user e jti user tenant subject db =
     (create_jwt (ae_mac e) (ae_jwt_secret e)
        [(''sub'', JStr subject), (''tenant_id'', JInt tenant), (''user_id'', JInt user), (''jti'', JStr jti),
         (''iat'', JInt (ae_now e)), (''exp'', JInt (ae_now e + 86400))],
      db\<lparr>ad_refresh := ad_refresh db @ [\<lparr>rf_jti = jti, rf_tenant_id = tenant, rf_user_id = user, rf_subject = subject,
           rf_expires_at = ae_now e + 86400, rf_revoked_at = None\<rparr>]\<rparr>)"

definition decode :: "auth_env \<Rightarrow> string \<Rightarrow> (string \<times> jval) list option" where
  "decode e = decode_jwt (ae_mac e) (ae_jwt_secret e) (ae_environ e) (ae_now e)"

text \<open>The joined row of the token and its user; a claim of another type than its column makes the
  query raise.\<close>

definition validate_refresh_token_record :: "auth_env \<Rightarrow> (string \<times> jval) list \<Rightarrow> auth_db \<Rightarrow> auth_error + auth_user option" where
  "validate_refresh_token_record e m db =
     (if \<not> truthy (jget m ''jti'') \<or> \<not> truthy (jget m ''user_id'') \<or> \<not> truthy (jget m ''tenant_id'') then Inr None
      else case (jget m ''jti'', jget m ''user_id'', jget m ''tenant_id'') of
        (JStr jti, JInt user, JInt tenant) \<Rightarrow>
          Inr (case filter (\<lambda>(rt, u). au_id u = rf_user_id rt \<and> rf_jti rt = jti \<and> rf_user_id rt = user \<and> rf_tenant_id rt = tenant
                   \<and> rf_revoked_at rt = None \<and> rf_expires_at rt > ae_now e \<and> au_status u = ''active'')
                 (List.product (ad_refresh db) (ad_users db)) of
             [] \<Rightarrow> None | (rt, u) # _ \<Rightarrow> Some u)
      | _ \<Rightarrow> Inl (Uncaught ''DataError''))"

definition revoke_authclaw_refresh_token :: "auth_env \<Rightarrow> string \<Rightarrow> auth_db \<Rightarrow> (auth_error + bool) \<times> auth_db" where
  "revoke_authclaw_refresh_token e token db =
     (case decode e token of
        None \<Rightarrow> (Inr False, db)
      | Some m \<Rightarrow>
          if m = [] \<or> \<not> truthy (jget m ''jti'') \<or> \<not> truthy (jget m ''tenant_id'') then (Inr False, db)
          else case (jget m ''jti'', jget m ''tenant_id'') of
            (JStr jti, JInt tenant) \<Rightarrow>
              let hit = (\<lambda>r. rf_jti r = jti \<and> rf_tenant_id r = tenant \<and> rf_revoked_at r = None)
              in (Inr (list_ex hit (ad_refresh db)),
                  db\<lparr>ad_refresh := map (\<lambda>r. if hit r then r\<lparr>rf_revoked_at := Some (ae_now e)\<rparr> else r) (ad_refresh db)\<rparr>)
          | _ \<Rightarrow> (Inl (Uncaught ''DataError''), db))"

section \<open>The tenant of a request\<close>

definition bearer :: "string \<Rightarrow> string" where
  "bearer a = (if starts_with ''Bearer '' a then drop 7 a else a)"

definition key_valid :: "auth_env \<Rightarrow> string \<Rightarrow> api_key_row \<Rightarrow> bool" where
  "key_valid e h k = (ak_key_hash k = h \<and> ak_revoked_at k = None \<and>
     (case ak_expires_at k of None \<Rightarrow> True | Some t \<Rightarrow> t > ae_now e))"

text \<open>The value is the \<open>tenant_id\<close> claim as it is, or the tenant of the key.\<close>

definition resolve_tenant :: "auth_env \<Rightarrow> string option \<Rightarrow> string option \<Rightarrow> auth_db \<Rightarrow> (auth_error + jval) \<times> auth_db" where
  "resolve_tenant e x_api_key authorization db =
     (let given = (if \<not> truthy_str x_api_key \<and> truthy_str authorization then bearer (or_empty authorization) else or_empty x_api_key)
      in if given = [] then (Inl (Http_exception 401 ''Authentication credentials missing.''), db)
         else case (case decode e given of Some m \<Rightarrow> map_of m ''tenant_id'' | None \<Rightarrow> None) of
           Some v \<Rightarrow> (Inr v, db)
         | None \<Rightarrow>
             let h = ae_sha256 e (utf8 given) in
             case find (key_valid e h) (ad_keys db) of
               None \<Rightarrow> (Inl (Http_exception 401 ''Invalid API Key.''), db)
             | Some k \<Rightarrow> (Inr (JInt (ak_tenant_id k)),
                 db\<lparr>ad_keys := map (\<lambda>k. if ak_key_hash k = h then k\<lparr>ak_last_used_at := Some (ae_now e)\<rparr> else k) (ad_keys db)\<rparr>))"

definition resolve_tenant_from_authorization :: "auth_env \<Rightarrow> string option \<Rightarrow> auth_error + jval" where
  "resolve_tenant_from_authorization e authorization =
     (if \<not> truthy_str authorization then Inl (Http_exception 401 ''Authorization credentials missing.'')
      else case decode e (bearer (or_empty authorization)) of
        None \<Rightarrow> Inl (Http_exception 401 ''Invalid session token.'')
      | Some m \<Rightarrow>
          if m = [] then Inl (Http_exception 401 ''Invalid session token.'')
          else if \<not> truthy (jget m ''tenant_id'') then Inl (Http_exception 401 ''Session token is missing tenant scope.'')
          else Inr (jget m ''tenant_id''))"

definition tenant_id_from_domain :: "string option \<Rightarrow> auth_db \<Rightarrow> int option" where
  "tenant_id_from_domain domain db =
     (if \<not> truthy_str domain then None
      else map_option at_id (find (\<lambda>t. (case at_domain t of None \<Rightarrow> False | Some d \<Rightarrow> lower d = lower (or_empty domain)) \<and> at_status t = ''active'')
             (ad_tenants db)))"

end
