(* ===== verification/Auth_Routes.thy ===== *)
theory Auth_Routes
  imports Auth_Tables
begin

text \<open>
  The sign-in routes of \<open>main.py\<close>: \<open>auth_login\<close>, \<open>auth_verify_otp\<close>, \<open>auth_refresh\<close>,
  \<open>auth_logout\<close>, and the resets of the password and of the second factor.

  A reply is a status and a JSON object; an exception is the left summand.  A handler that raises
  leaves the tables as its last commit left them.
\<close>

type_synonym reply = "nat \<times> (string \<times> jval) list"
type_synonym auth_result = "(auth_error + reply) \<times> auth_db"

definition find_user :: "string \<Rightarrow> auth_db \<Rightarrow> (auth_user \<times> auth_tenant) option" where
  "find_user email db =
     (case filter (\<lambda>(u, t). at_id t = au_tenant_id u \<and> lower (au_email u) = lower email) (List.product (ad_users db) (ad_tenants db)) of
        [] \<Rightarrow> None | x # _ \<Rightarrow> Some x)"

text \<open>\<open>ORDER BY created_at DESC LIMIT 1\<close>.\<close>

definition pending_registration :: "string \<Rightarrow> auth_db \<Rightarrow> registration option" where
  "pending_registration email db =
     (case sort_key (\<lambda>r. - rg_created_at r) (filter (\<lambda>r. lower (rg_work_email r) = lower email \<and> rg_activated_at r = None) (ad_registrations db)) of
        [] \<Rightarrow> None | r # _ \<Rightarrow> Some r)"

definition update_user :: "(auth_user \<Rightarrow> bool) \<Rightarrow> (auth_user \<Rightarrow> auth_user) \<Rightarrow> auth_db \<Rightarrow> auth_db" where
  "update_user P f db = db\<lparr>ad_users := map (\<lambda>u. if P u then f u else u) (ad_users db)\<rparr>"

definition touch_login :: "auth_env \<Rightarrow> int \<Rightarrow> auth_db \<Rightarrow> auth_db" where
  "touch_login e uid db = update_user (\<lambda>u. au_id u = uid) (\<lambda>u. u\<lparr>au_last_login_at := Some (ae_now e)\<rparr>) db"

text \<open>The claims of an access token.\<close>

definition access_claims :: "auth_env \<Rightarrow> string \<Rightarrow> string \<Rightarrow> string \<Rightarrow> int \<Rightarrow> int \<Rightarrow> (string \<times> jval) list" where
  "access_claims e username role permissions tenant user =
     [(''sub'', JStr username), (''role'', JStr role), (''permissions'', JStr permissions), (''tenant_id'', JInt tenant),
      (''user_id'', JInt user), (''iat'', JInt (ae_now e)), (''exp'', JInt (ae_now e + 900))]"

definition access_token :: "auth_env \<Rightarrow> string \<Rightarrow> string \<Rightarrow> string \<Rightarrow> int \<Rightarrow> int \<Rightarrow> string" where
  "access_token e username role permissions tenant user =
     create_jwt (ae_mac e) (ae_jwt_secret e) (access_claims e username role permissions tenant user)"

definition jopt :: "string option \<Rightarrow> jval" where
  "jopt x = (case x of None \<Rightarrow> JNull | Some s \<Rightarrow> JStr s)"

section \<open>Sign-in\<close>

definition refused_login :: "registration option \<Rightarrow> auth_error + reply" where
  "refused_login row =
     (case row of
        Some r \<Rightarrow>
          if \<not> rg_email_verified r
          then Inr (400, [(''detail'', JStr ''Email not verified''), (''email_verified'', JBool False), (''email'', JStr (rg_work_email r)),
                 (''domain'', JStr (rg_domain r)), (''email_token'', JStr (rg_email_token r)), (''domain_token'', JStr (rg_domain_token r))])
          else if \<not> rg_domain_verified r
          then Inr (400, [(''detail'', JStr ''Domain not verified''), (''domain_verified'', JBool False), (''email'', JStr (rg_work_email r)),
                 (''domain'', JStr (rg_domain r)), (''domain_token'', JStr (rg_domain_token r))])
          else Inl (Http_exception 401 ''Invalid email or password.'')
      | None \<Rightarrow> Inl (Http_exception 401 ''Invalid email or password.''))"

definition signed_in_reply :: "auth_user \<Rightarrow> auth_tenant \<Rightarrow> string \<Rightarrow> string \<Rightarrow> reply" where
  "signed_in_reply u t acc ref =
     (200, [(''access_token'', JStr acc), (''refresh_token'', JStr ref),
        (''user'', JObj [(''username'', JStr (au_email u)), (''role'', JStr (au_role u)), (''permissions'', JStr (au_permissions u)),
           (''tenant_id'', JInt (au_tenant_id u)), (''user_id'', JInt (au_id u)), (''organization'', JStr (at_name t)),
           (''email_verified'', JBool (au_email_verified u)), (''domain_verified'', JBool (at_domain_verified t))])])"

definition user_session :: "string \<Rightarrow> string \<Rightarrow> bool \<Rightarrow> bool \<Rightarrow> auth_user \<Rightarrow> auth_session" where
  "user_session sid step email_verified domain_verified u =
     \<lparr>ss_session_id = sid, ss_username = au_email u, ss_role = au_role u, ss_permissions = au_permissions u,
      ss_tenant_id = au_tenant_id u, ss_user_id = au_id u, ss_email_verified = email_verified,
      ss_domain_verified = domain_verified, ss_step = step, ss_expires_at = 0\<rparr>"

text \<open>After the password: the account checks, then tokens at once or a session for the second factor.
  The two identifiers are fresh: the \<open>jti\<close> and the session.\<close>

definition login_verified :: "auth_env \<Rightarrow> string \<Rightarrow> string \<Rightarrow> string \<Rightarrow> auth_user \<Rightarrow> auth_tenant \<Rightarrow> auth_db \<Rightarrow> auth_result" where
  "login_verified e jti sid username u t db =
     (let mfa = au_mfa_enabled u \<and> \<not> disable_mfa_for_testing e in
      if au_status u \<noteq> ''active'' then (Inl (Http_exception 403 ''User account is not active.''), db)
      else if \<not> au_email_verified u
      then (Inr (400, [(''detail'', JStr ''Email not verified''), (''email_verified'', JBool False), (''email'', JStr username),
              (''email_token'', jopt (at_email_token t))]), db)
      else if \<not> at_domain_verified t
      then (Inr (400, [(''detail'', JStr ''Domain not verified''), (''domain_verified'', JBool False),
              (''domain'', JStr (or_empty (at_domain t))), (''domain_token'', jopt (at_domain_token t))]), db)
      else if mfa \<and> \<not> truthy_str (au_totp_secret u)
      then (Inr (400, [(''error'', JStr ''MFA_NOT_CONFIGURED''), (''message'', JStr ''MFA is not configured for this tenant.'')]), db)
      else if \<not> mfa
      then (let acc = access_token e (au_email u) (au_role u) (au_permissions u) (au_tenant_id u) (au_id u);
                (ref, db') = create_refresh_token_for_user e jti (au_id u) (au_tenant_id u) (au_email u) (touch_login e (au_id u) db)
            in (Inr (signed_in_reply u t acc ref), db'))
      else (Inr (200, [(''mfa_required'', JBool True), (''session_id'', JStr sid),
              (''message'', JStr ''MFA required. Enter the 6-digit OTP code.'')]),
            store_auth_session e (user_session sid ''otp'' (au_email_verified u) (at_domain_verified t) u) db))"

definition auth_login :: "auth_env \<Rightarrow> string \<Rightarrow> string \<Rightarrow> string \<Rightarrow> string \<Rightarrow> auth_db \<Rightarrow> auth_result" where
  "auth_login e jti sid username password db =
     (case find_user username db of
        None \<Rightarrow> (refused_login (pending_registration username db), db)
      | Some (u, t) \<Rightarrow>
          if \<not> verify_password (ae_kdf e) password (au_password_hash u)
          then (Inl (Http_exception 401 ''Invalid email or password.''), db)
          else login_verified e jti sid username u t db)"

section \<open>The second factor\<close>

definition auth_verify_otp :: "auth_env \<Rightarrow> string \<Rightarrow> string \<Rightarrow> string \<Rightarrow> auth_db \<Rightarrow> auth_result" where
  "auth_verify_otp e jti sid code db =
     (let (session, db1) = load_auth_session e sid db in
      case session of
        None \<Rightarrow> (Inl (Http_exception 400 ''Invalid or expired session.''), db1)
      | Some s \<Rightarrow>
          if ss_step s \<noteq> ''otp'' then (Inl (Http_exception 400 ''Invalid or expired session.''), db1)
          else case (case find (\<lambda>u. au_id u = ss_user_id s \<and> au_tenant_id u = ss_tenant_id s) (ad_users db1) of
                       None \<Rightarrow> None | Some u \<Rightarrow> au_totp_secret u) of
            None \<Rightarrow> (Inr (400, [(''error'', JStr ''MFA_NOT_CONFIGURED''), (''message'', JStr ''MFA is not configured for this tenant.'')]), db1)
          | Some secret \<Rightarrow>
              if secret = []
              then (Inr (400, [(''error'', JStr ''MFA_NOT_CONFIGURED''), (''message'', JStr ''MFA is not configured for this tenant.'')]), db1)
              else if \<not> verify_totp_token (ae_sha1 e) (ae_now e) secret code 1
              then (Inl (Http_exception 401 ''Invalid OTP code.''), db1)
              else (let acc = access_token e (ss_username s) (ss_role s) (ss_permissions s) (ss_tenant_id s) (ss_user_id s);
                        (ref, db2) = create_refresh_token_for_user e jti (ss_user_id s) (ss_tenant_id s) (ss_username s) db1
                    in (Inr (200, [(''access_token'', JStr acc), (''refresh_token'', JStr ref),
                          (''user'', JObj [(''username'', JStr (ss_username s)), (''role'', JStr (ss_role s)),
                             (''permissions'', JStr (ss_permissions s)), (''tenant_id'', JInt (ss_tenant_id s)),
                             (''user_id'', JInt (ss_user_id s)), (''email_verified'', JBool (ss_email_verified s)),
                             (''domain_verified'', JBool (ss_domain_verified s))])]),
                        delete_auth_session sid (touch_login e (ss_user_id s) db2))))"

section \<open>Refresh and logout\<close>

definition auth_refresh :: "auth_env \<Rightarrow> string \<Rightarrow> auth_db \<Rightarrow> auth_error + reply" where
  "auth_refresh e token db =
     (case decode e token of
        None \<Rightarrow> Inl (Http_exception 401 ''Invalid refresh token.'')
      | Some m \<Rightarrow>
          if m = [] then Inl (Http_exception 401 ''Invalid refresh token.'')
          else rbind (validate_refresh_token_record e m db) (\<lambda>row.
            case row of None \<Rightarrow> Inl (Http_exception 401 ''User no longer exists.'')
            | Some u \<Rightarrow>
                if \<not> au_email_verified u then Inl (Http_exception 401 ''User email is no longer verified.'')
                else Inr (200, [(''access_token'', JStr (access_token e (au_email u) (au_role u) (au_permissions u) (au_tenant_id u) (au_id u)))])))"

definition auth_logout :: "auth_env \<Rightarrow> string option \<Rightarrow> auth_db \<Rightarrow> auth_result" where
  "auth_logout e token db =
     (if \<not> truthy_str token then (Inr (200, [(''status'', JStr ''success''), (''refresh_token_revoked'', JBool False)]), db)
      else case revoke_authclaw_refresh_token e (or_empty token) db of
        (Inl x, db') \<Rightarrow> (Inl x, db')
      | (Inr b, db') \<Rightarrow> (Inr (200, [(''status'', JStr ''success''), (''refresh_token_revoked'', JBool b)]), db'))"

section \<open>Password reset\<close>

definition reset_message :: "(string \<times> jval) list" where
  "reset_message = [(''status'', JStr ''success''),
     (''message'', JStr ''If the account exists, a password reset token has been sent to the verified email address.'')]"

definition organization_or :: "string \<Rightarrow> string" where
  "organization_or name = (if name = [] then ''your organization'' else name)"

definition token_fields :: "auth_env \<Rightarrow> string \<Rightarrow> string \<times> string option \<Rightarrow> (string \<times> jval) list" where
  "token_fields e token status =
     (if skip_email_delivery_for_testing e \<or> fst status = ''failed_local_soft_bypass''
      then (''reset_token'', JStr token) # (if truthy_str (snd status) then [(''email_error'', jopt (snd status))] else []) else [])"

definition auth_password_reset_request :: "auth_env \<Rightarrow> string \<Rightarrow> string \<Rightarrow> auth_db \<Rightarrow> auth_result" where
  "auth_password_reset_request e random32 username db =
     (let email = lower (strip username) in
      if email = [] then (Inl (Http_exception 400 ''Email is required.''), db)
      else case find_user email db of
        None \<Rightarrow> (Inr (200, reset_message @ (if value_production e then []
             else [(''email_delivery'', JStr ''not_attempted''),
                   (''local_debug'', JStr (''No active tenant user exists for this email. Register and verify the tenant first, '' @
                      ''or use the exact email used during tenant activation.''))])), db)
      | Some (u, t) \<Rightarrow>
          if au_status u \<noteq> ''active'' then (Inl (Http_exception 403 ''User account is not active.''), db)
          else if \<not> au_email_verified u then (Inl (Http_exception 400 ''Email must be verified before password reset.''), db)
          else if \<not> at_domain_verified t then (Inl (Http_exception 400 ''Domain must be verified before password reset.''), db)
          else let token = generate_reset_token random32;
                   db' = db\<lparr>ad_resets := filter (\<lambda>r. \<not> (rs_user_id r = au_id u \<and> rs_used_at r = None)) (ad_resets db)
                     @ [\<lparr>rs_token_hash = hash_reset_token (ae_sha256 e) token, rs_tenant_id = au_tenant_id u, rs_user_id = au_id u,
                         rs_email = au_email u, rs_expires_at = ae_now e + 1800, rs_used_at = None\<rparr>]\<rparr>
               in (rbind (mail_status e (send_password_reset_email e (au_email u) token (organization_or (at_name t)))) (\<lambda>status.
                     Inr (200, reset_message @ [(''email_delivery'', JStr (fst status))] @ token_fields e token status)), db'))"

definition reset_row_valid :: "auth_env \<Rightarrow> string \<Rightarrow> reset_row \<times> auth_user \<Rightarrow> bool" where
  "reset_row_valid e h x = (case x of (r, u) \<Rightarrow> au_id u = rs_user_id r \<and> au_tenant_id u = rs_tenant_id r \<and> rs_token_hash r = h
     \<and> rs_used_at r = None \<and> rs_expires_at r > ae_now e \<and> au_status u = ''active'')"

definition auth_password_reset_confirm :: "auth_env \<Rightarrow> string \<Rightarrow> string \<Rightarrow> string \<Rightarrow> auth_db \<Rightarrow> auth_result" where
  "auth_password_reset_confirm e salt token new_password db =
     (if length new_password < 8 then (Inl (Http_exception 400 ''Password must be at least 8 characters.''), db)
      else let h = hash_reset_token (ae_sha256 e) (strip token) in
        case find (reset_row_valid e h) (List.product (ad_resets db) (ad_users db)) of
          None \<Rightarrow> (Inl (Http_exception 400 ''Invalid or expired password reset token.''), db)
        | Some (r, u) \<Rightarrow>
            (case hash_password (ae_kdf e) (ae_rounds e) salt new_password of
               None \<Rightarrow> (Inl (Uncaught ''ValueError''), db)
             | Some ph \<Rightarrow>
                 (Inr (200, [(''status'', JStr ''success''), (''message'', JStr ''Password reset complete. Sign in with your new password.''),
                    (''email'', JStr (au_email u))]),
                  (update_user (\<lambda>v. au_id v = rs_user_id r \<and> au_tenant_id v = rs_tenant_id r) (\<lambda>v. v\<lparr>au_password_hash := ph\<rparr>) db)
                    \<lparr>ad_resets := map (\<lambda>x. if rs_token_hash x = h then x\<lparr>rs_used_at := Some (ae_now e)\<rparr> else x) (ad_resets db),
                     ad_refresh := map (\<lambda>x. if rf_user_id x = rs_user_id r \<and> rf_tenant_id x = rs_tenant_id r \<and> rf_revoked_at x = None
                       then x\<lparr>rf_revoked_at := Some (ae_now e)\<rparr> else x) (ad_refresh db)\<rparr>)))"

section \<open>Reset of the second factor\<close>

definition auth_mfa_reset_request :: "auth_env \<Rightarrow> string \<Rightarrow> string \<Rightarrow> string \<Rightarrow> auth_db \<Rightarrow> auth_result" where
  "auth_mfa_reset_request e reset_token username password db =
     (case find_user username db of
        None \<Rightarrow> (Inl (Http_exception 401 ''Invalid email or password.''), db)
      | Some (u, t) \<Rightarrow>
          if \<not> verify_password (ae_kdf e) password (au_password_hash u) then (Inl (Http_exception 401 ''Invalid email or password.''), db)
          else if au_status u \<noteq> ''active'' then (Inl (Http_exception 403 ''User account is not active.''), db)
          else if \<not> au_email_verified u then (Inl (Http_exception 400 ''Email must be verified before MFA reset.''), db)
          else if \<not> at_domain_verified t then (Inl (Http_exception 400 ''Domain must be verified before MFA reset.''), db)
          else (rbind (mail_status e (send_mfa_reset_email e (au_email u) reset_token (organization_or (at_name t)))) (\<lambda>status.
                  let extra = token_fields e reset_token status in
                  Inr (200, [(''status'', JStr ''success''),
                    (''message'', JStr (if extra = [] then ''MFA reset token sent to your verified email address.''
                       else ''MFA reset token generated. Email delivery is unavailable locally, so use the token shown here.'')),
                    (''email_delivery'', JStr (fst status))] @ extra)),
                store_auth_session e (user_session reset_token ''mfa_reset'' True True u) db))"

text \<open>Where mail may fail softly, a password stands in for the reset token.\<close>

definition mfa_reset_by_password :: "auth_env \<Rightarrow> string option \<Rightarrow> string option \<Rightarrow> auth_db \<Rightarrow> auth_session option" where
  "mfa_reset_by_password e username password db =
     (if \<not> soft_fail_email_delivery_for_local e \<or> \<not> truthy_str username \<or> \<not> truthy_str password then None
      else case find_user (or_empty username) db of
        None \<Rightarrow> None
      | Some (u, t) \<Rightarrow>
          if \<not> verify_password (ae_kdf e) (or_empty password) (au_password_hash u) \<or> au_status u \<noteq> ''active''
             \<or> \<not> au_email_verified u \<or> \<not> at_domain_verified t then None
          else Some (user_session [] ''mfa_reset'' True True u))"

definition rotate_secret_for :: "auth_session \<Rightarrow> string \<Rightarrow> auth_db \<Rightarrow> auth_db" where
  "rotate_secret_for s secret db =
     (update_user (\<lambda>u. au_id u = ss_user_id s \<and> au_tenant_id u = ss_tenant_id s \<and> lower (au_email u) = lower (ss_username s))
        (\<lambda>u. u\<lparr>au_totp_secret := Some secret, au_mfa_enabled := True\<rparr>) db)
      \<lparr>ad_tenants := map (\<lambda>t. if at_id t = ss_tenant_id s \<and> (case at_email t of None \<Rightarrow> False | Some m \<Rightarrow> lower m = lower (ss_username s))
         then t\<lparr>at_totp_secret := Some secret\<rparr> else t) (ad_tenants db)\<rparr>"

definition auth_mfa_reset_confirm :: "auth_env \<Rightarrow> string \<Rightarrow> string \<Rightarrow> string option \<Rightarrow> string option \<Rightarrow> auth_db \<Rightarrow> auth_result" where
  "auth_mfa_reset_confirm e random10 token username password db =
     (let (stored, db1) = load_auth_session e token db;
          by_token = (case stored of Some s \<Rightarrow> if ss_step s = ''mfa_reset'' then Some s else None | None \<Rightarrow> None);
          session = (case by_token of Some s \<Rightarrow> Some s | None \<Rightarrow> mfa_reset_by_password e username password db1)
      in case session of
           None \<Rightarrow> (Inl (Http_exception 400 ''Invalid or expired MFA reset token.''), db1)
         | Some s \<Rightarrow>
             let secret = generate_totp_secret random10 in
             if \<not> list_ex (\<lambda>u. au_id u = ss_user_id s \<and> au_tenant_id u = ss_tenant_id s \<and> lower (au_email u) = lower (ss_username s)) (ad_users db1)
             then (Inl (Http_exception 404 ''User account not found for MFA reset.''), db1)
             else (Inr (200, [(''status'', JStr ''success''),
                     (''message'', JStr ''MFA setup key rotated. Add the new key to your authenticator app, then sign in.''),
                     (''totp_secret'', JStr secret), (''otpauth_uri'', JStr (build_otpauth_uri (ss_username s) secret))]),
                   delete_auth_session token (rotate_secret_for s secret db1)))"

end
