(* ===== verification/Auth_Accounts.thy ===== *)
theory Auth_Accounts
  imports Auth_Routes
begin

text \<open>
  Onboarding and API keys of \<open>main.py\<close>: \<open>auth_register\<close>, \<open>auth_verify_email\<close>,
  \<open>auth_verify_domain\<close>, the activation of a workspace with its starting policies, and the four
  routes on keys.

  The answer of the DNS resolver is an argument: the text records, or the message of an error.
\<close>

section \<open>Activation\<close>

definition starter_policies :: "(string \<times> string \<times> jval) list" where
  "starter_policies =
    [(''PII Protection'', ''Security'',
      JObj [(''pii_redaction'', JBool True), (''detect'', JList [JStr ''email'', JStr ''phone'', JStr ''aadhaar'', JStr ''credit_card'']),
            (''action'', JStr ''redact'')]),
     (''Prompt Injection Defense'', ''Security'',
      JObj [(''blocked_keywords'', JList [JStr ''ignore previous instructions'', JStr ''bypass policy'', JStr ''reveal system prompt'']),
            (''action'', JStr ''block_or_review'')]),
     (''Secrets Exfiltration Guard'', ''Compliance'',
      JObj [(''secret_detection'', JBool True), (''detect'', JList [JStr ''api_key'', JStr ''token'', JStr ''password'', JStr ''private_key'']),
            (''action'', JStr ''block'')])]"

definition ensure_default_tenant_policies :: "int \<Rightarrow> auth_db \<Rightarrow> auth_db" where
  "ensure_default_tenant_policies tenant db =
     (if list_ex (\<lambda>p. sp_tenant_id p = tenant) (ad_policies db) then db
      else db\<lparr>ad_policies := ad_policies db @ map (\<lambda>(name, type, rules).
             \<lparr>sp_tenant_id = tenant, sp_name = name, sp_type = type, sp_rules = json_dumps rules\<rparr>) starter_policies\<rparr>)"

text \<open>\<open>strip().split(" ", 1)\<close>: never empty, and one element when there is no space.\<close>

definition name_parts :: "string \<Rightarrow> string \<times> string option" where
  "name_parts full =
     (let s = strip full in
      if CHR '' '' \<in> set s then (let (a, b) = split_once (CHR '' '') s in (a, Some b)) else (s, None))"

text \<open>The address of a user is unique over all tenants.\<close>

definition activate_verified_registration :: "auth_env \<Rightarrow> registration \<Rightarrow> auth_db \<Rightarrow> (auth_error + int) \<times> auth_db" where
  "activate_verified_registration e r db =
     (if rg_tenant_id r \<noteq> None \<and> rg_tenant_id r \<noteq> Some 0 then (Inr (the (rg_tenant_id r)), db)
      else
          let tenant = ad_next_tenant db; (first, last) = name_parts (rg_full_name r);
              t = \<lparr>at_id = tenant, at_name = rg_organization_name r, at_status = ''active'', at_domain = Some (rg_domain r),
                   at_email = Some (rg_work_email r), at_email_verified = True, at_domain_verified = True, at_email_token = None,
                   at_domain_token = Some (rg_domain_token r), at_totp_secret = Some (rg_totp_secret r)\<rparr>;
              u = \<lparr>au_id = ad_next_user db, au_tenant_id = tenant, au_first_name = Some first, au_last_name = last,
                   au_email = rg_work_email r, au_password_hash = rg_password_hash r, au_role = ''Super Admin'',
                   au_permissions = ''all_access'', au_email_verified = True, au_mfa_enabled = \<not> disable_mfa_for_testing e,
                   au_totp_secret = Some (rg_totp_secret r), au_status = ''active'', au_last_login_at = None\<rparr>
          in if list_ex (\<lambda>v. au_email v = rg_work_email r) (ad_users db) then (Inl (Uncaught ''IntegrityError''), db)
             else (Inr tenant, ensure_default_tenant_policies tenant
               (db\<lparr>ad_tenants := ad_tenants db @ [t], ad_users := ad_users db @ [u], ad_next_tenant := tenant + 1,
                   ad_next_user := ad_next_user db + 1,
                   ad_registrations := map (\<lambda>x. if rg_id x = rg_id r
                     then x\<lparr>rg_tenant_id := Some tenant, rg_activated_at := Some (ae_now e)\<rparr> else x) (ad_registrations db)\<rparr>)))"

section \<open>Registration\<close>

record register_request =
  rq_name :: "string option"
  rq_company_name :: "string option"
  rq_full_name :: "string option"
  rq_first_name :: "string option"
  rq_last_name :: "string option"
  rq_email :: string
  rq_password :: string
  rq_domain :: string

definition requested_full_name :: "register_request \<Rightarrow> string" where
  "requested_full_name q =
     str_or (rq_full_name q) (strip (intercalate '' '' (map or_empty (filter truthy_str [rq_first_name q, rq_last_name q]))))"

definition registered_already :: "auth_env \<Rightarrow> string \<Rightarrow> string \<Rightarrow> auth_db \<Rightarrow> bool" where
  "registered_already e email domain db =
     (let same = (\<lambda>x y. case x of None \<Rightarrow> False | Some s \<Rightarrow> lower s = lower y); d = \<not> skip_domain_verification_for_testing e
      in list_ex (\<lambda>t. same (at_email t) email \<or> d \<and> same (at_domain t) domain) (ad_tenants db)
         \<or> list_ex (\<lambda>r. lower (rg_work_email r) = lower email \<or> d \<and> lower (rg_domain r) = lower domain) (ad_registrations db))"

text \<open>The fresh values: a salt, the two tokens and ten bytes for the authenticator.\<close>

record fresh_values =
  fv_salt :: string
  fv_email_token :: string
  fv_domain_hex :: string
  fv_random10 :: string

definition register_reply :: "auth_env \<Rightarrow> string \<Rightarrow> string \<Rightarrow> string \<Rightarrow> string \<Rightarrow> string \<times> string option \<Rightarrow> (string \<times> jval) list" where
  "register_reply e email_token domain_token secret uri status =
     (let skip = skip_email_delivery_for_testing e; soft = fst status = ''failed_local_soft_bypass'' in
      [(''status'', JStr ''success''),
       (''message'', JStr (if skip then ''Registration received. Email delivery skipped for local testing; use the returned email token.''
          else if soft then ''Registration received. Email delivery failed in local development; use the returned email token.''
          else ''Registration received. Verify your email, then publish the DNS TXT record to activate the tenant.'')),
       (''email_delivery'', JStr (if skip then ''skipped_for_testing'' else fst status)), (''domain_token'', JStr domain_token),
       (''totp_secret'', JStr secret), (''otpauth_uri'', JStr uri)] @
      (if skip then [(''email_token'', JStr email_token)]
       else if soft then [(''email_token'', JStr email_token), (''email_error'', jopt (snd status))] else []))"

definition auth_register :: "auth_env \<Rightarrow> fresh_values \<Rightarrow> register_request \<Rightarrow> auth_db \<Rightarrow> auth_result" where
  "auth_register e v q db =
     (let organization = str_or (rq_company_name q) (or_empty (rq_name q)); full = requested_full_name q in
      if organization = [] then (Inl (Http_exception 400 ''Organization name is required.''), db)
      else if full = [] then (Inl (Http_exception 400 ''Full name is required.''), db)
      else if rq_email q = [] \<or> CHR ''@'' \<notin> set (rq_email q) then (Inl (Http_exception 400 ''A valid work email is required.''), db)
      else if rq_domain q = [] then (Inl (Http_exception 400 ''Organization domain is required.''), db)
      else case hash_password (ae_kdf e) (ae_rounds e) (fv_salt v) (rq_password q) of
        None \<Rightarrow> (Inl (Uncaught ''ValueError''), db)
      | Some ph \<Rightarrow>
          let domain_token = ''authclaw-domain-verification='' @ take 16 (fv_domain_hex v);
              secret = generate_totp_secret (fv_random10 v)
          in if registered_already e (rq_email q) (rq_domain q) db
             then (Inl (Http_exception 400 (if skip_domain_verification_for_testing e
                then ''Organization with this email is already registered or pending verification.''
                else ''Organization with this email or domain is already registered or pending verification.'')), db)
             else case mail_status e (send_verification_email e (rq_email q) (fv_email_token v) organization) of
               Inl x \<Rightarrow> (Inl x, db)
             | Inr status \<Rightarrow>
                 (Inr (200, register_reply e (fv_email_token v) domain_token secret (build_otpauth_uri (rq_email q) secret) status),
                  db\<lparr>ad_registrations := ad_registrations db @ [\<lparr>rg_id = ad_next_registration db, rg_organization_name = organization,
                       rg_full_name = full, rg_work_email = rq_email q, rg_domain = rq_domain q, rg_password_hash = ph,
                       rg_email_token = fv_email_token v, rg_domain_token = domain_token, rg_totp_secret = secret,
                       rg_email_verified = False, rg_domain_verified = False, rg_tenant_id = None, rg_created_at = ae_now e,
                       rg_activated_at = None\<rparr>],
                     ad_next_registration := ad_next_registration db + 1\<rparr>))"

definition update_registration :: "int \<Rightarrow> (registration \<Rightarrow> registration) \<Rightarrow> auth_db \<Rightarrow> auth_db" where
  "update_registration i f db = db\<lparr>ad_registrations := map (\<lambda>r. if rg_id r = i then f r else r) (ad_registrations db)\<rparr>"

definition set_email_verified :: "registration \<Rightarrow> registration" where
  "set_email_verified r = r\<lparr>rg_email_verified := True\<rparr>"

definition set_domain_verified :: "registration \<Rightarrow> registration" where
  "set_domain_verified r = r\<lparr>rg_domain_verified := True\<rparr>"

text \<open>A failing activation rolls the whole connection back.\<close>

definition auth_verify_email :: "auth_env \<Rightarrow> string \<Rightarrow> auth_db \<Rightarrow> auth_result" where
  "auth_verify_email e token db =
     (case find (\<lambda>r. rg_email_token r = token) (ad_registrations db) of
        None \<Rightarrow> (Inl (Http_exception 400 ''Invalid verification token.''), db)
      | Some r \<Rightarrow>
          let db1 = update_registration (rg_id r) set_email_verified db;
              plain = [(''status'', JStr ''success''), (''message'', JStr ''Email verified successfully.''), (''activated'', JBool False)]
          in if \<not> skip_domain_verification_for_testing e then (Inr (200, plain), db1)
             else (case activate_verified_registration e (set_domain_verified (set_email_verified r))
                          (update_registration (rg_id r) set_domain_verified db1) of
                 (Inl x, _) \<Rightarrow> (Inl x, db)
               | (Inr tenant, db2) \<Rightarrow>
                   (Inr (200, [(''status'', JStr ''success''),
                      (''message'', JStr ''Email verified successfully. Domain verification skipped for local testing; tenant workspace activated.''),
                      (''tenant_id'', JInt tenant), (''domain_verification_skipped'', JBool True), (''activated'', JBool True)]), db2)))"

definition auth_verify_domain :: "auth_env \<Rightarrow> string + string list \<Rightarrow> string \<Rightarrow> auth_db \<Rightarrow> auth_result" where
  "auth_verify_domain e dns domain db =
     (case find (\<lambda>r. lower (rg_domain r) = lower domain) (ad_registrations db) of
        None \<Rightarrow> (Inl (Http_exception 400 ''Domain not registered.''), db)
      | Some r \<Rightarrow>
          if \<not> rg_email_verified r
          then (Inl (Http_exception 400 ''Email verification must be completed before domain activation.''), db)
          else case dns of
            Inl err \<Rightarrow> (Inl (Http_exception 400 (''DNS resolver query failed: '' @ err)), db)
          | Inr txts \<Rightarrow>
              if \<not> list_ex (str_in (rg_domain_token r)) txts
              then (Inl (Http_exception 400 (''Domain verification record not found. Expected record value containing: '' @ rg_domain_token r)), db)
              else (case activate_verified_registration e (set_domain_verified r)
                           (update_registration (rg_id r) set_domain_verified db) of
                  (Inl x, _) \<Rightarrow> (Inl x, db)
                | (Inr tenant, db2) \<Rightarrow>
                    (Inr (200, [(''status'', JStr ''success''), (''message'', JStr ''Domain ownership verified. Tenant workspace activated.''),
                       (''tenant_id'', JInt tenant)]), db2)))"

section \<open>API keys\<close>

definition key_audit :: "auth_env \<Rightarrow> string \<Rightarrow> string \<Rightarrow> string \<Rightarrow> int \<Rightarrow> auth_db \<Rightarrow> auth_db" where
  "key_audit e stamp query result tenant db =
     db\<lparr>ad_chain := audit_call (ae_sha256 e) stamp (plain_block query result True ''LOW'' ''completed'' None (Some tenant)) (ad_chain db)\<rparr>"

definition key_ttl :: "auth_env \<Rightarrow> int option" where
  "key_ttl e = py_int (case ae_environ e ''AUTHCLAW_API_KEY_TTL_DAYS'' of None \<Rightarrow> ''365'' | Some v \<Rightarrow> v)"

definition fresh_key :: "auth_env \<Rightarrow> int \<Rightarrow> string \<Rightarrow> string \<Rightarrow> int \<Rightarrow> auth_db \<Rightarrow> api_key_row" where
  "fresh_key e tenant name raw ttl db =
     \<lparr>ak_id = ad_next_key db, ak_tenant_id = tenant, ak_name = name, ak_key_hash = ae_sha256 e (utf8 raw), ak_key_prefix = take 10 raw,
      ak_created_at = ae_now e, ak_last_used_at = None, ak_expires_at = Some (ae_now e + ttl * 86400), ak_revoked_at = None\<rparr>"

definition insert_key :: "api_key_row \<Rightarrow> auth_db \<Rightarrow> auth_db" where
  "insert_key k db = db\<lparr>ad_keys := ad_keys db @ [k], ad_next_key := ad_next_key db + 1\<rparr>"

definition revoke_key_row :: "auth_env \<Rightarrow> int \<Rightarrow> int \<Rightarrow> auth_db \<Rightarrow> auth_db" where
  "revoke_key_row e key tenant db =
     db\<lparr>ad_keys := map (\<lambda>k. if ak_id k = key \<and> ak_tenant_id k = tenant then k\<lparr>ak_revoked_at := Some (ae_now e)\<rparr> else k) (ad_keys db)\<rparr>"

text \<open>\<open>stamp\<close> is the time of the audit record, \<open>random_url\<close> the random part of the key; the
  reply carries the expiry in seconds, the program as a date.\<close>

definition generate_tenant_api_key :: "auth_env \<Rightarrow> string \<Rightarrow> string \<Rightarrow> string \<Rightarrow> int \<Rightarrow> auth_db \<Rightarrow> auth_result" where
  "generate_tenant_api_key e stamp random_url name tenant db =
     (let raw = ''ac_'' @ random_url in
      case key_ttl e of None \<Rightarrow> (Inl (Uncaught ''ValueError''), db)
      | Some ttl \<Rightarrow>
          (Inr (200, [(''status'', JStr ''success''), (''api_key'', JStr raw), (''expires_at'', JInt (ae_now e + ttl * 86400)),
               (''message'', JStr (''API key generated successfully. Copy it now; it will not be shown again. '' @
                  ''Your API keys are securely hashed and stored.''))]),
           key_audit e stamp (''Generate AuthClaw API Key: '' @ name)
             (''Tenant API key created with prefix '' @ take 10 raw @ ''. Full key was shown once and stored as a hash.'') tenant
             (insert_key (fresh_key e tenant name raw ttl db) db)))"

definition list_tenant_api_keys :: "int \<Rightarrow> auth_db \<Rightarrow> (api_key_row \<times> string) list" where
  "list_tenant_api_keys tenant db =
     map (\<lambda>k. (k, if ak_revoked_at k \<noteq> None then ''revoked'' else ''active''))
       (sort_key (\<lambda>k. - ak_id k) (filter (\<lambda>k. ak_tenant_id k = tenant) (ad_keys db)))"

definition revoke_tenant_api_key :: "auth_env \<Rightarrow> string \<Rightarrow> int \<Rightarrow> int \<Rightarrow> auth_db \<Rightarrow> auth_result" where
  "revoke_tenant_api_key e stamp key tenant db =
     (Inr (200, [(''status'', JStr ''success''), (''message'', JStr ''API key revoked successfully.'')]),
      key_audit e stamp (''Revoke AuthClaw API Key: '' @ show_int key) ''Tenant API key revoked.'' tenant (revoke_key_row e key tenant db))"

definition rotate_tenant_api_key :: "auth_env \<Rightarrow> string \<Rightarrow> string \<Rightarrow> int \<Rightarrow> string option \<Rightarrow> int \<Rightarrow> auth_db \<Rightarrow> auth_result" where
  "rotate_tenant_api_key e stamp random_url key name tenant db =
     (let raw = ''ac_'' @ random_url in
      case key_ttl e of None \<Rightarrow> (Inl (Uncaught ''ValueError''), db)
      | Some ttl \<Rightarrow>
          (case find (\<lambda>k. ak_id k = key \<and> ak_tenant_id k = tenant \<and> ak_revoked_at k = None) (ad_keys db) of
             None \<Rightarrow> (Inl (Http_exception 404 ''Active API key not found.''), db)
           | Some k \<Rightarrow>
               let db1 = revoke_key_row e key tenant db in
               (Inr (200, [(''status'', JStr ''success''), (''api_key'', JStr raw), (''expires_at'', JInt (ae_now e + ttl * 86400)),
                    (''message'', JStr (''API key rotated successfully. Copy the new key now; it will not be shown again. '' @
                       ''Your API key is securely stored and encrypted.''))]),
                key_audit e stamp (''Rotate AuthClaw API Key: '' @ show_int key)
                  (''Tenant API key rotated. New key prefix '' @ take 10 raw @ '' was shown once and stored as a hash.'') tenant
                  (insert_key (fresh_key e tenant (str_or name (ak_name k @ '' (rotated)'')) raw ttl db1) db1))))"

end
