(* ===== verification/Auth_Props.thy ===== *)
theory Auth_Props
  imports Auth_Accounts
begin

text \<open>
  What the sign-in code guarantees, and where it does not: the second factor, refresh tokens, API
  keys, resets and onboarding.
\<close>

section \<open>Decoding the tokens of the service\<close>

lemma dict_claims [simp]: "dict_json (JObj (access_claims e username role permissions tenant user))"
  by (simp add: access_claims_def)

lemma jget_Cons: "jget ((k, v) # m) x = (if x = k then v else jget m x)"
  by (simp add: jget_def)

lemma decode_token_at:
  assumes "dict_json (JObj m)" and "ae_mac e' = ae_mac e" and "ae_jwt_secret e' = ae_jwt_secret e"
    and "jget m ''exp'' = JInt x" and "x \<noteq> 0"
  shows "decode e' (create_jwt (ae_mac e) (ae_jwt_secret e) m) = (if ae_now e' \<le> x then Some m else None)"
  using decode_created [OF assms(1), of "ae_mac e" "ae_jwt_secret e" "ae_environ e'" "ae_now e'"] assms(2-)
  by (simp add: decode_def unexpired_def int_of_jval_def)

definition refresh_claims :: "auth_env \<Rightarrow> string \<Rightarrow> int \<Rightarrow> int \<Rightarrow> string \<Rightarrow> (string \<times> jval) list" where
  "refresh_claims e jti user tenant subject =
     [(''sub'', JStr subject), (''tenant_id'', JInt tenant), (''user_id'', JInt user), (''jti'', JStr jti),
      (''iat'', JInt (ae_now e)), (''exp'', JInt (ae_now e + 86400))]"

lemma refresh_token_claims:
  "create_refresh_token_for_user e jti user tenant subject db =
     (create_jwt (ae_mac e) (ae_jwt_secret e) (refresh_claims e jti user tenant subject),
      db\<lparr>ad_refresh := ad_refresh db @ [\<lparr>rf_jti = jti, rf_tenant_id = tenant, rf_user_id = user, rf_subject = subject,
           rf_expires_at = ae_now e + 86400, rf_revoked_at = None\<rparr>]\<rparr>)"
  by (simp add: create_refresh_token_for_user_def refresh_claims_def)

lemma decode_refresh:
  assumes "ae_mac e' = ae_mac e" and "ae_jwt_secret e' = ae_jwt_secret e" and "0 \<le> ae_now e" and "ae_now e' \<le> ae_now e + 86400"
  shows "decode e' (create_jwt (ae_mac e) (ae_jwt_secret e) (refresh_claims e jti user tenant subject))
    = Some (refresh_claims e jti user tenant subject)"
  by (subst decode_token_at [where x = "ae_now e + 86400"]) (use assms in \<open>simp_all add: refresh_claims_def jget_Cons\<close>)

lemma bearer_token: "bearer (''Bearer '' @ t) = t"
  by (simp add: bearer_def)

lemmas bearer_simp [simp] = bearer_token [simplified]

lemma token_nonempty: "create_jwt mac secret m \<noteq> []"
  by (simp add: create_jwt_def signing_input_def Let_def)

section \<open>Refresh tokens\<close>

definition token_hit :: "string \<Rightarrow> int \<Rightarrow> refresh_row \<Rightarrow> bool" where
  "token_hit jti tenant = (\<lambda>r. rf_jti r = jti \<and> rf_tenant_id r = tenant \<and> rf_revoked_at r = None)"

lemma revoke_rows:
  assumes "decode e token = Some m" and "jget m ''jti'' = JStr jti" and "jget m ''tenant_id'' = JInt tenant"
    and "jti \<noteq> []" and "tenant \<noteq> 0" and "m \<noteq> []"
  shows "revoke_authclaw_refresh_token e token db = (Inr (list_ex (token_hit jti tenant) (ad_refresh db)),
    db\<lparr>ad_refresh := map (\<lambda>r. if token_hit jti tenant r then r\<lparr>rf_revoked_at := Some (ae_now e)\<rparr> else r) (ad_refresh db)\<rparr>)"
  using assms by (simp add: revoke_authclaw_refresh_token_def token_hit_def Let_def)

lemma no_hit_after:
  "r \<in> set (map (\<lambda>r. if token_hit jti tenant r then r\<lparr>rf_revoked_at := Some t\<rparr> else r) rows) \<Longrightarrow> \<not> token_hit jti tenant r"
proof -
  assume "r \<in> set (map (\<lambda>r. if token_hit jti tenant r then r\<lparr>rf_revoked_at := Some t\<rparr> else r) rows)"
  then obtain x where "r = (if token_hit jti tenant x then x\<lparr>rf_revoked_at := Some t\<rparr> else x)"
    unfolding set_map by (elim imageE)
  then show ?thesis by (cases "token_hit jti tenant x") (auto simp: token_hit_def)
qed

lemma validate_without_hit:
  assumes "\<forall>r\<in>set (ad_refresh db). \<not> token_hit jti tenant r"
    and "jget m ''jti'' = JStr jti" and "jget m ''tenant_id'' = JInt tenant" and "jget m ''user_id'' = JInt user"
  shows "validate_refresh_token_record e m db = Inr None"
proof -
  have "filter (\<lambda>(rt, u). au_id u = rf_user_id rt \<and> rf_jti rt = jti \<and> rf_user_id rt = user \<and> rf_tenant_id rt = tenant
      \<and> rf_revoked_at rt = None \<and> rf_expires_at rt > ae_now e \<and> au_status u = ''active'') (List.product (ad_refresh db) (ad_users db)) = []"
    using assms(1) by (auto simp: filter_empty_conv token_hit_def)
  then show ?thesis by (simp add: validate_refresh_token_record_def assms)
qed

text \<open>C17: Logging out ends a refresh token as far as \<open>/auth/refresh\<close> is concerned, but not as a
  credential: the tenant resolver looks at the signature, the expiry and the tenant claim alone, so
  the revoked token still opens the routes that resolve the tenant from the header, for a day.\<close>

theorem revoked_refresh_token_resolves:
  assumes "create_refresh_token_for_user e jti user tenant subject db = (token, db1)"
    and "auth_logout e1 (Some token) db1 = (result, db2)"
    and "list_all (\<lambda>x. ae_mac x = ae_mac e \<and> ae_jwt_secret x = ae_jwt_secret e \<and> ae_now x \<le> ae_now e + 86400) [e1, e2]"
    and "0 \<le> ae_now e" and "jti \<noteq> []" and "tenant \<noteq> 0" and "user \<noteq> 0"
  shows "auth_refresh e2 token db2 = Inl (Http_exception 401 ''User no longer exists.'')
    \<and> resolve_tenant e2 None (Some (''Bearer '' @ token)) db2 = (Inr (JInt tenant), db2)"
proof -
  let ?m = "refresh_claims e jti user tenant subject"
  have token: "token = create_jwt (ae_mac e) (ae_jwt_secret e) ?m"
    and rows: "ad_refresh db1 = ad_refresh db @ [\<lparr>rf_jti = jti, rf_tenant_id = tenant, rf_user_id = user, rf_subject = subject,
           rf_expires_at = ae_now e + 86400, rf_revoked_at = None\<rparr>]"
    using assms(1) by (auto simp: refresh_token_claims)
  have dec: "decode e1 token = Some ?m" "decode e2 token = Some ?m"
    using assms(3,4) by (simp_all add: token decode_refresh)
  have gets: "jget ?m ''jti'' = JStr jti" "jget ?m ''tenant_id'' = JInt tenant" "jget ?m ''user_id'' = JInt user" "?m \<noteq> []"
    "map_of ?m ''tenant_id'' = Some (JInt tenant)"
    by (simp_all add: refresh_claims_def jget_Cons)
  have ne: "token \<noteq> []" by (simp add: token token_nonempty)
  have "auth_logout e1 (Some token) db1 = (Inr (200, [(''status'', JStr ''success''),
      (''refresh_token_revoked'', JBool (list_ex (token_hit jti tenant) (ad_refresh db1)))]),
    db1\<lparr>ad_refresh := map (\<lambda>r. if token_hit jti tenant r then r\<lparr>rf_revoked_at := Some (ae_now e1)\<rparr> else r) (ad_refresh db1)\<rparr>)"
    using ne by (simp add: auth_logout_def truthy_str_def revoke_rows [OF dec(1) gets(1,2) assms(5,6) gets(4)])
  then have "ad_refresh db2 = map (\<lambda>r. if token_hit jti tenant r then r\<lparr>rf_revoked_at := Some (ae_now e1)\<rparr> else r) (ad_refresh db1)"
    using assms(2) by simp
  then have "\<forall>r\<in>set (ad_refresh db2). \<not> token_hit jti tenant r" using no_hit_after by metis
  then have "validate_refresh_token_record e2 ?m db2 = Inr None" using gets(1-3) by (rule validate_without_hit)
  then show ?thesis
    using dec(2) gets ne by (simp add: auth_refresh_def resolve_tenant_def Let_def truthy_str_def)
qed

section \<open>Password reset\<close>

lemma confirm_cases:
  assumes "auth_password_reset_confirm e salt token pw db = (Inr r, db')"
  obtains row u ph where "find (reset_row_valid e (hash_reset_token (ae_sha256 e) (strip token))) (List.product (ad_resets db) (ad_users db)) = Some (row, u)"
    and "hash_password (ae_kdf e) (ae_rounds e) salt pw = Some ph"
    and "db' = (update_user (\<lambda>v. au_id v = rs_user_id row \<and> au_tenant_id v = rs_tenant_id row) (\<lambda>v. v\<lparr>au_password_hash := ph\<rparr>) db)
        \<lparr>ad_resets := map (\<lambda>x. if rs_token_hash x = hash_reset_token (ae_sha256 e) (strip token) then x\<lparr>rs_used_at := Some (ae_now e)\<rparr> else x) (ad_resets db),
         ad_refresh := map (\<lambda>x. if rf_user_id x = rs_user_id row \<and> rf_tenant_id x = rs_tenant_id row \<and> rf_revoked_at x = None
           then x\<lparr>rf_revoked_at := Some (ae_now e)\<rparr> else x) (ad_refresh db)\<rparr>"
  using assms by (auto simp: auth_password_reset_confirm_def Let_def split: if_splits option.splits prod.splits)

lemma map_if_none:
  assumes "\<And>x. P x \<Longrightarrow> Q (f x)" and "y \<in> set (map (\<lambda>x. if P x then f x else x) xs)"
  shows "Q y \<or> \<not> P y"
proof -
  obtain x where "y = (if P x then f x else x)" using assms(2) unfolding set_map by (elim imageE)
  then show ?thesis using assms(1) by (cases "P x") auto
qed

text \<open>C25: A reset token works once: after a confirmation the same token is refused whatever the new
  password, every refresh token of the account is revoked, and its stored hash is the one of the new
  password.\<close>

theorem password_reset_once:
  assumes "auth_password_reset_confirm e salt token pw db = (Inr r, db')" and "ae_sha256 e' = ae_sha256 e"
  shows "(\<exists>d. auth_password_reset_confirm e' salt' token pw' db' = (Inl (Http_exception 400 d), db'))
    \<and> (\<exists>user tenant. (\<forall>x\<in>set (ad_refresh db'). rf_user_id x = user \<and> rf_tenant_id x = tenant \<longrightarrow> rf_revoked_at x \<noteq> None)
      \<and> (\<exists>v\<in>set (ad_users db'). au_id v = user \<and> au_tenant_id v = tenant)
      \<and> (\<forall>v\<in>set (ad_users db'). au_id v = user \<and> au_tenant_id v = tenant \<longrightarrow> verify_password (ae_kdf e) pw (au_password_hash v)))"
proof -
  let ?h = "hash_reset_token (ae_sha256 e) (strip token)"
  obtain row u ph where hit: "find (reset_row_valid e ?h) (List.product (ad_resets db) (ad_users db)) = Some (row, u)"
    and ph: "hash_password (ae_kdf e) (ae_rounds e) salt pw = Some ph"
    and db': "ad_resets db' = map (\<lambda>x. if rs_token_hash x = ?h then x\<lparr>rs_used_at := Some (ae_now e)\<rparr> else x) (ad_resets db)"
      "ad_refresh db' = map (\<lambda>x. if rf_user_id x = rs_user_id row \<and> rf_tenant_id x = rs_tenant_id row \<and> rf_revoked_at x = None
           then x\<lparr>rf_revoked_at := Some (ae_now e)\<rparr> else x) (ad_refresh db)"
      "ad_users db' = map (\<lambda>v. if au_id v = rs_user_id row \<and> au_tenant_id v = rs_tenant_id row then v\<lparr>au_password_hash := ph\<rparr> else v) (ad_users db)"
    by (rule confirm_cases [OF assms(1)]) (auto simp: update_user_def)
  have used: "rs_used_at x \<noteq> None \<or> rs_token_hash x \<noteq> ?h" if "x \<in> set (ad_resets db')" for x
    by (rule map_if_none [OF _ that [unfolded db'(1)]]) simp
  then have "find (reset_row_valid e' ?h) (List.product (ad_resets db') (ad_users db')) = None"
    by (auto simp: find_None_iff reset_row_valid_def)
  then have "\<exists>d. auth_password_reset_confirm e' salt' token pw' db' = (Inl (Http_exception 400 d), db')"
    using assms(2) by (simp add: auth_password_reset_confirm_def Let_def)
  moreover have "rf_revoked_at x \<noteq> None" if "x \<in> set (ad_refresh db')" "rf_user_id x = rs_user_id row" "rf_tenant_id x = rs_tenant_id row" for x
  proof -
    have "rf_revoked_at x \<noteq> None \<or> \<not> (rf_user_id x = rs_user_id row \<and> rf_tenant_id x = rs_tenant_id row \<and> rf_revoked_at x = None)"
      by (rule map_if_none [OF _ that(1) [unfolded db'(2)]]) simp
    then show ?thesis using that by auto
  qed
  moreover have "verify_password (ae_kdf e) pw (au_password_hash v)"
    if "v \<in> set (ad_users db')" "au_id v = rs_user_id row" "au_tenant_id v = rs_tenant_id row" for v
  proof -
    have "au_password_hash v = ph \<or> \<not> (au_id v = rs_user_id row \<and> au_tenant_id v = rs_tenant_id row)"
      by (rule map_if_none [OF _ that(1) [unfolded db'(3)]]) simp
    then show ?thesis using that verify_hashed [OF ph, of pw] by simp
  qed
  moreover have "\<exists>v\<in>set (ad_users db'). au_id v = rs_user_id row \<and> au_tenant_id v = rs_tenant_id row"
  proof -
    have "reset_row_valid e ?h (row, u) \<and> (row, u) \<in> set (List.product (ad_resets db) (ad_users db))"
      using hit by (metis find_Some_iff nth_mem)
    then have "u \<in> set (ad_users db)" "au_id u = rs_user_id row \<and> au_tenant_id u = rs_tenant_id row" by (auto simp: reset_row_valid_def)
    then show ?thesis unfolding db'(3)
      by (intro bexI [of _ "u\<lparr>au_password_hash := ph\<rparr>"]) (auto simp: image_iff intro!: bexI [of _ u])
  qed
  ultimately show ?thesis by blast
qed

section \<open>API keys\<close>

definition hash_of_key :: "auth_env \<Rightarrow> string \<Rightarrow> string" where
  "hash_of_key e raw = ae_sha256 e (utf8 raw)"

lemma resolve_key:
  assumes "raw \<noteq> []" and "decode e raw = None"
  shows "fst (resolve_tenant e (Some raw) None db) =
    (case find (key_valid e (hash_of_key e raw)) (ad_keys db) of
       None \<Rightarrow> Inl (Http_exception 401 ''Invalid API Key.'') | Some k \<Rightarrow> Inr (JInt (ak_tenant_id k)))"
  using assms by (simp add: resolve_tenant_def hash_of_key_def truthy_str_def Let_def split: option.splits)

lemma find_map_end:
  "\<forall>x\<in>set xs. \<not> P (f x) \<Longrightarrow> find P (map f xs @ [y]) = (if P y then Some y else None)"
  by (induction xs) auto

lemma rotate_cases:
  assumes "rotate_tenant_api_key e stamp random_url key name tenant db = (Inr r, db')" and "key_ttl e = Some ttl"
  obtains c where "c \<in> set (ad_keys db)" and "ak_id c = key" and "ak_tenant_id c = tenant"
    and "ad_keys db' = map (\<lambda>x. if ak_id x = key \<and> ak_tenant_id x = tenant then x\<lparr>ak_revoked_at := Some (ae_now e)\<rparr> else x) (ad_keys db)
      @ [fresh_key e tenant (str_or name (ak_name c @ '' (rotated)'')) (''ac_'' @ random_url) ttl (revoke_key_row e key tenant db)]"
proof (cases "find (\<lambda>k. ak_id k = key \<and> ak_tenant_id k = tenant \<and> ak_revoked_at k = None) (ad_keys db)")
  case None
  then show thesis using assms by (simp add: rotate_tenant_api_key_def Let_def)
next
  case (Some c)
  then have "c \<in> set (ad_keys db) \<and> ak_id c = key \<and> ak_tenant_id c = tenant" by (metis (mono_tags, lifting) find_Some_iff nth_mem)
  moreover have "db' = snd (rotate_tenant_api_key e stamp random_url key name tenant db)" using assms(1) by simp
  then have "ad_keys db' = ad_keys (revoke_key_row e key tenant db)
      @ [fresh_key e tenant (str_or name (ak_name c @ '' (rotated)'')) (''ac_'' @ random_url) ttl (revoke_key_row e key tenant db)]"
    using Some assms(2) by (simp add: rotate_tenant_api_key_def Let_def key_audit_def insert_key_def)
  ultimately show thesis using that [of c] unfolding revoke_key_row_def by simp
qed

text \<open>C26: Rotation replaces a key: the old value is refused from then on and the new one opens the
  same tenant until it expires.  Both are told from session tokens by not being one, and hashes of
  different keys are taken to differ.\<close>

theorem rotated_key_replaces:
  assumes "rotate_tenant_api_key e stamp random_url key name tenant db = (Inr r, db')"
    and "distinct (map ak_key_hash (ad_keys db))" and "distinct (map ak_id (ad_keys db))"
    and "k \<in> set (ad_keys db)" and "ak_id k = key" and "ak_key_hash k = hash_of_key e old"
    and "hash_of_key e (''ac_'' @ random_url) \<notin> set (map ak_key_hash (ad_keys db))"
    and "list_all (\<lambda>x. decode e' x = None) [old, ''ac_'' @ random_url]" and "old \<noteq> []"
    and "ae_sha256 e' = ae_sha256 e" and "key_ttl e = Some ttl" and "ae_now e' < ae_now e + ttl * 86400"
  shows "fst (resolve_tenant e' (Some old) None db') = Inl (Http_exception 401 ''Invalid API Key.'')
    \<and> fst (resolve_tenant e' (Some (''ac_'' @ random_url)) None db') = Inr (JInt tenant)"
proof -
  let ?new = "''ac_'' @ random_url"
  obtain c where c: "c \<in> set (ad_keys db)" "ak_id c = key" "ak_tenant_id c = tenant"
    and keys: "ad_keys db' = map (\<lambda>x. if ak_id x = key \<and> ak_tenant_id x = tenant then x\<lparr>ak_revoked_at := Some (ae_now e)\<rparr> else x) (ad_keys db)
      @ [fresh_key e tenant (str_or name (ak_name c @ '' (rotated)'')) ?new ttl (revoke_key_row e key tenant db)]"
    by (rule rotate_cases [OF assms(1,11)])
  have "c = k" using c(1,2) assms(3-5) by (simp add: distinct_map inj_on_def)
  let ?f = "\<lambda>x. if ak_id x = key \<and> ak_tenant_id x = tenant then x\<lparr>ak_revoked_at := Some (ae_now e)\<rparr> else x"
  have hash: "hash_of_key e' x = hash_of_key e x" for x by (simp add: hash_of_key_def assms(10))
  have old: "\<not> key_valid e' (hash_of_key e old) (?f x)" if "x \<in> set (ad_keys db)" for x
  proof (cases "x = k")
    case True then show ?thesis using c \<open>c = k\<close> by (simp add: key_valid_def)
  next
    case False
    then have "ak_key_hash x \<noteq> ak_key_hash k" using that assms(2,4) by (auto simp: distinct_map inj_on_def)
    then show ?thesis using assms(6) by (simp add: key_valid_def)
  qed
  have new: "\<not> key_valid e' (hash_of_key e ?new) (?f x)" if "x \<in> set (ad_keys db)" for x
  proof -
    have "ak_key_hash x \<noteq> hash_of_key e ?new" using that assms(7) by (metis image_eqI set_map)
    then show ?thesis by (simp add: key_valid_def)
  qed
  have differ: "hash_of_key e ?new \<noteq> hash_of_key e old" using assms(4,6,7) by force
  let ?row = "fresh_key e tenant (str_or name (ak_name c @ '' (rotated)'')) ?new ttl (revoke_key_row e key tenant db)"
  have row: "ak_key_hash ?row = hash_of_key e ?new" "ak_revoked_at ?row = None" "ak_tenant_id ?row = tenant"
    "ak_expires_at ?row = Some (ae_now e + ttl * 86400)"
    by (simp_all add: fresh_key_def hash_of_key_def)
  have "find (key_valid e' (hash_of_key e old)) (ad_keys db') = None"
    unfolding keys by (subst find_map_end) (use old differ row in \<open>simp_all add: key_valid_def\<close>)
  moreover have "find (key_valid e' (hash_of_key e ?new)) (ad_keys db') = Some ?row"
    unfolding keys by (subst find_map_end) (use new row assms(12) in \<open>simp_all add: key_valid_def\<close>)
  ultimately show ?thesis
    using assms(8,9) row(3) resolve_key [of old e' db'] resolve_key [of ?new e' db'] by (simp add: hash)
qed

text \<open>Revoking the key of another tenant, or a key that does not exist, changes no key and is
  reported and recorded as a revocation.\<close>

theorem foreign_revocation_reported:
  assumes "\<not> list_ex (\<lambda>k. ak_id k = key \<and> ak_tenant_id k = tenant) (ad_keys db)"
    and "chain_inv (ae_sha256 e) (ad_chain db)"
  shows "\<exists>db'. revoke_tenant_api_key e stamp key tenant db =
      (Inr (200, [(''status'', JStr ''success''), (''message'', JStr ''API key revoked successfully.'')]), db')
    \<and> ad_keys db' = ad_keys db \<and> length (logs (ad_chain db')) = Suc (length (logs (ad_chain db)))"
proof -
  have "map (\<lambda>k. if ak_id k = key \<and> ak_tenant_id k = tenant then k\<lparr>ak_revoked_at := Some (ae_now e)\<rparr> else k) (ad_keys db) = ad_keys db"
    using assms by (intro map_idI) (auto simp: list_ex_iff)
  moreover have "length (logs (audit_call (ae_sha256 e) stamp b (ad_chain db))) = Suc (length (logs (ad_chain db)))" for b
    using assms(2) by (simp add: audit_call_def chain_inv_def create_audit_block_logs)
  ultimately show ?thesis by (simp add: revoke_tenant_api_key_def key_audit_def revoke_key_row_def)
qed

end
