(* ===== verification/Auth_Runs.thy ===== *)
theory Auth_Runs
  imports Auth_Props
begin

text \<open>
  Sequences of sign-in requests: every access token that a second factor opens rests on an earlier
  password check for the same account; and the weaknesses that only a sequence shows.
\<close>

section \<open>The operations of the sign-in surface\<close>

datatype auth_op =
    Op_login string string string string
  | Op_otp string string string
  | Op_refresh string
  | Op_logout "string option"
  | Op_reset_request string string
  | Op_reset_confirm string string string
  | Op_mfa_request string string string
  | Op_mfa_confirm string string "string option" "string option"
  | Op_register fresh_values register_request
  | Op_verify_email string
  | Op_verify_domain "string + string list" string

primrec auth_step :: "auth_env \<Rightarrow> auth_op \<Rightarrow> auth_db \<Rightarrow> auth_result" where
  "auth_step e (Op_login jti sid username password) db = auth_login e jti sid username password db"
| "auth_step e (Op_otp jti sid code) db = auth_verify_otp e jti sid code db"
| "auth_step e (Op_refresh token) db = (auth_refresh e token db, db)"
| "auth_step e (Op_logout token) db = auth_logout e token db"
| "auth_step e (Op_reset_request random32 username) db = auth_password_reset_request e random32 username db"
| "auth_step e (Op_reset_confirm salt token password) db = auth_password_reset_confirm e salt token password db"
| "auth_step e (Op_mfa_request token username password) db = auth_mfa_reset_request e token username password db"
| "auth_step e (Op_mfa_confirm random10 token username password) db = auth_mfa_reset_confirm e random10 token username password db"
| "auth_step e (Op_register fresh request) db = auth_register e fresh request db"
| "auth_step e (Op_verify_email token) db = auth_verify_email e token db"
| "auth_step e (Op_verify_domain dns domain) db = auth_verify_domain e dns domain db"

text \<open>An event keeps the environment of a request, the tables before it and its result.\<close>

record auth_event =
  ax_env :: auth_env
  ax_op :: auth_op
  ax_before :: auth_db
  ax_result :: "auth_error + reply"

fun auth_run :: "(auth_env \<times> auth_op) list \<Rightarrow> auth_db \<Rightarrow> auth_event list \<times> auth_db" where
  "auth_run [] db = ([], db)"
| "auth_run ((e, req) # ops) db =
     (let (r, db') = auth_step e req db; (tr, fin) = auth_run ops db'
      in (\<lparr>ax_env = e, ax_op = req, ax_before = db, ax_result = r\<rparr> # tr, fin))"

definition password_checked :: "auth_session \<Rightarrow> auth_event \<Rightarrow> bool" where
  "password_checked s x = (\<exists>jti username password u t. ax_op x = Op_login jti (ss_session_id s) username password
     \<and> find_user username (ax_before x) = Some (u, t) \<and> verify_password (ae_kdf (ax_env x)) password (au_password_hash u)
     \<and> au_status u = ''active'' \<and> au_id u = ss_user_id s \<and> au_tenant_id u = ss_tenant_id s \<and> au_role u = ss_role s)"

section \<open>Which operations open sessions\<close>

lemma sessions_update_user [simp]: "ad_sessions (update_user P f db) = ad_sessions db"
  by (simp add: update_user_def)

lemma sessions_touch [simp]: "ad_sessions (touch_login e u db) = ad_sessions db"
  by (simp add: touch_login_def)

lemma sessions_refresh_token [simp]: "ad_sessions (snd (create_refresh_token_for_user e jti u t s db)) = ad_sessions db"
  by (simp add: create_refresh_token_for_user_def)

lemma sessions_logout: "ad_sessions (snd (auth_logout e token db)) = ad_sessions db"
  by (simp add: auth_logout_def revoke_authclaw_refresh_token_def Let_def split: option.splits jval.splits sum.splits prod.splits if_splits)

lemma sessions_reset_request: "ad_sessions (snd (auth_password_reset_request e rnd username db)) = ad_sessions db"
  by (simp add: auth_password_reset_request_def Let_def split: option.splits prod.splits if_splits)

lemma sessions_reset_confirm: "ad_sessions (snd (auth_password_reset_confirm e salt token pw db)) = ad_sessions db"
  by (simp add: auth_password_reset_confirm_def Let_def split: option.splits prod.splits if_splits)

lemma sessions_register: "ad_sessions (snd (auth_register e v q db)) = ad_sessions db"
  by (simp add: auth_register_def Let_def split: option.splits sum.splits if_splits)

lemma sessions_activate: "ad_sessions (snd (activate_verified_registration e r db)) = ad_sessions db"
  by (simp add: activate_verified_registration_def ensure_default_tenant_policies_def Let_def split: prod.splits if_splits)

lemma sessions_verify_email: "ad_sessions (snd (auth_verify_email e token db)) = ad_sessions db"
proof (cases "find (\<lambda>r. rg_email_token r = token) (ad_registrations db)")
  case (Some r)
  let ?db1 = "update_registration (rg_id r) set_domain_verified (update_registration (rg_id r) set_email_verified db)"
  have "ad_sessions ?db1 = ad_sessions db" by (simp add: update_registration_def)
  then show ?thesis
    using Some sessions_activate [of e "set_domain_verified (set_email_verified r)" ?db1]
    by (auto simp: auth_verify_email_def Let_def update_registration_def [of _ set_email_verified] split: prod.splits sum.splits)
qed (simp add: auth_verify_email_def)

lemma sessions_verify_domain: "ad_sessions (snd (auth_verify_domain e dns domain db)) = ad_sessions db"
proof (cases "find (\<lambda>r. lower (rg_domain r) = lower domain) (ad_registrations db)")
  case (Some r)
  let ?db1 = "update_registration (rg_id r) set_domain_verified db"
  have "ad_sessions ?db1 = ad_sessions db" by (simp add: update_registration_def)
  then show ?thesis
    using Some sessions_activate [of e "set_domain_verified r" ?db1]
    by (auto simp: auth_verify_domain_def split: prod.splits sum.splits)
qed (simp add: auth_verify_domain_def)

lemmas quiet_sessions = sessions_logout sessions_reset_request sessions_reset_confirm sessions_register
  sessions_verify_email sessions_verify_domain

lemma load_session:
  "load_auth_session e sid db = (s, db') \<Longrightarrow> set (ad_sessions db') \<subseteq> set (ad_sessions db)
     \<and> (\<forall>x. s = Some x \<longrightarrow> x \<in> set (ad_sessions db) \<and> ss_session_id x = sid \<and> ae_now e < ss_expires_at x) \<and> ad_users db' = ad_users db"
  by (auto simp: load_auth_session_def Let_def find_Some_iff) (metis (no_types, lifting) filter_is_subset in_mono nth_mem)

lemma sessions_verify_otp: "set (ad_sessions (snd (auth_verify_otp e jti sid code db))) \<subseteq> set (ad_sessions db)"
proof -
  obtain s db1 where l: "load_auth_session e sid db = (s, db1)" by fastforce
  have sub: "set (ad_sessions db1) \<subseteq> set (ad_sessions db)" using load_session [OF l] by simp
  have "set (ad_sessions (snd (auth_verify_otp e jti sid code db))) \<subseteq> set (ad_sessions db1)"
    by (auto simp: auth_verify_otp_def l Let_def create_refresh_token_for_user_def delete_auth_session_def
        split: option.splits if_splits)
  then show ?thesis using sub by blast
qed

lemma stored_sessions:
  "x \<in> set (ad_sessions (store_auth_session e s db)) \<Longrightarrow> x \<in> set (ad_sessions db) \<or> x = s\<lparr>ss_expires_at := ae_now e + ae_session_ttl e\<rparr>"
  by (auto simp: store_auth_session_def)

lemma sessions_mfa_request:
  assumes "x \<in> set (ad_sessions (snd (auth_mfa_reset_request e token username password db)))"
  shows "x \<in> set (ad_sessions db) \<or> ss_step x = ''mfa_reset''"
proof -
  have step: "x \<in> set (ad_sessions (store_auth_session e (user_session token ''mfa_reset'' True True u) db)) \<Longrightarrow>
      x \<in> set (ad_sessions db) \<or> ss_step x = ''mfa_reset''" for u
    by (drule stored_sessions) (auto simp: user_session_def)
  have "snd (auth_mfa_reset_request e token username password db) = db
    \<or> (\<exists>u. snd (auth_mfa_reset_request e token username password db) = store_auth_session e (user_session token ''mfa_reset'' True True u) db)"
    by (auto simp: auth_mfa_reset_request_def split: option.splits)
  then show ?thesis using assms step by metis
qed

lemma sessions_mfa_confirm:
  "set (ad_sessions (snd (auth_mfa_reset_confirm e rnd token username password db))) \<subseteq> set (ad_sessions db)"
proof -
  obtain s db1 where l: "load_auth_session e token db = (s, db1)" by fastforce
  have sub: "set (ad_sessions db1) \<subseteq> set (ad_sessions db)" using load_session [OF l] by simp
  have "set (ad_sessions (snd (auth_mfa_reset_confirm e rnd token username password db))) \<subseteq> set (ad_sessions db1)"
    by (auto simp: auth_mfa_reset_confirm_def l Let_def delete_auth_session_def rotate_secret_for_def update_user_def
        split: option.splits if_splits)
  then show ?thesis using sub by blast
qed

lemma sessions_login:
  assumes "x \<in> set (ad_sessions (snd (auth_login e jti sid username password db)))"
  shows "x \<in> set (ad_sessions db) \<or> (\<exists>u t. find_user username db = Some (u, t) \<and> verify_password (ae_kdf e) password (au_password_hash u)
    \<and> au_status u = ''active'' \<and> x = (user_session sid ''otp'' (au_email_verified u) (at_domain_verified t) u)\<lparr>ss_expires_at := ae_now e + ae_session_ttl e\<rparr>)"
proof (cases "find_user username db")
  case None
  then show ?thesis using assms by (simp add: auth_login_def)
next
  case (Some ut)
  obtain u t where ut: "ut = (u, t)" by fastforce
  show ?thesis
  proof (cases "verify_password (ae_kdf e) password (au_password_hash u)")
    case False
    then show ?thesis using assms Some ut by (simp add: auth_login_def)
  next
    case True
    then have eq: "auth_login e jti sid username password db = login_verified e jti sid username u t db"
      using Some ut by (simp add: auth_login_def)
    have "ad_sessions (snd (login_verified e jti sid username u t db)) = ad_sessions db
      \<or> au_status u = ''active'' \<and> snd (login_verified e jti sid username u t db)
          = store_auth_session e (user_session sid ''otp'' (au_email_verified u) (at_domain_verified t) u) db"
      by (simp add: login_verified_def create_refresh_token_for_user_def Let_def)
    then show ?thesis using assms True Some ut unfolding eq by (auto dest: stored_sessions)
  qed
qed

lemma step_sessions:
  assumes "x \<in> set (ad_sessions (snd (auth_step e req db)))" and "ss_step x = ''otp''"
  shows "x \<in> set (ad_sessions db) \<or> password_checked x \<lparr>ax_env = e, ax_op = req, ax_before = db, ax_result = r\<rparr>"
proof (cases req)
  case (Op_login jti sid username password)
  show ?thesis
    using sessions_login [of x e jti sid username password db] assms Op_login
    by (auto simp: password_checked_def user_session_def)
next
  case (Op_otp jti sid code)
  then show ?thesis using assms sessions_verify_otp [of e jti sid code db] by auto
next
  case (Op_mfa_request token username password)
  then show ?thesis using assms sessions_mfa_request [of x e token username password db] by auto
next
  case (Op_mfa_confirm rnd token username password)
  then show ?thesis using assms sessions_mfa_confirm [of e rnd token username password db] by auto
qed (use assms in \<open>simp_all add: quiet_sessions\<close>)

section \<open>Two factors\<close>

lemma run_sessions:
  assumes "auth_run ops db = (tr, fin)" and "\<forall>s\<in>set (ad_sessions db). ss_step s = ''otp'' \<longrightarrow> (\<exists>x\<in>set past. password_checked s x)"
    and "i < length tr" and "s \<in> set (ad_sessions (ax_before (tr ! i)))" and "ss_step s = ''otp''"
  shows "\<exists>x\<in>set (past @ take i tr). password_checked s x"
  using assms
proof (induction ops db arbitrary: tr past i rule: auth_run.induct)
  case (1 db)
  then show ?case by simp
next
  case (2 e req ops db)
  obtain r db' where st: "auth_step e req db = (r, db')" by fastforce
  obtain tr' fin' where run: "auth_run ops db' = (tr', fin')" by fastforce
  let ?x = "\<lparr>ax_env = e, ax_op = req, ax_before = db, ax_result = r\<rparr>"
  have tr: "tr = ?x # tr'" and fin: "fin = fin'" using 2(2) st run by auto
  show ?case
  proof (cases i)
    case 0
    then show ?thesis using 2(3,5,6) tr by auto
  next
    case (Suc j)
    have "\<forall>s\<in>set (ad_sessions db'). ss_step s = ''otp'' \<longrightarrow> (\<exists>x\<in>set (past @ [?x]). password_checked s x)"
      using step_sessions [of _ e req db r] st 2(3) by fastforce
    from 2(1) [OF st [symmetric] refl, of tr' "past @ [?x]" j] this run 2(4-6) tr Suc fin
    show ?thesis by auto
  qed
qed

lemma verify_otp_ok:
  assumes "auth_verify_otp e jti sid code db = (Inr (200, m), db')"
  obtains s u secret where "s \<in> set (ad_sessions db)" and "ss_session_id s = sid" and "ss_step s = ''otp''" and "ae_now e < ss_expires_at s"
    and "u \<in> set (ad_users db)" and "au_id u = ss_user_id s" and "au_tenant_id u = ss_tenant_id s" and "au_totp_secret u = Some secret"
    and "verify_totp_token (ae_sha1 e) (ae_now e) secret code 1"
    and "jget m ''access_token'' = JStr (access_token e (ss_username s) (ss_role s) (ss_permissions s) (ss_tenant_id s) (ss_user_id s))"
proof -
  obtain so db1 where l: "load_auth_session e sid db = (so, db1)" by fastforce
  then obtain s where s: "so = Some s" "ss_step s = ''otp''"
    using assms by (auto simp: auth_verify_otp_def split: option.splits if_splits)
  obtain u secret where u: "find (\<lambda>u. au_id u = ss_user_id s \<and> au_tenant_id u = ss_tenant_id s) (ad_users db1) = Some u"
      "au_totp_secret u = Some secret"
    using assms l s by (auto simp: auth_verify_otp_def split: option.splits if_splits)
  have ok: "secret \<noteq> []" "verify_totp_token (ae_sha1 e) (ae_now e) secret code 1"
    using assms l s u by (auto simp: auth_verify_otp_def split: if_splits)
  have "jget m ''access_token'' = JStr (access_token e (ss_username s) (ss_role s) (ss_permissions s) (ss_tenant_id s) (ss_user_id s))"
    using assms l s u ok by (auto simp: auth_verify_otp_def create_refresh_token_for_user_def Let_def jget_Cons)
  moreover have "u \<in> set (ad_users db)" "au_id u = ss_user_id s" "au_tenant_id u = ss_tenant_id s"
    using u(1) load_session [OF l] by (auto simp: find_Some_iff)
  ultimately show thesis using that [of s u secret] s u(2) ok(2) load_session [OF l] by auto
qed

text \<open>C2: Whatever requests came before, an access token that \<open>/auth/verify-otp\<close> issues belongs to
  an account for which an earlier request of the run gave the right password, and the code was one of
  the account's own at that moment.\<close>

theorem two_factor_sign_in:
  assumes "auth_run ops db = (tr, fin)" and "ad_sessions db = []" and "i < length tr"
    and "ax_op (tr ! i) = Op_otp jti sid code" and "ax_result (tr ! i) = Inr (200, m)"
  shows "\<exists>j<i. \<exists>s u secret. password_checked s (tr ! j) \<and> ss_session_id s = sid
    \<and> u \<in> set (ad_users (ax_before (tr ! i))) \<and> au_id u = ss_user_id s \<and> au_tenant_id u = ss_tenant_id s
    \<and> au_totp_secret u = Some secret \<and> verify_totp_token (ae_sha1 (ax_env (tr ! i))) (ae_now (ax_env (tr ! i))) secret code 1
    \<and> jget m ''access_token'' = JStr (access_token (ax_env (tr ! i)) (ss_username s) (ss_role s) (ss_permissions s) (ss_tenant_id s) (ss_user_id s))"
proof -
  let ?x = "tr ! i"
  have "ax_result (tr ! i) = fst (auth_step (ax_env (tr ! i)) (ax_op (tr ! i)) (ax_before (tr ! i)))"
    using assms(1,3)
  proof (induction ops db arbitrary: tr i rule: auth_run.induct)
    case (2 e req ops db)
    then show ?case by (cases i) (auto split: prod.splits)
  qed simp
  then have "fst (auth_verify_otp (ax_env ?x) jti sid code (ax_before ?x)) = Inr (200, m)" using assms(4,5) by simp
  then obtain db' where "auth_verify_otp (ax_env ?x) jti sid code (ax_before ?x) = (Inr (200, m), db')" by (metis prod.collapse)
  then obtain s u secret where s: "s \<in> set (ad_sessions (ax_before ?x))" "ss_session_id s = sid" "ss_step s = ''otp''"
    and rest: "u \<in> set (ad_users (ax_before ?x))" "au_id u = ss_user_id s" "au_tenant_id u = ss_tenant_id s" "au_totp_secret u = Some secret"
      "verify_totp_token (ae_sha1 (ax_env ?x)) (ae_now (ax_env ?x)) secret code 1"
      "jget m ''access_token'' = JStr (access_token (ax_env ?x) (ss_username s) (ss_role s) (ss_permissions s) (ss_tenant_id s) (ss_user_id s))"
    by (rule verify_otp_ok)
  obtain x where "x \<in> set (take i tr)" "password_checked s x"
    using run_sessions [OF assms(1) _ assms(3) s(1,3), of "[]"] assms(2) by auto
  then obtain j where "j < i" "password_checked s (tr ! j)" using assms(3) by (auto simp: in_set_conv_nth)
  then show ?thesis using s(2) rest by blast
qed

section \<open>Codes and mails that sequences defeat\<close>

lemma verify_otp_accepts:
  assumes "find (\<lambda>x. ss_session_id x = sid \<and> ss_expires_at x > ae_now e) (filter (\<lambda>x. \<not> ss_expires_at x \<le> ae_now e) (ad_sessions db)) = Some s"
    and "ss_step s = ''otp''" and "find (\<lambda>u. au_id u = ss_user_id s \<and> au_tenant_id u = ss_tenant_id s) (ad_users db) = Some u"
    and "au_totp_secret u = Some secret" and "verify_totp_token (ae_sha1 e) (ae_now e) secret code 1"
  shows "\<exists>m. fst (auth_verify_otp e jti sid code db) = Inr (200, m)
      \<and> jget m ''access_token'' = JStr (access_token e (ss_username s) (ss_role s) (ss_permissions s) (ss_tenant_id s) (ss_user_id s))"
    and "ad_sessions (snd (auth_verify_otp e jti sid code db))
      = filter (\<lambda>x. ss_session_id x \<noteq> sid \<and> \<not> ss_expires_at x \<le> ae_now e) (ad_sessions db)"
    and "ad_users (snd (auth_verify_otp e jti sid code db))
      = map (\<lambda>u. if au_id u = ss_user_id s then u\<lparr>au_last_login_at := Some (ae_now e)\<rparr> else u) (ad_users db)"
proof -
  have ne: "secret \<noteq> []" using assms(5) by (simp add: verify_totp_token_def)
  have l: "load_auth_session e sid db = (Some s, db\<lparr>ad_sessions := filter (\<lambda>x. \<not> ss_expires_at x \<le> ae_now e) (ad_sessions db)\<rparr>)"
    using assms(1) by (simp add: load_auth_session_def Let_def)
  note run = auth_verify_otp_def l assms(2-5) ne create_refresh_token_for_user_def delete_auth_session_def touch_login_def update_user_def Let_def
  show "\<exists>m. fst (auth_verify_otp e jti sid code db) = Inr (200, m)
      \<and> jget m ''access_token'' = JStr (access_token e (ss_username s) (ss_role s) (ss_permissions s) (ss_tenant_id s) (ss_user_id s))"
    by (simp add: run jget_Cons)
  show "ad_sessions (snd (auth_verify_otp e jti sid code db))
      = filter (\<lambda>x. ss_session_id x \<noteq> sid \<and> \<not> ss_expires_at x \<le> ae_now e) (ad_sessions db)"
    by (simp add: run conj_commute)
  show "ad_users (snd (auth_verify_otp e jti sid code db))
      = map (\<lambda>u. if au_id u = ss_user_id s then u\<lparr>au_last_login_at := Some (ae_now e)\<rparr> else u) (ad_users db)"
    by (simp add: run)
qed

definition live_session :: "auth_env \<Rightarrow> auth_db \<Rightarrow> string \<Rightarrow> auth_session option" where
  "live_session e db sid = find (\<lambda>x. ss_session_id x = sid \<and> ss_expires_at x > ae_now e) (filter (\<lambda>x. \<not> ss_expires_at x \<le> ae_now e) (ad_sessions db))"

lemma find_filter_weaker: "(\<And>x. P x \<Longrightarrow> Q x) \<Longrightarrow> find P (filter Q xs) = find P xs"
  by (induction xs) auto

lemma find_map_keeps:
  "(\<And>x. P (f x) = P x) \<Longrightarrow> find P (map f xs) = map_option f (find P xs)"
  by (induction xs) auto

text \<open>C33: A one-time code is not used up: two sessions of an account are both opened by the same
  code, one after the other, while its period lasts.\<close>

theorem otp_code_replayed:
  assumes "sid \<noteq> sid'" and "live_session e db sid = Some s" and "live_session e db sid' = Some s'"
    and "ss_step s = ''otp''" and "ss_step s' = ''otp''" and "ss_user_id s' = ss_user_id s" and "ss_tenant_id s' = ss_tenant_id s"
    and "find (\<lambda>u. au_id u = ss_user_id s \<and> au_tenant_id u = ss_tenant_id s) (ad_users db) = Some u"
    and "au_totp_secret u = Some secret" and "verify_totp_token (ae_sha1 e) (ae_now e) secret code 1"
  shows "\<exists>m m'. fst (auth_verify_otp e jti sid code db) = Inr (200, m)
    \<and> fst (auth_verify_otp e jti' sid' code (snd (auth_verify_otp e jti sid code db))) = Inr (200, m')
    \<and> jget m' ''access_token'' = JStr (access_token e (ss_username s') (ss_role s') (ss_permissions s') (ss_tenant_id s') (ss_user_id s'))"
proof -
  let ?db = "snd (auth_verify_otp e jti sid code db)"
  note first = verify_otp_accepts [OF assms(2) [unfolded live_session_def] assms(4) assms(8-10)]
  have live: "live_session e ?db sid' = live_session e db sid'"
    unfolding live_session_def first(2) filter_filter
    by (subst (1 2) find_filter_weaker) (use assms(1) in auto)
  have user: "find (\<lambda>u. au_id u = ss_user_id s' \<and> au_tenant_id u = ss_tenant_id s') (ad_users ?db)
      = Some (if au_id u = ss_user_id s then u\<lparr>au_last_login_at := Some (ae_now e)\<rparr> else u)"
    unfolding first(3) by (subst find_map_keeps) (simp_all add: assms(6-8))
  have secret: "au_totp_secret (if au_id u = ss_user_id s then u\<lparr>au_last_login_at := Some (ae_now e)\<rparr> else u) = Some secret"
    using assms(9) by simp
  note second = verify_otp_accepts(1) [OF trans [OF live assms(3), unfolded live_session_def] assms(5) user secret assms(10), of jti']
  from first(1) second show ?thesis by blast
qed

text \<open>C16: Knowing the address of a pending registration is enough to verify it: a sign-in with any
  password is answered with the token that only the mail should carry, and that token verifies the
  address.\<close>

theorem pending_address_verified_without_mail:
  assumes "find_user username db = None" and "pending_registration username db = Some r" and "\<not> rg_email_verified r"
    and "distinct (map rg_email_token (ad_registrations db))" and "\<not> skip_domain_verification_for_testing e"
  shows "\<exists>m m' db'. auth_login e jti sid username password db = (Inr (400, m), db) \<and> jget m ''email_token'' = JStr (rg_email_token r)
    \<and> auth_verify_email e (rg_email_token r) db = (Inr (200, m'), db') \<and> set_email_verified r \<in> set (ad_registrations db')"
proof -
  have r: "r \<in> set (ad_registrations db)"
    using assms(2) by (auto simp: pending_registration_def split: list.splits dest!: arg_cong [where f = set])
  then have "find (\<lambda>x. rg_email_token x = rg_email_token r) (ad_registrations db) = Some r"
    using assms(4)
  proof (induction "ad_registrations db")
    case (Cons a xs)
    have "find (\<lambda>x. rg_email_token x = rg_email_token r) ys = Some r" if "r \<in> set ys" "distinct (map rg_email_token ys)" for ys
      using that by (induction ys) force+
    then show ?case using Cons by simp
  qed simp
  moreover have "set_email_verified r \<in> set (map (\<lambda>x. if rg_id x = rg_id r then set_email_verified x else x) (ad_registrations db))"
    using r by force
  ultimately show ?thesis
    using assms(1-3,5) by (simp add: auth_login_def refused_login_def auth_verify_email_def update_registration_def Let_def jget_Cons)
qed

end
