(* ===== verification/Auth_Onboarding.thy ===== *)
theory Auth_Onboarding
  imports Auth_Runs Policy_Engine
begin

text \<open>
  From registration to the first session, the starting policies of a workspace, and the concrete
  environment on which the properties of the sign-in code are exercised.
\<close>

section \<open>Production settings\<close>

lemma production_settings:
  assumes "value_production e"
  shows "\<not> skip_email_delivery_for_testing e" "\<not> soft_fail_email_delivery_for_local e"
    "\<not> skip_domain_verification_for_testing e" "\<not> disable_mfa_for_testing e"
  using assms by (simp_all add: skip_email_delivery_for_testing_def soft_fail_email_delivery_for_local_def
      skip_domain_verification_for_testing_def disable_mfa_for_testing_def)

lemma env_value_now [simp]: "env_value (e\<lparr>ae_now := n\<rparr>) x d = env_value e x d"
  by (cases "ae_environ e x") (simp_all add: env_value_def)

lemma production_now [simp]: "value_production (e\<lparr>ae_now := n\<rparr>) = value_production e"
  by (simp add: value_production_def)

section \<open>The steps of onboarding\<close>

definition registered_row :: "auth_env \<Rightarrow> fresh_values \<Rightarrow> register_request \<Rightarrow> string \<Rightarrow> auth_db \<Rightarrow> registration" where
  "registered_row e v q ph db =
     \<lparr>rg_id = ad_next_registration db, rg_organization_name = str_or (rq_company_name q) (or_empty (rq_name q)),
      rg_full_name = requested_full_name q, rg_work_email = rq_email q, rg_domain = rq_domain q, rg_password_hash = ph,
      rg_email_token = fv_email_token v, rg_domain_token = ''authclaw-domain-verification='' @ take 16 (fv_domain_hex v),
      rg_totp_secret = generate_totp_secret (fv_random10 v), rg_email_verified = False, rg_domain_verified = False,
      rg_tenant_id = None, rg_created_at = ae_now e, rg_activated_at = None\<rparr>"

lemma register_ok:
  assumes "auth_register e v q db = (Inr m, db1)"
  obtains ph where "hash_password (ae_kdf e) (ae_rounds e) (fv_salt v) (rq_password q) = Some ph"
    and "\<not> registered_already e (rq_email q) (rq_domain q) db"
    and "db1 = db\<lparr>ad_registrations := ad_registrations db @ [registered_row e v q ph db], ad_next_registration := ad_next_registration db + 1\<rparr>"
  using assms by (auto simp: auth_register_def registered_row_def Let_def split: if_splits option.splits sum.splits)

lemma find_last:
  "\<forall>x\<in>set xs. \<not> P x \<Longrightarrow> find P (xs @ [y]) = (if P y then Some y else None)"
  by (induction xs) auto

lemma update_last:
  assumes "\<forall>r\<in>set rs. rg_id r \<noteq> rg_id x" and "ad_registrations db = rs @ [x]" and "rg_id x = i"
  shows "update_registration i f db = db\<lparr>ad_registrations := rs @ [f x]\<rparr>"
proof -
  have "map (\<lambda>r. if rg_id r = i then f r else r) rs = rs" by (rule map_idI) (use assms(1,3) in auto)
  then show ?thesis using assms(2,3) by (simp add: update_registration_def)
qed

lemma set_verified_simps [simp]:
  "rg_id (set_email_verified r) = rg_id r" "rg_domain (set_email_verified r) = rg_domain r"
  "rg_email_verified (set_email_verified r)" "rg_domain_token (set_email_verified r) = rg_domain_token r"
  "rg_id (set_domain_verified r) = rg_id r" "rg_tenant_id (set_domain_verified r) = rg_tenant_id r"
  "rg_tenant_id (set_email_verified r) = rg_tenant_id r" "rg_work_email (set_domain_verified r) = rg_work_email r"
  "rg_work_email (set_email_verified r) = rg_work_email r" "rg_password_hash (set_domain_verified r) = rg_password_hash r"
  "rg_password_hash (set_email_verified r) = rg_password_hash r" "rg_totp_secret (set_domain_verified r) = rg_totp_secret r"
  "rg_totp_secret (set_email_verified r) = rg_totp_secret r"
  by (simp_all add: set_email_verified_def set_domain_verified_def)

lemma verify_email_last:
  assumes "\<not> skip_domain_verification_for_testing e" and "ad_registrations db = rs @ [r]"
    and "\<forall>x\<in>set rs. rg_id x \<noteq> rg_id r \<and> rg_email_token x \<noteq> rg_email_token r"
  shows "\<exists>m. auth_verify_email e (rg_email_token r) db = (Inr (200, m), db\<lparr>ad_registrations := rs @ [set_email_verified r]\<rparr>)"
proof -
  have "find (\<lambda>x. rg_email_token x = rg_email_token r) (ad_registrations db) = Some r"
    unfolding assms(2) by (subst find_last) (use assms(3) in auto)
  moreover have "update_registration (rg_id r) set_email_verified db = db\<lparr>ad_registrations := rs @ [set_email_verified r]\<rparr>"
    by (rule update_last) (use assms in auto)
  ultimately show ?thesis using assms(1) by (simp add: auth_verify_email_def Let_def)
qed

text \<open>The account and the workspace that an activation adds.\<close>

definition new_tenant :: "registration \<Rightarrow> auth_db \<Rightarrow> auth_tenant" where
  "new_tenant r db =
     \<lparr>at_id = ad_next_tenant db, at_name = rg_organization_name r, at_status = ''active'', at_domain = Some (rg_domain r),
      at_email = Some (rg_work_email r), at_email_verified = True, at_domain_verified = True, at_email_token = None,
      at_domain_token = Some (rg_domain_token r), at_totp_secret = Some (rg_totp_secret r)\<rparr>"

definition new_user :: "auth_env \<Rightarrow> registration \<Rightarrow> auth_db \<Rightarrow> auth_user" where
  "new_user e r db =
     \<lparr>au_id = ad_next_user db, au_tenant_id = ad_next_tenant db, au_first_name = Some (fst (name_parts (rg_full_name r))),
      au_last_name = snd (name_parts (rg_full_name r)), au_email = rg_work_email r, au_password_hash = rg_password_hash r,
      au_role = ''Super Admin'', au_permissions = ''all_access'', au_email_verified = True,
      au_mfa_enabled = \<not> disable_mfa_for_testing e, au_totp_secret = Some (rg_totp_secret r), au_status = ''active'',
      au_last_login_at = None\<rparr>"

lemma ensure_frame:
  "ad_users (ensure_default_tenant_policies t db) = ad_users db" "ad_tenants (ensure_default_tenant_policies t db) = ad_tenants db"
  "ad_sessions (ensure_default_tenant_policies t db) = ad_sessions db"
  by (simp_all add: ensure_default_tenant_policies_def)

lemma activate_new:
  assumes "rg_tenant_id r = None" and "\<forall>u\<in>set (ad_users db). au_email u \<noteq> rg_work_email r"
  shows "\<exists>db'. activate_verified_registration e r db = (Inr (ad_next_tenant db), db')
    \<and> ad_users db' = ad_users db @ [new_user e r db] \<and> ad_tenants db' = ad_tenants db @ [new_tenant r db]
    \<and> ad_sessions db' = ad_sessions db"
proof -
  have "\<not> list_ex (\<lambda>v. au_email v = rg_work_email r) (ad_users db)" using assms(2) by (auto simp: list_ex_iff)
  then show ?thesis using assms(1)
    by (simp add: activate_verified_registration_def new_user_def new_tenant_def ensure_frame Let_def case_prod_unfold)
qed

lemma verify_domain_last:
  assumes "ad_registrations db = rs @ [r]" and "rg_email_verified r" and "rg_tenant_id r = None"
    and "\<forall>x\<in>set rs. rg_id x \<noteq> rg_id r \<and> lower (rg_domain x) \<noteq> lower (rg_domain r)"
    and "list_ex (str_in (rg_domain_token r)) txts" and "\<forall>u\<in>set (ad_users db). au_email u \<noteq> rg_work_email r"
  shows "\<exists>m db'. auth_verify_domain e (Inr txts) (rg_domain r) db = (Inr (200, m), db')
    \<and> ad_users db' = ad_users db @ [new_user e (set_domain_verified r) db]
    \<and> ad_tenants db' = ad_tenants db @ [new_tenant (set_domain_verified r) db] \<and> ad_sessions db' = ad_sessions db"
proof -
  let ?db1 = "db\<lparr>ad_registrations := rs @ [set_domain_verified r]\<rparr>"
  have "find (\<lambda>x. lower (rg_domain x) = lower (rg_domain r)) (ad_registrations db) = Some r"
    unfolding assms(1) by (subst find_last) (use assms(4) in auto)
  moreover have "update_registration (rg_id r) set_domain_verified db = ?db1"
    by (rule update_last) (use assms in auto)
  moreover obtain db' where "activate_verified_registration e (set_domain_verified r) ?db1 = (Inr (ad_next_tenant ?db1), db')"
    and "ad_users db' = ad_users ?db1 @ [new_user e (set_domain_verified r) ?db1]"
    and "ad_tenants db' = ad_tenants ?db1 @ [new_tenant (set_domain_verified r) ?db1]" and "ad_sessions db' = ad_sessions ?db1"
    using activate_new [of "set_domain_verified r" ?db1 e] assms(3,6) by auto
  ultimately show ?thesis using assms(2,5) by (simp add: auth_verify_domain_def new_user_def new_tenant_def)
qed

lemma find_user_last:
  assumes "ad_users db = us @ [u]" and "ad_tenants db = ts @ [t]" and "\<forall>x\<in>set us. lower (au_email x) \<noteq> lower (au_email u)"
    and "\<forall>x\<in>set ts. at_id x \<noteq> at_id t" and "au_tenant_id u = at_id t"
  shows "find_user (au_email u) db = Some (u, t)"
proof -
  have prod: "List.product (us @ [u]) (ts @ [t]) = List.product us (ts @ [t]) @ map (Pair u) ts @ [(u, t)]"
    by (induction us) simp_all
  have "filter (\<lambda>(x, y). at_id y = au_tenant_id x \<and> lower (au_email x) = lower (au_email u)) (List.product us (ts @ [t])) = []"
    using assms(3) by (auto simp: filter_empty_conv)
  moreover have "filter (\<lambda>(x, y). at_id y = au_tenant_id x \<and> lower (au_email x) = lower (au_email u)) (map (Pair u) ts) = []"
    using assms(4,5) by (auto simp: filter_empty_conv)
  ultimately show ?thesis unfolding find_user_def assms(1,2) prod using assms(5) by simp
qed

lemma login_new:
  assumes "find_user email db = Some (u, t)" and "verify_password (ae_kdf e) password (au_password_hash u)"
    and "au_status u = ''active''" and "au_email_verified u" and "at_domain_verified t" and "au_mfa_enabled u"
    and "\<not> disable_mfa_for_testing e" and "truthy_str (au_totp_secret u)"
  shows "\<exists>m. auth_login e jti sid email password db = (Inr (200, m),
      store_auth_session e (user_session sid ''otp'' True True u) db) \<and> jget m ''mfa_required'' = JBool True \<and> jget m ''session_id'' = JStr sid"
  using assms by (simp add: auth_login_def login_verified_def Let_def jget_Cons)

lemma live_stored:
  assumes "ae_now e' < ae_now e + ae_session_ttl e" and "ss_session_id s = sid"
  shows "live_session e' (store_auth_session e s db) sid = Some (s\<lparr>ss_expires_at := ae_now e + ae_session_ttl e\<rparr>)"
proof -
  have "find (\<lambda>x. ss_session_id x = sid \<and> ss_expires_at x > ae_now e') (filter (\<lambda>x. ss_session_id x \<noteq> sid) (ad_sessions db)
      @ [s\<lparr>ss_expires_at := ae_now e + ae_session_ttl e\<rparr>]) = Some (s\<lparr>ss_expires_at := ae_now e + ae_session_ttl e\<rparr>)"
    by (subst find_last) (use assms in auto)
  then show ?thesis
    unfolding live_session_def store_auth_session_def by (subst find_filter_weaker) (use assms in auto)
qed

lemma otp_new:
  assumes "ad_users db = us @ [u]" and "\<forall>x\<in>set us. au_id x \<noteq> au_id u" and "live_session e db sid = Some s"
    and "ss_step s = ''otp''" and "ss_user_id s = au_id u" and "ss_tenant_id s = au_tenant_id u"
    and "au_totp_secret u = Some secret" and "verify_totp_token (ae_sha1 e) (ae_now e) secret code 1"
  shows "\<exists>m. fst (auth_verify_otp e jti sid code db) = Inr (200, m)
    \<and> jget m ''access_token'' = JStr (access_token e (ss_username s) (ss_role s) (ss_permissions s) (ss_tenant_id s) (ss_user_id s))"
proof -
  have "find (\<lambda>x. au_id x = ss_user_id s \<and> au_tenant_id x = ss_tenant_id s) (ad_users db) = Some u"
    unfolding assms(1) by (subst find_last) (use assms(2,5,6) in auto)
  then show ?thesis by (rule verify_otp_accepts(1) [OF assms(3) [unfolded live_session_def] assms(4) _ assms(7,8)])
qed

text \<open>What the tables must look like for the new rows to be new: the serial keys are ahead of them,
  and the address and the mail token are not in use.\<close>

definition ready_for :: "fresh_values \<Rightarrow> register_request \<Rightarrow> auth_db \<Rightarrow> bool" where
  "ready_for v q db =
     (list_all (\<lambda>u. lower (au_email u) \<noteq> lower (rq_email q) \<and> au_id u \<noteq> ad_next_user db) (ad_users db)
      \<and> list_all (\<lambda>t. at_id t \<noteq> ad_next_tenant db) (ad_tenants db)
      \<and> list_all (\<lambda>r. rg_id r \<noteq> ad_next_registration db \<and> rg_email_token r \<noteq> fv_email_token v) (ad_registrations db)
      \<and> length (fv_random10 v) = 10)"

definition sign_in_after :: "auth_env \<Rightarrow> fresh_values \<Rightarrow> register_request \<Rightarrow> string list \<Rightarrow> string \<Rightarrow> auth_db \<Rightarrow> auth_db" where
  "sign_in_after e v q txts sid db =
     (let db1 = snd (auth_register e v q db); db2 = snd (auth_verify_email e (fv_email_token v) db1);
          db3 = snd (auth_verify_domain e (Inr txts) (rq_domain q) db2)
      in snd (auth_login e [] sid (rq_email q) (rq_password q) db3))"

text \<open>C8: In production, a registration that is accepted leads to a session: with the mailed token, a
  text record that carries the domain token, the chosen password and the code of the handed-out
  secret, the founder of the workspace receives an access token as its Super Admin.\<close>

theorem onboarding_reaches_session:
  assumes "value_production e" and "auth_register e v q db = (Inr m, db1)" and "ready_for v q db"
    and "list_ex (str_in (''authclaw-domain-verification='' @ take 16 (fv_domain_hex v))) txts"
    and "hmac_sha1_law (ae_sha1 e)" and "0 \<le> now" and "now < 2 ^ 64" and "now < ae_now e + ae_session_ttl e"
  shows "\<exists>code m'. get_hotp_token (ae_sha1 e) (generate_totp_secret (fv_random10 v)) (now div 30) = Some code
    \<and> fst (auth_verify_otp (e\<lparr>ae_now := now\<rparr>) jti sid code (sign_in_after e v q txts sid db)) = Inr (200, m')
    \<and> jget m' ''access_token'' = JStr (access_token (e\<lparr>ae_now := now\<rparr>) (rq_email q) ''Super Admin'' ''all_access'' (ad_next_tenant db) (ad_next_user db))"
proof -
  note prod = production_settings [OF assms(1)]
  obtain ph where ph: "hash_password (ae_kdf e) (ae_rounds e) (fv_salt v) (rq_password q) = Some ph"
    and new: "\<not> registered_already e (rq_email q) (rq_domain q) db"
    and db1: "db1 = db\<lparr>ad_registrations := ad_registrations db @ [registered_row e v q ph db], ad_next_registration := ad_next_registration db + 1\<rparr>"
    by (rule register_ok [OF assms(2)])
  let ?rs = "ad_registrations db" and ?r = "registered_row e v q ph db"
  have r: "rg_id ?r = ad_next_registration db" "rg_email_token ?r = fv_email_token v" "rg_domain ?r = rq_domain q"
    "rg_work_email ?r = rq_email q" "rg_tenant_id ?r = None" "rg_password_hash ?r = ph"
    "rg_domain_token ?r = ''authclaw-domain-verification='' @ take 16 (fv_domain_hex v)"
    "rg_totp_secret ?r = generate_totp_secret (fv_random10 v)"
    by (simp_all add: registered_row_def)
  have ready: "\<forall>u\<in>set (ad_users db). lower (au_email u) \<noteq> lower (rq_email q) \<and> au_id u \<noteq> ad_next_user db"
    "\<forall>t\<in>set (ad_tenants db). at_id t \<noteq> ad_next_tenant db"
    "\<forall>x\<in>set ?rs. rg_id x \<noteq> ad_next_registration db \<and> rg_email_token x \<noteq> fv_email_token v" "length (fv_random10 v) = 10"
    using assms(3) by (simp_all add: ready_for_def list_all_iff)
  have domains: "\<forall>x\<in>set ?rs. lower (rg_domain x) \<noteq> lower (rq_domain q)"
    using new prod(3) by (auto simp: registered_already_def list_ex_iff)
  let ?db2 = "db1\<lparr>ad_registrations := ?rs @ [set_email_verified ?r]\<rparr>"
  have db2: "snd (auth_verify_email e (fv_email_token v) db1) = ?db2"
    using verify_email_last [OF prod(3), of db1 ?rs ?r] r ready(3) db1 by auto
  let ?r2 = "set_domain_verified (set_email_verified ?r)" and ?db3 = "snd (auth_verify_domain e (Inr txts) (rq_domain q) ?db2)"
  let ?u = "new_user e ?r2 ?db2" and ?t = "new_tenant ?r2 ?db2"
  have db3: "ad_users ?db3 = ad_users db @ [?u]" "ad_tenants ?db3 = ad_tenants db @ [?t]"
  proof -
    have token: "list_ex (str_in (rg_domain_token (set_email_verified ?r))) txts" using assms(4) by (simp only: set_verified_simps r(7))
    have others: "\<forall>x\<in>set ?rs. rg_id x \<noteq> rg_id (set_email_verified ?r) \<and> lower (rg_domain x) \<noteq> lower (rg_domain (set_email_verified ?r))"
      using ready(3) domains r(1,3) by simp
    have users: "\<forall>u\<in>set (ad_users ?db2). au_email u \<noteq> rg_work_email (set_email_verified ?r)"
      using ready(1) r(4) db1 by auto
    have rows: "ad_registrations ?db2 = ?rs @ [set_email_verified ?r]" by simp
    have no_tenant: "rg_tenant_id (set_email_verified ?r) = None" using r(5) by simp
    from verify_domain_last [OF rows set_verified_simps(3) no_tenant others token users, of e]
    obtain m3 dbx where "auth_verify_domain e (Inr txts) (rq_domain q) ?db2 = (Inr (200, m3), dbx)"
      and x: "ad_users dbx = ad_users ?db2 @ [?u]" "ad_tenants dbx = ad_tenants ?db2 @ [?t]"
      unfolding set_verified_simps(2) r(3) by blast
    then have eq: "?db3 = dbx" by simp
    show "ad_users ?db3 = ad_users db @ [?u]" "ad_tenants ?db3 = ad_tenants db @ [?t]"
      unfolding eq x by (simp_all add: db1)
  qed
  have u: "au_id ?u = ad_next_user db" "au_tenant_id ?u = ad_next_tenant db" "au_email ?u = rq_email q" "au_password_hash ?u = ph"
    "au_role ?u = ''Super Admin''" "au_permissions ?u = ''all_access''" "au_email_verified ?u" "au_mfa_enabled ?u" "au_status ?u = ''active''"
    "au_totp_secret ?u = Some (generate_totp_secret (fv_random10 v))"
    using r db1 prod(4) by (simp_all add: new_user_def)
  have t: "at_id ?t = ad_next_tenant db" "at_domain_verified ?t" using db1 by (simp_all add: new_tenant_def)
  have found: "find_user (rq_email q) ?db3 = Some (?u, ?t)"
    using find_user_last [OF db3] ready(1,2) u(2,3) t(1) by simp
  have "verify_password (ae_kdf e) (rq_password q) (au_password_hash ?u)" using verify_hashed [OF ph] u(4) by simp
  moreover have "truthy_str (au_totp_secret ?u)" using totp_key_generated(2) [OF ready(4)] u(10) by (simp add: truthy_str_def)
  ultimately have final: "sign_in_after e v q txts sid db = store_auth_session e (user_session sid ''otp'' True True ?u) ?db3"
    using login_new [OF found _ u(9,7) t(2) u(8) prod(4), of "rq_password q" "[]" sid]
    by (auto simp: sign_in_after_def assms(2) db2 Let_def)
  let ?e = "e\<lparr>ae_now := now\<rparr>" and ?s = "(user_session sid ''otp'' True True ?u)\<lparr>ss_expires_at := ae_now e + ae_session_ttl e\<rparr>"
  obtain code where code: "get_hotp_token (ae_sha1 e) (generate_totp_secret (fv_random10 v)) (now div 30) = Some code"
    "verify_totp_token (ae_sha1 e) now (generate_totp_secret (fv_random10 v)) code 1"
    using generated_code_accepted [OF assms(5) ready(4) assms(6,7), of now] by auto
  have "live_session ?e (sign_in_after e v q txts sid db) sid = Some ?s"
    unfolding final by (rule live_stored) (use assms(8) in \<open>simp_all add: user_session_def\<close>)
  from otp_new [OF _ _ this, of "ad_users db" ?u "generate_totp_secret (fv_random10 v)" code jti] db3(1) ready(1) u code
  obtain m' where "fst (auth_verify_otp ?e jti sid code (sign_in_after e v q txts sid db)) = Inr (200, m')"
    "jget m' ''access_token'' = JStr (access_token ?e (ss_username ?s) (ss_role ?s) (ss_permissions ?s) (ss_tenant_id ?s) (ss_user_id ?s))"
    by (auto simp: final store_auth_session_def user_session_def)
  then show ?thesis using code(1) u by (auto simp: user_session_def)
qed

section \<open>The starting policies\<close>

text \<open>The policies that a new workspace starts with are not valid policies for the lifecycle: two
  of the three carry the key \<open>detect\<close>, which the validation refuses, so they cannot be resubmitted.\<close>

theorem starter_policies_refused:
  "map (\<lambda>(name, ty, rules). (name, validate_policy_rules_for_lifecycle rules)) starter_policies =
    [(''PII Protection'', [''Policy rules contain unsupported keys: detect.'']),
     (''Prompt Injection Defense'', []),
     (''Secrets Exfiltration Guard'', [''Policy rules contain unsupported keys: detect.''])]"
  by code_simp

end
