(* ===== verification/Auth_Demo.thy ===== *)
theory Auth_Demo
  imports Auth_Onboarding
begin

text \<open>
  A concrete deployment on which the properties of the sign-in code apply: production settings with
  a mail relay, toy hash functions, and one workspace.
\<close>

definition demo_auth :: auth_env where
  "demo_auth = \<lparr>ae_environ = map_of [(''AUTHCLAW_ENV'', ''production''), (''SMTP_HOST'', ''relay''), (''SMTP_FROM'', ''no-reply'')],
     ae_env_file = None, ae_secret_of = (\<lambda>_. None), ae_now = 1000, ae_kdf = (\<lambda>p s n. p @ s), ae_rounds = 600000,
     ae_sha1 = toy_sha1, ae_mac = toy_mac, ae_sha256 = (\<lambda>x. x), ae_jwt_secret = ''k'', ae_session_ttl = 600,
     ae_transport = (\<lambda>_ _ _. None)\<rparr>"

definition no_accounts :: auth_db where
  "no_accounts = \<lparr>ad_tenants = [], ad_users = [], ad_registrations = [], ad_sessions = [], ad_refresh = [], ad_resets = [], ad_keys = [],
     ad_policies = [], ad_chain = empty_audit_db, ad_next_tenant = 1, ad_next_user = 1, ad_next_registration = 1, ad_next_key = 1\<rparr>"

definition demo_raw :: string where "demo_raw = replicate 10 (CHR ''k'')"

definition demo_workspace :: auth_tenant where
  "demo_workspace = \<lparr>at_id = 3, at_name = ''Acme'', at_status = ''active'', at_domain = Some ''acme.io'', at_email = Some ''a@acme.io'',
     at_email_verified = True, at_domain_verified = True, at_email_token = None, at_domain_token = None, at_totp_secret = None\<rparr>"

definition demo_account :: auth_user where
  "demo_account = \<lparr>au_id = 7, au_tenant_id = 3, au_first_name = None, au_last_name = None, au_email = ''a@acme.io'',
     au_password_hash = the (hash_password (ae_kdf demo_auth) 600000 ''salt'' ''old password''), au_role = ''Super Admin'',
     au_permissions = ''all_access'', au_email_verified = True, au_mfa_enabled = True,
     au_totp_secret = Some (generate_totp_secret demo_raw), au_status = ''active'', au_last_login_at = None\<rparr>"

definition demo_accounts :: auth_db where
  "demo_accounts = no_accounts\<lparr>ad_tenants := [demo_workspace], ad_users := [demo_account], ad_next_tenant := 4, ad_next_user := 8\<rparr>"

lemma demo_rows [simp]:
  "ad_tenants demo_accounts = [demo_workspace]" "ad_users demo_accounts = [demo_account]" "ad_registrations demo_accounts = []"
  "ad_next_tenant demo_accounts = 4" "ad_next_user demo_accounts = 8" "ad_next_registration demo_accounts = 1"
  "ad_chain demo_accounts = empty_audit_db" "ad_refresh demo_accounts = []" "ad_sessions demo_accounts = []"
  by (simp_all add: demo_accounts_def no_accounts_def)

lemma demo_columns [simp]:
  "au_email demo_account = ''a@acme.io''" "au_id demo_account = 7" "au_tenant_id demo_account = 3" "au_status demo_account = ''active''"
  "at_id demo_workspace = 3" "at_email demo_workspace = Some ''a@acme.io''" "at_domain demo_workspace = Some ''acme.io''"
  by (simp_all add: demo_account_def demo_workspace_def)

lemma lower_facts:
  "lower ''a@acme.io'' = ''a@acme.io''" "lower ''b@beta.io'' = ''b@beta.io''" "lower ''v@victim.io'' = ''v@victim.io''"
  "lower ''acme.io'' = ''acme.io''" "lower ''beta.io'' = ''beta.io''"
  by code_simp+

lemma demo_production: "value_production demo_auth"
  by code_simp

lemma demo_fields [simp]:
  "ae_now demo_auth = 1000" "ae_sha1 demo_auth = toy_sha1" "ae_mac demo_auth = toy_mac" "ae_jwt_secret demo_auth = ''k''"
  "ae_kdf demo_auth = (\<lambda>p s n. p @ s)" "ae_session_ttl demo_auth = 600" "ae_sha256 demo_auth = (\<lambda>x. x)" "ae_rounds demo_auth = 600000"
  by (simp_all add: demo_auth_def)

definition demo_fresh :: fresh_values where
  "demo_fresh = \<lparr>fv_salt = ''salt'', fv_email_token = ''mail-token'', fv_domain_hex = ''00112233445566778899'', fv_random10 = demo_raw\<rparr>"

definition demo_request :: register_request where
  "demo_request = \<lparr>rq_name = None, rq_company_name = Some ''Beta'', rq_full_name = Some ''B User'', rq_first_name = None, rq_last_name = None,
     rq_email = ''b@beta.io'', rq_password = ''new password'', rq_domain = ''beta.io''\<rparr>"

lemma demo_registers: "\<exists>m db1. auth_register demo_auth demo_fresh demo_request demo_accounts = (Inr m, db1)"
proof -
  have "\<not> registered_already demo_auth (rq_email demo_request) (rq_domain demo_request) demo_accounts"
    by (simp add: registered_already_def demo_request_def lower_facts Let_def)
  moreover have "mail_status demo_auth (send_verification_email demo_auth (rq_email demo_request) (fv_email_token demo_fresh) ''Beta'') = Inr (''sent'', None)"
    by code_simp
  ultimately show ?thesis
    by (simp add: auth_register_def demo_request_def demo_fresh_def hash_password_def pbkdf2_hmac_def requested_full_name_def Let_def)
qed

theorem onboarding_reaches_session_witness:
  "\<exists>code m'. fst (auth_verify_otp (demo_auth\<lparr>ae_now := 1200\<rparr>) ''j'' ''s'' code
      (sign_in_after demo_auth demo_fresh demo_request [''v=spf1'', ''authclaw-domain-verification=0011223344556677''] ''s'' demo_accounts)) = Inr (200, m')"
proof -
  obtain m db1 where reg: "auth_register demo_auth demo_fresh demo_request demo_accounts = (Inr m, db1)" using demo_registers by blast
  have ready: "ready_for demo_fresh demo_request demo_accounts"
    by (simp add: ready_for_def demo_request_def demo_fresh_def demo_raw_def lower_facts)
  have dns: "list_ex (str_in (''authclaw-domain-verification='' @ take 16 (fv_domain_hex demo_fresh)))
      [''v=spf1'', ''authclaw-domain-verification=0011223344556677'']" by code_simp
  show ?thesis
    using onboarding_reaches_session [OF demo_production reg ready dns, of 1200 "''j''" "''s''"] by (auto simp: toy_sha1_law)
qed

theorem revoked_refresh_token_resolves_witness:
  "\<exists>token db1 r db2. create_refresh_token_for_user demo_auth ''jti-1'' 7 3 ''a@acme.io'' demo_accounts = (token, db1)
    \<and> auth_logout (demo_auth\<lparr>ae_now := 1100\<rparr>) (Some token) db1 = (r, db2)
    \<and> resolve_tenant (demo_auth\<lparr>ae_now := 9000\<rparr>) None (Some (''Bearer '' @ token)) db2 = (Inr (JInt 3), db2)"
proof -
  obtain token db1 where create: "create_refresh_token_for_user demo_auth ''jti-1'' 7 3 ''a@acme.io'' demo_accounts = (token, db1)" by fastforce
  obtain r db2 where out: "auth_logout (demo_auth\<lparr>ae_now := 1100\<rparr>) (Some token) db1 = (r, db2)" by fastforce
  show ?thesis
    using revoked_refresh_token_resolves [OF create out, of "demo_auth\<lparr>ae_now := 9000\<rparr>"] create out by auto
qed

definition demo_reset :: auth_db where
  "demo_reset = demo_accounts\<lparr>ad_resets := [\<lparr>rs_token_hash = ''t'', rs_tenant_id = 3, rs_user_id = 7, rs_email = ''a@acme.io'',
     rs_expires_at = 2000, rs_used_at = None\<rparr>]\<rparr>"

theorem password_reset_once_witness:
  "\<exists>r db' d. auth_password_reset_confirm demo_auth ''pepper'' ''t'' ''new password'' demo_reset = (Inr r, db')
    \<and> auth_password_reset_confirm (demo_auth\<lparr>ae_now := 1001\<rparr>) ''x'' ''t'' ''another one'' db' = (Inl (Http_exception 400 d), db')"
proof -
  have "find (reset_row_valid demo_auth (hash_reset_token (ae_sha256 demo_auth) (strip ''t''))) (List.product (ad_resets demo_reset) (ad_users demo_reset)) \<noteq> None"
    by (simp add: demo_reset_def reset_row_valid_def hash_reset_token_def strip_def lstrip_by_def rstrip_by_def is_space_def)
  then obtain r db' where "auth_password_reset_confirm demo_auth ''pepper'' ''t'' ''new password'' demo_reset = (Inr r, db')"
    by (auto simp: auth_password_reset_confirm_def hash_password_def pbkdf2_hmac_def Let_def)
  from this password_reset_once [OF this, of "demo_auth\<lparr>ae_now := 1001\<rparr>" "''x''" "''another one''"] show ?thesis by auto
qed

definition demo_key :: api_key_row where
  "demo_key = \<lparr>ak_id = 5, ak_tenant_id = 3, ak_name = ''ci'', ak_key_hash = ''ac_old'', ak_key_prefix = ''ac_old'', ak_created_at = 10,
     ak_last_used_at = None, ak_expires_at = None, ak_revoked_at = None\<rparr>"

theorem rotated_key_replaces_witness:
  "\<exists>r db'. rotate_tenant_api_key demo_auth ''now'' ''fresh'' 5 None 3 (demo_accounts\<lparr>ad_keys := [demo_key]\<rparr>) = (Inr r, db')
    \<and> fst (resolve_tenant (demo_auth\<lparr>ae_now := 5000\<rparr>) (Some ''ac_old'') None db') = Inl (Http_exception 401 ''Invalid API Key.'')
    \<and> fst (resolve_tenant (demo_auth\<lparr>ae_now := 5000\<rparr>) (Some (''ac_'' @ ''fresh'')) None db') = Inr (JInt 3)"
proof -
  have ttl: "key_ttl demo_auth = Some 365" by code_simp
  have "find (\<lambda>k. ak_id k = 5 \<and> ak_tenant_id k = 3 \<and> ak_revoked_at k = None) [demo_key] = Some demo_key"
    by (simp add: demo_key_def)
  then obtain r db' where rot: "rotate_tenant_api_key demo_auth ''now'' ''fresh'' 5 None 3 (demo_accounts\<lparr>ad_keys := [demo_key]\<rparr>) = (Inr r, db')"
    by (simp add: rotate_tenant_api_key_def ttl Let_def)
  have fresh: "hash_of_key demo_auth (''ac_'' @ ''fresh'') \<notin> set (map ak_key_hash (ad_keys (demo_accounts\<lparr>ad_keys := [demo_key]\<rparr>)))"
    "ak_key_hash demo_key = hash_of_key demo_auth ''ac_old''"
    by (simp_all add: hash_of_key_def demo_key_def)
  have keys: "list_all (\<lambda>x. decode (demo_auth\<lparr>ae_now := 5000\<rparr>) x = None) [''ac_old'', ''ac_'' @ ''fresh'']"
    by (simp add: decode_def decode_jwt_def)
  show ?thesis
    using rotated_key_replaces [OF rot _ _ _ _ fresh(2) fresh(1) keys, of 365] rot ttl by (simp add: demo_key_def)
qed

theorem foreign_revocation_reported_witness:
  "\<exists>db'. revoke_tenant_api_key demo_auth ''now'' 5 4 (demo_accounts\<lparr>ad_keys := [demo_key]\<rparr>) =
      (Inr (200, [(''status'', JStr ''success''), (''message'', JStr ''API key revoked successfully.'')]), db') \<and> ad_keys db' = [demo_key]"
  using foreign_revocation_reported [of 5 4 "demo_accounts\<lparr>ad_keys := [demo_key]\<rparr>" demo_auth "''now''"]
  by (auto simp: demo_key_def demo_accounts_def no_accounts_def chain_inv_empty)

definition demo_pending :: registration where
  "demo_pending = \<lparr>rg_id = 2, rg_organization_name = ''Victim'', rg_full_name = ''V'', rg_work_email = ''v@victim.io'', rg_domain = ''victim.io'',
     rg_password_hash = [], rg_email_token = ''secret-token'', rg_domain_token = ''d'', rg_totp_secret = [], rg_email_verified = False,
     rg_domain_verified = False, rg_tenant_id = None, rg_created_at = 1, rg_activated_at = None\<rparr>"

theorem pending_address_verified_without_mail_witness:
  "\<exists>m m' db'. auth_login demo_auth ''j'' ''s'' ''v@victim.io'' ''guess'' (demo_accounts\<lparr>ad_registrations := [demo_pending]\<rparr>)
      = (Inr (400, m), demo_accounts\<lparr>ad_registrations := [demo_pending]\<rparr>)
    \<and> jget m ''email_token'' = JStr ''secret-token''
    \<and> auth_verify_email demo_auth ''secret-token'' (demo_accounts\<lparr>ad_registrations := [demo_pending]\<rparr>) = (Inr (200, m'), db')"
proof -
  have "find_user ''v@victim.io'' (demo_accounts\<lparr>ad_registrations := [demo_pending]\<rparr>) = None"
    by (simp add: find_user_def lower_facts)
  moreover have "pending_registration ''v@victim.io'' (demo_accounts\<lparr>ad_registrations := [demo_pending]\<rparr>) = Some demo_pending"
    by (simp add: pending_registration_def demo_pending_def)
  moreover have "\<not> rg_email_verified demo_pending" "rg_email_token demo_pending = ''secret-token''" by (simp_all add: demo_pending_def)
  ultimately show ?thesis
    using pending_address_verified_without_mail [of "''v@victim.io''" "demo_accounts\<lparr>ad_registrations := [demo_pending]\<rparr>" demo_pending demo_auth "''j''" "''s''" "''guess''"]
      production_settings(3) [OF demo_production] by auto
qed

lemma demo_login_facts:
  "find_user ''a@acme.io'' demo_accounts = Some (demo_account, demo_workspace)" "au_email_verified demo_account" "au_mfa_enabled demo_account"
  "at_domain_verified demo_workspace" "au_totp_secret demo_account = Some (generate_totp_secret demo_raw)"
  "au_role demo_account = ''Super Admin''" "length demo_raw = 10"
  by (simp_all add: find_user_def lower_facts demo_account_def demo_workspace_def demo_raw_def)

lemma demo_password: "verify_password (ae_kdf demo_auth) ''old password'' (au_password_hash demo_account)"
proof -
  obtain h where h: "hash_password (ae_kdf demo_auth) 600000 ''salt'' ''old password'' = Some h"
    by (simp add: hash_password_def pbkdf2_hmac_def)
  then have "au_password_hash demo_account = h" by (simp add: demo_account_def)
  then show ?thesis using verify_hashed [OF h, of "''old password''"] by simp
qed

lemma demo_code:
  obtains code where "verify_totp_token toy_sha1 1200 (generate_totp_secret demo_raw) code 1"
  using generated_code_accepted [OF toy_sha1_law demo_login_facts(7), of 1200 1200] by auto

theorem two_factor_sign_in_witness:
  "\<exists>code tr fin m s. auth_run [(demo_auth, Op_login ''j1'' ''s'' ''a@acme.io'' ''old password''),
      (demo_auth\<lparr>ae_now := 1200\<rparr>, Op_otp ''j2'' ''s'' code)] demo_accounts = (tr, fin)
    \<and> ax_result (tr ! 1) = Inr (200, m) \<and> password_checked s (tr ! 0)"
proof -
  let ?e = "demo_auth\<lparr>ae_now := 1200\<rparr>" and ?ses = "user_session ''s'' ''otp'' True True demo_account"
  let ?db = "store_auth_session demo_auth ?ses demo_accounts"
  obtain code where code: "verify_totp_token toy_sha1 1200 (generate_totp_secret demo_raw) code 1" by (rule demo_code)
  have "truthy_str (au_totp_secret demo_account)"
    using totp_key_generated(2) [OF demo_login_facts(7)] demo_login_facts(5) by (simp add: truthy_str_def)
  then obtain m0 where login: "auth_login demo_auth ''j1'' ''s'' ''a@acme.io'' ''old password'' demo_accounts = (Inr (200, m0), ?db)"
    using login_new [OF demo_login_facts(1) demo_password _ demo_login_facts(2,4,3) production_settings(4) [OF demo_production]] by auto
  have live: "live_session ?e ?db ''s'' = Some (?ses\<lparr>ss_expires_at := 1600\<rparr>)"
    using live_stored [of ?e demo_auth ?ses "''s''" demo_accounts] by (simp add: user_session_def)
  obtain m where otp: "fst (auth_verify_otp ?e ''j2'' ''s'' code ?db) = Inr (200, m)"
    using otp_new [of ?db "[]" demo_account ?e "''s''" "?ses\<lparr>ss_expires_at := 1600\<rparr>" "generate_totp_secret demo_raw" code "''j2''"]
      live code demo_login_facts(5) by (auto simp: user_session_def store_auth_session_def)
  let ?ops = "[(demo_auth, Op_login ''j1'' ''s'' ''a@acme.io'' ''old password''), (?e, Op_otp ''j2'' ''s'' code)]"
  obtain tr fin where run: "auth_run ?ops demo_accounts = (tr, fin)" by fastforce
  have tr: "length tr = 2" "ax_op (tr ! 1) = Op_otp ''j2'' ''s'' code" "ax_result (tr ! 1) = Inr (200, m)"
    using run login otp by (auto simp: case_prod_unfold)
  have "ad_sessions demo_accounts = []" "1 < length tr" using tr(1) by simp_all
  from two_factor_sign_in [OF run this tr(2,3)] show ?thesis using run tr(3) by fastforce
qed

theorem otp_code_replayed_witness:
  "\<exists>code db m m'. fst (auth_verify_otp (demo_auth\<lparr>ae_now := 1200\<rparr>) ''j'' ''s'' code db) = Inr (200, m)
    \<and> fst (auth_verify_otp (demo_auth\<lparr>ae_now := 1200\<rparr>) ''j2'' ''s2'' code
        (snd (auth_verify_otp (demo_auth\<lparr>ae_now := 1200\<rparr>) ''j'' ''s'' code db))) = Inr (200, m')"
proof -
  let ?e = "demo_auth\<lparr>ae_now := 1200\<rparr>"
  let ?s = "(user_session ''s'' ''otp'' True True demo_account)\<lparr>ss_expires_at := 1600\<rparr>"
  let ?s2 = "(user_session ''s2'' ''otp'' True True demo_account)\<lparr>ss_expires_at := 1500\<rparr>"
  let ?db = "demo_accounts\<lparr>ad_sessions := [?s, ?s2]\<rparr>"
  obtain code where code: "verify_totp_token (ae_sha1 ?e) (ae_now ?e) (generate_totp_secret demo_raw) code 1"
    using demo_code by auto
  have live: "live_session ?e ?db ''s'' = Some ?s" "live_session ?e ?db ''s2'' = Some ?s2"
    by (simp_all add: live_session_def user_session_def)
  have user: "find (\<lambda>u. au_id u = ss_user_id ?s \<and> au_tenant_id u = ss_tenant_id ?s) (ad_users ?db) = Some demo_account"
    by (simp add: user_session_def)
  show ?thesis
    using otp_code_replayed [OF _ live _ _ _ _ user demo_login_facts(5) code, of "''j''" "''j2''"]
    by (simp add: user_session_def) blast
qed

end
