(* ===== verification/System_Props.thy ===== *)
theory System_Props
  imports Approval_Props Gateway_Service_Runs Rbac_Props Auth_Demo
begin

text \<open>
  Properties that join components: the approval routes refine their abstract store, the graph ends
  within the recursion limit of its library, the claims of a session token are well typed, and the
  access control of the routes reads exactly the claims that the sign-in put into the token.
\<close>

section \<open>The approval routes refine the abstract store\<close>

text \<open>C10: Whatever requests were handled before, and however their sections interleaved, handling
  one more section of a request is a sequence of the abstract steps of the store, the legal writes
  of a record among them; only the listing of all approvals needs the step that reloads a record.\<close>

theorem approval_lifecycle_refined:
  assumes "reachable allowed c" and "fresh_step st c"
  shows "prims (is_listing st) (step_env st) (store c) (store (apply_step st c))"
  using step_refines [OF reachable_ok [OF assms(1)] assms(2)] by blast

theorem approval_lifecycle_refined_witness:
  "prims False (step_env demo_create) (store init_system) (store (apply_step demo_create init_system))"
  using approval_lifecycle_refined [OF reach_init [of "\<lambda>_. True"] fresh_demo(1)] by (simp add: demo_create_def del: apply_step.simps)

section \<open>The graph ends\<close>

text \<open>The loop of the graph library counts the nodes it runs and gives up at its recursion limit;
  \<open>None\<close> is that error.\<close>

fun run_limited :: "nat \<Rightarrow> (auth_state \<Rightarrow> auth_state) \<Rightarrow> gateway_env \<Rightarrow> graph_node \<Rightarrow> auth_state \<Rightarrow> gateway_world
    \<Rightarrow> (exn + auth_state) option \<times> gateway_world" where
  "run_limited 0 commit e n s w = (None, w)"
| "run_limited (Suc k) commit e n s w =
     (case run_node e n s w of
        (Inl x, w') \<Rightarrow> (Some (Inl x), w')
      | (Inr s', w') \<Rightarrow>
          (case next_node n (commit s') of
             None \<Rightarrow> (Some (Inr (commit s')), w')
           | Some m \<Rightarrow> run_limited k commit e m (commit s') w'))"

lemma run_limited_enough:
  "node_rank n < k \<Longrightarrow> run_limited k commit e n s w = (Some (fst (invoke_from commit e n s w)), snd (invoke_from commit e n s w))"
proof (induction k arbitrary: n s w)
  case (Suc k)
  obtain r w' where run: "run_node e n s w = (r, w')" by fastforce
  show ?case
  proof (cases r)
    case (Inl x)
    then show ?thesis using run by (simp add: invoke_from.simps [of commit e n s w])
  next
    case (Inr s')
    show ?thesis
    proof (cases "next_node n (commit s')")
      case None
      then show ?thesis using run Inr by (simp add: invoke_from.simps [of commit e n s w])
    next
      case (Some m)
      then have "node_rank m < k" using next_node_rank [OF Some] Suc.prems by simp
      then show ?thesis using run Inr Some Suc.IH [of m "commit s'" w'] by (simp add: invoke_from.simps [of commit e n s w])
    qed
  qed
qed simp

text \<open>C11: Every request is through the graph after at most eleven nodes, whatever the nodes answer and
  in every world: the recursion limit of 25 is never reached, nor any other from eleven up.\<close>

theorem gateway_run_terminates:
  "run_limited (11 + k) commit e Orchestrator (commit s) w = (Some (fst (invoke commit e s w)), snd (invoke commit e s w))"
  unfolding invoke_def by (rule run_limited_enough) simp

section \<open>The claims of a session token\<close>

lemma dict_json_fold:
  assumes "\<forall>kv\<in>set kvs. dict_json (snd kv)" and "dict_json (JObj m)"
  shows "dict_json (JObj (fold (\<lambda>(k, v). dict_set k v) kvs m))"
  using assms
proof (induction kvs arbitrary: m)
  case (Cons kv kvs)
  obtain k v where kv: "kv = (k, v)" by fastforce
  have entries: "snd q = v \<or> q \<in> set m" if "q \<in> set (dict_set k v m)" for q
    using that by (induction k v m rule: dict_set.induct) (auto split: if_splits)
  have "dict_json (JObj (dict_set k v m))"
    using Cons.prems kv entries distinct_dict_set [of m k v] by fastforce
  then show ?case using Cons by (simp add: kv)
qed simp

lemma p_val_shape:
  assumes "p_val (Suc f) s = Some (v, r)"
  obtains "\<forall>l m. v \<noteq> JList l \<and> v \<noteq> JObj m" | "v = JObj []" | "v = JList []"
    | c t d u l where "s = c # t" "c = CHR ''[''" "skip_ws t = d # u" "d \<noteq> CHR '']''" "p_items f (d # u) = Some (l, r)" "v = JList l"
    | c t d u kvs where "s = c # t" "c = CHR ''{''" "skip_ws t = d # u" "d \<noteq> CHR ''}''" "p_members f (d # u) = Some (kvs, r)"
        "v = JObj (fold (\<lambda>(k, v). dict_set k v) kvs [])"
proof -
  obtain c t where s: "s = c # t" using assms by (cases s) (auto simp: p_val.simps)
  consider "c = CHR 0x22" | "c = CHR ''{''" | "c = CHR ''[''" | "c \<noteq> CHR 0x22" "c \<noteq> CHR ''{''" "c \<noteq> CHR ''[''" by blast
  then show thesis
  proof cases
    case 1
    then show ?thesis using assms s by (intro that(1)) (auto simp: p_val.simps on_fst_Some)
  next
    case 2
    then obtain d u where u: "skip_ws t = d # u" using assms s by (auto simp: p_val.simps split: list.splits)
    show ?thesis
    proof (cases "d = CHR ''}''")
      case True
      then show ?thesis using assms s 2 u by (intro that(2)) (simp add: p_val.simps)
    next
      case False
      then obtain kvs where "p_members f (d # u) = Some (kvs, r)" "v = JObj (fold (\<lambda>(k, v). dict_set k v) kvs [])"
        using assms s 2 u by (auto simp: p_val.simps on_fst_Some)
      then show ?thesis by (rule that(5) [OF s 2 u False])
    qed
  next
    case 3
    then obtain d u where u: "skip_ws t = d # u" using assms s by (auto simp: p_val.simps split: list.splits)
    show ?thesis
    proof (cases "d = CHR '']''")
      case True
      then show ?thesis using assms s 3 u by (intro that(3)) (simp add: p_val.simps)
    next
      case False
      then obtain l where "p_items f (d # u) = Some (l, r)" "v = JList l"
        using assms s 3 u by (auto simp: p_val.simps on_fst_Some)
      then show ?thesis by (rule that(4) [OF s 3 u False])
    qed
  next
    case 4
    then have "v = JNull \<or> (\<exists>b. v = JBool b) \<or> (\<exists>i. v = JInt i)"
      using assms unfolding s p_val.simps(2) list.case
      by (simp only: if_False on_fst_Some) (auto simp: on_fst_Some simp del: starts_with.simps split: if_splits)
    then show ?thesis by (intro that(1)) auto
  qed
qed

lemma parsed_dict:
  "p_val f s = Some (v, r) \<Longrightarrow> dict_json v"
  "p_items f s = Some (vs, r) \<Longrightarrow> \<forall>v\<in>set vs. dict_json v"
  "p_members f s = Some (kvs, r) \<Longrightarrow> \<forall>kv\<in>set kvs. dict_json (snd kv)"
proof (induction f s and f s and f s arbitrary: v r and vs r and kvs r rule: p_val_p_items_p_members.induct)
  case (2 f s)
  have empty: "dict_json (JObj [])" by simp
  show ?case
  proof (rule p_val_shape [OF 2(3)])
    fix c t d u l
    assume "s = c # t" "c = CHR ''[''" "skip_ws t = d # u" "d \<noteq> CHR '']''" "p_items f (d # u) = Some (l, r)" and v: "v = JList l"
    then have "\<forall>x\<in>set l. dict_json x" using 2(2) by simp
    then show ?thesis by (simp add: v)
  next
    fix c t d u kvs
    assume "s = c # t" "c = CHR ''{''" "skip_ws t = d # u" "d \<noteq> CHR ''}''" "p_members f (d # u) = Some (kvs, r)"
      and v: "v = JObj (fold (\<lambda>(k, v). dict_set k v) kvs [])"
    then have "\<forall>kv\<in>set kvs. dict_json (snd kv)" using 2(1) by simp
    then show ?thesis unfolding v by (rule dict_json_fold [OF _ empty])
  next
    assume "\<forall>l m. v \<noteq> JList l \<and> v \<noteq> JObj m"
    then show ?thesis by (cases v) auto
  qed simp_all
next
  case (4 f s)
  then show ?case by (auto simp: p_items.simps on_fst_Some split: option.splits list.splits if_splits)
next
  case (6 f s)
  then show ?case by (auto simp: p_members.simps on_fst_Some split: option.splits list.splits if_splits) force
qed (simp_all add: p_val.simps p_items.simps p_members.simps)

lemma json_loads_dict: "json_loads s = Some v \<Longrightarrow> dict_json v"
  by (auto simp: json_loads_def dest: parsed_dict(1) split: option.splits if_splits)


section \<open>Sign-in and access control\<close>

lemma user_of_bearer:
  "token \<noteq> [] \<Longrightarrow> optional_user_from_request d (Some (''Bearer '' @ token)) = (case d token of None \<Rightarrow> [] | Some m \<Rightarrow> m)"
  by (simp add: optional_user_from_request_def truthy_str_def)

text \<open>C38: With enforcement on, what a session token opens is decided by the role of the account at its
  sign-in: the middleware lets a request through exactly when the endpoint is public or its rule
  admits that role, for the fifteen minutes of the token.\<close>

theorem access_token_opens_role:
  assumes "rbac_enforcement_enabled env" and "ae_mac e' = ae_mac e" and "ae_jwt_secret e' = ae_jwt_secret e"
    and "0 \<le> ae_now e" and "ae_now e' \<le> ae_now e + 900" and "tenant \<noteq> 0"
  shows "rbac_middleware env (decode e') m path (Some (''Bearer '' @ access_token e user role permissions tenant uid)) call_next
    = (if is_public_endpoint (upper m) path \<or> role_allowed (Some role) (upper m) path then call_next ()
       else Inl (403, ''Role is not authorized for this endpoint.''))"
proof -
  let ?m = "access_claims e user role permissions tenant uid"
  have "decode e' (access_token e user role permissions tenant uid) = Some ?m"
    unfolding access_token_def
    by (subst decode_token_at [where x = "ae_now e + 900"]) (use assms(2-5) in \<open>simp_all add: access_claims_def jget_Cons\<close>)
  then have "optional_user_from_request (decode e') (Some (''Bearer '' @ access_token e user role permissions tenant uid)) = ?m"
    by (subst user_of_bearer) (simp_all add: access_token_def token_nonempty)
  moreover have "role_claim ?m = Some role" "truthy (jget ?m ''tenant_id'')"
    using assms(6) by (simp_all add: role_claim_def access_claims_def jget_Cons)
  ultimately show ?thesis
    using assms(1) by (auto simp: rbac_middleware_def enforce_request_access_def split: option.splits)
qed

theorem access_token_opens_role_witness:
  "rbac_middleware (\<lambda>n. if n = ''AUTHCLAW_ENV'' then Some ''production'' else None) (decode (demo_auth\<lparr>ae_now := 1500\<rparr>)) ''POST'' ''/approve/42''
     (Some (''Bearer '' @ access_token demo_auth ''a@acme.io'' ''Viewer'' ''read'' 3 7)) (\<lambda>_. Inr ())
   = Inl (403, ''Role is not authorized for this endpoint.'')"
proof -
  have on: "rbac_enforcement_enabled (\<lambda>n. if n = ''AUTHCLAW_ENV'' then Some ''production'' else None)" by code_simp
  have "\<not> is_public_endpoint (upper ''POST'') ''/approve/42''" "\<not> role_allowed (Some ''Viewer'') (upper ''POST'') ''/approve/42''" by code_simp+
  then show ?thesis using access_token_opens_role [OF on, where e' = "demo_auth\<lparr>ae_now := 1500\<rparr>" and e = demo_auth and tenant = 3
        and m = "''POST''" and path = "''/approve/42''" and user = "''a@acme.io''" and role = "''Viewer''" and permissions = "''read''"
        and uid = 7 and call_next = "\<lambda>_. Inr ()"] by simp
qed

end
