(* ===== verification/Spec2Isabelle.thy ===== *)
theory Spec2Isabelle
  imports Audit_Export Redaction Policy_Opa Rate_Limits System_Props
begin

text \<open>
  AuthClaw: a verification development of the gateway's core logic.
\<close>

end
